(* ===== verification/Go_Prelude.thy ===== *)
theory Go_Prelude
  imports Main "HOL-Library.Word" "HOL-Library.Signed_Division"
    "HOL-Library.Char_ord" "HOL-Library.List_Lexorder"
begin

text \<open>
  What the components share: Go's sized integers as words and the arithmetic facts about
  their signed reading, decimal formatting (\<open>%d\<close>), Go error values with their wrapping
  chain (\<open>errors.New\<close>, \<open>fmt.Errorf("...: %w", err)\<close>, gRPC status errors), and the outcome
  of one call to an external system (database, broker, disk), which is how every component
  model is driven through the error paths of its source.

  A Go \<open>string\<close> is a byte sequence and is modelled by \<open>string\<close>, a list of 8-bit \<open>char\<close>s;
  its \<open><\<close> is the bytewise lexicographic order that Go's \<open><\<close> on strings is. A Go
  \<open>[]byte\<close> that is not text is a \<open>byte list\<close>.
\<close>

named_theorems fault_simps "case distinctions on the outcome of an external call"
named_theorems row_simps "unfolding of conversions between record types"

type_synonym int32 = "32 word"
type_synonym int64 = "64 word"
type_synonym byte = "8 word"

section \<open>Signed 64-bit arithmetic\<close>

definition in_int64 :: "int \<Rightarrow> bool" where
  "in_int64 x \<longleftrightarrow> - (2 ^ 63) \<le> x \<and> x < 2 ^ 63"

definition min_int64 :: int64 where
  "min_int64 = word_of_int (- (2 ^ 63))"

text \<open>
  Go's \<open>/\<close> on \<open>int64\<close>: truncation towards zero, with the one quotient that does not fit
  (the least value divided by \<open>-1\<close>) wrapping around to the least value. Division by zero
  panics in Go; the source divides under a guard that excludes it.
\<close>

definition quot64 :: "int64 \<Rightarrow> int64 \<Rightarrow> int64" where
  "quot64 a b = word_of_int (sint a sdiv sint b)"

text \<open>Go's \<open>int64(x)\<close> of an \<open>int32\<close> (sign extension) and \<open>int32(x)\<close> of an \<open>int64\<close>
  (truncation to the low 32 bits).\<close>

definition int64_of_int32 :: "int32 \<Rightarrow> int64" where
  "int64_of_int32 x = word_of_int (sint x)"

definition int32_of_int64 :: "int64 \<Rightarrow> int32" where
  "int32_of_int64 x = word_of_int (sint x)"

lemma sint64_bounds: "- (2 ^ 63) \<le> sint (x :: int64)" "sint (x :: int64) < 2 ^ 63"
  using sint_ge [of x] sint_lt [of x] by simp_all

lemma sint32_bounds: "- (2 ^ 31) \<le> sint (x :: int32)" "sint (x :: int32) < 2 ^ 31"
  using sint_ge [of x] sint_lt [of x] by simp_all

lemma in_int64_sint [simp]: "in_int64 (sint (x :: int64))"
  using sint64_bounds [of x] by (simp add: in_int64_def)

lemma sint_of_int64: "in_int64 x \<Longrightarrow> sint (word_of_int x :: int64) = x"
  by (simp add: in_int64_def sint_sbintrunc' signed_take_bit_int_eq_self)

lemma in_int64_sint32: "in_int64 (sint (x :: int32))"
  using sint32_bounds [of x] by (simp add: in_int64_def)

lemma sint_int64_of_int32 [simp]: "sint (int64_of_int32 x) = sint x"
  unfolding int64_of_int32_def by (rule sint_of_int64) (rule in_int64_sint32)

lemma word_of_int_sint: "word_of_int (sint (x :: 'a::len word)) = x" by simp

lemma int32_int64_int32 [simp]: "int32_of_int64 (int64_of_int32 x) = x"
  by (simp only: int32_of_int64_def sint_int64_of_int32 word_of_int_sint)
text \<open>Reading back a wrapped value is off by a multiple of \<open>2 ^ 64\<close>.\<close>

lemma sint_wrap64: "\<exists>k. sint (word_of_int x :: int64) = x + k * 2 ^ 64"
proof -
  have "sint (word_of_int x :: int64) = (x + 2 ^ 63) mod 2 ^ 64 - 2 ^ 63"
    by (simp add: int_word_sint)
  also have "\<dots> = x + (- ((x + 2 ^ 63) div 2 ^ 64)) * 2 ^ 64"
    by (simp add: minus_div_mult_eq_mod [symmetric])
  finally show ?thesis by blast
qed

lemma sint_add_of_int: "(a :: int64) + b = word_of_int (sint a + sint b)"
  by (simp only: of_int_add word_of_int_sint)

lemma sint_mult_of_int: "(a :: int64) * b = word_of_int (sint a * sint b)"
  by (simp only: of_int_mult word_of_int_sint)

lemma sint_add64: "in_int64 (sint a + sint b) \<Longrightarrow> sint ((a :: int64) + b) = sint a + sint b"
  unfolding sint_add_of_int by (rule sint_of_int64)

lemma sint_mult64: "in_int64 (sint a * sint b) \<Longrightarrow> sint ((a :: int64) * b) = sint a * sint b"
  unfolding sint_mult_of_int by (rule sint_of_int64)

text \<open>A sum of two in-range values that leaves the range comes back shifted by exactly
  \<open>2 ^ 64\<close>, towards the other end.\<close>

lemma sint_add64_overflow:
  assumes "\<not> in_int64 (sint a + sint b)"
  shows "sint ((a :: int64) + b) =
    (if 0 < sint b then sint a + sint b - 2 ^ 64 else sint a + sint b + 2 ^ 64)"
proof -
  obtain k where k: "sint (a + b) = sint a + sint b + k * 2 ^ 64"
    using sint_wrap64 [of "sint a + sint b"] unfolding sint_add_of_int [of a b] by blast
  have "k = (if 0 < sint b then - 1 else 1)"
  proof (cases "0 < sint b")
    case True
    then have "k < 0 \<and> - 2 < k"
      using k assms sint64_bounds [of a] sint64_bounds [of b] sint64_bounds [of "a + b"]
      by (auto simp: in_int64_def)
    with True show ?thesis by simp
  next
    case False
    then have "0 < k \<and> k < 2"
      using k assms sint64_bounds [of a] sint64_bounds [of b] sint64_bounds [of "a + b"]
      by (auto simp: in_int64_def)
    with False show ?thesis by simp
  qed
  with k show ?thesis by simp
qed

lemma sdiv_times_near: "b \<noteq> 0 \<Longrightarrow> \<bar>(a :: int) - (a sdiv b) * b\<bar> < \<bar>b\<bar>"
proof -
  assume "b \<noteq> 0"
  have "a - (a sdiv b) * b = a smod b"
    by (rule minus_sdiv_mult_eq_smod)
  moreover have "\<bar>a smod b\<bar> < \<bar>b\<bar>"
    using \<open>b \<noteq> 0\<close> by (simp add: signed_modulo_int_def abs_mult sgn_if)
  ultimately show ?thesis by simp
qed

lemma abs_div_le: "(0::int) \<le> x \<Longrightarrow> 0 \<le> y \<Longrightarrow> x div y \<le> x"
  by (cases "y = 0") (auto intro: order_trans [OF zdiv_mono2 [of x 1 y]])

lemma sdiv_bound: "\<bar>(a :: int) sdiv b\<bar> \<le> \<bar>a\<bar>"
proof -
  have "\<bar>a sdiv b\<bar> \<le> \<bar>a\<bar> div \<bar>b\<bar>"
    by (simp add: signed_divide_int_def abs_mult sgn_if pos_imp_zdiv_nonneg_iff)
  also have "\<dots> \<le> \<bar>a\<bar>" by (rule abs_div_le) simp_all
  finally show ?thesis .
qed

lemma word_eq_of_sint: "sint (a :: int64) = sint b \<Longrightarrow> a = b"
  by (metis word_of_int_sint)

lemma sint_nonzero: "b \<noteq> 0 \<Longrightarrow> sint (b :: int64) \<noteq> 0"
  using word_eq_of_sint [of b 0] by auto

lemma abs_sint64_le: "\<bar>sint (x :: int64)\<bar> \<le> 2 ^ 63"
  using sint64_bounds [of x] by (simp add: abs_le_iff)

lemma mult_sdiv_self: "b \<noteq> 0 \<Longrightarrow> ((a :: int) * b) sdiv b = a"
proof -
  assume b: "b \<noteq> 0"
  have "((a * b) sdiv b) = (sgn a * \<bar>a\<bar>) * (sgn b * sgn b)"
    using b by (simp add: signed_divide_int_def sgn_mult abs_mult)
  also have "sgn b * sgn b = 1"
    using b by (simp add: sgn_if)
  finally show ?thesis
    by (simp add: sgn_mult_abs)
qed

section \<open>Decimal text\<close>

definition digit_char :: "nat \<Rightarrow> char" where
  "digit_char d = char_of (48 + d)"

fun nat_text :: "nat \<Rightarrow> string" where
  "nat_text n = (if n < 10 then [digit_char n] else nat_text (n div 10) @ [digit_char (n mod 10)])"

declare nat_text.simps [simp del]

definition int_text :: "int \<Rightarrow> string" where
  "int_text i = (if i < 0 then ''-'' @ nat_text (nat (- i)) else nat_text (nat i))"

text \<open>\<open>fmt.Sprintf\<close> with its arguments already formatted: the parts joined.\<close>

definition sprintf :: "string list \<Rightarrow> string" where
  "sprintf parts = concat parts"

section \<open>Error values\<close>

datatype grpc_code =
    OK | Canceled | Unknown | InvalidArgument | DeadlineExceeded | NotFound | AlreadyExists
  | PermissionDenied | ResourceExhausted | FailedPrecondition | Aborted | OutOfRange
  | Unimplemented | Internal | Unavailable | DataLoss | Unauthenticated

text \<open>
  \<open>ErrorsNew s\<close> is a sentinel made with \<open>errors.New(s)\<close> (the sentinels of the source have
  pairwise different texts, so the text stands for the pointer) or an unwrapping
  \<open>fmt.Errorf\<close>; \<open>Errorf p e\<close> is \<open>fmt.Errorf("<p>: %w", e)\<close>; \<open>StatusErr c m\<close> is
  \<open>status.Error(c, m)\<close>.
\<close>

datatype goerr = ErrorsNew string | Errorf string goerr | StatusErr grpc_code string

fun code_text :: "grpc_code \<Rightarrow> string" where
  "code_text OK = ''OK''"
| "code_text Canceled = ''Canceled''"
| "code_text Unknown = ''Unknown''"
| "code_text InvalidArgument = ''InvalidArgument''"
| "code_text DeadlineExceeded = ''DeadlineExceeded''"
| "code_text NotFound = ''NotFound''"
| "code_text AlreadyExists = ''AlreadyExists''"
| "code_text PermissionDenied = ''PermissionDenied''"
| "code_text ResourceExhausted = ''ResourceExhausted''"
| "code_text FailedPrecondition = ''FailedPrecondition''"
| "code_text Aborted = ''Aborted''"
| "code_text OutOfRange = ''OutOfRange''"
| "code_text Unimplemented = ''Unimplemented''"
| "code_text Internal = ''Internal''"
| "code_text Unavailable = ''Unavailable''"
| "code_text DataLoss = ''DataLoss''"
| "code_text Unauthenticated = ''Unauthenticated''"

text \<open>The \<open>Error()\<close> text, \<open>errors.Is\<close> along the wrapping chain, and \<open>status.Code\<close>.\<close>

fun error_text :: "goerr \<Rightarrow> string" where
  "error_text (ErrorsNew s) = s"
| "error_text (Errorf p e) = p @ '': '' @ error_text e"
| "error_text (StatusErr c m) = ''rpc error: code = '' @ code_text c @ '' desc = '' @ m"

fun errors_is :: "goerr \<Rightarrow> goerr \<Rightarrow> bool" where
  "errors_is (ErrorsNew s) t \<longleftrightarrow> ErrorsNew s = t"
| "errors_is (Errorf p e) t \<longleftrightarrow> Errorf p e = t \<or> errors_is e t"
| "errors_is (StatusErr c m) t \<longleftrightarrow> StatusErr c m = t"

text \<open>The targets of \<open>errors.Is\<close> in the source are sentinels, never a wrapping error.\<close>

lemma errors_is_wrapped [simp]: "errors_is (Errorf p e) (ErrorsNew s) = errors_is e (ErrorsNew s)"
  by simp

declare errors_is.simps(2) [simp del]

fun status_code :: "goerr \<Rightarrow> grpc_code" where
  "status_code (ErrorsNew s) = Unknown"
| "status_code (Errorf p e) = status_code e"
| "status_code (StatusErr c m) = c"

lemma errors_is_refl [simp]: "errors_is e e"
  by (cases e) (simp_all add: errors_is.simps(2))

section \<open>Outcomes of external calls\<close>

text \<open>
  A call to the database, the broker or the disk can succeed, fail without effect, or take
  effect while the caller is told it failed (a commit or an ack whose reply is lost). A list
  of outcomes drives a run: each call takes the next one, and the empty list stands for
  calls that all succeed.
\<close>

datatype outcome = Done | Lost goerr | Ghost goerr

fun outcome_error :: "outcome \<Rightarrow> goerr option" where
  "outcome_error Done = None"
| "outcome_error (Lost e) = Some e"
| "outcome_error (Ghost e) = Some e"

fun took_effect :: "outcome \<Rightarrow> bool" where
  "took_effect Done = True"
| "took_effect (Lost e) = False"
| "took_effect (Ghost e) = True"

fun next_outcome :: "outcome list \<Rightarrow> outcome" where
  "next_outcome [] = Done"
| "next_outcome (r # rs) = r"

lemma outcome_error_None [simp]: "outcome_error r = None \<longleftrightarrow> r = Done"
  by (cases r) simp_all

section \<open>Bytes\<close>

lemma unat_byte: "n < 256 \<Longrightarrow> unat (word_of_nat n :: byte) = n"
  by (simp add: unat_of_nat)

lemma char_byte [simp]: "char_of (unat (word_of_nat (of_char c) :: byte)) = c"
  by (simp add: unat_byte)

text \<open>A Go string as bytes and back.\<close>

definition bytes_of :: "string \<Rightarrow> byte list" where
  "bytes_of s = map (\<lambda>c. word_of_nat (of_char c)) s"

definition text_of :: "byte list \<Rightarrow> string" where
  "text_of bs = map (\<lambda>b. char_of (unat b)) bs"

lemma text_of_bytes [simp]: "text_of (bytes_of s) = s"
  by (simp add: text_of_def bytes_of_def comp_def unat_byte)

lemma bytes_of_Nil [simp]: "bytes_of s = [] \<longleftrightarrow> s = []"
  by (simp add: bytes_of_def)

section \<open>Lists\<close>

lemma map_of_filter_key:
  "distinct (map fst xs) \<Longrightarrow> map_of (filter (\<lambda>p. fst p \<noteq> k) xs) = (map_of xs)(k := None)"
  by (induction xs) (auto simp: fun_eq_iff map_of_eq_None_iff)

lemma count_list_map_filter: "count_list (map f xs) y = length (filter (\<lambda>x. f x = y) xs)"
  by (induction xs) auto

lemma count_list_distinct: "distinct xs \<Longrightarrow> count_list xs y = (if y \<in> set xs then 1 else 0)"
  by (induction xs) (auto simp: count_list_0_iff)

lemma length_map_filter_all: "\<forall>x \<in> set xs. f x \<noteq> None \<Longrightarrow> length (List.map_filter f xs) = length xs"
  by (induction xs) (auto simp: map_filter_def)

end
