(* ===== verification/Money.thy ===== *)
theory Money
  imports Go_Prelude
begin

text \<open>
  The value type of \<open>internal/money/money.go\<close>: an amount in \<open>int64\<close> minor units with a
  currency code, its checked addition and multiplication, and what the two overflow checks
  let through.
\<close>

record money =
  Minor :: int64
  Currency :: string

definition USD :: string where
  "USD = ''USD''"

definition ErrOverflow :: goerr where
  "ErrOverflow = ErrorsNew ''money: arithmetic overflow''"

definition ErrCurrencyMismatch :: goerr where
  "ErrCurrencyMismatch = ErrorsNew ''money: currency mismatch''"

definition FromUSD :: "int64 \<Rightarrow> money" where
  "FromUSD minor = \<lparr>Minor = minor, Currency = USD\<rparr>"

definition money_add :: "money \<Rightarrow> money \<Rightarrow> goerr + money" where
  "money_add m other =
     (if Currency m \<noteq> Currency other
      then Inl (Errorf (sprintf [''add '', Currency m, ''+'', Currency other]) ErrCurrencyMismatch)
      else
        let sum = Minor m + Minor other in
        if (0 <s Minor other \<and> sum <s Minor m) \<or> (Minor other <s 0 \<and> Minor m <s sum)
        then Inl (Errorf (sprintf [''add '', int_text (sint (Minor m)), ''+'', int_text (sint (Minor other))])
                    ErrOverflow)
        else Inr \<lparr>Minor = sum, Currency = Currency m\<rparr>)"

definition money_mul :: "money \<Rightarrow> int64 \<Rightarrow> goerr + money" where
  "money_mul m factor =
     (if Minor m = 0 \<or> factor = 0 then Inr \<lparr>Minor = 0, Currency = Currency m\<rparr>
      else
        let product = Minor m * factor in
        if quot64 product factor \<noteq> Minor m
        then Inl (Errorf (sprintf [''mul '', int_text (sint (Minor m)), ''*'', int_text (sint factor)])
                    ErrOverflow)
        else Inr \<lparr>Minor = product, Currency = Currency m\<rparr>)"

section \<open>The overflow checks\<close>

lemma add_check_iff:
  "(0 <s (b :: int64) \<and> a + b <s a) \<or> (b <s 0 \<and> a <s a + b) \<longleftrightarrow> \<not> in_int64 (sint a + sint b)"
proof (cases "in_int64 (sint a + sint b)")
  case True
  then show ?thesis
    by (simp add: word_sless_alt sint_add64)
next
  case False
  have "sint b \<noteq> 0"
    using False in_int64_sint [of a] by auto
  with False show ?thesis
    using sint64_bounds [of b]
    by (auto simp: word_sless_alt sint_add64_overflow)
qed

lemma mul_check_pass:
  assumes "b \<noteq> 0" and "in_int64 (sint (a :: int64) * sint b)"
  shows "quot64 (a * b) b = a"
proof -
  have "sint b \<noteq> 0"
    using assms(1) by (rule sint_nonzero)
  with assms(2) show ?thesis
    by (simp add: quot64_def sint_mult64 mult_sdiv_self)
qed

lemma mul_check_fail:
  assumes "b \<noteq> 0" and "\<not> in_int64 (sint (a :: int64) * sint b)"
    and "quot64 (a * b) b = a"
  shows "a = min_int64 \<and> b = - 1"
proof -
  let ?p = "sint (a * b)"
  have b0: "sint b \<noteq> 0"
    using assms(1) by (rule sint_nonzero)
  obtain k where k: "?p = sint a * sint b + k * 2 ^ 64"
    using sint_wrap64 [of "sint a * sint b"] unfolding sint_mult_of_int [of a b] by blast
  have k0: "k \<noteq> 0"
  proof
    assume "k = 0"
    with k have "?p = sint a * sint b" by simp
    with in_int64_sint [of "a * b"] assms(2) show False by metis
  qed
  show ?thesis
  proof (cases "in_int64 (?p sdiv sint b)")
    case True
    then have "?p sdiv sint b = sint a"
      using assms(3) by (metis quot64_def sint_of_int64)
    then have "\<bar>?p - sint a * sint b\<bar> < \<bar>sint b\<bar>"
      using sdiv_times_near [OF b0, of ?p] by simp
    then have "\<bar>k * 2 ^ 64\<bar> < \<bar>sint b\<bar>"
      using k by simp
    moreover have "2 ^ 64 \<le> \<bar>k * 2 ^ 64\<bar>"
      using k0 by (simp add: abs_mult)
    ultimately have False
      using abs_sint64_le [of b] by simp
    then show ?thesis ..
  next
    case False
    have "\<bar>?p sdiv sint b\<bar> \<le> \<bar>?p\<bar>"
      by (rule sdiv_bound)
    with False have q: "?p sdiv sint b = 2 ^ 63" and p: "?p = - (2 ^ 63)"
      using sint64_bounds [of "a * b"] by (auto simp: in_int64_def abs_if split: if_splits)
    have "a = word_of_int (2 ^ 63)"
      using assms(3) q by (simp add: quot64_def)
    then have a: "a = min_int64"
      by (simp add: min_int64_def)
    have "\<bar>- (2 ^ 63) - 2 ^ 63 * sint b\<bar> < \<bar>sint b\<bar>"
      using sdiv_times_near [OF b0, of ?p] unfolding q unfolding p .
    then have "sint b = - 1"
      using b0 by (auto simp: abs_if split: if_splits)
    then have "b = - 1"
      by (intro word_eq_of_sint) simp
    with a show ?thesis by simp
  qed
qed

lemma mul_check_iff:
  "b \<noteq> 0 \<Longrightarrow> quot64 (a * b) b = a \<longleftrightarrow>
     in_int64 (sint (a :: int64) * sint b) \<or> (a = min_int64 \<and> b = - 1)"
  using mul_check_pass [of b a] mul_check_fail [of b a]
  by (auto simp: quot64_def min_int64_def)

section \<open>Correctness\<close>

text \<open>The checked addition against exact integer addition, and the same for the scaling.\<close>

definition money_add_exact :: "money \<Rightarrow> money \<Rightarrow> goerr + money" where
  "money_add_exact m other =
     (if Currency m \<noteq> Currency other
      then Inl (Errorf (sprintf [''add '', Currency m, ''+'', Currency other]) ErrCurrencyMismatch)
      else if in_int64 (sint (Minor m) + sint (Minor other))
      then Inr \<lparr>Minor = word_of_int (sint (Minor m) + sint (Minor other)), Currency = Currency m\<rparr>
      else Inl (Errorf (sprintf [''add '', int_text (sint (Minor m)), ''+'', int_text (sint (Minor other))])
                  ErrOverflow))"

definition money_mul_exact :: "money \<Rightarrow> int64 \<Rightarrow> goerr + money" where
  "money_mul_exact m factor =
     (if in_int64 (sint (Minor m) * sint factor)
      then Inr \<lparr>Minor = word_of_int (sint (Minor m) * sint factor), Currency = Currency m\<rparr>
      else Inl (Errorf (sprintf [''mul '', int_text (sint (Minor m)), ''*'', int_text (sint factor)])
                  ErrOverflow))"

lemma money_add_eq_exact: "money_add m other = money_add_exact m other"
  unfolding money_add_def money_add_exact_def Let_def add_check_iff sint_add_of_int [symmetric]
  by simp

lemma money_mul_eq_exact:
  assumes "\<not> (Minor m = min_int64 \<and> factor = - 1)"
  shows "money_mul m factor = money_mul_exact m factor"
proof (cases "Minor m = 0 \<or> factor = 0")
  case True
  then show ?thesis
    by (auto simp: money_mul_def money_mul_exact_def in_int64_def)
next
  case False
  then have "quot64 (Minor m * factor) factor = Minor m \<longleftrightarrow> in_int64 (sint (Minor m) * sint factor)"
    using mul_check_iff [of factor "Minor m"] assms by blast
  with False show ?thesis
    unfolding money_mul_def money_mul_exact_def Let_def sint_mult_of_int [symmetric]
    by simp
qed

lemma money_mul_min: "money_mul \<lparr>Minor = min_int64, Currency = c\<rparr> (- 1)
    = Inr \<lparr>Minor = min_int64, Currency = c\<rparr>"
  by (simp add: money_mul_def quot64_def min_int64_def)

lemma sint_min_int64: "sint min_int64 = - (2 ^ 63)"
  unfolding min_int64_def by (rule sint_of_int64) (simp add: in_int64_def)

text \<open>The forms the callers use.\<close>

lemma money_add_Inr_iff:
  "money_add a b = Inr c \<longleftrightarrow> Currency a = Currency b \<and> Currency c = Currency a \<and>
     sint (Minor c) = sint (Minor a) + sint (Minor b)"
proof (cases "in_int64 (sint (Minor a) + sint (Minor b))")
  case True
  then show ?thesis
    by (cases c) (auto simp: money_add_eq_exact money_add_exact_def sint_of_int64
        simp del: of_int_add intro!: word_eq_of_sint)
next
  case False
  then have "sint (Minor c) \<noteq> sint (Minor a) + sint (Minor b)"
    using in_int64_sint [of "Minor c"] by metis
  with False show ?thesis
    by (simp add: money_add_eq_exact money_add_exact_def)
qed

end
