(* ===== verification/Wire_Types.thy ===== *)
theory Wire_Types
  imports Go_Prelude
begin

text \<open>
  The message types that cross process boundaries: the protobuf messages of
  \<open>voyage.v1\<close> and \<open>estimator.v1\<close> with their generated getters, the two Avro event
  records, and the GraphQL model types. A Go pointer to a message is an \<open>option\<close>: a
  generated getter on a nil pointer returns the field's zero value, which the handlers
  of the voyage service rely on.
\<close>

section \<open>Protobuf messages\<close>

definition pb_get :: "('m \<Rightarrow> 'a) \<Rightarrow> 'a \<Rightarrow> 'm option \<Rightarrow> 'a" where
  "pb_get field zero x = (case x of None \<Rightarrow> zero | Some m \<Rightarrow> field m)"

lemma pb_get_simps [simp]:
  "pb_get field zero None = zero" "pb_get field zero (Some m) = field m"
  by (simp_all add: pb_get_def)

record pb_voyage =
  pbv_ClientRequestId :: string
  pbv_Origin :: string
  pbv_Dest :: string
  pbv_DistanceNm :: int32
  pbv_FeesMinor :: int64
  pbv_Version :: int64
  pbv_EstimateMinor :: int64

definition pbv_GetClientRequestId :: "pb_voyage option \<Rightarrow> string" where
  "pbv_GetClientRequestId = pb_get pbv_ClientRequestId ''''"

definition pbv_GetOrigin :: "pb_voyage option \<Rightarrow> string" where
  "pbv_GetOrigin = pb_get pbv_Origin ''''"

definition pbv_GetDest :: "pb_voyage option \<Rightarrow> string" where
  "pbv_GetDest = pb_get pbv_Dest ''''"

definition pbv_GetDistanceNm :: "pb_voyage option \<Rightarrow> int32" where
  "pbv_GetDistanceNm = pb_get pbv_DistanceNm 0"

definition pbv_GetFeesMinor :: "pb_voyage option \<Rightarrow> int64" where
  "pbv_GetFeesMinor = pb_get pbv_FeesMinor 0"

definition pbv_GetVersion :: "pb_voyage option \<Rightarrow> int64" where
  "pbv_GetVersion = pb_get pbv_Version 0"

definition pbv_GetEstimateMinor :: "pb_voyage option \<Rightarrow> int64" where
  "pbv_GetEstimateMinor = pb_get pbv_EstimateMinor 0"

record create_voyage_request =
  cvq_ClientRequestId :: string
  cvq_Origin :: string
  cvq_Dest :: string
  cvq_DistanceNm :: int32
  cvq_FeesMinor :: int64

definition cvq_GetClientRequestId :: "create_voyage_request option \<Rightarrow> string" where
  "cvq_GetClientRequestId = pb_get cvq_ClientRequestId ''''"

definition cvq_GetOrigin :: "create_voyage_request option \<Rightarrow> string" where
  "cvq_GetOrigin = pb_get cvq_Origin ''''"

definition cvq_GetDest :: "create_voyage_request option \<Rightarrow> string" where
  "cvq_GetDest = pb_get cvq_Dest ''''"

definition cvq_GetDistanceNm :: "create_voyage_request option \<Rightarrow> int32" where
  "cvq_GetDistanceNm = pb_get cvq_DistanceNm 0"

definition cvq_GetFeesMinor :: "create_voyage_request option \<Rightarrow> int64" where
  "cvq_GetFeesMinor = pb_get cvq_FeesMinor 0"

record create_voyage_response =
  cvr_Voyage :: "pb_voyage option"
  cvr_ProvisionalEstimateMinor :: int64
  cvr_EstimatePending :: bool

definition cvr_GetVoyage :: "create_voyage_response option \<Rightarrow> pb_voyage option" where
  "cvr_GetVoyage = pb_get cvr_Voyage None"

definition cvr_GetProvisionalEstimateMinor :: "create_voyage_response option \<Rightarrow> int64" where
  "cvr_GetProvisionalEstimateMinor = pb_get cvr_ProvisionalEstimateMinor 0"

definition cvr_GetEstimatePending :: "create_voyage_response option \<Rightarrow> bool" where
  "cvr_GetEstimatePending = pb_get cvr_EstimatePending False"

record update_voyage_request =
  uvq_Voyage :: "pb_voyage option"

definition uvq_GetVoyage :: "update_voyage_request option \<Rightarrow> pb_voyage option" where
  "uvq_GetVoyage = pb_get uvq_Voyage None"

record update_voyage_response =
  uvr_Voyage :: "pb_voyage option"

definition uvr_GetVoyage :: "update_voyage_response option \<Rightarrow> pb_voyage option" where
  "uvr_GetVoyage = pb_get uvr_Voyage None"

record get_voyage_request =
  gvq_ClientRequestId :: string

definition gvq_GetClientRequestId :: "get_voyage_request option \<Rightarrow> string" where
  "gvq_GetClientRequestId = pb_get gvq_ClientRequestId ''''"

record get_voyage_response =
  gvr_Voyage :: "pb_voyage option"

definition gvr_GetVoyage :: "get_voyage_response option \<Rightarrow> pb_voyage option" where
  "gvr_GetVoyage = pb_get gvr_Voyage None"

record estimate_request =
  erq_ClientRequestId :: string
  erq_DistanceNm :: int32
  erq_FeesMinor :: int64

definition erq_GetClientRequestId :: "estimate_request option \<Rightarrow> string" where
  "erq_GetClientRequestId = pb_get erq_ClientRequestId ''''"

definition erq_GetDistanceNm :: "estimate_request option \<Rightarrow> int32" where
  "erq_GetDistanceNm = pb_get erq_DistanceNm 0"

definition erq_GetFeesMinor :: "estimate_request option \<Rightarrow> int64" where
  "erq_GetFeesMinor = pb_get erq_FeesMinor 0"

record estimate_response =
  ers_AmountMinor :: int64
  ers_Currency :: string

definition ers_GetAmountMinor :: "estimate_response option \<Rightarrow> int64" where
  "ers_GetAmountMinor = pb_get ers_AmountMinor 0"

definition ers_GetCurrency :: "estimate_response option \<Rightarrow> string" where
  "ers_GetCurrency = pb_get ers_Currency ''''"

lemmas getter_defs [row_simps] =
  pbv_GetClientRequestId_def pbv_GetOrigin_def pbv_GetDest_def pbv_GetDistanceNm_def
  pbv_GetFeesMinor_def pbv_GetVersion_def pbv_GetEstimateMinor_def cvq_GetClientRequestId_def
  cvq_GetOrigin_def cvq_GetDest_def cvq_GetDistanceNm_def cvq_GetFeesMinor_def
  cvr_GetVoyage_def cvr_GetProvisionalEstimateMinor_def cvr_GetEstimatePending_def
  uvq_GetVoyage_def uvr_GetVoyage_def gvq_GetClientRequestId_def gvr_GetVoyage_def
  erq_GetClientRequestId_def erq_GetDistanceNm_def erq_GetFeesMinor_def ers_GetAmountMinor_def
  ers_GetCurrency_def

section \<open>Avro events\<close>

text \<open>A \<open>time.Time\<close> is modelled by the instant it denotes, in nanoseconds since the epoch.\<close>

type_synonym instant = int

record voyage_created =
  vc_ClientRequestID :: string
  vc_Origin :: string
  vc_Dest :: string
  vc_DistanceNm :: int32
  vc_FeesMinor :: int64
  vc_Version :: int64

record estimate_ready =
  er_VoyageID :: string
  er_VoyageVersion :: int64
  er_AmountMinor :: int64
  er_Currency :: string
  er_CalculatedAt :: instant

text \<open>Topic names and the Schema Registry subjects (\<open><topic>-value\<close>).\<close>

definition TopicVoyageCreated :: string where
  "TopicVoyageCreated = ''voyage.created''"

definition TopicEstimateReady :: string where
  "TopicEstimateReady = ''estimate.ready''"

definition TopicVoyageCreatedDLQ :: string where
  "TopicVoyageCreatedDLQ = ''voyage.created.dlq''"

definition TopicEstimateReadyDLQ :: string where
  "TopicEstimateReadyDLQ = ''estimate.ready.dlq''"

definition VoyageCreatedSubject :: string where
  "VoyageCreatedSubject = TopicVoyageCreated @ ''-value''"

definition EstimateReadySubject :: string where
  "EstimateReadySubject = TopicEstimateReady @ ''-value''"

lemmas topic_defs = TopicVoyageCreated_def TopicEstimateReady_def
  TopicVoyageCreatedDLQ_def TopicEstimateReadyDLQ_def

section \<open>GraphQL model\<close>

text \<open>A Go \<open>int\<close> is 64 bits wide on the platforms the services are built for.\<close>

record create_voyage_input =
  cvi_ClientRequestID :: string
  cvi_Origin :: string
  cvi_Dest :: string
  cvi_DistanceNm :: int64
  cvi_FeesMinor :: int64

record update_voyage_input =
  uvi_ClientRequestID :: string
  uvi_Origin :: string
  uvi_Dest :: string
  uvi_DistanceNm :: int64
  uvi_FeesMinor :: int64
  uvi_Version :: int64

record model_voyage =
  mv_ClientRequestID :: string
  mv_Origin :: string
  mv_Dest :: string
  mv_DistanceNm :: int64
  mv_FeesMinor :: int64
  mv_Version :: int64
  mv_EstimateMinor :: int64

record create_voyage_payload =
  cvp_Voyage :: "model_voyage option"
  cvp_ProvisionalEstimateMinor :: int64
  cvp_EstimatePending :: bool

end
