(* ===== verification/Estimator.thy ===== *)
theory Estimator
  imports Money Wire_Types
begin

text \<open>
  The estimator service's pricing: \<open>EstimateCost\<close> of
  \<open>services/estimator/domain/estimate.go\<close>, the synchronous \<open>Estimate\<close> RPC of
  \<open>services/estimator/adapters/grpcserver/server.go\<close>, and the event builder of
  \<open>services/estimator/adapters/kafka/events.go\<close>.
\<close>

definition ErrNegativeDistance_estimate :: goerr where
  "ErrNegativeDistance_estimate = ErrorsNew ''estimate: negative distance''"

definition ErrNonPositiveRate :: goerr where
  "ErrNonPositiveRate = ErrorsNew ''estimate: rate must be positive''"

definition EstimateCost :: "int32 \<Rightarrow> money \<Rightarrow> money \<Rightarrow> goerr + money" where
  "EstimateCost distanceNm fees ratePerNm =
     (if distanceNm <s 0
      then Inl (Errorf (sprintf [''distance '', int_text (sint distanceNm)]) ErrNegativeDistance_estimate)
      else if Minor ratePerNm \<le>s 0
      then Inl (Errorf (sprintf [''rate '', int_text (sint (Minor ratePerNm))]) ErrNonPositiveRate)
      else
        case money_mul ratePerNm (int64_of_int32 distanceNm) of
          Inl err \<Rightarrow> Inl (Errorf ''estimate'' err)
        | Inr base \<Rightarrow>
            (case money_add base fees of
               Inl err \<Rightarrow> Inl (Errorf ''estimate'' err)
             | Inr cost \<Rightarrow> Inr cost))"

text \<open>The gRPC server holds the configured rate; every pricing error becomes an
  \<open>InvalidArgument\<close> status that carries the error's text.\<close>

definition Estimate_rpc :: "money \<Rightarrow> estimate_request option \<Rightarrow> goerr + estimate_response" where
  "Estimate_rpc ratePerNm req =
     (case EstimateCost (erq_GetDistanceNm req) (FromUSD (erq_GetFeesMinor req)) ratePerNm of
        Inl err \<Rightarrow> Inl (StatusErr InvalidArgument (error_text err))
      | Inr cost \<Rightarrow> Inr \<lparr>ers_AmountMinor = Minor cost, ers_Currency = Currency cost\<rparr>)"

definition BuildEstimateReady :: "voyage_created \<Rightarrow> money \<Rightarrow> instant \<Rightarrow> estimate_ready" where
  "BuildEstimateReady vc cost at =
     \<lparr>er_VoyageID = vc_ClientRequestID vc, er_VoyageVersion = vc_Version vc,
      er_AmountMinor = Minor cost, er_Currency = Currency cost, er_CalculatedAt = at\<rparr>"

section \<open>When the calculation succeeds, and with what\<close>

lemma money_mul_EstimateCost:
  "0 <s Minor rate \<Longrightarrow> money_mul rate (int64_of_int32 d) = money_mul_exact rate (int64_of_int32 d)"
  by (rule money_mul_eq_exact) (auto simp: word_sless_alt sint_min_int64)

lemma EstimateCost_Inr_iff:
  "EstimateCost d fees rate = Inr c \<longleftrightarrow>
     0 \<le> sint d \<and> 0 < sint (Minor rate) \<and> Currency fees = Currency rate \<and>
     Currency c = Currency rate \<and>
     in_int64 (sint d * sint (Minor rate)) \<and>
     sint (Minor c) = sint d * sint (Minor rate) + sint (Minor fees)"
proof (cases "0 \<le> sint d \<and> 0 < sint (Minor rate)")
  case False
  then show ?thesis
    by (auto simp: EstimateCost_def word_sless_alt word_sle_eq)
next
  case True
  have mul: "money_mul rate (int64_of_int32 d) = money_mul_exact rate (int64_of_int32 d)"
    using True by (intro money_mul_EstimateCost) (simp add: word_sless_alt)
  show ?thesis
  proof (cases "in_int64 (sint d * sint (Minor rate))")
    case False
    with True show ?thesis
      by (simp add: EstimateCost_def mul money_mul_exact_def word_sless_alt word_sle_eq mult.commute)
  next
    case in_range: True
    have "EstimateCost d fees rate = Inr c \<longleftrightarrow>
        money_add \<lparr>Minor = word_of_int (sint d * sint (Minor rate)), Currency = Currency rate\<rparr> fees
          = Inr c"
      using True in_range
      by (auto simp: EstimateCost_def mul money_mul_exact_def word_sless_alt word_sle_eq mult.commute
          simp del: of_int_mult split: sum.splits)
    also have "\<dots> \<longleftrightarrow> Currency fees = Currency rate \<and> Currency c = Currency rate \<and>
        sint (Minor c) = sint d * sint (Minor rate) + sint (Minor fees)"
      unfolding money_add_Inr_iff using in_range
      by (auto simp: sint_of_int64 simp del: of_int_mult)
    finally show ?thesis
      using True in_range by blast
  qed
qed

end
