(* ===== verification/Voyage_Domain.thy ===== *)
theory Voyage_Domain
  imports Estimator
begin

text \<open>
  The voyage service's domain package (\<open>services/voyage/domain\<close>): the voyage value, its
  validation, the quote use-case over the estimator port, the mapping to the
  \<open>voyage.created\<close> event (\<open>adapters/kafka/events.go\<close>) and to the protobuf message
  (\<open>adapters/grpcserver/server.go\<close>), and the gRPC client adapter that implements the
  port (\<open>adapters/estimatorclient/client.go\<close>).

  A port method with effects takes the state of the world and returns its result with the
  new state.
\<close>

record voyage =
  ClientRequestID :: string
  Origin :: string
  Dest :: string
  DistanceNm :: int32
  FeesMinor :: int64
  Version :: int64
  EstimateMinor :: int64

definition ErrMissingClientRequestID :: goerr where
  "ErrMissingClientRequestID = ErrorsNew ''voyage: client_request_id required''"

definition ErrMissingPort :: goerr where
  "ErrMissingPort = ErrorsNew ''voyage: origin and dest required''"

definition ErrNegativeDistance :: goerr where
  "ErrNegativeDistance = ErrorsNew ''voyage: negative distance''"

definition ErrVoyageNotFound :: goerr where
  "ErrVoyageNotFound = ErrorsNew ''voyage: not found''"

definition ErrEstimatorUnavailable :: goerr where
  "ErrEstimatorUnavailable = ErrorsNew ''voyage: estimator unavailable''"

lemmas sentinel_defs = ErrMissingClientRequestID_def ErrMissingPort_def ErrNegativeDistance_def
  ErrVoyageNotFound_def ErrEstimatorUnavailable_def

definition Validate :: "voyage \<Rightarrow> goerr option" where
  "Validate v =
     (if ClientRequestID v = '''' then Some ErrMissingClientRequestID
      else if Origin v = '''' \<or> Dest v = '''' then Some ErrMissingPort
      else if DistanceNm v <s 0
      then Some (Errorf (sprintf [''distance '', int_text (sint (DistanceNm v))]) ErrNegativeDistance)
      else None)"

text \<open>The three ports as the source declares them, one field per method.\<close>

record 'w voyage_repository =
  repo_Create :: "'w \<Rightarrow> voyage \<Rightarrow> (goerr + voyage) \<times> 'w"
  repo_Update :: "'w \<Rightarrow> voyage \<Rightarrow> (goerr + voyage) \<times> 'w"
  repo_Get :: "'w \<Rightarrow> string \<Rightarrow> (goerr + voyage) \<times> 'w"

type_synonym 'w estimator_port = "'w \<Rightarrow> voyage \<Rightarrow> (goerr + money) \<times> 'w"

definition Quote :: "'w estimator_port \<Rightarrow> 'w \<Rightarrow> voyage \<Rightarrow> (goerr + money) \<times> 'w" where
  "Quote est w v =
     (case Validate v of
        Some err \<Rightarrow> (Inl (Errorf ''quote'' err), w)
      | None \<Rightarrow>
          (case est w v of
             (Inl err, w') \<Rightarrow> (Inl (Errorf (sprintf [''quote '', ClientRequestID v]) err), w')
           | (Inr q, w') \<Rightarrow> (Inr q, w')))"

section \<open>Mappings\<close>

definition ToVoyageCreated :: "voyage \<Rightarrow> voyage_created" where
  "ToVoyageCreated v =
     \<lparr>vc_ClientRequestID = ClientRequestID v, vc_Origin = Origin v, vc_Dest = Dest v,
      vc_DistanceNm = DistanceNm v, vc_FeesMinor = FeesMinor v, vc_Version = Version v\<rparr>"

definition toProto :: "voyage \<Rightarrow> pb_voyage" where
  "toProto v =
     \<lparr>pbv_ClientRequestId = ClientRequestID v, pbv_Origin = Origin v, pbv_Dest = Dest v,
      pbv_DistanceNm = DistanceNm v, pbv_FeesMinor = FeesMinor v, pbv_Version = Version v,
      pbv_EstimateMinor = EstimateMinor v\<rparr>"

declare ToVoyageCreated_def [row_simps] toProto_def [row_simps]

section \<open>The estimator client adapter\<close>

definition Adapter_Estimate ::
  "('w \<Rightarrow> estimate_request \<Rightarrow> (goerr + estimate_response) \<times> 'w) \<Rightarrow> 'w estimator_port" where
  "Adapter_Estimate client w v =
     (case client w \<lparr>erq_ClientRequestId = ClientRequestID v, erq_DistanceNm = DistanceNm v,
                    erq_FeesMinor = FeesMinor v\<rparr> of
        (Inl err, w') \<Rightarrow>
          (if status_code err = Unavailable
           then (Inl (Errorf (sprintf [''estimate '', ClientRequestID v]) ErrEstimatorUnavailable), w')
           else (Inl (Errorf (sprintf [''estimate '', ClientRequestID v]) err), w'))
      | (Inr resp, w') \<Rightarrow>
          (Inr \<lparr>Minor = ers_GetAmountMinor (Some resp), Currency = ers_GetCurrency (Some resp)\<rparr>, w'))"

section \<open>Validation\<close>

lemma Validate_None_iff:
  "Validate v = None \<longleftrightarrow>
     ClientRequestID v \<noteq> '''' \<and> Origin v \<noteq> '''' \<and> Dest v \<noteq> '''' \<and> 0 \<le> sint (DistanceNm v)"
  by (auto simp: Validate_def word_sless_alt)

lemma Validate_cong:
  "ClientRequestID u = ClientRequestID v \<Longrightarrow> Origin u = Origin v \<Longrightarrow> Dest u = Dest v \<Longrightarrow>
   DistanceNm u = DistanceNm v \<Longrightarrow> Validate u = Validate v"
  by (simp add: Validate_def)

lemma Quote_invalid: "Validate v = Some err \<Longrightarrow> Quote est w v = (Inl (Errorf ''quote'' err), w)"
  by (simp add: Quote_def)

section \<open>What a repository promises\<close>

text \<open>
  The contract of \<open>VoyageRepository\<close> (the comments of \<open>ports.go\<close>): \<open>Create\<close> inserts at
  version 1 or returns the existing voyage, \<open>Update\<close> lands only with a strictly higher
  version, \<open>Get\<close> reads. \<open>view\<close> is the stored voyages by id and \<open>invar\<close> the provider's
  invariant. A method may fail; a failed write has either taken effect or not.
\<close>

definition new_voyage :: "voyage \<Rightarrow> voyage" where
  "new_voyage v = v\<lparr>Version := 1, EstimateMinor := 0\<rparr>"

definition merge_voyage :: "voyage \<Rightarrow> voyage \<Rightarrow> voyage" where
  "merge_voyage current incoming =
     (if Version current <s Version incoming
      then incoming\<lparr>EstimateMinor := EstimateMinor current\<rparr> else current)"

definition merge_view :: "(string \<rightharpoonup> voyage) \<Rightarrow> voyage \<Rightarrow> (string \<rightharpoonup> voyage)" where
  "merge_view m v =
     (case m (ClientRequestID v) of
        None \<Rightarrow> m | Some u \<Rightarrow> m(ClientRequestID v \<mapsto> merge_voyage u v))"

locale voyage_store =
  fixes repo :: "'w voyage_repository"
    and view :: "'w \<Rightarrow> string \<rightharpoonup> voyage"
    and invar :: "'w \<Rightarrow> bool"
  assumes create_inv: "invar w \<Longrightarrow> repo_Create repo w v = (res, w') \<Longrightarrow> invar w'"
    and update_inv: "invar w \<Longrightarrow> repo_Update repo w v = (res, w') \<Longrightarrow> invar w'"
    and get_inv: "invar w \<Longrightarrow> repo_Get repo w cid = (res, w') \<Longrightarrow> invar w'"
    and view_key: "invar w \<Longrightarrow> view w cid = Some u \<Longrightarrow> ClientRequestID u = cid"
    and create_existing: "invar w \<Longrightarrow> view w (ClientRequestID v) = Some u \<Longrightarrow>
      repo_Create repo w v = (res, w') \<Longrightarrow> view w' = view w \<and> (\<forall>x. res = Inr x \<longrightarrow> x = u)"
    and create_fresh: "invar w \<Longrightarrow> view w (ClientRequestID v) = None \<Longrightarrow>
      repo_Create repo w v = (res, w') \<Longrightarrow>
      view w' = view w \<and> (\<forall>x. res \<noteq> Inr x) \<or>
      view w' = (view w)(ClientRequestID v \<mapsto> new_voyage v) \<and> (\<forall>x. res = Inr x \<longrightarrow> x = new_voyage v)"
    and update_view: "invar w \<Longrightarrow> repo_Update repo w v = (res, w') \<Longrightarrow>
      view w' = view w \<and> (\<forall>x. res \<noteq> Inr x) \<or>
      view w' = merge_view (view w) v \<and> (\<forall>x. res = Inr x \<longrightarrow> view w' (ClientRequestID v) = Some x)"
    and update_not_found: "invar w \<Longrightarrow> repo_Update repo w v = (Inl e, w') \<Longrightarrow>
      errors_is e ErrVoyageNotFound \<Longrightarrow> view w (ClientRequestID v) = None"
    and get_view: "invar w \<Longrightarrow> repo_Get repo w cid = (res, w') \<Longrightarrow>
      view w' = view w \<and> (\<forall>x. res = Inr x \<longrightarrow> view w cid = Some x)"
    and get_not_found: "invar w \<Longrightarrow> repo_Get repo w cid = (Inl e, w') \<Longrightarrow>
      errors_is e ErrVoyageNotFound \<Longrightarrow> view w cid = None"
begin

text \<open>A second \<open>Create\<close> of the same id that succeeds returns what the first one returned.\<close>

lemma create_twice:
  assumes "invar w" and "repo_Create repo w v = (Inr x, w1)"
    and "repo_Create repo w1 u = (Inr y, w2)" and "ClientRequestID u = ClientRequestID v"
  shows "y = x \<and> view w2 = view w1"
proof -
  have "view w1 (ClientRequestID v) = Some x"
    using create_existing [OF assms(1) _ assms(2)] create_fresh [OF assms(1) _ assms(2)]
    by (cases "view w (ClientRequestID v)") auto
  with create_existing [OF create_inv [OF assms(1,2)] _ assms(3)] assms(4) show ?thesis
    by auto
qed

end

text \<open>A provider that answers when nothing fails.\<close>

locale voyage_store_live = voyage_store +
  fixes healthy :: "'a \<Rightarrow> bool"
  assumes create_live: "invar w \<Longrightarrow> healthy w \<Longrightarrow>
      \<exists>x w'. repo_Create repo w v = (Inr x, w') \<and> healthy w'"
    and update_live: "invar w \<Longrightarrow> healthy w \<Longrightarrow> view w (ClientRequestID v) \<noteq> None \<Longrightarrow>
      \<exists>x w'. repo_Update repo w v = (Inr x, w') \<and> healthy w'"
    and update_missing: "invar w \<Longrightarrow> healthy w \<Longrightarrow> view w (ClientRequestID v) = None \<Longrightarrow>
      \<exists>e w'. repo_Update repo w v = (Inl e, w') \<and> errors_is e ErrVoyageNotFound \<and> healthy w'"
    and get_live: "invar w \<Longrightarrow> healthy w \<Longrightarrow> view w cid \<noteq> None \<Longrightarrow>
      \<exists>x w'. repo_Get repo w cid = (Inr x, w') \<and> healthy w'"
    and get_missing: "invar w \<Longrightarrow> healthy w \<Longrightarrow> view w cid = None \<Longrightarrow>
      \<exists>e w'. repo_Get repo w cid = (Inl e, w') \<and> errors_is e ErrVoyageNotFound \<and> healthy w'"

end
