(* ===== verification/Repository.thy ===== *)
theory Repository
  imports Voyage_Domain
begin

text \<open>
  The Postgres repository of \<open>services/voyage/adapters/postgres/repository.go\<close>: the two
  tables of the migrations, the SQL statements as functions on them, and the four methods.
  Postgres itself is the environment: every call takes the next outcome of a script
  (\<open>Go_Prelude.outcome\<close>), so a connection can fail before, in or after a statement, and a
  commit can take effect while its reply is lost. A transaction works on a copy of the tables
  that the commit publishes; a rollback drops the copy except for the identity sequence, which
  Postgres does not roll back.

  The encoder of the outbox event and the trace-context injection are arguments, as they are
  injected dependencies or OpenTelemetry calls in the source.
\<close>

record voyage_row =
  row_client_request_id :: string
  row_origin :: string
  row_dest :: string
  row_distance_nm :: int32
  row_fees_minor :: int64
  row_version :: int64
  row_created_at :: instant
  row_updated_at :: instant
  row_estimate_minor :: "int64 option"

record outbox_row =
  ob_id :: int
  ob_topic :: string
  ob_payload :: "byte list"
  ob_created_at :: instant
  ob_published_at :: "instant option"
  ob_trace_carrier :: "byte list option"

record tables =
  voyages :: "string \<rightharpoonup> voyage_row"
  outbox :: "outbox_row list"
  next_id :: int

text \<open>The repository's world: the committed tables, the server clock, the outcomes of the
  calls to come, and the process's dedupe counter.\<close>

record pg =
  pg_tables :: tables
  pg_now :: instant
  pg_script :: "outcome list"
  pg_dedupeTotal :: nat

type_synonym outbox_encoder = "voyage \<Rightarrow> goerr + string \<times> byte list"

definition ErrNoRows :: goerr where
  "ErrNoRows = ErrorsNew ''no rows in result set''"

definition pg_call :: "pg \<Rightarrow> outcome \<times> pg" where
  "pg_call w = (next_outcome (pg_script w), w\<lparr>pg_script := tl (pg_script w)\<rparr>)"

section \<open>The statements\<close>

definition insertVoyage :: "instant \<Rightarrow> voyage \<Rightarrow> tables \<Rightarrow> voyage_row option \<times> tables" where
  "insertVoyage now v t =
     (case voyages t (ClientRequestID v) of
        Some _ \<Rightarrow> (None, t)
      | None \<Rightarrow>
          let row = \<lparr>row_client_request_id = ClientRequestID v, row_origin = Origin v,
                     row_dest = Dest v, row_distance_nm = DistanceNm v,
                     row_fees_minor = FeesMinor v, row_version = 1, row_created_at = now,
                     row_updated_at = now, row_estimate_minor = None\<rparr>
          in (Some row, t\<lparr>voyages := (voyages t)(ClientRequestID v \<mapsto> row)\<rparr>))"

definition insertOutbox ::
  "instant \<Rightarrow> string \<Rightarrow> byte list \<Rightarrow> byte list \<Rightarrow> tables \<Rightarrow> tables" where
  "insertOutbox now topic payload traceJSON t =
     t\<lparr>outbox := outbox t @ [\<lparr>ob_id = next_id t, ob_topic = topic, ob_payload = payload,
          ob_created_at = now, ob_published_at = None, ob_trace_carrier = Some traceJSON\<rparr>],
       next_id := next_id t + 1\<rparr>"

definition updateVoyageHigherWins :: "voyage \<Rightarrow> tables \<Rightarrow> tables" where
  "updateVoyageHigherWins v t =
     (case voyages t (ClientRequestID v) of
        None \<Rightarrow> t
      | Some row \<Rightarrow>
          if row_version row <s Version v
          then t\<lparr>voyages := (voyages t)(ClientRequestID v \<mapsto>
                 row\<lparr>row_origin := Origin v, row_dest := Dest v, row_distance_nm := DistanceNm v,
                     row_fees_minor := FeesMinor v, row_version := Version v\<rparr>)\<rparr>
          else t)"

definition upsertEstimate ::
  "string \<Rightarrow> int64 \<Rightarrow> int64 \<Rightarrow> tables \<Rightarrow> instant option \<times> tables" where
  "upsertEstimate voyageID voyageVersion amountMinor t =
     (case voyages t voyageID of
        None \<Rightarrow> (None, t)
      | Some row \<Rightarrow>
          if row_version row = voyageVersion \<and> row_estimate_minor row \<noteq> Some amountMinor
          then (Some (row_created_at row),
                t\<lparr>voyages := (voyages t)(voyageID \<mapsto> row\<lparr>row_estimate_minor := Some amountMinor\<rparr>)\<rparr>)
          else (None, t))"

section \<open>The methods\<close>

definition row_voyage :: "voyage_row \<Rightarrow> voyage" where
  "row_voyage row =
     \<lparr>ClientRequestID = row_client_request_id row, Origin = row_origin row, Dest = row_dest row,
      DistanceNm = row_distance_nm row, FeesMinor = row_fees_minor row,
      Version = row_version row,
      EstimateMinor = (case row_estimate_minor row of None \<Rightarrow> 0 | Some e \<Rightarrow> e)\<rparr>"

text \<open>\<open>scanVoyage(row)\<close>: the error of the query, \<open>pgx.ErrNoRows\<close> for an empty result, or the
  row with a \<open>NULL\<close> estimate read as 0.\<close>

definition scanVoyage :: "outcome \<Rightarrow> voyage_row option \<Rightarrow> goerr + voyage" where
  "scanVoyage r row =
     (case outcome_error r of
        Some err \<Rightarrow> Inl err
      | None \<Rightarrow> (case row of None \<Rightarrow> Inl ErrNoRows | Some ro \<Rightarrow> Inr (row_voyage ro)))"

definition pg_Get :: "pg \<Rightarrow> string \<Rightarrow> (goerr + voyage) \<times> pg" where
  "pg_Get w clientRequestID =
     (let (r, w) = pg_call w in
      case scanVoyage r (voyages (pg_tables w) clientRequestID) of
        Inl err \<Rightarrow>
          (if errors_is err ErrNoRows
           then (Inl (Errorf (sprintf [''get voyage '', clientRequestID]) ErrVoyageNotFound), w)
           else (Inl (Errorf (sprintf [''get voyage '', clientRequestID]) err), w))
      | Inr v \<Rightarrow> (Inr v, w))"

text \<open>\<open>injectTraceCarrier\<close>: the propagator's carrier, marshalled; only the marshalling fails.\<close>

definition injectTraceCarrier :: "(goerr + byte list) \<Rightarrow> goerr + byte list" where
  "injectTraceCarrier marshalled =
     (case marshalled of Inl err \<Rightarrow> Inl (Errorf ''trace carrier'' err) | Inr js \<Rightarrow> Inr js)"

definition pg_rollback :: "tables \<Rightarrow> pg \<Rightarrow> pg" where
  "pg_rollback tx w = w\<lparr>pg_tables := (pg_tables w)\<lparr>next_id := next_id tx\<rparr>\<rparr>"

definition pg_commit :: "tables \<Rightarrow> pg \<Rightarrow> goerr option \<times> pg" where
  "pg_commit tx w =
     (let (r, w) = pg_call w in
      (outcome_error r, if took_effect r then w\<lparr>pg_tables := tx\<rparr> else pg_rollback tx w))"

text \<open>The second half of \<open>Create\<close>, once the row is inserted in the transaction \<open>tx\<close>: encode the
  event, write the outbox row, commit.\<close>

definition pg_Create_event ::
  "outbox_encoder \<Rightarrow> (goerr + byte list) \<Rightarrow> string \<Rightarrow> tables \<Rightarrow> voyage \<Rightarrow> pg \<Rightarrow>
   (goerr + voyage) \<times> pg" where
  "pg_Create_event encode carrier op tx created w =
     (case encode created of
        Inl err \<Rightarrow> (Inl (Errorf (sprintf [op, '': encode event'']) err), w)
      | Inr (topic, payload) \<Rightarrow>
        (case injectTraceCarrier carrier of
           Inl err \<Rightarrow> (Inl (Errorf op err), w)
         | Inr traceJSON \<Rightarrow>
           (let (r, w) = pg_call w;
                tx = (if took_effect r then insertOutbox (pg_now w) topic payload traceJSON tx
                      else tx) in
            case outcome_error r of
              Some err \<Rightarrow> (Inl (Errorf (sprintf [op, '': outbox'']) err), pg_rollback tx w)
            | None \<Rightarrow>
              (case pg_commit tx w of
                 (Some err, w) \<Rightarrow> (Inl (Errorf (sprintf [op, '': commit'']) err), w)
               | (None, w) \<Rightarrow> (Inr created, w)))))"

definition pg_Create ::
  "outbox_encoder \<Rightarrow> (goerr + byte list) \<Rightarrow> pg \<Rightarrow> voyage \<Rightarrow> (goerr + voyage) \<times> pg" where
  "pg_Create encode carrier w v =
     (let (r, w) = pg_call w; op = sprintf [''create voyage '', ClientRequestID v] in
      case outcome_error r of
        Some err \<Rightarrow> (Inl (Errorf (sprintf [op, '': begin'']) err), w)
      | None \<Rightarrow>
        (let (r, w) = pg_call w; (row, tx) = insertVoyage (pg_now w) v (pg_tables w) in
         case scanVoyage r row of
           Inl err \<Rightarrow>
             (if errors_is err ErrNoRows
              then pg_Get (w\<lparr>pg_dedupeTotal := Suc (pg_dedupeTotal w)\<rparr>) (ClientRequestID v)
              else (Inl (Errorf op err), w))
         | Inr created \<Rightarrow> pg_Create_event encode carrier op tx created w))"

definition pg_Update :: "pg \<Rightarrow> voyage \<Rightarrow> (goerr + voyage) \<times> pg" where
  "pg_Update w v =
     (let (r, w) = pg_call w;
          w = (if took_effect r then w\<lparr>pg_tables := updateVoyageHigherWins v (pg_tables w)\<rparr> else w) in
      case outcome_error r of
        Some err \<Rightarrow> (Inl (Errorf (sprintf [''update voyage '', ClientRequestID v]) err), w)
      | None \<Rightarrow> pg_Get w (ClientRequestID v))"

text \<open>\<open>time.Time{}\<close>: midnight of 1 January of the year 1.\<close>

definition zero_time :: instant where
  "zero_time = - 62135596800000000000"

definition pg_UpsertEstimate ::
  "pg \<Rightarrow> string \<Rightarrow> int64 \<Rightarrow> int64 \<Rightarrow> (goerr + bool \<times> instant) \<times> pg" where
  "pg_UpsertEstimate w voyageID voyageVersion amountMinor =
     (let (r, w) = pg_call w;
          (hit, t) = upsertEstimate voyageID voyageVersion amountMinor (pg_tables w);
          w = (if took_effect r then w\<lparr>pg_tables := t\<rparr> else w);
          scanned = (case outcome_error r of
                       Some err \<Rightarrow> Inl err
                     | None \<Rightarrow> (case hit of None \<Rightarrow> Inl ErrNoRows | Some at \<Rightarrow> Inr at)) in
      case scanned of
        Inl err \<Rightarrow>
          (if errors_is err ErrNoRows then (Inr (False, zero_time), w)
           else (Inl (Errorf (sprintf [''upsert estimate '', voyageID, '' v'', int_text (sint voyageVersion)]) err), w))
      | Inr createdAt \<Rightarrow> (Inr (True, createdAt), w))"

definition pg_repo :: "outbox_encoder \<Rightarrow> (goerr + byte list) \<Rightarrow> pg voyage_repository" where
  "pg_repo encode carrier =
     \<lparr>repo_Create = pg_Create encode carrier, repo_Update = pg_Update, repo_Get = pg_Get\<rparr>"

section \<open>How each method changes the tables\<close>

definition infra_error :: "goerr \<Rightarrow> bool" where
  "infra_error e \<longleftrightarrow> \<not> errors_is e ErrNoRows \<and> \<not> errors_is e ErrVoyageNotFound"

text \<open>The errors of the environment are not the two sentinels the code tests for.\<close>

definition script_ok :: "outcome list \<Rightarrow> bool" where
  "script_ok rs \<longleftrightarrow> (\<forall>r \<in> set rs. \<forall>e. outcome_error r = Some e \<longrightarrow> infra_error e)"

definition keys_ok :: "tables \<Rightarrow> bool" where
  "keys_ok t \<longleftrightarrow> (\<forall>cid row. voyages t cid = Some row \<longrightarrow> row_client_request_id row = cid)"

definition pg_inv :: "pg \<Rightarrow> bool" where
  "pg_inv w \<longleftrightarrow> script_ok (pg_script w) \<and> keys_ok (pg_tables w)"

definition pg_view :: "pg \<Rightarrow> string \<rightharpoonup> voyage" where
  "pg_view w = (\<lambda>cid. map_option row_voyage (voyages (pg_tables w) cid))"

text \<open>The tables a successful \<open>Create\<close> commits.\<close>

definition created_tables ::
  "instant \<Rightarrow> voyage \<Rightarrow> string \<Rightarrow> byte list \<Rightarrow> byte list \<Rightarrow> tables \<Rightarrow> tables" where
  "created_tables now v topic payload js t =
     insertOutbox now topic payload js (snd (insertVoyage now v t))"

lemma not_found_is_no_rows [simp]: "\<not> errors_is ErrVoyageNotFound ErrNoRows"
  "\<not> errors_is ErrNoRows ErrVoyageNotFound"
  by (simp_all add: ErrVoyageNotFound_def ErrNoRows_def)

lemma errors_is_Errorf_sentinel [simp]:
  "errors_is (Errorf p e) ErrVoyageNotFound = errors_is e ErrVoyageNotFound"
  "errors_is (Errorf p e) ErrNoRows = errors_is e ErrNoRows"
  by (simp_all add: ErrVoyageNotFound_def ErrNoRows_def)

lemma pg_call_simps [simp]:
  "pg_tables (snd (pg_call w)) = pg_tables w"
  "pg_now (snd (pg_call w)) = pg_now w"
  "pg_dedupeTotal (snd (pg_call w)) = pg_dedupeTotal w"
  "fst (pg_call w) = next_outcome (pg_script w)"
  "pg_script (snd (pg_call w)) = tl (pg_script w)"
  by (simp_all add: pg_call_def)

lemma script_ok_tl: "script_ok rs \<Longrightarrow> script_ok (tl rs)"
  by (cases rs) (auto simp: script_ok_def)

lemma pg_call_script: "pg_call w = (r, w') \<Longrightarrow> script_ok (pg_script w) \<Longrightarrow> script_ok (pg_script w')"
  by (auto simp: pg_call_def script_ok_tl)

lemma pg_call_same: "pg_call w = (r, w') \<Longrightarrow>
   pg_tables w' = pg_tables w \<and> pg_now w' = pg_now w \<and> pg_dedupeTotal w' = pg_dedupeTotal w"
  by (auto simp: pg_call_def)

lemma next_outcome_infra:
  "script_ok rs \<Longrightarrow> outcome_error (next_outcome rs) = Some e \<Longrightarrow> infra_error e"
  by (cases rs) (auto simp: script_ok_def)

lemma pg_call_infra:
  "pg_call w = (r, w') \<Longrightarrow> script_ok (pg_script w) \<Longrightarrow> outcome_error r = Some e \<Longrightarrow> infra_error e"
  by (auto simp: pg_call_def dest: next_outcome_infra)

lemma row_voyage_new: "snd (insertVoyage now v t) = t' \<Longrightarrow> fst (insertVoyage now v t) = Some row \<Longrightarrow>
   row_voyage row = new_voyage v \<and> voyages t' = (voyages t)(ClientRequestID v \<mapsto> row) \<and>
   row_client_request_id row = ClientRequestID v"
  by (cases v) (auto simp: insertVoyage_def row_voyage_def new_voyage_def Let_def split: option.splits)

lemma pg_Get_world:
  assumes "pg_Get w cid = (res, w')"
  shows "w' = snd (pg_call w)"
  using assms by (auto simp: pg_Get_def Let_def split_beta split: sum.splits if_splits)

lemma pg_Get_found:
  "pg_Get w cid = (Inr x, w') \<Longrightarrow> map_option row_voyage (voyages (pg_tables w) cid) = Some x"
  by (auto simp: pg_Get_def scanVoyage_def Let_def split_beta split: option.splits if_splits)

lemma pg_Get_result:
  "pg_Get w cid = (Inr x, w') \<Longrightarrow>
     pg_tables w' = pg_tables w \<and> script_ok (pg_script w') = script_ok (tl (pg_script w)) \<and>
     (\<exists>row. voyages (pg_tables w) cid = Some row \<and> row_voyage row = x)"
  using pg_Get_world [of w cid] pg_Get_found [of w cid] by fastforce

lemma pg_Get_not_found:
  assumes "pg_Get w cid = (Inl e, w')" and "script_ok (pg_script w)"
    and "errors_is e ErrVoyageNotFound"
  shows "voyages (pg_tables w) cid = None"
proof (cases "outcome_error (next_outcome (pg_script w))")
  case None
  with assms show ?thesis
    by (auto simp: pg_Get_def scanVoyage_def Let_def split_beta split: option.splits if_splits)
next
  case (Some err)
  with assms(2) have "infra_error err"
    by (rule next_outcome_infra)
  with Some assms show ?thesis
    by (auto simp: pg_Get_def scanVoyage_def Let_def split_beta infra_error_def
        split: option.splits if_splits)
qed

text \<open>\<open>Create\<close> either reads the existing row, or fails with the voyages as they were, or leaves
  exactly the row and its outbox event behind (whether or not the caller hears of it).\<close>

definition same_rows :: "tables \<Rightarrow> tables \<Rightarrow> bool" where
  "same_rows t t' \<longleftrightarrow> voyages t' = voyages t \<and> outbox t' = outbox t \<and> next_id t \<le> next_id t'"

lemma same_rows_refl [simp]: "same_rows t t"
  by (simp add: same_rows_def)

lemma pg_Create_existing:
  assumes "pg_Create encode carrier w v = (res, w')" and "script_ok (pg_script w)"
    and "voyages (pg_tables w) (ClientRequestID v) = Some row"
  shows "pg_tables w' = pg_tables w \<and> script_ok (pg_script w') \<and>
    (\<forall>x. res = Inr x \<longrightarrow> x = row_voyage row)"
  using assms
  by (auto simp: pg_Create_def Let_def split_beta insertVoyage_def scanVoyage_def script_ok_tl
      split: option.splits if_splits dest: pg_Get_found pg_Get_world)

lemma pg_commit_cases:
  "pg_commit tx w = (err, w') \<Longrightarrow> script_ok (pg_script w) \<Longrightarrow>
     script_ok (pg_script w') \<and>
     (err = None \<longrightarrow> pg_tables w' = tx) \<and>
     (pg_tables w' = tx \<or> pg_tables w' = (pg_tables w)\<lparr>next_id := next_id tx\<rparr>)"
  by (auto simp: pg_commit_def Let_def split_beta pg_rollback_def script_ok_tl
      split: if_splits)

lemma insertVoyage_fresh:
  assumes "voyages t (ClientRequestID v) = None"
  obtains row where "insertVoyage now v t = (Some row, t\<lparr>voyages := (voyages t)(ClientRequestID v \<mapsto> row)\<rparr>)"
    and "row_voyage row = new_voyage v" and "row_client_request_id row = ClientRequestID v"
    and "row_version row = 1" and "row_estimate_minor row = None"
  using assms
  by (cases v) (auto simp: insertVoyage_def row_voyage_def new_voyage_def Let_def)

lemma pg_Create_event_cases:
  assumes "pg_Create_event encode carrier op tx u w = (res, w')" and "script_ok (pg_script w)"
    and "next_id (pg_tables w) = next_id tx"
  shows "script_ok (pg_script w') \<and>
    ((\<forall>x. res \<noteq> Inr x) \<and> same_rows (pg_tables w) (pg_tables w') \<or>
     (\<forall>x. res = Inr x \<longrightarrow> x = u) \<and>
     (\<exists>topic payload js. encode u = Inr (topic, payload) \<and>
        pg_tables w' = insertOutbox (pg_now w) topic payload js tx))"
proof (cases "\<exists>p js. encode u = Inr p \<and> carrier = Inr js")
  case False
  then show ?thesis
    using assms(1,2)
    by (auto simp: pg_Create_event_def injectTraceCarrier_def split: sum.splits)
next
  case True
  then obtain topic payload js where p: "encode u = Inr (topic, payload)" and js: "carrier = Inr js"
    by auto
  let ?w = "snd (pg_call w)" and ?tx = "insertOutbox (pg_now w) topic payload js tx"
  show ?thesis
  proof (cases "next_outcome (pg_script w) = Done")
    case False
    then show ?thesis
      using assms p js
      by (cases "next_outcome (pg_script w)")
        (auto simp: pg_Create_event_def injectTraceCarrier_def Let_def split_beta script_ok_tl
          pg_rollback_def same_rows_def insertOutbox_def)
  next
    case True
    obtain err w2 where c: "pg_commit ?tx ?w = (err, w2)"
      by (cases "pg_commit ?tx ?w")
    have "res = (case err of None \<Rightarrow> Inr u | Some e \<Rightarrow> Inl (Errorf (sprintf [op, '': commit'']) e))
        \<and> w' = w2"
      using assms(1) p js True c
      by (auto simp: pg_Create_event_def injectTraceCarrier_def Let_def split_beta
          split: option.splits)
    with pg_commit_cases [OF c] assms(2,3) p show ?thesis
      by (auto simp: script_ok_tl same_rows_def insertOutbox_def split: option.splits)
  qed
qed

lemma pg_Create_fresh:
  assumes "pg_Create encode carrier w v = (res, w')" and "script_ok (pg_script w)"
    and "voyages (pg_tables w) (ClientRequestID v) = None"
  shows "script_ok (pg_script w') \<and>
    ((\<forall>x. res \<noteq> Inr x) \<and> same_rows (pg_tables w) (pg_tables w') \<or>
     (\<forall>x. res = Inr x \<longrightarrow> x = new_voyage v) \<and>
     (\<exists>topic payload js. encode (new_voyage v) = Inr (topic, payload) \<and>
        pg_tables w' = created_tables (pg_now w) v topic payload js (pg_tables w)))"
proof -
  obtain row where ins: "insertVoyage (pg_now w) v (pg_tables w) =
      (Some row, (pg_tables w)\<lparr>voyages := (voyages (pg_tables w))(ClientRequestID v \<mapsto> row)\<rparr>)"
    and row: "row_voyage row = new_voyage v"
    using insertVoyage_fresh [OF assms(3)] .
  note infra = next_outcome_infra [OF assms(2)] next_outcome_infra [OF script_ok_tl [OF assms(2)]]
  show ?thesis
  proof (cases "next_outcome (pg_script w) = Done \<and> next_outcome (tl (pg_script w)) = Done")
    case False
    then show ?thesis
      using assms(1,2) ins infra
      by (auto simp: pg_Create_def Let_def split_beta scanVoyage_def script_ok_tl infra_error_def
          split: option.splits if_splits)
  next
    case True
    let ?tx = "(pg_tables w)\<lparr>voyages := (voyages (pg_tables w))(ClientRequestID v \<mapsto> row)\<rparr>"
    define w2 where "w2 = snd (pg_call (snd (pg_call w)))"
    have w2: "pg_tables w2 = pg_tables w" "pg_now w2 = pg_now w" "script_ok (pg_script w2)"
      using assms(2) by (simp_all add: w2_def script_ok_tl)
    have "pg_Create_event encode carrier (sprintf [''create voyage '', ClientRequestID v]) ?tx
        (new_voyage v) w2 = (res, w')"
      using assms(1) ins row True
      by (simp add: pg_Create_def Let_def split_beta scanVoyage_def w2_def)
    from pg_Create_event_cases [OF this] w2 show ?thesis
      by (simp add: created_tables_def ins)
  qed
qed

text \<open>\<open>Update\<close>: the merge on the voyages, the outbox untouched.\<close>

lemma updateVoyageHigherWins_other:
  "outbox (updateVoyageHigherWins v t) = outbox t" "next_id (updateVoyageHigherWins v t) = next_id t"
  by (auto simp: updateVoyageHigherWins_def split: option.splits)

lemma row_voyage_updateVoyage:
  "keys_ok t \<Longrightarrow> (\<lambda>cid. map_option row_voyage (voyages (updateVoyageHigherWins v t) cid)) =
     merge_view (\<lambda>cid. map_option row_voyage (voyages t cid)) v"
  by (cases v) (auto simp: updateVoyageHigherWins_def merge_view_def merge_voyage_def row_voyage_def
      keys_ok_def fun_eq_iff split: option.splits)

lemma keys_ok_update: "keys_ok t \<Longrightarrow> keys_ok (updateVoyageHigherWins v t)"
  by (auto simp: keys_ok_def updateVoyageHigherWins_def split: option.splits if_splits)

lemma pg_Update_cases:
  assumes "pg_Update w v = (res, w')" and "script_ok (pg_script w)"
  shows "script_ok (pg_script w') \<and>
    ((\<forall>x. res \<noteq> Inr x) \<and> pg_tables w' = pg_tables w \<or>
     pg_tables w' = updateVoyageHigherWins v (pg_tables w) \<and>
     (\<forall>x. res = Inr x \<longrightarrow>
        map_option row_voyage (voyages (pg_tables w') (ClientRequestID v)) = Some x))"
  using assms
  by (cases "next_outcome (pg_script w)")
    (auto simp: pg_Update_def Let_def split_beta script_ok_tl dest!: pg_Get_result
      dest: pg_Get_world)

lemma pg_Update_not_found:
  assumes "pg_Update w v = (Inl e, w')" and "script_ok (pg_script w)"
    and "errors_is e ErrVoyageNotFound"
  shows "voyages (pg_tables w) (ClientRequestID v) = None"
proof (cases "outcome_error (next_outcome (pg_script w))")
  case None
  with assms have "voyages (updateVoyageHigherWins v (pg_tables w)) (ClientRequestID v) = None"
    by (auto simp: pg_Update_def Let_def split_beta script_ok_tl dest: pg_Get_not_found)
  then show ?thesis
    by (auto simp: updateVoyageHigherWins_def split: option.splits if_splits)
next
  case (Some err)
  with assms(2) have "infra_error err"
    by (rule next_outcome_infra)
  with Some assms show ?thesis
    by (auto simp: pg_Update_def Let_def split_beta infra_error_def)
qed

section \<open>The contract holds\<close>

lemma created_tables_fresh:
  assumes "voyages t (ClientRequestID v) = None"
  obtains row where "voyages (created_tables now v topic payload js t)
      = (voyages t)(ClientRequestID v \<mapsto> row)"
    and "row_voyage row = new_voyage v" and "row_client_request_id row = ClientRequestID v"
    and "row_version row = 1" and "row_estimate_minor row = None"
proof -
  obtain row where "insertVoyage now v t = (Some row, t\<lparr>voyages := (voyages t)(ClientRequestID v \<mapsto> row)\<rparr>)"
    and row: "row_voyage row = new_voyage v" "row_client_request_id row = ClientRequestID v"
    "row_version row = 1" "row_estimate_minor row = None"
    using insertVoyage_fresh [OF assms] .
  then have "voyages (created_tables now v topic payload js t) = (voyages t)(ClientRequestID v \<mapsto> row)"
    by (simp add: created_tables_def insertOutbox_def)
  with row show thesis by (rule that [rotated])
qed

lemma keys_ok_created:
  assumes "keys_ok t" and "voyages t (ClientRequestID v) = None"
  shows "keys_ok (created_tables now v topic payload js t)"
proof -
  obtain row where "voyages (created_tables now v topic payload js t)
      = (voyages t)(ClientRequestID v \<mapsto> row)" and "row_client_request_id row = ClientRequestID v"
    by (rule created_tables_fresh [OF assms(2)])
  with assms(1) show ?thesis
    by (simp add: keys_ok_def)
qed

lemma pg_view_eq: "pg_tables w' = pg_tables w \<Longrightarrow> pg_view w' = pg_view w"
  by (simp add: pg_view_def)

lemma pg_view_created:
  assumes "pg_tables w' = created_tables now v topic payload js (pg_tables w)"
    and "voyages (pg_tables w) (ClientRequestID v) = None"
  shows "pg_view w' = (pg_view w)(ClientRequestID v \<mapsto> new_voyage v)"
proof -
  obtain row where "voyages (created_tables now v topic payload js (pg_tables w))
      = (voyages (pg_tables w))(ClientRequestID v \<mapsto> row)" and "row_voyage row = new_voyage v"
    by (rule created_tables_fresh [OF assms(2)])
  with assms(1) show ?thesis
    by (auto simp: pg_view_def fun_eq_iff)
qed

lemma same_rows_view: "same_rows (pg_tables w) (pg_tables w') \<Longrightarrow> pg_view w' = pg_view w"
  by (simp add: same_rows_def pg_view_def)

lemma same_rows_keys: "same_rows t t' \<Longrightarrow> keys_ok t \<Longrightarrow> keys_ok t'"
  by (simp add: same_rows_def keys_ok_def)

lemma pg_view_None: "pg_view w cid = None \<longleftrightarrow> voyages (pg_tables w) cid = None"
  by (simp add: pg_view_def)

lemma pg_view_Some: "pg_view w cid = Some u \<longleftrightarrow>
   (\<exists>row. voyages (pg_tables w) cid = Some row \<and> row_voyage row = u)"
  by (auto simp: pg_view_def)

lemma pg_create_cases:
  assumes "pg_inv w" and "pg_Create encode carrier w v = (res, w')"
  shows "pg_inv w' \<and>
    (case pg_view w (ClientRequestID v) of
       Some u \<Rightarrow> pg_view w' = pg_view w \<and> (\<forall>x. res = Inr x \<longrightarrow> x = u)
     | None \<Rightarrow>
         pg_view w' = pg_view w \<and> (\<forall>x. res \<noteq> Inr x) \<or>
         pg_view w' = (pg_view w)(ClientRequestID v \<mapsto> new_voyage v) \<and>
         (\<forall>x. res = Inr x \<longrightarrow> x = new_voyage v))"
proof (cases "voyages (pg_tables w) (ClientRequestID v)")
  case None
  have ok: "script_ok (pg_script w)" "keys_ok (pg_tables w)"
    using assms(1) by (simp_all add: pg_inv_def)
  have "pg_view w (ClientRequestID v) = None"
    using None by (simp add: pg_view_None)
  with pg_Create_fresh [OF assms(2) ok(1) None] show ?thesis
    using ok None
    by (auto simp: pg_inv_def intro: same_rows_view same_rows_keys keys_ok_created
        dest: pg_view_created)
next
  case (Some row)
  with assms pg_Create_existing [OF assms(2) _ Some] show ?thesis
    by (auto simp: pg_inv_def pg_view_def)
qed

lemma pg_update_cases:
  assumes "pg_inv w" and "pg_Update w v = (res, w')"
  shows "pg_inv w' \<and>
    (pg_view w' = pg_view w \<and> (\<forall>x. res \<noteq> Inr x) \<or>
     pg_view w' = merge_view (pg_view w) v \<and>
     (\<forall>x. res = Inr x \<longrightarrow> pg_view w' (ClientRequestID v) = Some x))"
  using pg_Update_cases [OF assms(2)] assms(1)
  by (auto simp: pg_inv_def pg_view_def keys_ok_update row_voyage_updateVoyage)

interpretation pg: voyage_store "pg_repo encode carrier" pg_view pg_inv
  for encode carrier
proof (unfold_locales, goal_cases)
  case (1 w v res w') then show ?case
    by (simp add: pg_repo_def pg_create_cases)
next
  case (2 w v res w') then show ?case
    by (simp add: pg_repo_def pg_update_cases)
next
  case (3 w cid res w') then show ?case
    by (auto simp: pg_repo_def pg_inv_def script_ok_tl dest!: pg_Get_world)
next
  case (4 w cid u) then show ?case
    by (auto simp: pg_inv_def keys_ok_def pg_view_def row_voyage_def)
next
  case (5 w v u res w') then show ?case
    using pg_create_cases [of w encode carrier v res w'] by (simp add: pg_repo_def)
next
  case (6 w v res w') then show ?case
    using pg_create_cases [of w encode carrier v res w'] by (simp add: pg_repo_def)
next
  case (7 w v res w') then show ?case
    using pg_update_cases [of w v res w'] by (simp add: pg_repo_def)
next
  case (8 w v e w') then show ?case
    using pg_Update_not_found [of w v e w'] by (simp add: pg_repo_def pg_inv_def pg_view_None)
next
  case (9 w cid res w') then show ?case
    by (auto simp: pg_repo_def pg_view_def dest!: pg_Get_result dest: pg_Get_world)
next
  case (10 w cid e w') then show ?case
    using pg_Get_not_found [of w cid e w'] by (simp add: pg_repo_def pg_inv_def pg_view_None)
qed

text \<open>With no failure to come, every method answers.\<close>

definition pg_healthy :: "pg \<Rightarrow> bool" where
  "pg_healthy w \<longleftrightarrow> pg_script w = []"

lemma pg_Get_healthy:
  "pg_healthy w \<Longrightarrow> pg_Get w cid =
     ((case pg_view w cid of
         None \<Rightarrow> Inl (Errorf (sprintf [''get voyage '', cid]) ErrVoyageNotFound)
       | Some u \<Rightarrow> Inr u), w)"
  by (cases w) (auto simp: pg_healthy_def pg_Get_def scanVoyage_def pg_call_def pg_view_def
      split: option.splits)

interpretation pg_live: voyage_store_live "pg_repo (\<lambda>v. Inr (encode v)) (Inr js)" pg_view pg_inv pg_healthy
  for encode js
proof (unfold_locales, goal_cases)
  case (1 w v)
  then show ?case
    by (cases "voyages (pg_tables w) (ClientRequestID v)"; cases "encode (new_voyage v)")
      (auto simp: pg_repo_def pg_Create_def pg_Create_event_def pg_healthy_def pg_call_def Let_def
        scanVoyage_def insertVoyage_def injectTraceCarrier_def pg_commit_def pg_Get_healthy
        pg_view_def split_beta split: prod.splits)
next
  case (2 w v)
  then show ?case
    by (auto simp: pg_repo_def pg_Update_def pg_healthy_def pg_call_def pg_Get_healthy
        pg_view_def updateVoyageHigherWins_def split: option.splits)
next
  case (3 w v)
  then show ?case
    by (auto simp: pg_repo_def pg_Update_def pg_healthy_def pg_call_def pg_Get_healthy
        pg_view_def updateVoyageHigherWins_def split: option.splits)
next
  case (4 w cid)
  then show ?case
    by (auto simp: pg_repo_def pg_Get_healthy)
next
  case (5 w cid)
  then show ?case
    by (auto simp: pg_repo_def pg_Get_healthy)
qed

end
