(* ===== verification/Grpc_Server.thy ===== *)
theory Grpc_Server
  imports Repository "HOL-Library.Multiset"
begin

text \<open>
  The voyage service's gRPC server (\<open>services/voyage/adapters/grpcserver/server.go\<close>): the
  three handlers over an arbitrary repository and estimator port, as the source injects them.
  The lemmas are proved once for every provider of the \<open>voyage_store\<close> contract; the
  interpretation \<open>pg\<close> of \<open>Repository\<close> gives them for the Postgres repository.
\<close>

definition internalErr :: "string \<Rightarrow> goerr \<Rightarrow> goerr" where
  "internalErr op err = StatusErr Internal (sprintf [op, '' failed''])"

definition Server_CreateVoyage ::
  "'w voyage_repository \<Rightarrow> 'w estimator_port \<Rightarrow> 'w \<Rightarrow> create_voyage_request option \<Rightarrow>
   (goerr + create_voyage_response) \<times> 'w" where
  "Server_CreateVoyage repo estimator w req =
     (let v = \<lparr>ClientRequestID = cvq_GetClientRequestId req, Origin = cvq_GetOrigin req,
               Dest = cvq_GetDest req, DistanceNm = cvq_GetDistanceNm req,
               FeesMinor = cvq_GetFeesMinor req, Version = 0, EstimateMinor = 0\<rparr> in
      case Validate v of
        Some err \<Rightarrow> (Inl (StatusErr InvalidArgument (error_text err)), w)
      | None \<Rightarrow>
        (case repo_Create repo w v of
           (Inl err, w) \<Rightarrow> (Inl (internalErr ''create voyage'' err), w)
         | (Inr created, w) \<Rightarrow>
           (case estimator w created of
              (Inl err, w) \<Rightarrow>
                (if errors_is err ErrEstimatorUnavailable
                 then (Inr \<lparr>cvr_Voyage = Some (toProto created),
                            cvr_ProvisionalEstimateMinor = 0, cvr_EstimatePending = True\<rparr>, w)
                 else (Inl (internalErr ''quote voyage'' err), w))
            | (Inr quote, w) \<Rightarrow>
                (Inr \<lparr>cvr_Voyage = Some (toProto created),
                      cvr_ProvisionalEstimateMinor = Minor quote, cvr_EstimatePending = False\<rparr>, w))))"

definition Server_UpdateVoyage ::
  "'w voyage_repository \<Rightarrow> 'w \<Rightarrow> update_voyage_request option \<Rightarrow>
   (goerr + update_voyage_response) \<times> 'w" where
  "Server_UpdateVoyage repo w req =
     (let inp = uvq_GetVoyage req;
          v = \<lparr>ClientRequestID = pbv_GetClientRequestId inp, Origin = pbv_GetOrigin inp,
               Dest = pbv_GetDest inp, DistanceNm = pbv_GetDistanceNm inp,
               FeesMinor = pbv_GetFeesMinor inp, Version = pbv_GetVersion inp,
               EstimateMinor = 0\<rparr> in
      case Validate v of
        Some err \<Rightarrow> (Inl (StatusErr InvalidArgument (error_text err)), w)
      | None \<Rightarrow>
        (case repo_Update repo w v of
           (Inl err, w) \<Rightarrow>
             (if errors_is err ErrVoyageNotFound
              then (Inl (StatusErr NotFound ''voyage not found''), w)
              else (Inl (internalErr ''update voyage'' err), w))
         | (Inr current, w) \<Rightarrow> (Inr \<lparr>uvr_Voyage = Some (toProto current)\<rparr>, w)))"

definition Server_GetVoyage ::
  "'w voyage_repository \<Rightarrow> 'w \<Rightarrow> get_voyage_request option \<Rightarrow>
   (goerr + get_voyage_response) \<times> 'w" where
  "Server_GetVoyage repo w req =
     (if gvq_GetClientRequestId req = ''''
      then (Inl (StatusErr InvalidArgument ''client_request_id required''), w)
      else
        (case repo_Get repo w (gvq_GetClientRequestId req) of
           (Inl err, w) \<Rightarrow>
             (if errors_is err ErrVoyageNotFound
              then (Inl (StatusErr NotFound ''voyage not found''), w)
              else (Inl (internalErr ''get voyage'' err), w))
         | (Inr v, w) \<Rightarrow> (Inr \<lparr>gvr_Voyage = Some (toProto v)\<rparr>, w)))"

section \<open>The voyage a request stands for\<close>

definition request_voyage :: "create_voyage_request option \<Rightarrow> voyage" where
  "request_voyage req =
     \<lparr>ClientRequestID = cvq_GetClientRequestId req, Origin = cvq_GetOrigin req,
      Dest = cvq_GetDest req, DistanceNm = cvq_GetDistanceNm req,
      FeesMinor = cvq_GetFeesMinor req, Version = 0, EstimateMinor = 0\<rparr>"

definition update_voyage :: "update_voyage_request option \<Rightarrow> voyage" where
  "update_voyage req =
     \<lparr>ClientRequestID = pbv_GetClientRequestId (uvq_GetVoyage req),
      Origin = pbv_GetOrigin (uvq_GetVoyage req), Dest = pbv_GetDest (uvq_GetVoyage req),
      DistanceNm = pbv_GetDistanceNm (uvq_GetVoyage req),
      FeesMinor = pbv_GetFeesMinor (uvq_GetVoyage req),
      Version = pbv_GetVersion (uvq_GetVoyage req), EstimateMinor = 0\<rparr>"

lemma toProto_inject: "toProto u = toProto v \<longleftrightarrow> u = v"
  by (cases u; cases v) (simp add: toProto_def)

text \<open>The estimator is another service: a quote leaves the store as it was.\<close>

definition est_frame :: "('w \<Rightarrow> string \<rightharpoonup> voyage) \<Rightarrow> ('w \<Rightarrow> bool) \<Rightarrow> 'w estimator_port \<Rightarrow> bool" where
  "est_frame view invar est \<longleftrightarrow>
     (\<forall>w v res w'. est w v = (res, w') \<longrightarrow> view w' = view w \<and> (invar w \<longrightarrow> invar w'))"

lemma est_frameD: "est_frame view invar est \<Longrightarrow> est w v = (res, w') \<Longrightarrow>
   view w' = view w \<and> (invar w \<longrightarrow> invar w')"
  by (simp add: est_frame_def)

lemma Server_CreateVoyage_cases:
  assumes "Server_CreateVoyage repo est w req = (res, w')"
  obtains (invalid) err where "Validate (request_voyage req) = Some err"
      and "res = Inl (StatusErr InvalidArgument (error_text err))" and "w' = w"
    | (failed) err where "Validate (request_voyage req) = None"
      and "repo_Create repo w (request_voyage req) = (Inl err, w')"
      and "res = Inl (internalErr ''create voyage'' err)"
    | (pending) created w1 err where "Validate (request_voyage req) = None"
      and "repo_Create repo w (request_voyage req) = (Inr created, w1)"
      and "est w1 created = (Inl err, w')" and "errors_is err ErrEstimatorUnavailable"
      and "res = Inr \<lparr>cvr_Voyage = Some (toProto created), cvr_ProvisionalEstimateMinor = 0,
                     cvr_EstimatePending = True\<rparr>"
    | (unquoted) created w1 err where "Validate (request_voyage req) = None"
      and "repo_Create repo w (request_voyage req) = (Inr created, w1)"
      and "est w1 created = (Inl err, w')" and "\<not> errors_is err ErrEstimatorUnavailable"
      and "res = Inl (internalErr ''quote voyage'' err)"
    | (quoted) created w1 q where "Validate (request_voyage req) = None"
      and "repo_Create repo w (request_voyage req) = (Inr created, w1)"
      and "est w1 created = (Inr q, w')"
      and "res = Inr \<lparr>cvr_Voyage = Some (toProto created), cvr_ProvisionalEstimateMinor = Minor q,
                     cvr_EstimatePending = False\<rparr>"
  using assms unfolding Server_CreateVoyage_def Let_def request_voyage_def [symmetric]
  by (auto split: option.splits prod.splits sum.splits if_splits)

lemma Server_UpdateVoyage_cases:
  assumes "Server_UpdateVoyage repo w req = (res, w')"
  obtains (invalid) err where "Validate (update_voyage req) = Some err"
      and "res = Inl (StatusErr InvalidArgument (error_text err))" and "w' = w"
    | (missing) err where "Validate (update_voyage req) = None"
      and "repo_Update repo w (update_voyage req) = (Inl err, w')"
      and "errors_is err ErrVoyageNotFound"
      and "res = Inl (StatusErr NotFound ''voyage not found'')"
    | (failed) err where "Validate (update_voyage req) = None"
      and "repo_Update repo w (update_voyage req) = (Inl err, w')"
      and "\<not> errors_is err ErrVoyageNotFound"
      and "res = Inl (internalErr ''update voyage'' err)"
    | (updated) current where "Validate (update_voyage req) = None"
      and "repo_Update repo w (update_voyage req) = (Inr current, w')"
      and "res = Inr \<lparr>uvr_Voyage = Some (toProto current)\<rparr>"
  using assms unfolding Server_UpdateVoyage_def Let_def update_voyage_def [symmetric]
  by (auto split: option.splits prod.splits sum.splits if_splits)

lemma Server_CreateVoyage_Inr:
  assumes "Server_CreateVoyage repo est w req = (Inr r, w')"
  obtains created w1 res where "repo_Create repo w (request_voyage req) = (Inr created, w1)"
    and "est w1 created = (res, w')" and "cvr_Voyage r = Some (toProto created)"
    and "Validate (request_voyage req) = None"
  using assms by (cases rule: Server_CreateVoyage_cases) auto

section \<open>The handlers over any store\<close>

context voyage_store
begin

lemma server_create_inv:
  assumes "invar w" and "est_frame view invar est"
    and "Server_CreateVoyage repo est w req = (res, w')"
  shows "invar w'"
  using assms(3)
  by (cases rule: Server_CreateVoyage_cases)
    (use assms(1) create_inv [OF assms(1)] est_frameD [OF assms(2)] in blast)+

lemma server_update_inv:
  assumes "invar w" and "Server_UpdateVoyage repo w req = (res, w')"
  shows "invar w'"
  using assms(2)
  by (cases rule: Server_UpdateVoyage_cases) (use assms(1) update_inv [OF assms(1)] in blast)+

lemma server_create_idempotent:
  assumes "invar w" and frame: "est_frame view invar est"
    and "Server_CreateVoyage repo est w req = (Inr r1, w1)"
    and "Server_CreateVoyage repo est w1 req' = (Inr r2, w2)"
    and "cvq_GetClientRequestId req' = cvq_GetClientRequestId req"
  shows "cvr_Voyage r2 = cvr_Voyage r1 \<and> view w2 = view w1"
proof -
  obtain x wa res where a: "repo_Create repo w (request_voyage req) = (Inr x, wa)"
    and ea: "est wa x = (res, w1)" and ra: "cvr_Voyage r1 = Some (toProto x)"
    using assms(3) by (rule Server_CreateVoyage_Inr)
  obtain y wb res' where b: "repo_Create repo w1 (request_voyage req') = (Inr y, wb)"
    and eb: "est wb y = (res', w2)" and rb: "cvr_Voyage r2 = Some (toProto y)"
    using assms(4) by (rule Server_CreateVoyage_Inr)
  have cid: "ClientRequestID (request_voyage req') = ClientRequestID (request_voyage req)"
    using assms(5) by (simp add: request_voyage_def)
  have "invar wa" and "view w1 = view wa" and "invar w1"
    using create_inv [OF assms(1) a] est_frameD [OF frame ea] by auto
  moreover have "view wa (ClientRequestID (request_voyage req)) = Some x"
    using create_existing [OF assms(1) _ a] create_fresh [OF assms(1) _ a]
    by (cases "view w (ClientRequestID (request_voyage req))") auto
  ultimately have "view wb = view w1 \<and> y = x"
    using create_existing [OF _ _ b] cid by auto
  with ra rb est_frameD [OF frame eb] show ?thesis by simp
qed

text \<open>What a handler call may do to the store, whatever it answers.\<close>

lemma server_create_view:
  assumes "invar w" and "est_frame view invar est"
    and "Server_CreateVoyage repo est w req = (res, w')"
  shows "view w' = view w \<or>
    view w (cvq_GetClientRequestId req) = None \<and>
    view w' = (view w)(cvq_GetClientRequestId req \<mapsto> new_voyage (request_voyage req))"
proof -
  have cid: "ClientRequestID (request_voyage req) = cvq_GetClientRequestId req"
    by (simp add: request_voyage_def)
  have created: "view w1 = view w \<or> view w (cvq_GetClientRequestId req) = None \<and>
      view w1 = (view w)(cvq_GetClientRequestId req \<mapsto> new_voyage (request_voyage req))"
    if c: "repo_Create repo w (request_voyage req) = (r, w1)" for r w1
    using create_existing [OF assms(1) _ c] create_fresh [OF assms(1) _ c] cid
    by (cases "view w (cvq_GetClientRequestId req)") auto
  have est: "view w2 = view w1" if "est w1 v = (r, w2)" for w1 v r w2
    using est_frameD [OF assms(2) that] by simp
  show ?thesis
    using assms(3)
    by (cases rule: Server_CreateVoyage_cases) (use created est in metis)+
qed

lemma server_update_view:
  assumes "invar w" and "Server_UpdateVoyage repo w req = (res, w')"
  shows "(view w' = view w \<or> view w' = merge_view (view w) (update_voyage req)) \<and>
    (\<forall>r. res = Inr r \<longrightarrow> view w' = merge_view (view w) (update_voyage req) \<and>
       uvr_Voyage r = map_option toProto (view w' (ClientRequestID (update_voyage req))))"
  using assms(2)
  by (cases rule: Server_UpdateVoyage_cases) (auto dest: update_view [OF assms(1)])

end

end
