(* ===== verification/Broker.thy ===== *)
theory Broker
  imports Wire_Types
begin

text \<open>
  What the services use of Kafka. Producing is the interface \<open>producer\<close>: an acked record is
  appended to its topic's log, a record whose produce failed may or may not be there. The
  environment model \<open>broker\<close> (one log per topic, driven by a script of outcomes) provides it.

  The consuming side is the record handed to a handler, and the contract of
  \<open>CommitRecords\<close> as the client library documents it: per partition, the group's offset
  becomes one past the highest offset among the records given.
\<close>

section \<open>Producing\<close>

type_synonym 'b produce = "'b \<Rightarrow> string \<Rightarrow> byte list \<Rightarrow> goerr option \<times> 'b"

definition appended ::
  "(string \<Rightarrow> byte list list) \<Rightarrow> string \<Rightarrow> byte list \<Rightarrow> (string \<Rightarrow> byte list list)" where
  "appended logs topic payload = logs(topic := logs topic @ [payload])"

lemma appended_simps [simp]:
  "appended logs topic payload topic = logs topic @ [payload]"
  "t \<noteq> topic \<Longrightarrow> appended logs topic payload t = logs t"
  by (simp_all add: appended_def)

locale producer =
  fixes produce :: "'b produce" and logs :: "'b \<Rightarrow> string \<Rightarrow> byte list list"
  assumes produce_acked: "produce b topic payload = (None, b') \<Longrightarrow>
      logs b' = appended (logs b) topic payload"
    and produce_failed: "produce b topic payload = (Some e, b') \<Longrightarrow>
      logs b' = logs b \<or> logs b' = appended (logs b) topic payload"
begin

lemma produce_grows:
  "produce b topic payload = (err, b') \<Longrightarrow>
     logs b' = logs b \<and> err \<noteq> None \<or> logs b' = appended (logs b) topic payload"
  using produce_acked [of b topic payload b'] produce_failed [of b topic payload _ b']
  by (cases err) auto

end

text \<open>A producer that acks everything while the broker is up.\<close>

locale live_producer = producer +
  fixes up :: "'a \<Rightarrow> bool"
  assumes produce_up: "up b \<Longrightarrow> \<exists>b'. produce b topic payload = (None, b') \<and> up b'"

record broker =
  br_logs :: "string \<Rightarrow> byte list list"
  br_script :: "outcome list"
  br_now :: instant

definition produce_sync :: "broker produce" where
  "produce_sync b topic payload =
     (let r = next_outcome (br_script b); b = b\<lparr>br_script := tl (br_script b)\<rparr> in
      (outcome_error r,
       if took_effect r then b\<lparr>br_logs := appended (br_logs b) topic payload\<rparr> else b))"

interpretation kafka: producer produce_sync br_logs
proof (unfold_locales, goal_cases)
  case (1 b topic payload b')
  then show ?case by (auto simp: produce_sync_def Let_def)
next
  case (2 b topic payload e b')
  then show ?case by (auto simp: produce_sync_def Let_def split: if_splits)
qed

interpretation kafka_live: live_producer produce_sync br_logs "\<lambda>b. br_script b = []"
  by unfold_locales (simp add: produce_sync_def)

lemma produce_sync_healthy:
  "br_script b = [] \<Longrightarrow>
     produce_sync b topic payload = (None, b\<lparr>br_logs := appended (br_logs b) topic payload\<rparr>)"
  by (cases b) (simp add: produce_sync_def)

section \<open>Consuming\<close>

record krecord =
  kr_Topic :: string
  kr_Partition :: nat
  kr_Offset :: nat
  kr_Value :: "byte list"

text \<open>One result of \<open>PollFetches\<close>: whether the client is closed or the context done, and the
  records. (Fetch errors are only logged.)\<close>

record fetches =
  fe_stop :: bool
  fe_records :: "krecord list"

text \<open>\<open>EachRecord\<close> with a handler that says whether the record may be committed.\<close>

fun each_record :: "('w \<Rightarrow> krecord \<Rightarrow> bool \<times> 'w) \<Rightarrow> 'w \<Rightarrow> krecord list \<Rightarrow> krecord list \<times> 'w" where
  "each_record handle w [] = ([], w)"
| "each_record handle w (r # rs) =
     (let (ok, w) = handle w r; (committable, w) = each_record handle w rs in
      (if ok then r # committable else committable, w))"

text \<open>The body both consumers' \<open>Run\<close> loops share, over the fetches still to come. A failed
  commit is logged and the loop goes on.\<close>

fun consumer_Run ::
  "('w \<Rightarrow> krecord \<Rightarrow> bool \<times> 'w) \<Rightarrow> ('w \<Rightarrow> krecord list \<Rightarrow> goerr option \<times> 'w) \<Rightarrow>
   'w \<Rightarrow> fetches list \<Rightarrow> 'w" where
  "consumer_Run handle commit w [] = w"
| "consumer_Run handle commit w (f # fs) =
     (if fe_stop f then w
      else
        let (committable, w) = each_record handle w (fe_records f) in
        if committable \<noteq> []
        then consumer_Run handle commit (snd (commit w committable)) fs
        else consumer_Run handle commit w fs)"

lemma each_record_sub: "set (fst (each_record handle w rs)) \<subseteq> set rs"
proof (induction rs arbitrary: w)
  case (Cons r rs)
  have "set (fst (each_record handle (snd (handle w r)) rs)) \<subseteq> set rs"
    by (rule Cons.IH)
  then show ?case
    by (auto simp: Let_def split_beta)
qed simp

text \<open>A property of the world that the handler and the commit keep is kept by the loop.\<close>

lemma each_record_inv:
  assumes "\<And>w r ok w'. P w \<Longrightarrow> r \<in> set rs \<Longrightarrow> handle w r = (ok, w') \<Longrightarrow> P w'" and "P w"
  shows "P (snd (each_record handle w rs))"
  using assms
proof (induction rs arbitrary: w)
  case Nil
  then show ?case by simp
next
  case (Cons r rs)
  obtain ok w1 where h: "handle w r = (ok, w1)" by (cases "handle w r")
  with Cons.prems have "P w1" by (meson list.set_intros(1))
  with Cons have "P (snd (each_record handle w1 rs))" by (meson list.set_intros(2))
  with h show ?case by (simp add: Let_def split_beta)
qed

text \<open>What a handler establishes before it says yes, and every later record keeps, holds of
  every committable record at the end of the batch.\<close>

lemma each_record_committable:
  assumes "\<And>w r w'. handle w r = (True, w') \<Longrightarrow> Q r w'"
    and "\<And>w r r' ok w'. Q r w \<Longrightarrow> handle w r' = (ok, w') \<Longrightarrow> Q r w'"
    and "r \<in> set (fst (each_record handle w rs))"
  shows "Q r (snd (each_record handle w rs))"
  using assms(3)
proof (induction rs arbitrary: w)
  case Nil
  then show ?case by simp
next
  case (Cons r1 rs)
  obtain ok w1 where h: "handle w r1 = (ok, w1)" by (cases "handle w r1")
  have keep: "Q r (snd (each_record handle w1 rs))" if "Q r w1"
    by (rule each_record_inv [where P = "Q r"]) (use assms(2) that in blast)+
  show ?case
    using Cons.prems Cons.IH [of w1] keep assms(1) [of w r1 w1] h
    by (auto simp: Let_def split_beta split: if_splits)
qed

lemma each_record_length: "length (fst (each_record handle w rs)) \<le> length rs"
  by (induction rs arbitrary: w) (auto simp: Let_def split_beta le_SucI)

lemma each_record_append:
  "each_record handle w (rs @ rs') =
     (fst (each_record handle w rs) @ fst (each_record handle (snd (each_record handle w rs)) rs'),
      snd (each_record handle (snd (each_record handle w rs)) rs'))"
  by (induction rs arbitrary: w) (auto simp: Let_def split_beta)

section \<open>Committing\<close>

text \<open>The documented effect of \<open>CommitRecords\<close> on the group's offset of one partition.\<close>

definition committed_offset :: "nat \<Rightarrow> nat \<Rightarrow> krecord list \<Rightarrow> nat" where
  "committed_offset p old rs =
     (case filter (\<lambda>r. kr_Partition r = p) rs of
        [] \<Rightarrow> old
      | r # rs' \<Rightarrow> Suc (Max (set (map kr_Offset (r # rs')))))"

lemma committed_offset_above:
  assumes "r \<in> set rs" and "kr_Partition r = p"
  shows "kr_Offset r < committed_offset p old rs"
proof -
  have r: "r \<in> set (filter (\<lambda>r. kr_Partition r = p) rs)"
    using assms by simp
  then obtain a as where f: "filter (\<lambda>r. kr_Partition r = p) rs = a # as"
    by (cases "filter (\<lambda>r. kr_Partition r = p) rs") auto
  with r have "kr_Offset r \<le> Max (set (map kr_Offset (a # as)))"
    by (intro Max_ge) auto
  with f show ?thesis
    by (simp add: committed_offset_def)
qed

lemma committed_offset_bound:
  assumes "\<And>r. r \<in> set rs \<Longrightarrow> kr_Partition r = p \<Longrightarrow> kr_Offset r < n" and "old \<le> n"
  shows "committed_offset p old rs \<le> n"
proof (cases "filter (\<lambda>r. kr_Partition r = p) rs")
  case Nil
  with assms(2) show ?thesis by (simp add: committed_offset_def)
next
  case (Cons a as)
  have "\<forall>x \<in> set (map kr_Offset (a # as)). x < n"
    unfolding Cons [symmetric] using assms(1) by auto
  then have "Max (set (map kr_Offset (a # as))) < n"
    by (subst Max_less_iff) auto
  then have "Suc (Max (set (map kr_Offset (a # as)))) \<le> n"
    by (rule Suc_leI)
  with Cons show ?thesis by (simp add: committed_offset_def del: list.set list.map)
qed

end
