(* ===== verification/Poller.thy ===== *)
theory Poller
  imports Repository Broker "HOL-Library.Multiset"
begin

text \<open>
  The outbox relay of \<open>services/voyage/adapters/kafka/poller.go\<close>: \<open>unpublished\<close> reads the
  oldest unpublished rows, \<open>Flush\<close> publishes them one by one and stamps a row only after
  its ack. The producer is an argument; the database is the one of \<open>Repository\<close>. The trace
  context a row is published under only becomes a record header and is not modelled.
\<close>

definition selectUnpublished :: "tables \<Rightarrow> outbox_row list" where
  "selectUnpublished t =
     take 100 (sort_key ob_id (filter (\<lambda>r. ob_published_at r = None) (outbox t)))"

definition markPublished :: "instant \<Rightarrow> int \<Rightarrow> tables \<Rightarrow> tables" where
  "markPublished now i t =
     t\<lparr>outbox := map (\<lambda>r. if ob_id r = i then r\<lparr>ob_published_at := Some now\<rparr> else r) (outbox t)\<rparr>"

text \<open>The rows of the result set, each scanned in turn, then \<open>rows.Err()\<close>.\<close>

fun scan_rows :: "pg \<Rightarrow> outbox_row list \<Rightarrow> outbox_row list \<Rightarrow> (goerr + outbox_row list) \<times> pg" where
  "scan_rows w batch [] =
     (let (r, w) = pg_call w in
      case outcome_error r of
        Some err \<Rightarrow> (Inl (Errorf ''iterate outbox'' err), w)
      | None \<Rightarrow> (Inr batch, w))"
| "scan_rows w batch (row # rows) =
     (let (r, w) = pg_call w in
      case outcome_error r of
        Some err \<Rightarrow> (Inl (Errorf ''scan outbox'' err), w)
      | None \<Rightarrow> scan_rows w (batch @ [row]) rows)"

definition unpublished :: "pg \<Rightarrow> (goerr + outbox_row list) \<times> pg" where
  "unpublished w =
     (let (r, w) = pg_call w in
      case outcome_error r of
        Some err \<Rightarrow> (Inl (Errorf ''query outbox'' err), w)
      | None \<Rightarrow> scan_rows w [] (selectUnpublished (pg_tables w)))"

fun flush_rows ::
  "'b produce \<Rightarrow> pg \<Rightarrow> 'b \<Rightarrow> outbox_row list \<Rightarrow> goerr option \<times> pg \<times> 'b" where
  "flush_rows produce w b [] = (None, w, b)"
| "flush_rows produce w b (row # rows) =
     (case produce b (ob_topic row) (ob_payload row) of
        (Some err, b) \<Rightarrow> flush_rows produce w b rows
      | (None, b) \<Rightarrow>
          (let (r, w) = pg_call w;
               w = (if took_effect r
                    then w\<lparr>pg_tables := markPublished (pg_now w) (ob_id row) (pg_tables w)\<rparr> else w) in
           case outcome_error r of
             Some err \<Rightarrow> (Some (Errorf (sprintf [''mark published id='', int_text (ob_id row)]) err), w, b)
           | None \<Rightarrow> flush_rows produce w b rows))"

definition Flush :: "'b produce \<Rightarrow> pg \<Rightarrow> 'b \<Rightarrow> goerr option \<times> pg \<times> 'b" where
  "Flush produce w b =
     (case unpublished w of
        (Inl err, w) \<Rightarrow> (Some err, w, b)
      | (Inr batch, w) \<Rightarrow> flush_rows produce w b batch)"

text \<open>\<open>Run\<close>: one \<open>Flush\<close> per tick until the context is done; an error is logged.\<close>

datatype poll_event = Tick | CtxDone

fun Poller_Run :: "'b produce \<Rightarrow> pg \<Rightarrow> 'b \<Rightarrow> poll_event list \<Rightarrow> pg \<times> 'b" where
  "Poller_Run produce w b [] = (w, b)"
| "Poller_Run produce w b (CtxDone # es) = (w, b)"
| "Poller_Run produce w b (Tick # es) =
     (case Flush produce w b of (_, w, b) \<Rightarrow> Poller_Run produce w b es)"

section \<open>The batch\<close>

text \<open>Row ids are distinct and below the sequence.\<close>

definition outbox_ok :: "tables \<Rightarrow> bool" where
  "outbox_ok t \<longleftrightarrow> distinct (map ob_id (outbox t)) \<and> (\<forall>r \<in> set (outbox t). ob_id r < next_id t)"

lemma selectUnpublished_sub:
  "r \<in> set (selectUnpublished t) \<Longrightarrow> r \<in> set (outbox t) \<and> ob_published_at r = None"
  unfolding selectUnpublished_def by (auto dest!: in_set_takeD)

lemma distinct_selectUnpublished:
  assumes "outbox_ok t"
  shows "distinct (map ob_id (selectUnpublished t))"
proof -
  have "distinct (map ob_id (filter (\<lambda>r. ob_published_at r = None) (outbox t)))"
    using assms by (simp add: outbox_ok_def distinct_map_filter)
  then have "distinct (map ob_id (sort_key ob_id (filter (\<lambda>r. ob_published_at r = None) (outbox t))))"
    by (simp add: distinct_map)
  then show ?thesis
    by (simp add: selectUnpublished_def take_map [symmetric])
qed

lemma markPublished_other [simp]:
  "voyages (markPublished now i t) = voyages t" "next_id (markPublished now i t) = next_id t"
  "map ob_id (outbox (markPublished now i t)) = map ob_id (outbox t)"
  by (simp_all add: markPublished_def comp_def)

lemma outbox_ok_mark: "outbox_ok t \<Longrightarrow> outbox_ok (markPublished now i t)"
  by (auto simp: outbox_ok_def markPublished_def comp_def if_distrib cong: if_cong)

section \<open>What publishing changes\<close>

text \<open>The outbox up to its stamps, and the rows still to publish.\<close>

definition unstamped :: "tables \<Rightarrow> outbox_row list" where
  "unstamped t = map (\<lambda>r. r\<lparr>ob_published_at := None\<rparr>) (outbox t)"

definition pending :: "tables \<Rightarrow> outbox_row list" where
  "pending t = filter (\<lambda>r. ob_published_at r = None) (outbox t)"

text \<open>Only the stamps change.\<close>

definition stamps_only :: "tables \<Rightarrow> tables \<Rightarrow> bool" where
  "stamps_only t t' \<longleftrightarrow> voyages t' = voyages t \<and> next_id t' = next_id t \<and>
     unstamped t' = unstamped t"

text \<open>Flag on ack: a stamped row is in the log of its topic.\<close>

definition stamped_in_log :: "(string \<Rightarrow> byte list list) \<Rightarrow> tables \<Rightarrow> bool" where
  "stamped_in_log logs t \<longleftrightarrow>
     (\<forall>r \<in> set (outbox t). ob_published_at r \<noteq> None \<longrightarrow> ob_payload r \<in> set (logs (ob_topic r)))"

lemma stamps_only_refl [simp]: "stamps_only t t"
  by (simp add: stamps_only_def)

lemma stamps_only_trans: "stamps_only s t \<Longrightarrow> stamps_only t u \<Longrightarrow> stamps_only s u"
  by (simp add: stamps_only_def)

lemma stamps_only_mark: "stamps_only t (markPublished now i t)"
  by (auto simp: stamps_only_def unstamped_def markPublished_def)

lemma map_ob_id_unstamped: "map ob_id (unstamped t) = map ob_id (outbox t)"
  by (simp add: unstamped_def comp_def)

lemma stamps_only_ids: "stamps_only t t' \<Longrightarrow> map ob_id (outbox t') = map ob_id (outbox t)"
  by (metis stamps_only_def map_ob_id_unstamped)

lemma stamps_only_ok: "stamps_only t t' \<Longrightarrow> outbox_ok t \<Longrightarrow> outbox_ok t'"
proof -
  assume s: "stamps_only t t'" and ok: "outbox_ok t"
  have "set (map ob_id (outbox t')) = set (map ob_id (outbox t))"
    by (simp only: stamps_only_ids [OF s])
  then have "\<forall>r \<in> set (outbox t'). ob_id r < next_id t"
    using ok by (force simp: outbox_ok_def)
  with s ok show ?thesis
    by (simp add: outbox_ok_def stamps_only_ids [OF s] stamps_only_def)
qed

text \<open>With distinct ids a row of the outbox is determined by its id.\<close>

lemma outbox_ok_unique:
  "outbox_ok t \<Longrightarrow> r \<in> set (outbox t) \<Longrightarrow> r' \<in> set (outbox t) \<Longrightarrow> ob_id r = ob_id r' \<Longrightarrow> r = r'"
  by (auto simp: outbox_ok_def distinct_map dest: inj_onD)

text \<open>A row of the batch is a row of the outbox, up to its stamp.\<close>

definition batch_of :: "tables \<Rightarrow> outbox_row list \<Rightarrow> bool" where
  "batch_of t rows \<longleftrightarrow> (\<forall>r \<in> set rows. r\<lparr>ob_published_at := None\<rparr> \<in> set (unstamped t))"

lemma batch_of_stamps: "stamps_only t t' \<Longrightarrow> batch_of t rows \<Longrightarrow> batch_of t' rows"
  by (simp add: batch_of_def stamps_only_def)

lemma batch_of_select: "batch_of t (selectUnpublished t)"
  by (auto simp: batch_of_def unstamped_def dest: selectUnpublished_sub)

lemma batch_row:
  assumes "outbox_ok t" and "batch_of t (r # rows)" and "r' \<in> set (outbox t)"
    and "ob_id r' = ob_id r"
  shows "ob_topic r' = ob_topic r \<and> ob_payload r' = ob_payload r"
proof -
  obtain r0 where r0: "r0 \<in> set (outbox t)"
    and eq: "r\<lparr>ob_published_at := None\<rparr> = r0\<lparr>ob_published_at := None\<rparr>"
    using assms(2) by (auto simp: batch_of_def unstamped_def)
  from arg_cong [OF eq, of ob_id] have "ob_id r0 = ob_id r" by simp
  then have "r0 = r'"
    using outbox_ok_unique [OF assms(1) r0 assms(3)] assms(4) by simp
  with arg_cong [OF eq, of ob_topic] arg_cong [OF eq, of ob_payload] show ?thesis by simp
qed

lemma stamped_mark:
  assumes "outbox_ok t" and "batch_of t (r # rows)" and "stamped_in_log logs t"
    and "ob_payload r \<in> set (logs (ob_topic r))"
  shows "stamped_in_log logs (markPublished now (ob_id r) t)"
  using assms(3,4) batch_row [OF assms(1,2)]
  by (auto simp: stamped_in_log_def markPublished_def split: if_splits)

lemma stamped_appended:
  "stamped_in_log logs t \<Longrightarrow> stamped_in_log (appended logs topic payload) t"
  by (auto simp: stamped_in_log_def appended_def)

lemma scan_rows_world: "scan_rows w batch rows = (res, w') \<Longrightarrow>
   pg_tables w' = pg_tables w \<and> pg_now w' = pg_now w \<and>
   (script_ok (pg_script w) \<longrightarrow> script_ok (pg_script w')) \<and> (\<forall>x. res = Inr x \<longrightarrow> x = batch @ rows)"
proof (induction rows arbitrary: w batch)
  case Nil
  then show ?case
    by (auto simp: Let_def split_beta script_ok_tl split: option.splits)
next
  case (Cons row rows)
  then show ?case
    by (fastforce simp: Let_def split_beta script_ok_tl split: option.splits)
qed

lemma unpublished_world: "unpublished w = (res, w') \<Longrightarrow>
   pg_tables w' = pg_tables w \<and> pg_now w' = pg_now w \<and>
   (script_ok (pg_script w) \<longrightarrow> script_ok (pg_script w')) \<and>
   (\<forall>x. res = Inr x \<longrightarrow> x = selectUnpublished (pg_tables w))"
  by (auto simp: unpublished_def Let_def split_beta script_ok_tl split: option.splits
      dest!: scan_rows_world)

context producer
begin

lemma flush_rows_safe:
  assumes "flush_rows produce w b rows = (err, w', b')"
    and "outbox_ok (pg_tables w)" and "batch_of (pg_tables w) rows"
    and "stamped_in_log (logs b) (pg_tables w)"
  shows "stamps_only (pg_tables w) (pg_tables w') \<and> stamped_in_log (logs b') (pg_tables w') \<and>
    (script_ok (pg_script w) \<longrightarrow> script_ok (pg_script w')) \<and> pg_now w' = pg_now w"
  using assms
proof (induction rows arbitrary: w b)
  case Nil
  then show ?case by simp
next
  case (Cons row rows)
  have rest: "batch_of (pg_tables w) rows"
    using Cons.prems(3) by (simp add: batch_of_def)
  obtain e b1 where p: "produce b (ob_topic row) (ob_payload row) = (e, b1)"
    by (cases "produce b (ob_topic row) (ob_payload row)")
  have log1: "stamped_in_log (logs b1) (pg_tables w)"
    using produce_grows [OF p] Cons.prems(4) by (auto intro: stamped_appended)
  show ?case
  proof (cases e)
    case (Some err1)
    with Cons.IH [of w b1] Cons.prems(1,2) p rest log1 show ?thesis by simp
  next
    case None
    let ?r = "next_outcome (pg_script w)" and ?w1 = "snd (pg_call w)"
    define w2 where "w2 = (if took_effect ?r
      then ?w1\<lparr>pg_tables := markPublished (pg_now w) (ob_id row) (pg_tables w)\<rparr> else ?w1)"
    have "ob_payload row \<in> set (logs b1 (ob_topic row))"
      using produce_acked [of b _ _ b1] p None by simp
    then have w2: "stamps_only (pg_tables w) (pg_tables w2)" "stamped_in_log (logs b1) (pg_tables w2)"
      "script_ok (pg_script w) \<longrightarrow> script_ok (pg_script w2)" "pg_now w2 = pg_now w"
      using stamped_mark [OF Cons.prems(2,3) log1] log1
      by (auto simp: w2_def stamps_only_mark script_ok_tl)
    show ?thesis
    proof (cases "?r = Done")
      case True
      have "flush_rows produce w2 b1 rows = (err, w', b')"
        using Cons.prems(1) p None True by (simp add: Let_def split_beta w2_def)
      from Cons.IH [OF this stamps_only_ok [OF w2(1) Cons.prems(2)] batch_of_stamps [OF w2(1) rest] w2(2)]
      show ?thesis using w2 by (auto intro: stamps_only_trans)
    next
      case False
      then have "w' = w2 \<and> b' = b1"
        using Cons.prems(1) p None
        by (cases ?r) (auto simp: Let_def split_beta w2_def)
      with w2 show ?thesis by simp
    qed
  qed
qed

lemma Flush_safe:
  assumes "Flush produce w b = (err, w', b')"
    and "outbox_ok (pg_tables w)" and "stamped_in_log (logs b) (pg_tables w)"
  shows "stamps_only (pg_tables w) (pg_tables w') \<and> stamped_in_log (logs b') (pg_tables w') \<and>
    (script_ok (pg_script w) \<longrightarrow> script_ok (pg_script w')) \<and> pg_now w' = pg_now w"
proof -
  obtain res w1 where u: "unpublished w = (res, w1)" by (cases "unpublished w")
  note w1 = unpublished_world [OF u]
  show ?thesis
  proof (cases res)
    case (Inl e)
    with assms u w1 show ?thesis by (simp add: Flush_def)
  next
    case (Inr batch)
    then have "flush_rows produce w1 b (selectUnpublished (pg_tables w)) = (err, w', b')"
      using assms(1) u w1 by (simp add: Flush_def)
    from flush_rows_safe [OF this] assms(2,3) w1 batch_of_select [of "pg_tables w"]
    show ?thesis by simp
  qed
qed

text \<open>Only payloads of the batch reach the log.\<close>

lemma flush_rows_log:
  "flush_rows produce w b rows = (err, w', b') \<Longrightarrow>
     \<exists>xs. logs b' topic = logs b topic @ xs \<and>
       set xs \<subseteq> ob_payload ` {r \<in> set rows. ob_topic r = topic}"
proof (induction rows arbitrary: w b)
  case Nil
  then show ?case by simp
next
  case (Cons row rows)
  obtain e b1 where p: "produce b (ob_topic row) (ob_payload row) = (e, b1)"
    by (cases "produce b (ob_topic row) (ob_payload row)")
  have "logs b1 topic = logs b topic \<or>
      logs b1 topic = logs b topic @ [ob_payload row] \<and> ob_topic row = topic"
    using produce_grows [OF p] by (cases "topic = ob_topic row") auto
  then obtain ys where ys: "logs b1 topic = logs b topic @ ys"
      "set ys \<subseteq> ob_payload ` {r \<in> set (row # rows). ob_topic r = topic}"
  proof
    assume "logs b1 topic = logs b topic"
    then show thesis by (intro that [of "[]"]) simp_all
  next
    assume "logs b1 topic = logs b topic @ [ob_payload row] \<and> ob_topic row = topic"
    then show thesis by (intro that [of "[ob_payload row]"]) simp_all
  qed
  have "b' = b1 \<or> (\<exists>w1. flush_rows produce w1 b1 rows = (err, w', b'))"
    using Cons.prems p by (auto simp: Let_def split_beta split: option.splits)
  then obtain xs where "logs b' topic = logs b1 topic @ xs"
      "set xs \<subseteq> ob_payload ` {r \<in> set rows. ob_topic r = topic}"
  proof
    assume "b' = b1"
    then show thesis by (intro that [of "[]"]) simp_all
  next
    assume "\<exists>w1. flush_rows produce w1 b1 rows = (err, w', b')"
    then show thesis using Cons.IH that by blast
  qed
  with ys show ?case
    by (intro exI [of _ "ys @ xs"]) auto
qed

lemma Flush_log:
  assumes "Flush produce w b = (err, w', b')"
  shows "\<exists>xs. logs b' topic = logs b topic @ xs \<and>
    set xs \<subseteq> ob_payload ` {r \<in> set (pending (pg_tables w)). ob_topic r = topic}"
proof -
  obtain res w1 where u: "unpublished w = (res, w1)" by (cases "unpublished w")
  show ?thesis
  proof (cases res)
    case (Inl e)
    with assms u show ?thesis by (intro exI [of _ "[]"]) (simp add: Flush_def)
  next
    case (Inr batch)
    then have "flush_rows produce w1 b batch = (err, w', b')"
      and "batch = selectUnpublished (pg_tables w)"
      using assms u unpublished_world [OF u] by (simp_all add: Flush_def)
    from flush_rows_log [OF this(1), of topic] this(2) show ?thesis
      by (fastforce simp: pending_def dest: selectUnpublished_sub)
  qed
qed

end

section \<open>Progress\<close>

definition mark_rows :: "instant \<Rightarrow> outbox_row list \<Rightarrow> tables \<Rightarrow> tables" where
  "mark_rows now rows t = fold (\<lambda>r. markPublished now (ob_id r)) rows t"

definition log_rows ::
  "outbox_row list \<Rightarrow> (string \<Rightarrow> byte list list) \<Rightarrow> (string \<Rightarrow> byte list list)" where
  "log_rows rows = fold (\<lambda>r logs. appended logs (ob_topic r) (ob_payload r)) rows"

lemma mark_rows_simps [simp]:
  "mark_rows now [] t = t"
  "mark_rows now (r # rows) t = mark_rows now rows (markPublished now (ob_id r) t)"
  by (simp_all add: mark_rows_def)

lemma log_rows_simps [simp]:
  "log_rows [] logs = logs"
  "log_rows (r # rows) logs = log_rows rows (appended logs (ob_topic r) (ob_payload r))"
  by (simp_all add: log_rows_def)

lemma log_rows_topic:
  "log_rows rows logs topic = logs topic @ map ob_payload (filter (\<lambda>r. ob_topic r = topic) rows)"
  by (induction rows arbitrary: logs) (auto simp: appended_def)

lemma stamps_only_mark_rows: "stamps_only t (mark_rows now rows t)"
  by (induction rows arbitrary: t) (auto intro: stamps_only_trans stamps_only_mark)

lemma pending_mark: "pending (markPublished now i t) = filter (\<lambda>r. ob_id r \<noteq> i) (pending t)"
proof -
  have "filter (\<lambda>r. ob_published_at r = None)
      (map (\<lambda>r. if ob_id r = i then r\<lparr>ob_published_at := Some now\<rparr> else r) xs) =
    filter (\<lambda>r. ob_id r \<noteq> i) (filter (\<lambda>r. ob_published_at r = None) xs)" for xs
    by (induction xs) auto
  then show ?thesis
    by (simp add: pending_def markPublished_def)
qed

lemma pending_mark_rows:
  "pending (mark_rows now rows t) = filter (\<lambda>r. ob_id r \<notin> ob_id ` set rows) (pending t)"
  by (induction rows arbitrary: t) (auto simp: pending_mark intro: filter_cong)

lemma selectUnpublished_pending: "selectUnpublished t = take 100 (sort_key ob_id (pending t))"
  by (simp add: selectUnpublished_def pending_def)

lemma distinct_pending: "outbox_ok t \<Longrightarrow> distinct (map ob_id (pending t))"
  by (simp add: outbox_ok_def pending_def distinct_map_filter)

text \<open>Publishing one batch leaves the rest, the oldest hundred gone.\<close>

lemma length_pending_select:
  assumes "outbox_ok t"
  shows "length (pending (mark_rows now (selectUnpublished t) t)) = length (pending t) - 100"
proof -
  let ?s = "sort_key ob_id (pending t)"
  have d: "distinct (map ob_id ?s)"
    using distinct_pending [OF assms] by (simp add: distinct_map)
  have eq: "filter (\<lambda>r. ob_id r \<notin> ob_id ` set (take 100 ?s)) ?s = drop 100 ?s"
  proof -
    have "filter (\<lambda>r. ob_id r \<notin> ob_id ` set (take 100 ?s)) (take 100 ?s @ drop 100 ?s) = drop 100 ?s"
    proof (unfold filter_append)
      have "filter (\<lambda>r. ob_id r \<notin> ob_id ` set (take 100 ?s)) (take 100 ?s) = []"
        by (simp add: filter_empty_conv)
      moreover have "filter (\<lambda>r. ob_id r \<notin> ob_id ` set (take 100 ?s)) (drop 100 ?s) = drop 100 ?s"
      proof (rule filter_True, intro ballI)
        fix r assume "r \<in> set (drop 100 ?s)"
        moreover have "set (map ob_id (take 100 ?s)) \<inter> set (map ob_id (drop 100 ?s)) = {}"
          using d by (metis append_take_drop_id distinct_append map_append)
        ultimately show "ob_id r \<notin> ob_id ` set (take 100 ?s)" by auto
      qed
      ultimately show "filter (\<lambda>r. ob_id r \<notin> ob_id ` set (take 100 ?s)) (take 100 ?s)
          @ filter (\<lambda>r. ob_id r \<notin> ob_id ` set (take 100 ?s)) (drop 100 ?s) = drop 100 ?s"
        by simp
    qed
    then show ?thesis by simp
  qed
  have "mset (filter P (pending t)) = mset (filter P ?s)" for P
    by simp
  then have "length (filter P (pending t)) = length (filter P ?s)" for P
    by (metis size_mset)
  then show ?thesis
    by (simp add: pending_mark_rows selectUnpublished_pending eq)
qed

context live_producer
begin

lemma flush_rows_live:
  assumes "up b" and "pg_healthy w"
  shows "\<exists>b'. flush_rows produce w b rows =
      (None, w\<lparr>pg_tables := mark_rows (pg_now w) rows (pg_tables w)\<rparr>, b') \<and> up b' \<and>
    logs b' = log_rows rows (logs b)"
  using assms
proof (induction rows arbitrary: w b)
  case Nil
  then show ?case by simp
next
  case (Cons row rows)
  obtain b1 where p: "produce b (ob_topic row) (ob_payload row) = (None, b1)" and "up b1"
    using produce_up [OF Cons.prems(1)] by blast
  moreover have "logs b1 = appended (logs b) (ob_topic row) (ob_payload row)"
    by (rule produce_acked [OF p])
  moreover have "pg_call w = (Done, w)"
    using Cons.prems(2) by (cases w) (simp add: pg_call_def pg_healthy_def)
  ultimately show ?case
    using Cons.IH [of b1 "w\<lparr>pg_tables := markPublished (pg_now w) (ob_id row) (pg_tables w)\<rparr>"] Cons.prems(2)
    by (auto simp: pg_healthy_def)
qed

lemma scan_rows_healthy: "pg_healthy w \<Longrightarrow> scan_rows w batch rows = (Inr (batch @ rows), w)"
  by (induction rows arbitrary: batch) (cases w; simp add: pg_call_def pg_healthy_def)+

lemma Flush_live:
  assumes "up b" and "pg_healthy w"
  shows "\<exists>b'. Flush produce w b =
      (None, w\<lparr>pg_tables := mark_rows (pg_now w) (selectUnpublished (pg_tables w)) (pg_tables w)\<rparr>, b') \<and>
    up b' \<and> logs b' = log_rows (selectUnpublished (pg_tables w)) (logs b)"
proof -
  have "pg_call w = (Done, w)"
    using assms(2) by (cases w) (simp add: pg_call_def pg_healthy_def)
  then have "unpublished w = (Inr (selectUnpublished (pg_tables w)), w)"
    using scan_rows_healthy [OF assms(2)] by (simp add: unpublished_def)
  with flush_rows_live [OF assms] show ?thesis
    by (simp add: Flush_def)
qed

lemma Poller_Run_drains:
  assumes "up b" and "pg_healthy w" and "outbox_ok (pg_tables w)"
    and "length (pending (pg_tables w)) \<le> 100 * n"
    and "Poller_Run produce w b (replicate n Tick) = (w', b')"
  shows "pending (pg_tables w') = [] \<and> stamps_only (pg_tables w) (pg_tables w') \<and>
    pg_healthy w' \<and> up b'"
  using assms
proof (induction n arbitrary: w b)
  case 0
  then show ?case by simp
next
  case (Suc n)
  let ?t = "mark_rows (pg_now w) (selectUnpublished (pg_tables w)) (pg_tables w)"
  obtain b1 where f: "Flush produce w b = (None, w\<lparr>pg_tables := ?t\<rparr>, b1)" and "up b1"
    using Flush_live [OF Suc.prems(1,2)] by blast
  have "stamps_only (pg_tables w) ?t"
    by (rule stamps_only_mark_rows)
  moreover from stamps_only_ok [OF this Suc.prems(3)] have "outbox_ok ?t" .
  moreover have "length (pending ?t) \<le> 100 * n"
    using Suc.prems(4) length_pending_select [OF Suc.prems(3)] by simp
  ultimately show ?case
    using Suc.IH [of b1 "w\<lparr>pg_tables := ?t\<rparr>"] Suc.prems(2,5) f \<open>up b1\<close>
    by (auto simp: pg_healthy_def intro: stamps_only_trans)
qed

end

end
