(* ===== verification/Estimator_Consumer.thy ===== *)
theory Estimator_Consumer
  imports Estimator Broker
begin

text \<open>
  The estimator's event adapter (\<open>services/estimator/adapters/kafka/consumer.go\<close>): it prices
  each \<open>voyage.created\<close> record and publishes \<open>estimate.ready\<close>. The client's produce call, the
  serde's two functions and the injected clock are arguments, as they are fields of the
  source's \<open>Consumer\<close>.
\<close>

record 'b consumer =
  co_produce :: "'b produce"
  co_decode :: "byte list \<Rightarrow> goerr + voyage_created"
  co_encode :: "estimate_ready \<Rightarrow> goerr + byte list"
  co_rate :: money
  co_now :: "'b \<Rightarrow> instant"

text \<open>A failed dead-letter produce is only logged.\<close>

definition Consumer_toDLQ :: "'b consumer \<Rightarrow> 'b \<Rightarrow> krecord \<Rightarrow> 'b" where
  "Consumer_toDLQ c b r = (case co_produce c b TopicVoyageCreatedDLQ (kr_Value r) of (_, b) \<Rightarrow> b)"

definition Consumer_handle :: "'b consumer \<Rightarrow> 'b \<Rightarrow> krecord \<Rightarrow> bool \<times> 'b" where
  "Consumer_handle c b r =
     (case co_decode c (kr_Value r) of
        Inl err \<Rightarrow> (True, Consumer_toDLQ c b r)
      | Inr vc \<Rightarrow>
          (case EstimateCost (vc_DistanceNm vc) (FromUSD (vc_FeesMinor vc)) (co_rate c) of
             Inl err \<Rightarrow> (True, b)
           | Inr cost \<Rightarrow>
               (case co_encode c (BuildEstimateReady vc cost (co_now c b)) of
                  Inl err \<Rightarrow> (False, b)
                | Inr payload \<Rightarrow>
                    (case co_produce c b TopicEstimateReady payload of
                       (Some err, b) \<Rightarrow> (False, b)
                     | (None, b) \<Rightarrow> (True, b)))))"

definition Consumer_Run ::
  "'b consumer \<Rightarrow> ('b \<Rightarrow> krecord list \<Rightarrow> goerr option \<times> 'b) \<Rightarrow> 'b \<Rightarrow> fetches list \<Rightarrow> 'b" where
  "Consumer_Run c = consumer_Run (Consumer_handle c)"

section \<open>What one record does\<close>

text \<open>The price of a \<open>voyage.created\<close> event at a rate.\<close>

definition price :: "money \<Rightarrow> voyage_created \<Rightarrow> goerr + money" where
  "price rate vc = EstimateCost (vc_DistanceNm vc) (FromUSD (vc_FeesMinor vc)) rate"

text \<open>The estimate events a log entry may hold for an input value.\<close>

definition priced_entry :: "'b consumer \<Rightarrow> byte list \<Rightarrow> byte list \<Rightarrow> bool" where
  "priced_entry c value payload \<longleftrightarrow>
     (\<exists>vc cost at. co_decode c value = Inr vc \<and> price (co_rate c) vc = Inr cost \<and>
        co_encode c (BuildEstimateReady vc cost at) = Inr payload)"

text \<open>A record the handler lets be committed is settled: its estimate is in the log, or it has
  no price, or it does not decode.\<close>

definition settled :: "'a consumer \<Rightarrow> krecord \<Rightarrow> (string \<Rightarrow> byte list list) \<Rightarrow> bool" where
  "settled c r logs \<longleftrightarrow>
     (\<exists>err. co_decode c (kr_Value r) = Inl err) \<or>
     (\<exists>vc err. co_decode c (kr_Value r) = Inr vc \<and> price (co_rate c) vc = Inl err) \<or>
     (\<exists>payload \<in> set (logs TopicEstimateReady). priced_entry c (kr_Value r) payload)"

lemma Consumer_handle_cases:
  assumes "Consumer_handle c b r = (ok, b')"
  obtains (poison) err err' where "co_decode c (kr_Value r) = Inl err" and "ok"
      and "co_produce c b TopicVoyageCreatedDLQ (kr_Value r) = (err', b')"
    | (unpriced) vc err where "co_decode c (kr_Value r) = Inr vc"
      and "price (co_rate c) vc = Inl err" and "ok" and "b' = b"
    | (unencoded) vc cost err where "co_decode c (kr_Value r) = Inr vc"
      and "price (co_rate c) vc = Inr cost"
      and "co_encode c (BuildEstimateReady vc cost (co_now c b)) = Inl err" and "\<not> ok" and "b' = b"
    | (produced) vc cost payload err where "co_decode c (kr_Value r) = Inr vc"
      and "price (co_rate c) vc = Inr cost"
      and "co_encode c (BuildEstimateReady vc cost (co_now c b)) = Inr payload"
      and "co_produce c b TopicEstimateReady payload = (err, b')" and "ok \<longleftrightarrow> err = None"
proof -
  note defs = Consumer_handle_def Consumer_toDLQ_def price_def
  show thesis
  proof (cases "co_decode c (kr_Value r)")
    case (Inl err)
    obtain err' b2 where p: "co_produce c b TopicVoyageCreatedDLQ (kr_Value r) = (err', b2)"
      by (cases "co_produce c b TopicVoyageCreatedDLQ (kr_Value r)") blast
    have "ok \<and> b2 = b'"
      using assms Inl p by (simp add: defs)
    with p show thesis by (intro poison [OF Inl]) simp_all
  next
    case vc: (Inr vc)
    show thesis
    proof (cases "price (co_rate c) vc")
      case (Inl err)
      have "ok \<and> b' = b" using assms vc Inl by (simp add: defs)
      then show thesis by (intro unpriced [OF vc Inl]) simp_all
    next
      case cost: (Inr cost)
      show thesis
      proof (cases "co_encode c (BuildEstimateReady vc cost (co_now c b))")
        case (Inl err)
        have "\<not> ok \<and> b' = b" using assms vc cost Inl by (simp add: defs)
        then show thesis by (intro unencoded [OF vc cost Inl]) simp_all
      next
        case (Inr payload)
        obtain err b2 where p: "co_produce c b TopicEstimateReady payload = (err, b2)"
          by (cases "co_produce c b TopicEstimateReady payload") blast
        have "b2 = b' \<and> (ok \<longleftrightarrow> err = None)"
          using assms vc cost Inr p by (auto simp: defs split: option.splits)
        with p show thesis by (intro produced [OF vc cost Inr]) simp_all
      qed
    qed
  qed
qed

context producer
begin

text \<open>What a handler call may append, on every branch.\<close>

lemma consumer_handle_logs:
  assumes "co_produce c = produce" and "Consumer_handle c b r = (ok, b')"
  shows "logs b' = logs b \<or>
    logs b' = appended (logs b) TopicVoyageCreatedDLQ (kr_Value r) \<and> (\<exists>err. co_decode c (kr_Value r) = Inl err) \<or>
    (\<exists>payload. logs b' = appended (logs b) TopicEstimateReady payload \<and>
       priced_entry c (kr_Value r) payload)"
  using assms(2)
proof (cases rule: Consumer_handle_cases)
  case (poison err err')
  then have "produce b TopicVoyageCreatedDLQ (kr_Value r) = (err', b')"
    using assms(1) by simp
  from produce_grows [OF this] poison(1) show ?thesis
    by (elim disjE) simp_all
next
  case (produced vc cost payload err)
  moreover have "priced_entry c (kr_Value r) payload"
    using produced(1-3) by (auto simp: priced_entry_def)
  moreover have "produce b TopicEstimateReady payload = (err, b')"
    using produced(4) assms(1) by simp
  ultimately show ?thesis
    by (metis produce_grows)
qed simp_all

lemma consumer_handle_grows:
  assumes "co_produce c = produce" and "Consumer_handle c b r = (ok, b')"
  shows "set (logs b topic) \<subseteq> set (logs b' topic)"
  using consumer_handle_logs [OF assms] by (auto simp: appended_def)

lemma consumer_handle_settles:
  assumes "co_produce c = produce" and "Consumer_handle c b r = (True, b')"
  shows "settled c r (logs b')"
  using assms(2)
proof (cases rule: Consumer_handle_cases)
  case (produced vc cost payload err)
  then have "priced_entry c (kr_Value r) payload"
    by (auto simp: priced_entry_def)
  moreover have "payload \<in> set (logs b' TopicEstimateReady)"
    using produce_acked [of b TopicEstimateReady payload b'] produced assms(1) by simp
  ultimately show ?thesis
    unfolding settled_def by blast
qed (auto simp: settled_def)

lemma settled_mono:
  "co_produce c = produce \<Longrightarrow> settled c r (logs b) \<Longrightarrow> Consumer_handle c b r' = (ok, b') \<Longrightarrow> settled c r (logs b')"
  unfolding settled_def using consumer_handle_grows by blast

lemma committable_settled:
  assumes "co_produce c = produce"
    and "each_record (Consumer_handle c) b rs = (committable, b')" and "r \<in> set committable"
  shows "settled c r (logs b')"
  using each_record_committable [where handle = "Consumer_handle c" and w = b and rs = rs
      and r = r and Q = "\<lambda>r b. settled c r (logs b)"]
    consumer_handle_settles [OF assms(1)] settled_mono [OF assms(1)] assms(2,3)
  by (metis fst_conv snd_conv)

end

text \<open>With the broker up every record of the batch is settled at once.\<close>

context live_producer
begin

lemma consumer_handle_live:
  assumes "co_produce c = produce" and "up b"
    and "\<And>e. \<exists>payload. co_encode c e = Inr payload"
  shows "\<exists>b'. Consumer_handle c b r = (True, b') \<and> up b'"
proof -
  obtain dlq where "produce b TopicVoyageCreatedDLQ (kr_Value r) = (None, dlq)" and "up dlq"
    using produce_up [OF assms(2)] by blast
  moreover have "\<exists>b'. produce b TopicEstimateReady p = (None, b') \<and> up b'" for p
    using produce_up [OF assms(2)] .
  ultimately show ?thesis
    using assms
    by (cases "co_decode c (kr_Value r)") 
      (auto simp: Consumer_handle_def Consumer_toDLQ_def split: sum.splits prod.splits option.splits;
        metis option.simps(3) prod.inject sum.simps(4))+
qed

end

end
