(* ===== verification/Estimate_Consumer.thy ===== *)
theory Estimate_Consumer
  imports Repository Broker
begin

text \<open>
  The voyage service's \<open>estimate.ready\<close> consumer
  (\<open>services/voyage/adapters/kafka/estimate_consumer.go\<close>) with the counters of \<open>metrics.go\<close>,
  over any provider of its port \<open>EstimateUpserter\<close>. The locale \<open>estimate_upserter\<close> is the
  contract of that port (a versioned, idempotent upsert); the Postgres repository provides it.
\<close>

section \<open>The upserter port\<close>

type_synonym 'r upserter = "'r \<Rightarrow> string \<Rightarrow> int64 \<Rightarrow> int64 \<Rightarrow> (goerr + bool \<times> instant) \<times> 'r"

text \<open>Of a voyage the port is about its version and its authoritative estimate.\<close>

type_synonym estimates = "string \<rightharpoonup> int64 \<times> int64 option"

definition apply_estimate :: "string \<Rightarrow> int64 \<Rightarrow> int64 \<Rightarrow> estimates \<Rightarrow> estimates" where
  "apply_estimate voyageID version amount m =
     (case m voyageID of
        None \<Rightarrow> m
      | Some (current, _) \<Rightarrow>
          if current = version then m(voyageID \<mapsto> (current, Some amount)) else m)"

locale estimate_upserter =
  fixes upsert :: "'r upserter" and stored :: "'r \<Rightarrow> estimates" and ok :: "'r \<Rightarrow> bool"
  assumes upsert_ok: "ok r \<Longrightarrow> upsert r vid ver amt = (res, r') \<Longrightarrow> ok r'"
    and upsert_applied: "ok r \<Longrightarrow> upsert r vid ver amt = (Inr (applied, at), r') \<Longrightarrow>
      stored r' = apply_estimate vid ver amt (stored r) \<and> (applied \<longleftrightarrow> stored r' \<noteq> stored r)"
    and upsert_failed: "ok r \<Longrightarrow> upsert r vid ver amt = (Inl err, r') \<Longrightarrow>
      stored r' = stored r \<or> stored r' = apply_estimate vid ver amt (stored r)"
begin

lemma upsert_stored:
  "ok r \<Longrightarrow> upsert r vid ver amt = (res, r') \<Longrightarrow>
     stored r' = stored r \<or> stored r' = apply_estimate vid ver amt (stored r)"
  by (cases res) (auto dest: upsert_applied upsert_failed)

end

lemma apply_estimate_twice [simp]:
  "apply_estimate vid ver amt (apply_estimate vid ver amt m) = apply_estimate vid ver amt m"
  by (auto simp: apply_estimate_def split: option.splits)

text \<open>Estimates of different voyages, and equal estimates, commute.\<close>

lemma apply_estimate_commute:
  assumes "(vid, ver) = (vid', ver') \<Longrightarrow> amt = amt'"
  shows "apply_estimate vid ver amt (apply_estimate vid' ver' amt' m) =
    apply_estimate vid' ver' amt' (apply_estimate vid ver amt m)"
  using assms by (auto simp: apply_estimate_def fun_eq_iff split: option.splits)

section \<open>The handler\<close>

record metrics =
  estimateApplied :: nat
  estimateErrors :: nat
  estimateLatency :: "int list"
  dlqDepth :: nat

text \<open>\<open>ec_since\<close> stands for \<open>time.Since\<close>: the elapsed nanoseconds the clock gives.\<close>

record ('b, 'r) estimate_consumer =
  ec_produce :: "'b produce"
  ec_decode :: "byte list \<Rightarrow> goerr + estimate_ready"
  ec_upsert :: "'r upserter"
  ec_since :: "instant \<Rightarrow> int"

record ('b, 'r) ec_world =
  ew_client :: 'b
  ew_repo :: 'r
  ew_metrics :: metrics

definition EstimateConsumer_toDLQ ::
  "('b, 'r) estimate_consumer \<Rightarrow> ('b, 'r) ec_world \<Rightarrow> krecord \<Rightarrow> ('b, 'r) ec_world" where
  "EstimateConsumer_toDLQ c w r =
     (case ec_produce c (ew_client w) TopicEstimateReadyDLQ (kr_Value r) of
        (_, b) \<Rightarrow> w\<lparr>ew_client := b\<rparr>)"

definition inc_errors :: "metrics \<Rightarrow> metrics" where
  "inc_errors m = m\<lparr>estimateErrors := Suc (estimateErrors m)\<rparr>"

definition EstimateConsumer_handle ::
  "('b, 'r) estimate_consumer \<Rightarrow> ('b, 'r) ec_world \<Rightarrow> krecord \<Rightarrow> bool \<times> ('b, 'r) ec_world" where
  "EstimateConsumer_handle c w r =
     (case ec_decode c (kr_Value r) of
        Inl err \<Rightarrow>
          (let w = EstimateConsumer_toDLQ c w r; m = inc_errors (ew_metrics w) in
           (True, w\<lparr>ew_metrics := m\<lparr>dlqDepth := Suc (dlqDepth m)\<rparr>\<rparr>))
      | Inr er \<Rightarrow>
          (case ec_upsert c (ew_repo w) (er_VoyageID er) (er_VoyageVersion er) (er_AmountMinor er) of
             (Inl err, repo) \<Rightarrow>
               (False, w\<lparr>ew_repo := repo, ew_metrics := inc_errors (ew_metrics w)\<rparr>)
           | (Inr (applied, createdAt), repo) \<Rightarrow>
               (let m = ew_metrics w in
                (True, w\<lparr>ew_repo := repo,
                  ew_metrics := (if applied
                     then m\<lparr>estimateApplied := Suc (estimateApplied m),
                            estimateLatency := estimateLatency m @ [ec_since c createdAt]\<rparr>
                     else m)\<rparr>))))"

definition EstimateConsumer_Run ::
  "('b, 'r) estimate_consumer \<Rightarrow>
   (('b, 'r) ec_world \<Rightarrow> krecord list \<Rightarrow> goerr option \<times> ('b, 'r) ec_world) \<Rightarrow>
   ('b, 'r) ec_world \<Rightarrow> fetches list \<Rightarrow> ('b, 'r) ec_world" where
  "EstimateConsumer_Run c = consumer_Run (EstimateConsumer_handle c)"

lemma EstimateConsumer_handle_cases:
  assumes "EstimateConsumer_handle c w r = (ok, w')"
  obtains (poison) err err' b where "ec_decode c (kr_Value r) = Inl err" and "ok"
      and "ec_produce c (ew_client w) TopicEstimateReadyDLQ (kr_Value r) = (err', b)"
      and "ew_client w' = b" and "ew_repo w' = ew_repo w"
      and "ew_metrics w' = (ew_metrics w)\<lparr>estimateErrors := Suc (estimateErrors (ew_metrics w)),
             dlqDepth := Suc (dlqDepth (ew_metrics w))\<rparr>"
    | (failed) er err repo where "ec_decode c (kr_Value r) = Inr er" and "\<not> ok"
      and "ec_upsert c (ew_repo w) (er_VoyageID er) (er_VoyageVersion er) (er_AmountMinor er) =
             (Inl err, repo)"
      and "ew_client w' = ew_client w" and "ew_repo w' = repo"
      and "ew_metrics w' = inc_errors (ew_metrics w)"
    | (upserted) er applied at repo where "ec_decode c (kr_Value r) = Inr er" and "ok"
      and "ec_upsert c (ew_repo w) (er_VoyageID er) (er_VoyageVersion er) (er_AmountMinor er) =
             (Inr (applied, at), repo)"
      and "ew_client w' = ew_client w" and "ew_repo w' = repo"
      and "estimateApplied (ew_metrics w') = estimateApplied (ew_metrics w) + of_bool applied"
      and "estimateErrors (ew_metrics w') = estimateErrors (ew_metrics w)"
      and "dlqDepth (ew_metrics w') = dlqDepth (ew_metrics w)"
proof (cases "ec_decode c (kr_Value r)")
  case (Inl err)
  obtain err' b where p: "ec_produce c (ew_client w) TopicEstimateReadyDLQ (kr_Value r) = (err', b)"
    by (cases "ec_produce c (ew_client w) TopicEstimateReadyDLQ (kr_Value r)") blast
  show thesis
    by (rule poison [OF Inl _ p])
      (use assms Inl p in \<open>auto simp: EstimateConsumer_handle_def EstimateConsumer_toDLQ_def
        inc_errors_def Let_def\<close>)
next
  case (Inr er)
  obtain res repo where u: "ec_upsert c (ew_repo w) (er_VoyageID er) (er_VoyageVersion er)
      (er_AmountMinor er) = (res, repo)"
    by (cases "ec_upsert c (ew_repo w) (er_VoyageID er) (er_VoyageVersion er) (er_AmountMinor er)")
      blast
  show thesis
  proof (cases res)
    case (Inl err)
    show thesis
      by (rule failed [OF Inr _ u [unfolded Inl]])
        (use assms Inr u Inl in \<open>auto simp: EstimateConsumer_handle_def\<close>)
  next
    case res: (Inr x)
    obtain applied at where x: "x = (applied, at)" by (cases x) blast
    show thesis
      by (rule upserted [OF Inr _ u [unfolded res x]])
        (use assms Inr u res x in \<open>auto simp: EstimateConsumer_handle_def Let_def\<close>)
  qed
qed

section \<open>What one record does to the estimates\<close>

definition event_on :: "estimate_ready \<Rightarrow> estimates \<Rightarrow> estimates" where
  "event_on er = apply_estimate (er_VoyageID er) (er_VoyageVersion er) (er_AmountMinor er)"

definition apply_record :: "('b, 'r) estimate_consumer \<Rightarrow> krecord \<Rightarrow> estimates \<Rightarrow> estimates" where
  "apply_record c r m =
     (case ec_decode c (kr_Value r) of Inl _ \<Rightarrow> m | Inr er \<Rightarrow> event_on er m)"

context estimate_upserter
begin

lemma estimate_handle_ok:
  assumes "ec_upsert c = upsert" and "ok (ew_repo w)"
    and "EstimateConsumer_handle c w r = (done', w')"
  shows "ok (ew_repo w')"
  using assms(3)
proof (cases rule: EstimateConsumer_handle_cases)
  case poison
  with assms(2) show ?thesis by simp
next
  case (failed er err repo)
  with upsert_ok [OF assms(2)] assms(1) show ?thesis by metis
next
  case (upserted er applied at repo)
  with upsert_ok [OF assms(2)] assms(1) show ?thesis by metis
qed

text \<open>A committable record has had exactly its effect on the estimates; one that failed has had
  that effect or none.\<close>

lemma estimate_handle_stored:
  assumes "ec_upsert c = upsert" and "ok (ew_repo w)"
    and "EstimateConsumer_handle c w r = (done', w')"
  shows "(done' \<longrightarrow> stored (ew_repo w') = apply_record c r (stored (ew_repo w))) \<and>
    (stored (ew_repo w') = stored (ew_repo w) \<or>
     stored (ew_repo w') = apply_record c r (stored (ew_repo w)))"
  using assms(3)
proof (cases rule: EstimateConsumer_handle_cases)
  case poison
  then show ?thesis by (simp add: apply_record_def)
next
  case (failed er err repo)
  have "upsert (ew_repo w) (er_VoyageID er) (er_VoyageVersion er) (er_AmountMinor er) =
      (Inl err, repo)"
    using failed(3) assms(1) by simp
  from upsert_failed [OF assms(2) this] failed show ?thesis
    by (simp add: apply_record_def event_on_def)
next
  case (upserted er applied at repo)
  have "upsert (ew_repo w) (er_VoyageID er) (er_VoyageVersion er) (er_AmountMinor er) =
      (Inr (applied, at), repo)"
    using upserted(3) assms(1) by simp
  from upsert_applied [OF assms(2) this] upserted show ?thesis
    by (simp add: apply_record_def event_on_def)
qed

text \<open>A batch with no failure is the fold of its records.\<close>

lemma estimate_batch_stored:
  assumes "ec_upsert c = upsert" and "ok (ew_repo w)"
    and "each_record (EstimateConsumer_handle c) w rs = (rs, w')"
  shows "stored (ew_repo w') = fold (apply_record c) rs (stored (ew_repo w)) \<and> ok (ew_repo w')"
  using assms(2,3)
proof (induction rs arbitrary: w)
  case Nil
  then show ?case by simp
next
  case (Cons r rs)
  obtain done' w1 where h: "EstimateConsumer_handle c w r = (done', w1)"
    by (cases "EstimateConsumer_handle c w r") blast
  obtain com w2 where e: "each_record (EstimateConsumer_handle c) w1 rs = (com, w2)"
    by (cases "each_record (EstimateConsumer_handle c) w1 rs") blast
  have "length com \<le> length rs"
    using e by (metis each_record_length fst_conv)
  then have *: "done' \<and> com = rs \<and> w2 = w'"
    using Cons.prems(2) h e by (auto split: if_splits)
  from estimate_handle_ok [OF assms(1) Cons.prems(1) h]
    Cons.IH [OF estimate_handle_ok [OF assms(1) Cons.prems(1) h]] e *
    estimate_handle_stored [OF assms(1) Cons.prems(1) h]
  show ?case by simp
qed

end

section \<open>The Postgres repository provides the port\<close>

definition row_estimate :: "voyage_row \<Rightarrow> int64 \<times> int64 option" where
  "row_estimate row = (row_version row, row_estimate_minor row)"

definition pg_estimates :: "pg \<Rightarrow> estimates" where
  "pg_estimates w = (\<lambda>cid. map_option row_estimate (voyages (pg_tables w) cid))"

lemma upsertEstimate_view:
  assumes "upsertEstimate vid ver amt t = (hit, t')"
  shows "(\<lambda>cid. map_option row_estimate (voyages t' cid)) =
      apply_estimate vid ver amt (\<lambda>cid. map_option row_estimate (voyages t cid)) \<and>
    (hit \<noteq> None \<longleftrightarrow> (\<lambda>cid. map_option row_estimate (voyages t' cid)) \<noteq>
      (\<lambda>cid. map_option row_estimate (voyages t cid)))"
  using assms
  by (auto simp: upsertEstimate_def apply_estimate_def row_estimate_def fun_eq_iff
      split: option.splits if_splits)

lemma pg_UpsertEstimate_tables:
  "pg_UpsertEstimate w vid ver amt = (res, w') \<Longrightarrow>
     pg_tables w' = pg_tables w \<or>
     pg_tables w' = snd (upsertEstimate vid ver amt (pg_tables w))"
  by (auto simp: pg_UpsertEstimate_def Let_def split_beta split: sum.splits if_splits)

interpretation pg_up: estimate_upserter pg_UpsertEstimate pg_estimates "\<lambda>w. script_ok (pg_script w)"
proof (unfold_locales, goal_cases)
  case (1 r vid ver amt res r')
  then show ?case
    by (auto simp: pg_UpsertEstimate_def Let_def split_beta script_ok_tl split: sum.splits if_splits)
next
  case (2 r vid ver amt applied at r')
  obtain hit t where u: "upsertEstimate vid ver amt (pg_tables r) = (hit, t)"
    by (cases "upsertEstimate vid ver amt (pg_tables r)") blast
  have "pg_tables r' = t \<and> applied = (hit \<noteq> None)"
  proof (cases "outcome_error (next_outcome (pg_script r))")
    case None
    then have "next_outcome (pg_script r) = Done"
      by (cases "next_outcome (pg_script r)") simp_all
    with 2 u show ?thesis
      by (auto simp: pg_UpsertEstimate_def Let_def split_beta split: option.splits if_splits)
  next
    case (Some e)
    with next_outcome_infra [OF 2(1) Some] 2(2) u show ?thesis
      by (auto simp: pg_UpsertEstimate_def Let_def split_beta infra_error_def split: if_splits)
  qed
  with upsertEstimate_view [OF u] show ?case
    by (simp add: pg_estimates_def)
next
  case (3 r vid ver amt err r')
  obtain hit t where u: "upsertEstimate vid ver amt (pg_tables r) = (hit, t)"
    by (cases "upsertEstimate vid ver amt (pg_tables r)") blast
  from pg_UpsertEstimate_tables [OF 3(2)] upsertEstimate_view [OF u] u show ?case
    by (auto simp: pg_estimates_def)
qed

text \<open>The estimate is all that an upsert changes.\<close>

lemma upsertEstimate_other:
  assumes "upsertEstimate vid ver amt t = (hit, t')"
  shows "outbox t' = outbox t \<and> next_id t' = next_id t \<and>
    (t' = t \<or> (\<exists>row. voyages t vid = Some row \<and> row_version row = ver \<and>
       voyages t' = (voyages t)(vid \<mapsto> row\<lparr>row_estimate_minor := Some amt\<rparr>)))"
  using assms by (auto simp: upsertEstimate_def split: option.splits if_splits)

end
