(* ===== verification/Pipeline.thy ===== *)
theory Pipeline
  imports Grpc_Server Poller Estimator_Consumer Estimate_Consumer
begin

text \<open>
  The estimate pipeline as one system: the voyage service's gRPC handlers and outbox relay,
  the two topics, the estimator's consumer and the voyage service's consumer, wired as
  \<open>services/voyage/app/app.go\<close> and \<open>services/estimator/app/app.go\<close> wire them. The processes
  run concurrently; a step is one handler call, one flush or one record, in any order. A
  consumer may be handed any record of its topic any number of times (redelivery after a
  crash, a rebalance or a rewind), the database and the broker may fail at any call, and
  anyone may put bytes on a topic that do not decode.
\<close>

section \<open>Wiring\<close>

text \<open>\<open>VoyageCreatedEncoder\<close> over the serde's \<open>Encode\<close>.\<close>

definition VoyageCreatedEncoder :: "(voyage_created \<Rightarrow> goerr + byte list) \<Rightarrow> outbox_encoder" where
  "VoyageCreatedEncoder encode v =
     (case encode (ToVoyageCreated v) of
        Inl err \<Rightarrow> Inl err
      | Inr payload \<Rightarrow> Inr (TopicVoyageCreated, payload))"

text \<open>What both processes are configured with.\<close>

record deployment =
  dp_encode_vc :: "voyage_created \<Rightarrow> goerr + byte list"
  dp_decode_vc :: "byte list \<Rightarrow> goerr + voyage_created"
  dp_encode_er :: "estimate_ready \<Rightarrow> goerr + byte list"
  dp_decode_er :: "byte list \<Rightarrow> goerr + estimate_ready"
  dp_ratePerNmMinor :: int64
  dp_carrier :: "goerr + byte list"
  dp_since :: "instant \<Rightarrow> int"

definition app_rate :: "deployment \<Rightarrow> money" where
  "app_rate d = FromUSD (dp_ratePerNmMinor d)"

definition app_repo :: "deployment \<Rightarrow> pg voyage_repository" where
  "app_repo d = pg_repo (VoyageCreatedEncoder (dp_encode_vc d)) (dp_carrier d)"

definition app_consumer :: "deployment \<Rightarrow> broker consumer" where
  "app_consumer d =
     \<lparr>co_produce = produce_sync, co_decode = dp_decode_vc d, co_encode = dp_encode_er d,
      co_rate = app_rate d, co_now = br_now\<rparr>"

definition app_estimate_consumer :: "deployment \<Rightarrow> (broker, pg) estimate_consumer" where
  "app_estimate_consumer d =
     \<lparr>ec_produce = produce_sync, ec_decode = dp_decode_er d, ec_upsert = pg_UpsertEstimate,
      ec_since = dp_since d\<rparr>"

text \<open>The synchronous call to the estimator: its server's answer, or the failure of the call.\<close>

definition estimator_call ::
  "deployment \<Rightarrow> goerr option \<Rightarrow> 'w \<Rightarrow> estimate_request \<Rightarrow> (goerr + estimate_response) \<times> 'w" where
  "estimator_call d fault w q =
     ((case fault of Some e \<Rightarrow> Inl e | None \<Rightarrow> Estimate_rpc (app_rate d) (Some q)), w)"

definition app_estimator :: "deployment \<Rightarrow> goerr option \<Rightarrow> 'w estimator_port" where
  "app_estimator d fault = Adapter_Estimate (estimator_call d fault)"

section \<open>The steps\<close>

record system =
  sy_pg :: pg
  sy_broker :: broker
  sy_metrics :: metrics

definition sys_init :: system where
  "sys_init =
     \<lparr>sy_pg = \<lparr>pg_tables = \<lparr>voyages = Map.empty, outbox = [], next_id = 1\<rparr>, pg_now = 0,
               pg_script = [], pg_dedupeTotal = 0\<rparr>,
      sy_broker = \<lparr>br_logs = (\<lambda>_. []), br_script = [], br_now = 0\<rparr>,
      sy_metrics = \<lparr>estimateApplied = 0, estimateErrors = 0, estimateLatency = [], dlqDepth = 0\<rparr>\<rparr>"

definition ec_view :: "system \<Rightarrow> (broker, pg) ec_world" where
  "ec_view s = \<lparr>ew_client = sy_broker s, ew_repo = sy_pg s, ew_metrics = sy_metrics s\<rparr>"

definition ec_put :: "(broker, pg) ec_world \<Rightarrow> system" where
  "ec_put w = \<lparr>sy_pg = ew_repo w, sy_broker = ew_client w, sy_metrics = ew_metrics w\<rparr>"

inductive sys_step :: "deployment \<Rightarrow> system \<Rightarrow> system \<Rightarrow> bool" for d where
  create: "Server_CreateVoyage (app_repo d) (app_estimator d fault) (sy_pg s) req = (res, w) \<Longrightarrow>
    sys_step d s (s\<lparr>sy_pg := w\<rparr>)"
| update: "Server_UpdateVoyage (app_repo d) (sy_pg s) req = (res, w) \<Longrightarrow>
    sys_step d s (s\<lparr>sy_pg := w\<rparr>)"
| get: "Server_GetVoyage (app_repo d) (sy_pg s) req = (res, w) \<Longrightarrow> sys_step d s (s\<lparr>sy_pg := w\<rparr>)"
| flush: "Flush produce_sync (sy_pg s) (sy_broker s) = (err, w, b) \<Longrightarrow>
    sys_step d s (s\<lparr>sy_pg := w, sy_broker := b\<rparr>)"
| price_record: "kr_Value r \<in> set (br_logs (sy_broker s) TopicVoyageCreated) \<Longrightarrow>
    Consumer_handle (app_consumer d) (sy_broker s) r = (ok, b) \<Longrightarrow>
    sys_step d s (s\<lparr>sy_broker := b\<rparr>)"
| estimate_record: "kr_Value r \<in> set (br_logs (sy_broker s) TopicEstimateReady) \<Longrightarrow>
    EstimateConsumer_handle (app_estimate_consumer d) (ec_view s) r = (ok, w) \<Longrightarrow>
    sys_step d s (ec_put w)"
| junk: "dp_decode_vc d bytes = Inl e \<Longrightarrow> dp_decode_er d bytes = Inl e' \<Longrightarrow>
    sys_step d s (s\<lparr>sy_broker := (sy_broker s)
      \<lparr>br_logs := appended (br_logs (sy_broker s)) topic bytes\<rparr>\<rparr>)"
| environment: "script_ok dbs \<Longrightarrow>
    sys_step d s (s\<lparr>sy_pg := (sy_pg s)\<lparr>pg_now := t, pg_script := dbs\<rparr>,
                    sy_broker := (sy_broker s)\<lparr>br_now := t', br_script := brs\<rparr>\<rparr>)"

inductive reachable :: "deployment \<Rightarrow> system \<Rightarrow> bool" for d where
  init: "reachable d sys_init"
| step: "reachable d s \<Longrightarrow> sys_step d s s' \<Longrightarrow> reachable d s'"

inductive_cases sys_stepE: "sys_step d s s'"

section \<open>The invariant\<close>

definition event_of :: "deployment \<Rightarrow> outbox_row \<Rightarrow> voyage_created option" where
  "event_of d r = (case dp_decode_vc d (ob_payload r) of Inl _ \<Rightarrow> None | Inr v \<Rightarrow> Some v)"

text \<open>The events of the outbox, oldest first.\<close>

definition events :: "deployment \<Rightarrow> tables \<Rightarrow> voyage_created list" where
  "events d t = List.map_filter (event_of d) (outbox t)"

text \<open>Exactly one event per voyage, and it is the voyage's creation.\<close>

definition outbox_matches :: "deployment \<Rightarrow> tables \<Rightarrow> bool" where
  "outbox_matches d t \<longleftrightarrow>
     (\<forall>r \<in> set (outbox t). ob_topic r = TopicVoyageCreated \<and> event_of d r \<noteq> None) \<and>
     distinct (map vc_ClientRequestID (events d t)) \<and>
     set (map vc_ClientRequestID (events d t)) = dom (voyages t) \<and>
     (\<forall>v \<in> set (events d t). vc_Version v = 1)"

definition rows_match :: "deployment \<Rightarrow> tables \<Rightarrow> bool" where
  "rows_match d t \<longleftrightarrow>
     (\<forall>cid row. voyages t cid = Some row \<longrightarrow> 1 \<le> sint (row_version row) \<and>
        (row_version row = 1 \<longrightarrow> ToVoyageCreated (row_voyage row) \<in> set (events d t)))"

text \<open>The amount the estimator gives a voyage for its creation event.\<close>

definition genuine :: "deployment \<Rightarrow> voyage_created list \<Rightarrow> string \<Rightarrow> int64 \<Rightarrow> bool" where
  "genuine d evs cid amount \<longleftrightarrow>
     (\<exists>vc cost. vc \<in> set evs \<and> vc_ClientRequestID vc = cid \<and>
        price (app_rate d) vc = Inr cost \<and> amount = Minor cost)"

definition estimates_genuine :: "deployment \<Rightarrow> tables \<Rightarrow> bool" where
  "estimates_genuine d t \<longleftrightarrow>
     (\<forall>cid row amount. voyages t cid = Some row \<longrightarrow> row_estimate_minor row = Some amount \<longrightarrow>
        genuine d (events d t) cid amount)"

definition logs_genuine :: "deployment \<Rightarrow> voyage_created list \<Rightarrow> (string \<Rightarrow> byte list list) \<Rightarrow> bool" where
  "logs_genuine d evs logs \<longleftrightarrow>
     (\<forall>bytes \<in> set (logs TopicVoyageCreated). \<forall>v. dp_decode_vc d bytes = Inr v \<longrightarrow> v \<in> set evs) \<and>
     (\<forall>bytes \<in> set (logs TopicEstimateReady). \<forall>er. dp_decode_er d bytes = Inr er \<longrightarrow>
        er_VoyageVersion er = 1 \<and> genuine d evs (er_VoyageID er) (er_AmountMinor er))"

definition tables_inv :: "deployment \<Rightarrow> tables \<Rightarrow> bool" where
  "tables_inv d t \<longleftrightarrow>
     keys_ok t \<and> outbox_ok t \<and> outbox_matches d t \<and> rows_match d t \<and> estimates_genuine d t"

definition sys_inv :: "deployment \<Rightarrow> system \<Rightarrow> bool" where
  "sys_inv d s \<longleftrightarrow>
     (let t = pg_tables (sy_pg s); logs = br_logs (sy_broker s) in
      script_ok (pg_script (sy_pg s)) \<and> tables_inv d t \<and>
      logs_genuine d (events d t) logs \<and> stamped_in_log logs t)"

lemma sys_inv_init: "sys_inv d sys_init"
  by (simp add: sys_inv_def sys_init_def tables_inv_def script_ok_def keys_ok_def outbox_ok_def
      outbox_matches_def events_def rows_match_def estimates_genuine_def logs_genuine_def
      stamped_in_log_def map_filter_simps)

section \<open>Steps that leave the voyages and the outbox alone\<close>

lemma genuine_mono: "genuine d evs cid a \<Longrightarrow> set evs \<subseteq> set evs' \<Longrightarrow> genuine d evs' cid a"
  unfolding genuine_def by blast

lemma logs_genuine_mono: "logs_genuine d evs logs \<Longrightarrow> set evs \<subseteq> set evs' \<Longrightarrow> logs_genuine d evs' logs"
  unfolding logs_genuine_def using genuine_mono by blast

text \<open>The events are those of the unstamped outbox, so stamping keeps them.\<close>

lemma event_of_unstamped [simp]: "event_of d (r\<lparr>ob_published_at := x\<rparr>) = event_of d r"
  by (simp add: event_of_def)

lemma events_unstamped: "events d t = List.map_filter (event_of d) (unstamped t)"
  by (simp add: events_def unstamped_def map_filter_def comp_def filter_map)

lemma events_stamps: "stamps_only t t' \<Longrightarrow> events d t' = events d t"
  by (simp add: events_unstamped stamps_only_def)

lemma outbox_rows_stamps:
  assumes "stamps_only t t'" and "r \<in> set (outbox t')"
  shows "\<exists>r0 \<in> set (outbox t). ob_topic r = ob_topic r0 \<and> ob_payload r = ob_payload r0"
proof -
  have "r\<lparr>ob_published_at := None\<rparr> \<in> set (unstamped t')"
    using assms(2) by (simp add: unstamped_def)
  then have "r\<lparr>ob_published_at := None\<rparr> \<in> set (unstamped t)"
    using assms(1) by (simp add: stamps_only_def)
  then obtain r0 where r0: "r0 \<in> set (outbox t)"
    and eq: "r\<lparr>ob_published_at := None\<rparr> = r0\<lparr>ob_published_at := None\<rparr>"
    by (auto simp: unstamped_def)
  from r0 arg_cong [OF eq, of ob_topic] arg_cong [OF eq, of ob_payload] show ?thesis by auto
qed

lemma outbox_matches_stamps:
  assumes "stamps_only t t'" and "outbox_matches d t"
  shows "outbox_matches d t'"
proof -
  have "ob_topic r = TopicVoyageCreated \<and> event_of d r \<noteq> None" if "r \<in> set (outbox t')" for r
    using outbox_rows_stamps [OF assms(1) that] assms(2)
    by (auto simp: outbox_matches_def event_of_def)
  with assms show ?thesis
    by (simp add: outbox_matches_def events_stamps [OF assms(1)] stamps_only_def)
qed

end
