(* ===== verification/Avroserde.thy ===== *)
theory Avroserde
  imports Voyage_Domain
begin

text \<open>
  The event serializer of \<open>internal/avroserde/serde.go\<close>: Confluent wire framing (a magic
  byte, the schema id as four big-endian bytes, then the Avro body) around a codec, and the
  registrations of \<open>internal/eventreg/eventreg.go\<close>. The Avro library and the schema
  registry client are not part of the repository: the codec's \<open>marshal\<close> and \<open>unmarshal\<close>, the
  schema parser and the registry call are arguments. What is relied on is the law of the
  locale \<open>event_codec\<close>: decoding what was encoded gives the value back, up to a
  normalisation (Avro's \<open>timestamp-millis\<close> drops what is finer than a millisecond).
\<close>

unbundle bit_operations_syntax

datatype go_type = T_VoyageCreated | T_EstimateReady

record registration =
  reg_Subject :: string
  reg_Schema :: string
  reg_Example :: go_type

record 's serde_entry =
  entry_id :: "32 word"
  entry_codec :: 's

type_synonym 's serde = "go_type \<rightharpoonup> 's serde_entry"

definition magicByte :: byte where
  "magicByte = 0"

text \<open>\<open>New\<close>: register and parse every schema in turn, stopping at the first error. \<open>id\<close> is
  the registry's answer (a Go \<open>int\<close>), converted to \<open>uint32\<close>.\<close>

fun serde_New_loop ::
  "('r \<Rightarrow> string \<Rightarrow> string \<Rightarrow> (goerr + int64) \<times> 'r) \<Rightarrow> (string \<Rightarrow> goerr + 's) \<Rightarrow> 'r \<Rightarrow>
   's serde \<Rightarrow> registration list \<Rightarrow> (goerr + 's serde) \<times> 'r" where
  "serde_New_loop create_schema parse w byType [] = (Inr byType, w)"
| "serde_New_loop create_schema parse w byType (r # regs) =
     (case create_schema w (reg_Subject r) (reg_Schema r) of
        (Inl err, w') \<Rightarrow> (Inl (Errorf (sprintf [''avroserde: register '', reg_Subject r]) err), w')
      | (Inr i, w') \<Rightarrow>
          (case parse (reg_Schema r) of
             Inl err \<Rightarrow> (Inl (Errorf (sprintf [''avroserde: parse '', reg_Subject r]) err), w')
           | Inr codec \<Rightarrow>
               serde_New_loop create_schema parse w'
                 (byType(reg_Example r \<mapsto> \<lparr>entry_id = ucast i, entry_codec = codec\<rparr>)) regs))"

definition serde_New ::
  "('r \<Rightarrow> string \<Rightarrow> string \<Rightarrow> (goerr + int64) \<times> 'r) \<Rightarrow> (string \<Rightarrow> goerr + 's) \<Rightarrow>
   (goerr + 'c) \<Rightarrow> 'r \<Rightarrow> registration list \<Rightarrow> (goerr + 's serde) \<times> 'r" where
  "serde_New create_schema parse client w regs =
     (case client of
        Inl err \<Rightarrow> (Inl (Errorf ''avroserde: schema registry client'' err), w)
      | Inr _ \<Rightarrow> serde_New_loop create_schema parse w Map.empty regs)"

text \<open>The registrations of both services; the schema texts are the embedded \<open>.avsc\<close> files.\<close>

definition eventreg_All :: "string \<Rightarrow> string \<Rightarrow> registration list" where
  "eventreg_All voyage_created_avsc estimate_ready_avsc =
     [\<lparr>reg_Subject = VoyageCreatedSubject, reg_Schema = voyage_created_avsc,
       reg_Example = T_VoyageCreated\<rparr>,
      \<lparr>reg_Subject = EstimateReadySubject, reg_Schema = estimate_ready_avsc,
       reg_Example = T_EstimateReady\<rparr>]"

definition go_type_text :: "go_type \<Rightarrow> string" where
  "go_type_text t =
     (case t of T_VoyageCreated \<Rightarrow> ''avro.VoyageCreated'' | T_EstimateReady \<Rightarrow> ''avro.EstimateReady'')"

text \<open>\<open>binary.BigEndian.PutUint32\<close>, and the four bytes read back.\<close>

definition put_uint32 :: "32 word \<Rightarrow> byte list" where
  "put_uint32 i = [ucast (drop_bit 24 i), ucast (drop_bit 16 i), ucast (drop_bit 8 i), ucast i]"

definition be_uint32 :: "byte list \<Rightarrow> 32 word" where
  "be_uint32 bs = foldl (\<lambda>acc b. push_bit 8 acc OR ucast b) 0 bs"

definition serde_Encode ::
  "('s \<Rightarrow> 'v \<Rightarrow> goerr + byte list) \<Rightarrow> 's serde \<Rightarrow> go_type \<Rightarrow> 'v \<Rightarrow> goerr + byte list" where
  "serde_Encode marshal byType t v =
     (case byType t of
        None \<Rightarrow> Inl (ErrorsNew (sprintf [''avroserde encode: type '', go_type_text t, '' not registered'']))
      | Some e \<Rightarrow>
          (case marshal (entry_codec e) v of
             Inl err \<Rightarrow> Inl (Errorf ''avroserde encode'' err)
           | Inr body \<Rightarrow> Inr ((magicByte # put_uint32 (entry_id e)) @ body)))"

definition serde_Decode ::
  "('s \<Rightarrow> byte list \<Rightarrow> goerr + 'v) \<Rightarrow> 's serde \<Rightarrow> go_type \<Rightarrow> byte list \<Rightarrow> goerr + 'v" where
  "serde_Decode unmarshal byType t b =
     (if length b < 5 \<or> b ! 0 \<noteq> magicByte
      then Inl (ErrorsNew ''avroserde decode: not a confluent-framed message'')
      else
        (case byType t of
           None \<Rightarrow> Inl (ErrorsNew (sprintf [''avroserde decode: type '', go_type_text t, '' not registered'']))
         | Some e \<Rightarrow>
             (case unmarshal (entry_codec e) (drop 5 b) of
                Inl err \<Rightarrow> Inl (Errorf ''avroserde decode'' err)
              | Inr v \<Rightarrow> Inr v)))"

section \<open>Framing\<close>

lemma length_put_uint32 [simp]: "length (put_uint32 i) = 4"
  by (simp add: put_uint32_def)

lemma bit_be4: "bit (be_uint32 [a, b, c, d]) n \<longleftrightarrow> n < 32 \<and>
   (if n < 8 then bit d n else if n < 16 then bit c (n - 8)
    else if n < 24 then bit b (n - 16) else bit a (n - 24))"
  unfolding be_uint32_def foldl.simps
  by (auto simp: bit_or_iff bit_push_bit_iff bit_ucast_iff bit_imp_le_length dest: bit_imp_le_length)

lemma be_put_uint32: "be_uint32 (put_uint32 i) = i"
  by (rule bit_word_eqI) (auto simp: put_uint32_def bit_be4 bit_ucast_iff bit_drop_bit_eq)

lemma serde_Encode_Inr:
  "serde_Encode marshal byType t v = Inr b \<longleftrightarrow>
     (\<exists>e body. byType t = Some e \<and> marshal (entry_codec e) v = Inr body \<and>
        b = magicByte # put_uint32 (entry_id e) @ body)"
  by (auto simp: serde_Encode_def split: option.splits sum.splits)

lemma serde_Decode_framed:
  "serde_Decode unmarshal byType t (magicByte # put_uint32 i @ body) =
     (case byType t of
        None \<Rightarrow> Inl (ErrorsNew (sprintf [''avroserde decode: type '', go_type_text t, '' not registered'']))
      | Some e \<Rightarrow>
          (case unmarshal (entry_codec e) body of
             Inl err \<Rightarrow> Inl (Errorf ''avroserde decode'' err)
           | Inr v \<Rightarrow> Inr v))"
proof -
  have body: "drop 5 (magicByte # put_uint32 i @ body) = body"
    by (simp add: put_uint32_def)
  show ?thesis
    unfolding serde_Decode_def body by simp
qed

section \<open>The codec contract\<close>

locale event_codec =
  fixes enc :: "'v \<Rightarrow> goerr + byte list"
    and dec :: "byte list \<Rightarrow> goerr + 'v"
    and norm :: "'v \<Rightarrow> 'v"
  assumes dec_enc: "enc v = Inr b \<Longrightarrow> dec b = Inr (norm v)"
begin

lemma dec_not_error: "enc v = Inr b \<Longrightarrow> dec b \<noteq> Inl err"
  by (simp add: dec_enc)

end

text \<open>The Avro library: the same law for every schema.\<close>

locale avro_library =
  fixes marshal :: "'s \<Rightarrow> 'v \<Rightarrow> goerr + byte list"
    and unmarshal :: "'s \<Rightarrow> byte list \<Rightarrow> goerr + 'v"
    and norm :: "'v \<Rightarrow> 'v"
  assumes unmarshal_marshal: "marshal s v = Inr body \<Longrightarrow> unmarshal s body = Inr (norm v)"
begin

text \<open>The reader's entry decides: a different schema id in the frame does not matter.\<close>

lemma serde_round_trip:
  assumes "serde_Encode marshal writer t v = Inr b"
    and "reader t = Some e'" and "writer t = Some e" and "entry_codec e' = entry_codec e"
  shows "serde_Decode unmarshal reader t b = Inr (norm v)"
  using assms
  by (auto simp: serde_Encode_Inr serde_Decode_framed unmarshal_marshal split: sum.splits)

end

text \<open>A serde over the library is an event codec for each registered type.\<close>

sublocale avro_library \<subseteq> serde: event_codec
  "serde_Encode marshal byType t" "serde_Decode unmarshal byType t" norm for byType t
  by unfold_locales (auto simp: serde_Encode_Inr serde_Decode_framed unmarshal_marshal)

end
