(* ===== verification/Avro_Binary.thy ===== *)
theory Avro_Binary
  imports Avroserde "HOL-Library.Monad_Syntax"
begin

text \<open>
  The binary encoding of the Avro specification for the two event schemas: \<open>int\<close> and
  \<open>long\<close> as zig-zag variable-length integers, \<open>string\<close> as its length and its bytes,
  \<open>timestamp-millis\<close> as a \<open>long\<close> of milliseconds, a record as its fields in order. It
  instantiates the codec parameter of \<open>Avroserde\<close>: it is not a model of the Avro library's
  code, it shows that the law the model relies on holds of the format the library
  implements.
\<close>

section \<open>Variable-length integers\<close>

fun put_varint :: "nat \<Rightarrow> byte list" where
  "put_varint n = (if n < 128 then [word_of_nat n]
     else word_of_nat (n mod 128 + 128) # put_varint (n div 128))"

declare put_varint.simps [simp del]

fun get_varint :: "byte list \<Rightarrow> (nat \<times> byte list) option" where
  "get_varint [] = None"
| "get_varint (b # bs) =
     (if unat b < 128 then Some (unat b, bs)
      else case get_varint bs of
             None \<Rightarrow> None
           | Some (n, rest) \<Rightarrow> Some (unat b - 128 + 128 * n, rest))"

definition zigzag :: "int \<Rightarrow> nat" where
  "zigzag i = (if 0 \<le> i then 2 * nat i else 2 * nat (- i) - 1)"

definition unzigzag :: "nat \<Rightarrow> int" where
  "unzigzag n = (if even n then int (n div 2) else - int (n div 2) - 1)"

lemma unzigzag_zigzag [simp]: "unzigzag (zigzag i) = i"
  by (auto simp: zigzag_def unzigzag_def)

lemma get_put_varint [simp]: "get_varint (put_varint n @ bs) = Some (n, bs)"
proof (induction n rule: put_varint.induct)
  case (1 n)
  show ?case
  proof (cases "n < 128")
    case True
    then show ?thesis
      by (subst put_varint.simps) (simp add: unat_of_nat)
  next
    case False
    have "unat (word_of_nat (n mod 128 + 128) :: byte) = n mod 128 + 128"
      using mod_less_divisor [of 128 n] by (intro unat_byte) simp
    with False "1.IH" show ?thesis
      by (subst put_varint.simps) simp
  qed
qed

section \<open>Primitive values\<close>

definition put_long :: "int \<Rightarrow> byte list" where
  "put_long i = put_varint (zigzag i)"

definition get_long :: "byte list \<Rightarrow> (int \<times> byte list) option" where
  "get_long bs = map_option (\<lambda>(n, rest). (unzigzag n, rest)) (get_varint bs)"

definition put_string :: "string \<Rightarrow> byte list" where
  "put_string s = put_long (int (length s)) @ map (\<lambda>c. word_of_nat (of_char c)) s"

definition get_string :: "byte list \<Rightarrow> (string \<times> byte list) option" where
  "get_string bs =
     (case get_long bs of
        None \<Rightarrow> None
      | Some (n, rest) \<Rightarrow>
          if n < 0 \<or> int (length rest) < n then None
          else Some (map (\<lambda>b. char_of (unat b)) (take (nat n) rest), drop (nat n) rest))"

lemma get_put_long [simp]: "get_long (put_long i @ bs) = Some (i, bs)"
  by (simp add: get_long_def put_long_def)

lemma get_put_string [simp]: "get_string (put_string s @ bs) = Some (s, bs)"
  by (simp add: get_string_def put_string_def comp_def)

section \<open>The two records\<close>

definition avro_eof :: goerr where
  "avro_eof = ErrorsNew ''avro: decode: unexpected end of input''"

definition marshal_vc :: "unit \<Rightarrow> voyage_created \<Rightarrow> goerr + byte list" where
  "marshal_vc _ v = Inr (put_string (vc_ClientRequestID v) @ put_string (vc_Origin v)
     @ put_string (vc_Dest v) @ put_long (sint (vc_DistanceNm v))
     @ put_long (sint (vc_FeesMinor v)) @ put_long (sint (vc_Version v)))"

definition unmarshal_vc :: "unit \<Rightarrow> byte list \<Rightarrow> goerr + voyage_created" where
  "unmarshal_vc _ bs =
     (case (do { (cid, bs) \<leftarrow> get_string bs; (origin, bs) \<leftarrow> get_string bs;
                 (dest, bs) \<leftarrow> get_string bs; (distance, bs) \<leftarrow> get_long bs;
                 (fees, bs) \<leftarrow> get_long bs; (version, bs) \<leftarrow> get_long bs;
                 Some \<lparr>vc_ClientRequestID = cid, vc_Origin = origin, vc_Dest = dest,
                       vc_DistanceNm = word_of_int distance, vc_FeesMinor = word_of_int fees,
                       vc_Version = word_of_int version\<rparr> }) of
        None \<Rightarrow> Inl avro_eof
      | Some v \<Rightarrow> Inr v)"

definition millis :: "instant \<Rightarrow> int" where
  "millis t = t div 1000000"

definition marshal_er :: "unit \<Rightarrow> estimate_ready \<Rightarrow> goerr + byte list" where
  "marshal_er _ v = Inr (put_string (er_VoyageID v) @ put_long (sint (er_VoyageVersion v))
     @ put_long (sint (er_AmountMinor v)) @ put_string (er_Currency v)
     @ put_long (millis (er_CalculatedAt v)))"

definition unmarshal_er :: "unit \<Rightarrow> byte list \<Rightarrow> goerr + estimate_ready" where
  "unmarshal_er _ bs =
     (case (do { (vid, bs) \<leftarrow> get_string bs; (version, bs) \<leftarrow> get_long bs;
                 (amount, bs) \<leftarrow> get_long bs; (currency, bs) \<leftarrow> get_string bs;
                 (at, bs) \<leftarrow> get_long bs;
                 Some \<lparr>er_VoyageID = vid, er_VoyageVersion = word_of_int version,
                       er_AmountMinor = word_of_int amount, er_Currency = currency,
                       er_CalculatedAt = at * 1000000\<rparr> }) of
        None \<Rightarrow> Inl avro_eof
      | Some v \<Rightarrow> Inr v)"

definition to_millis :: "estimate_ready \<Rightarrow> estimate_ready" where
  "to_millis v = v\<lparr>er_CalculatedAt := millis (er_CalculatedAt v) * 1000000\<rparr>"

lemma get_put_last [simp]:
  "get_long (put_long i) = Some (i, [])" "get_string (put_string s) = Some (s, [])"
  using get_put_long [of i "[]"] get_put_string [of s "[]"] by simp_all

interpretation vc: avro_library marshal_vc unmarshal_vc "\<lambda>v. v"
  by unfold_locales (auto simp: marshal_vc_def unmarshal_vc_def)

interpretation er: avro_library marshal_er unmarshal_er to_millis
  by unfold_locales (auto simp: marshal_er_def unmarshal_er_def to_millis_def)

end
