(* ===== verification/Pipeline_Invariant.thy ===== *)
theory Pipeline_Invariant
  imports Pipeline Avro_Binary
begin

text \<open>
  Every step of the pipeline keeps its invariant: the outbox holds exactly one creation event
  per voyage, a version-1 row is still that event, everything on the two topics stems from
  the outbox, and every authoritative estimate is the price of the creation event. What is
  relied on of the codec is the locale \<open>pipeline_codec\<close>; \<open>Avroserde\<close> over the Avro format
  provides it.
\<close>

locale pipeline_codec =
  fixes d :: deployment
  assumes vc_round: "dp_encode_vc d v = Inr bytes \<Longrightarrow> dp_decode_vc d bytes = Inr v"
    and er_round: "dp_encode_er d e = Inr bytes \<Longrightarrow>
      \<exists>t. dp_decode_er d bytes = Inr (e\<lparr>er_CalculatedAt := t\<rparr>)"

sublocale pipeline_codec \<subseteq> vc_codec: event_codec "dp_encode_vc d" "dp_decode_vc d" "\<lambda>v. v"
  by unfold_locales (rule vc_round)

section \<open>The tables\<close>

lemma tables_inv_same_rows: "tables_inv d t \<Longrightarrow> same_rows t t' \<Longrightarrow> tables_inv d t'"
  by (auto simp: tables_inv_def same_rows_def keys_ok_def outbox_ok_def outbox_matches_def
      rows_match_def estimates_genuine_def events_def)

lemma tables_inv_stamps: "tables_inv d t \<Longrightarrow> stamps_only t t' \<Longrightarrow> tables_inv d t'"
  using outbox_matches_stamps [of t t' d] stamps_only_ok [of t t'] events_stamps [of t t' d]
  by (simp add: tables_inv_def keys_ok_def rows_match_def estimates_genuine_def stamps_only_def)

lemma outbox_created:
  assumes "voyages t (ClientRequestID v) = None"
  shows "\<exists>r. outbox (created_tables now v topic payload js t) = outbox t @ [r] \<and>
    next_id (created_tables now v topic payload js t) = next_id t + 1 \<and>
    ob_id r = next_id t \<and> ob_topic r = topic \<and> ob_payload r = payload \<and> ob_published_at r = None"
  using assms by (simp add: created_tables_def insertVoyage_def insertOutbox_def Let_def)

lemma VoyageCreatedEncoder_Inr:
  "VoyageCreatedEncoder encode v = Inr (topic, payload) \<longleftrightarrow>
     topic = TopicVoyageCreated \<and> encode (ToVoyageCreated v) = Inr payload"
  by (auto simp: VoyageCreatedEncoder_def split: sum.splits)

lemma new_voyage_event [simp]:
  "vc_ClientRequestID (ToVoyageCreated (new_voyage v)) = ClientRequestID v"
  "vc_Version (ToVoyageCreated (new_voyage v)) = 1"
  by (simp_all add: ToVoyageCreated_def new_voyage_def)

lemma genuine_append: "genuine d evs cid a \<Longrightarrow> genuine d (evs @ xs) cid a"
  by (erule genuine_mono) simp

context pipeline_codec
begin

lemma events_created:
  assumes "voyages t (ClientRequestID v) = None"
    and "VoyageCreatedEncoder (dp_encode_vc d) (new_voyage v) = Inr (topic, payload)"
  shows "events d (created_tables now v topic payload js t) =
    events d t @ [ToVoyageCreated (new_voyage v)]"
proof -
  obtain r where "outbox (created_tables now v topic payload js t) = outbox t @ [r]"
    and "ob_payload r = payload"
    using outbox_created [OF assms(1), of now topic payload js] by blast
  moreover have "dp_decode_vc d payload = Inr (ToVoyageCreated (new_voyage v))"
    using assms(2) by (simp add: VoyageCreatedEncoder_Inr vc_round)
  ultimately show ?thesis
    by (simp add: events_def map_filter_def event_of_def)
qed

lemma tables_inv_created:
  assumes inv: "tables_inv d t" and fresh: "voyages t (ClientRequestID v) = None"
    and enc: "VoyageCreatedEncoder (dp_encode_vc d) (new_voyage v) = Inr (topic, payload)"
  shows "tables_inv d (created_tables now v topic payload js t)"
proof -
  define t' where "t' = created_tables now v topic payload js t"
  obtain row where vs: "voyages t' = (voyages t)(ClientRequestID v \<mapsto> row)"
    and row: "row_voyage row = new_voyage v" "row_version row = 1" "row_estimate_minor row = None"
    unfolding t'_def by (rule created_tables_fresh [OF fresh])
  obtain r where ob: "outbox t' = outbox t @ [r]" "next_id t' = next_id t + 1"
    and r: "ob_id r = next_id t" "ob_topic r = topic" "ob_payload r = payload"
    unfolding t'_def using outbox_created [OF fresh, of now topic payload js] by blast
  have ev: "events d t' = events d t @ [ToVoyageCreated (new_voyage v)]"
    unfolding t'_def by (rule events_created [OF fresh enc])
  have inv': "keys_ok t" "outbox_ok t" "outbox_matches d t" "rows_match d t" "estimates_genuine d t"
    using inv by (simp_all add: tables_inv_def)
  have topic: "topic = TopicVoyageCreated" and "dp_encode_vc d (ToVoyageCreated (new_voyage v)) = Inr payload"
    using enc by (simp_all add: VoyageCreatedEncoder_Inr)
  then have "event_of d r = Some (ToVoyageCreated (new_voyage v))"
    using r by (simp add: event_of_def vc_round)
  moreover have "ClientRequestID v \<notin> dom (voyages t)"
    using fresh by auto
  ultimately have "outbox_matches d t'"
    using inv'(3) r topic by (auto simp: outbox_matches_def ob ev vs)
  moreover have "outbox_ok t'"
    using inv'(2) r by (force simp: outbox_ok_def ob)
  moreover have "rows_match d t'"
    using inv'(4) row by (auto simp: rows_match_def ev vs)
  moreover have "estimates_genuine d t'"
    using inv'(5) row by (auto simp: estimates_genuine_def vs ev intro: genuine_append)
  moreover have "keys_ok t'"
    unfolding t'_def by (rule keys_ok_created [OF inv'(1) fresh])
  ultimately have "tables_inv d t'"
    by (simp add: tables_inv_def)
  then show ?thesis by (simp only: t'_def)
qed

end

lemma tables_inv_update:
  assumes "tables_inv d t"
  shows "tables_inv d (updateVoyageHigherWins v t)"
proof -
  have "rows_match d (updateVoyageHigherWins v t)"
    using assms
    by (fastforce simp: tables_inv_def rows_match_def updateVoyageHigherWins_def events_def
        word_sless_alt split: option.splits)
  moreover have "estimates_genuine d (updateVoyageHigherWins v t)"
    using assms
    by (fastforce simp: tables_inv_def estimates_genuine_def updateVoyageHigherWins_def events_def
        split: option.splits)
  moreover have "dom (voyages (updateVoyageHigherWins v t)) = dom (voyages t)"
    by (auto simp: updateVoyageHigherWins_def split: option.splits if_splits)
  ultimately show ?thesis
    using assms
    by (simp add: tables_inv_def keys_ok_update outbox_ok_def outbox_matches_def
        updateVoyageHigherWins_other events_def)
qed

lemma tables_inv_upsert:
  assumes inv: "tables_inv d t" and gen: "genuine d (events d t) vid amt"
    and "upsertEstimate vid ver amt t = (hit, t')"
  shows "tables_inv d t' \<and> events d t' = events d t \<and> outbox t' = outbox t"
proof -
  have ob: "outbox t' = outbox t" "next_id t' = next_id t"
    and alt: "t' = t \<or> (\<exists>row. voyages t vid = Some row \<and> row_version row = ver \<and>
       voyages t' = (voyages t)(vid \<mapsto> row\<lparr>row_estimate_minor := Some amt\<rparr>))"
    using upsertEstimate_other [OF assms(3)] by simp_all
  from alt show ?thesis
  proof (elim disjE exE conjE)
    assume "t' = t" with inv show ?thesis by simp
  next
    fix row assume row: "voyages t vid = Some row"
      and vs: "voyages t' = (voyages t)(vid \<mapsto> row\<lparr>row_estimate_minor := Some amt\<rparr>)"
    have ev: "events d t' = events d t"
      by (simp add: events_def ob)
    have "dom (voyages t') = dom (voyages t)"
      using row vs by auto
    moreover have "ToVoyageCreated (row_voyage (row\<lparr>row_estimate_minor := x\<rparr>)) =
        ToVoyageCreated (row_voyage row)" for x
      by (simp add: ToVoyageCreated_def row_voyage_def)
    ultimately show ?thesis
      using inv gen row
      by (auto simp: tables_inv_def ev ob vs keys_ok_def outbox_ok_def outbox_matches_def
          rows_match_def estimates_genuine_def)
  qed
qed

section \<open>The steps\<close>

lemma app_estimator_same: "app_estimator d fault w v = (res, w') \<Longrightarrow> w' = w"
  by (auto simp: app_estimator_def Adapter_Estimate_def estimator_call_def split: sum.splits if_splits
      option.splits)

lemma est_frame_app: "est_frame view invar (app_estimator d fault)"
  by (auto simp: est_frame_def dest: app_estimator_same)

text \<open>What a handler call may do to the tables.\<close>

lemma server_create_tables:
  assumes "Server_CreateVoyage (app_repo d) (app_estimator d fault) w req = (res, w')"
    and "script_ok (pg_script w)"
  shows "script_ok (pg_script w') \<and>
    (same_rows (pg_tables w) (pg_tables w') \<or>
     (\<exists>v now topic payload js. voyages (pg_tables w) (ClientRequestID v) = None \<and> v = request_voyage req \<and>
        VoyageCreatedEncoder (dp_encode_vc d) (new_voyage v) = Inr (topic, payload) \<and>
        pg_tables w' = created_tables now v topic payload js (pg_tables w)))"
proof -
  have *: "script_ok (pg_script w1) \<and> (same_rows (pg_tables w) (pg_tables w1) \<or>
     (\<exists>v now topic payload js. voyages (pg_tables w) (ClientRequestID v) = None \<and> v = request_voyage req \<and>
        VoyageCreatedEncoder (dp_encode_vc d) (new_voyage v) = Inr (topic, payload) \<and>
        pg_tables w1 = created_tables now v topic payload js (pg_tables w)))"
    if c: "repo_Create (app_repo d) w (request_voyage req) = (r, w1)" for r w1
  proof -
    have c': "pg_Create (VoyageCreatedEncoder (dp_encode_vc d)) (dp_carrier d) w (request_voyage req) = (r, w1)"
      using c by (simp add: app_repo_def pg_repo_def)
    show ?thesis
    proof (cases "voyages (pg_tables w) (ClientRequestID (request_voyage req))")
      case None
      from pg_Create_fresh [OF c' assms(2) None] show ?thesis
      proof (elim conjE disjE exE)
        fix topic payload js
        assume "script_ok (pg_script w1)"
          and "VoyageCreatedEncoder (dp_encode_vc d) (new_voyage (request_voyage req)) = Inr (topic, payload)"
          and "pg_tables w1 = created_tables (pg_now w) (request_voyage req) topic payload js (pg_tables w)"
        with None show ?thesis by blast
      qed simp
    next
      case (Some row)
      with pg_Create_existing [OF c' assms(2) Some] show ?thesis by simp
    qed
  qed
  show ?thesis
    using assms(1)
  proof (cases rule: Server_CreateVoyage_cases)
    case (invalid err)
    with assms(2) show ?thesis by simp
  next
    case (failed err)
    from * [OF failed(2)] show ?thesis .
  next
    case (pending created w1 err)
    from * [OF pending(2)] show ?thesis unfolding app_estimator_same [OF pending(3)] .
  next
    case (unquoted created w1 err)
    from * [OF unquoted(2)] show ?thesis unfolding app_estimator_same [OF unquoted(3)] .
  next
    case (quoted created w1 q)
    from * [OF quoted(2)] show ?thesis unfolding app_estimator_same [OF quoted(3)] .
  qed
qed

lemma server_update_tables:
  assumes "Server_UpdateVoyage (app_repo d) w req = (res, w')" and "script_ok (pg_script w)"
  shows "script_ok (pg_script w') \<and>
    (pg_tables w' = pg_tables w \<or>
     pg_tables w' = updateVoyageHigherWins (update_voyage req) (pg_tables w))"
proof -
  have *: "script_ok (pg_script w1) \<and> (pg_tables w1 = pg_tables w \<or>
      pg_tables w1 = updateVoyageHigherWins (update_voyage req) (pg_tables w))"
    if "repo_Update (app_repo d) w (update_voyage req) = (r, w1)" for r w1
    using pg_Update_cases [of w "update_voyage req" r w1] that assms(2)
    by (auto simp: app_repo_def pg_repo_def)
  show ?thesis
    using assms(1) by (cases rule: Server_UpdateVoyage_cases) (use assms(2) * in force)+
qed

lemma server_get_tables:
  assumes "Server_GetVoyage (app_repo d) w req = (res, w')" and "script_ok (pg_script w)"
  shows "script_ok (pg_script w') \<and> pg_tables w' = pg_tables w"
  using assms
  by (auto simp: Server_GetVoyage_def app_repo_def pg_repo_def script_ok_tl
      split: if_splits prod.splits sum.splits dest!: pg_Get_world)

section \<open>Preservation\<close>

text \<open>The parts of the invariant a step has to re-establish.\<close>

lemma sys_invI:
  "script_ok (pg_script (sy_pg s)) \<Longrightarrow> tables_inv d (pg_tables (sy_pg s)) \<Longrightarrow>
   logs_genuine d (events d (pg_tables (sy_pg s))) (br_logs (sy_broker s)) \<Longrightarrow>
   stamped_in_log (br_logs (sy_broker s)) (pg_tables (sy_pg s)) \<Longrightarrow> sys_inv d s"
  by (simp add: sys_inv_def)

lemma sys_invD:
  assumes "sys_inv d s"
  shows "script_ok (pg_script (sy_pg s))" and "tables_inv d (pg_tables (sy_pg s))"
    and "logs_genuine d (events d (pg_tables (sy_pg s))) (br_logs (sy_broker s))"
    and "stamped_in_log (br_logs (sy_broker s)) (pg_tables (sy_pg s))"
    and "outbox_ok (pg_tables (sy_pg s))"
  using assms by (simp_all add: sys_inv_def tables_inv_def Let_def)

lemma stamped_same_rows: "stamped_in_log logs t \<Longrightarrow> same_rows t t' \<Longrightarrow> stamped_in_log logs t'"
  by (simp add: stamped_in_log_def same_rows_def)

lemma events_same_rows: "same_rows t t' \<Longrightarrow> events d t' = events d t"
  by (simp add: events_def same_rows_def)

lemma same_rows_eq: "t' = t \<Longrightarrow> same_rows t t'"
  by simp

text \<open>A step of the database alone that keeps its rows.\<close>

lemma sys_inv_rows:
  assumes "sys_inv d s" and "same_rows (pg_tables (sy_pg s)) (pg_tables w)" and "script_ok (pg_script w)"
  shows "sys_inv d (s\<lparr>sy_pg := w\<rparr>)"
  using assms sys_invD [OF assms(1)]
  by (intro sys_invI)
    (auto simp: events_same_rows intro: tables_inv_same_rows stamped_same_rows)

lemma stamped_created:
  assumes "stamped_in_log logs t" and "voyages t (ClientRequestID v) = None"
  shows "stamped_in_log logs (created_tables now v topic payload js t)"
  using outbox_created [OF assms(2), of now topic payload js] assms(1)
  by (auto simp: stamped_in_log_def)

text \<open>A step of the broker alone.\<close>

lemma sys_inv_broker:
  assumes "sys_inv d s" and "br_logs b = appended (br_logs (sy_broker s)) topic bytes"
    and "\<And>er. topic = TopicEstimateReady \<Longrightarrow> dp_decode_er d bytes = Inr er \<Longrightarrow>
      er_VoyageVersion er = 1 \<and>
      genuine d (events d (pg_tables (sy_pg s))) (er_VoyageID er) (er_AmountMinor er)"
    and "\<And>v. topic = TopicVoyageCreated \<Longrightarrow> dp_decode_vc d bytes = Inr v \<Longrightarrow>
      v \<in> set (events d (pg_tables (sy_pg s)))"
  shows "sys_inv d (s\<lparr>sy_broker := b\<rparr>)"
proof (rule sys_invI)
  show "logs_genuine d (events d (pg_tables (sy_pg (s\<lparr>sy_broker := b\<rparr>)))) (br_logs (sy_broker (s\<lparr>sy_broker := b\<rparr>)))"
    using sys_invD(3) [OF assms(1)] assms(3,4)
    by (auto simp: logs_genuine_def assms(2) appended_def)
qed (use sys_invD [OF assms(1)] in \<open>simp_all add: assms(2) stamped_appended\<close>)

lemma sys_inv_same_logs:
  assumes "sys_inv d s" and "br_logs b = br_logs (sy_broker s)"
  shows "sys_inv d (s\<lparr>sy_broker := b\<rparr>)"
  using sys_invD [OF assms(1)] by (intro sys_invI) (simp_all add: assms(2))

lemma topics_distinct [simp]:
  "TopicVoyageCreated \<noteq> TopicEstimateReady" "TopicEstimateReady \<noteq> TopicVoyageCreated"
  "TopicVoyageCreatedDLQ \<noteq> TopicEstimateReady" "TopicVoyageCreatedDLQ \<noteq> TopicVoyageCreated"
  "TopicEstimateReadyDLQ \<noteq> TopicEstimateReady" "TopicEstimateReadyDLQ \<noteq> TopicVoyageCreated"
  by (simp_all add: topic_defs)

lemma app_consumer_simps [simp]:
  "co_produce (app_consumer d) = produce_sync" "co_decode (app_consumer d) = dp_decode_vc d"
  "co_encode (app_consumer d) = dp_encode_er d" "co_rate (app_consumer d) = app_rate d"
  by (simp_all add: app_consumer_def)

lemma app_estimate_consumer_simps [simp]:
  "ec_produce (app_estimate_consumer d) = produce_sync"
  "ec_decode (app_estimate_consumer d) = dp_decode_er d"
  "ec_upsert (app_estimate_consumer d) = pg_UpsertEstimate"
  by (simp_all add: app_estimate_consumer_def)

context pipeline_codec
begin

lemma sys_inv_create:
  assumes inv: "sys_inv d s"
    and "Server_CreateVoyage (app_repo d) (app_estimator d fault) (sy_pg s) req = (res, w)"
  shows "sys_inv d (s\<lparr>sy_pg := w\<rparr>)"
  using server_create_tables [OF assms(2) sys_invD(1) [OF inv]]
proof (elim conjE disjE exE)
  assume "script_ok (pg_script w)" "same_rows (pg_tables (sy_pg s)) (pg_tables w)"
  with inv show ?thesis by (intro sys_inv_rows)
next
  fix v now topic payload js
  assume ok: "script_ok (pg_script w)" and fresh: "voyages (pg_tables (sy_pg s)) (ClientRequestID v) = None"
    and enc: "VoyageCreatedEncoder (dp_encode_vc d) (new_voyage v) = Inr (topic, payload)"
    and t: "pg_tables w = created_tables now v topic payload js (pg_tables (sy_pg s))"
  show ?thesis
    using sys_invD [OF inv] ok
    by (intro sys_invI)
      (auto simp: t events_created [OF fresh enc] intro: tables_inv_created [OF _ fresh enc]
        stamped_created [OF _ fresh] logs_genuine_mono)
qed

lemma sys_inv_update:
  assumes inv: "sys_inv d s" and "Server_UpdateVoyage (app_repo d) (sy_pg s) req = (res, w)"
  shows "sys_inv d (s\<lparr>sy_pg := w\<rparr>)"
  using server_update_tables [OF assms(2) sys_invD(1) [OF inv]]
proof (elim conjE disjE)
  assume "script_ok (pg_script w)" "pg_tables w = pg_tables (sy_pg s)"
  with inv show ?thesis by (intro sys_inv_rows) simp_all
next
  assume ok: "script_ok (pg_script w)"
    and t: "pg_tables w = updateVoyageHigherWins (update_voyage req) (pg_tables (sy_pg s))"
  have "events d (pg_tables w) = events d (pg_tables (sy_pg s))"
    by (simp add: events_def t updateVoyageHigherWins_other)
  moreover have "stamped_in_log logs (pg_tables w) = stamped_in_log logs (pg_tables (sy_pg s))" for logs
    by (simp add: stamped_in_log_def t updateVoyageHigherWins_other)
  moreover have "tables_inv d (pg_tables w)"
    using tables_inv_update [OF sys_invD(2) [OF inv]] by (simp add: t)
  ultimately show ?thesis
    using sys_invD [OF inv] ok by (intro sys_invI) simp_all
qed

lemma pending_events:
  assumes "tables_inv d t" and "r \<in> set (pending t)" and "dp_decode_vc d (ob_payload r) = Inr v"
  shows "v \<in> set (events d t)"
  using assms by (force simp: events_def map_filter_def event_of_def pending_def)

lemma sys_inv_flush:
  assumes inv: "sys_inv d s" and f: "Flush produce_sync (sy_pg s) (sy_broker s) = (err, w, b)"
  shows "sys_inv d (s\<lparr>sy_pg := w, sy_broker := b\<rparr>)"
proof -
  note I = sys_invD [OF inv]
  have safe: "stamps_only (pg_tables (sy_pg s)) (pg_tables w)"
    "stamped_in_log (br_logs b) (pg_tables w)" "script_ok (pg_script w)"
    using kafka.Flush_safe [OF f I(5) I(4)] I(1) by simp_all
  have log: "bytes \<in> set (br_logs (sy_broker s) topic) \<or>
      (\<exists>r \<in> set (pending (pg_tables (sy_pg s))). ob_topic r = topic \<and> ob_payload r = bytes)"
    if "bytes \<in> set (br_logs b topic)" for bytes topic
    using kafka.Flush_log [OF f, of topic] that by auto
  have "\<not> (\<exists>r \<in> set (pending (pg_tables (sy_pg s))). ob_topic r = TopicEstimateReady)"
    using I(2) by (auto simp: tables_inv_def outbox_matches_def pending_def)
  then have "logs_genuine d (events d (pg_tables (sy_pg s))) (br_logs b)"
    using I(3) log [of _ TopicVoyageCreated] log [of _ TopicEstimateReady] pending_events [OF I(2)]
    unfolding logs_genuine_def by (intro conjI ballI allI impI) metis+
  then show ?thesis
    using safe tables_inv_stamps [OF I(2) safe(1)]
    by (intro sys_invI) (simp_all add: events_stamps)
qed

lemma priced_entry_genuine:
  assumes "priced_entry (app_consumer d) bytes payload"
    and "\<And>v. dp_decode_vc d bytes = Inr v \<Longrightarrow> v \<in> set evs \<and> vc_Version v = 1"
    and "dp_decode_er d payload = Inr er"
  shows "er_VoyageVersion er = 1 \<and> genuine d evs (er_VoyageID er) (er_AmountMinor er)"
proof -
  obtain vc cost at where vc: "dp_decode_vc d bytes = Inr vc" "price (app_rate d) vc = Inr cost"
    and enc: "dp_encode_er d (BuildEstimateReady vc cost at) = Inr payload"
    using assms(1) by (auto simp: priced_entry_def)
  from er_round [OF enc] assms(3) have "er_VoyageID er = vc_ClientRequestID vc"
    "er_VoyageVersion er = vc_Version vc" "er_AmountMinor er = Minor cost"
    by (auto simp: BuildEstimateReady_def)
  with vc assms(2) show ?thesis
    by (auto simp: genuine_def)
qed

lemma sys_inv_price:
  assumes inv: "sys_inv d s" and r: "kr_Value r \<in> set (br_logs (sy_broker s) TopicVoyageCreated)"
    and h: "Consumer_handle (app_consumer d) (sy_broker s) r = (ok, b)"
  shows "sys_inv d (s\<lparr>sy_broker := b\<rparr>)"
proof -
  note I = sys_invD [OF inv]
  have vc: "v \<in> set (events d (pg_tables (sy_pg s))) \<and> vc_Version v = 1"
    if "dp_decode_vc d (kr_Value r) = Inr v" for v
    using I(2,3) r that by (auto simp: logs_genuine_def tables_inv_def outbox_matches_def)
  from kafka.consumer_handle_logs [OF app_consumer_simps(1) h] show ?thesis
  proof (elim disjE conjE exE, simp_all, goal_cases)
    case 1
    with inv show ?case by (rule sys_inv_same_logs)
  next
    case (2 err)
    from inv 2(1) show ?case by (rule sys_inv_broker) simp_all
  next
    case (3 payload)
    show ?case
    proof (rule sys_inv_broker [OF inv 3(1)])
      fix er assume "dp_decode_er d payload = Inr er"
      with priced_entry_genuine [OF 3(2) vc] show "er_VoyageVersion er = 1 \<and>
        genuine d (events d (pg_tables (sy_pg s))) (er_VoyageID er) (er_AmountMinor er)"
        by blast
    qed simp
  qed
qed

lemma sys_inv_estimate:
  assumes inv: "sys_inv d s" and r: "kr_Value r \<in> set (br_logs (sy_broker s) TopicEstimateReady)"
    and h: "EstimateConsumer_handle (app_estimate_consumer d) (ec_view s) r = (ok, w)"
  shows "sys_inv d (ec_put w)"
proof -
  note I = sys_invD [OF inv]
  have upsert: ?thesis
    if er: "dp_decode_er d (kr_Value r) = Inr er"
      and u: "pg_UpsertEstimate (sy_pg s) (er_VoyageID er) (er_VoyageVersion er) (er_AmountMinor er)
        = (res, repo)"
      and w: "ew_client w = sy_broker s" "ew_repo w = repo" for er res repo
  proof -
    have g: "genuine d (events d (pg_tables (sy_pg s))) (er_VoyageID er) (er_AmountMinor er)"
      using I(3) r er by (auto simp: logs_genuine_def)
    have "tables_inv d (pg_tables repo) \<and> events d (pg_tables repo) = events d (pg_tables (sy_pg s))
        \<and> outbox (pg_tables repo) = outbox (pg_tables (sy_pg s))"
      using pg_UpsertEstimate_tables [OF u] tables_inv_upsert [OF I(2) g, OF prod.collapse [symmetric]]
        I(2) by auto
    moreover have "script_ok (pg_script repo)"
      using pg_up.upsert_ok [OF I(1) u] .
    ultimately show ?thesis
      using I w by (intro sys_invI) (simp_all add: ec_put_def stamped_in_log_def)
  qed
  from h show ?thesis
  proof (cases rule: EstimateConsumer_handle_cases)
    case (poison err err' b)
    then have p: "produce_sync (sy_broker s) TopicEstimateReadyDLQ (kr_Value r) = (err', ew_client w)"
      by (simp add: ec_view_def)
    have "sys_inv d (s\<lparr>sy_broker := ew_client w\<rparr>)"
      using kafka.produce_grows [OF p]
      by (elim disjE conjE) (auto intro: sys_inv_same_logs [OF inv] sys_inv_broker [OF inv])
    then show ?thesis
      using poison(5) by (simp add: sys_inv_def ec_put_def ec_view_def)
  next
    case (failed er err repo)
    then show ?thesis by (intro upsert) (simp_all add: ec_view_def)
  next
    case (upserted er applied at repo)
    then show ?thesis by (intro upsert) (simp_all add: ec_view_def)
  qed
qed

lemma sys_inv_step:
  assumes "sys_step d s s'" and inv: "sys_inv d s"
  shows "sys_inv d s'"
  using assms(1)
proof (cases rule: sys_step.cases)
  case (get req res w)
  with server_get_tables [OF get(2) sys_invD(1) [OF inv]] inv show ?thesis
    by (auto intro: sys_inv_rows)
next
  case (junk bytes e e' topic)
  show ?thesis
    unfolding junk(1) by (rule sys_inv_broker [OF inv, where topic = topic and bytes = bytes])
      (simp_all add: junk(2,3))
next
  case (environment dbs t t' brs)
  then show ?thesis
    using sys_invD [OF inv] by (intro sys_invI) simp_all
next
  case (create fault req res w)
  show ?thesis unfolding create(1) by (rule sys_inv_create [OF inv create(2)])
next
  case (update req res w)
  show ?thesis unfolding update(1) by (rule sys_inv_update [OF inv update(2)])
next
  case (flush err w b)
  show ?thesis unfolding flush(1) by (rule sys_inv_flush [OF inv flush(2)])
next
  case (price_record r ok b)
  show ?thesis unfolding price_record(1) by (rule sys_inv_price [OF inv price_record(2,3)])
next
  case (estimate_record r ok w)
  show ?thesis unfolding estimate_record(1) by (rule sys_inv_estimate [OF inv estimate_record(2,3)])
qed

theorem reachable_inv: "reachable d s \<Longrightarrow> sys_inv d s"
  by (induction rule: reachable.induct) (blast intro: sys_inv_init sys_inv_step)+

end

lemma reachable_steps: "(sys_step d)\<^sup>*\<^sup>* s s' \<Longrightarrow> reachable d s \<Longrightarrow> reachable d s'"
  by (induction rule: rtranclp_induct) (auto intro: reachable.step)

section \<open>What never changes again\<close>

text \<open>Once a voyage has left version 1 its estimate stays as it is: every estimate is for
  version 1.\<close>

definition left_v1 :: "string \<Rightarrow> int64 option \<Rightarrow> tables \<Rightarrow> bool" where
  "left_v1 cid est t \<longleftrightarrow>
     (\<exists>row. voyages t cid = Some row \<and> row_version row \<noteq> 1 \<and> row_estimate_minor row = est)"

lemma left_v1_created:
  "left_v1 cid est t \<Longrightarrow> voyages t (ClientRequestID v) = None \<Longrightarrow>
     left_v1 cid est (created_tables now v topic payload js t)"
  by (rule created_tables_fresh [of t v now topic payload js]) (auto simp: left_v1_def)

lemma left_v1_update:
  "left_v1 cid est t \<Longrightarrow> rows_match d t \<Longrightarrow> left_v1 cid est (updateVoyageHigherWins v t)"
  by (fastforce simp: left_v1_def rows_match_def updateVoyageHigherWins_def word_sless_alt
      split: option.splits)

lemma left_v1_upsert:
  "left_v1 cid est t \<Longrightarrow> left_v1 cid est (snd (upsertEstimate vid 1 amt t))"
  by (auto simp: left_v1_def upsertEstimate_def split: option.splits)

lemma left_v1_voyages: "voyages t' = voyages t \<Longrightarrow> left_v1 cid est t' = left_v1 cid est t"
  by (simp add: left_v1_def)

lemma left_v1_step:
  assumes "sys_step d s s'" and inv: "sys_inv d s" and v: "left_v1 cid est (pg_tables (sy_pg s))"
  shows "left_v1 cid est (pg_tables (sy_pg s'))"
  using assms(1)
proof (cases rule: sys_step.cases)
  case (create fault req res w)
  have "left_v1 cid est (pg_tables w)"
    using server_create_tables [OF create(2) sys_invD(1) [OF inv]]
  proof (elim conjE disjE exE)
    assume "same_rows (pg_tables (sy_pg s)) (pg_tables w)"
    then have "voyages (pg_tables w) = voyages (pg_tables (sy_pg s))"
      by (simp only: same_rows_def)
    from left_v1_voyages [OF this] v show ?thesis by blast
  next
    fix u now topic payload js
    assume "voyages (pg_tables (sy_pg s)) (ClientRequestID u) = None"
      and "pg_tables w = created_tables now u topic payload js (pg_tables (sy_pg s))"
    with left_v1_created [OF v] show ?thesis by simp
  qed
  then show ?thesis by (simp add: create(1))
next
  case (update req res w)
  from server_update_tables [OF update(2) sys_invD(1) [OF inv]] v sys_invD(2) [OF inv] show ?thesis
    by (auto simp: update(1) tables_inv_def left_v1_update)
next
  case (get req res w)
  from server_get_tables [OF get(2) sys_invD(1) [OF inv]] v show ?thesis
    by (simp add: get(1))
next
  case (flush err w b)
  have "voyages (pg_tables w) = voyages (pg_tables (sy_pg s))"
    using kafka.Flush_safe [OF flush(2) sys_invD(5) [OF inv] sys_invD(4) [OF inv]]
    by (simp add: stamps_only_def)
  from left_v1_voyages [OF this] v show ?thesis by (simp add: flush(1))
next
  case (estimate_record r ok w)
  have upsert: ?thesis
    if er: "dp_decode_er d (kr_Value r) = Inr er"
      and u: "pg_UpsertEstimate (sy_pg s) (er_VoyageID er) (er_VoyageVersion er) (er_AmountMinor er)
        = (out, repo)" and w: "ew_repo w = repo" for er out repo
  proof -
    have "er_VoyageVersion er = 1"
      using sys_invD(3) [OF inv] estimate_record(2) er by (auto simp: logs_genuine_def)
    with pg_UpsertEstimate_tables [OF u] v left_v1_upsert [OF v] show ?thesis
      by (auto simp: estimate_record(1) ec_put_def w)
  qed
  from estimate_record(3) show ?thesis
  proof (cases rule: EstimateConsumer_handle_cases)
    case (poison err err' b)
    with v show ?thesis by (simp add: estimate_record(1) ec_put_def ec_view_def)
  next
    case (failed er err repo)
    then show ?thesis by (intro upsert) (simp_all add: ec_view_def)
  next
    case (upserted er applied at repo)
    then show ?thesis by (intro upsert) (simp_all add: ec_view_def)
  qed
qed (use v in simp_all)

lemma left_v1_steps:
  assumes "(sys_step d)\<^sup>*\<^sup>* s s'" and "reachable d s" and "left_v1 cid est (pg_tables (sy_pg s))"
    and "pipeline_codec d"
  shows "left_v1 cid est (pg_tables (sy_pg s'))"
  using assms(1,3)
proof (induction rule: rtranclp_induct)
  case base
  then show ?case .
next
  case (step s1 s2)
  have "sys_inv d s1"
    using pipeline_codec.reachable_inv [OF assms(4)]
      reachable_steps [OF step(1) assms(2)] .
  with step left_v1_step show ?case by blast
qed

end
