(* ===== verification/Pipeline_Progress.thy ===== *)
theory Pipeline_Progress
  imports Pipeline_Invariant
begin

text \<open>
  The way a created voyage gets its estimate: the relay drains the outbox, the estimator
  prices the event, the voyage service applies the price. And the wiring over the serde, with
  the Avro format as the instance of the codec the library implements.
\<close>

section \<open>The steps of a good run\<close>

lemma Poller_Run_steps:
  "Poller_Run produce_sync (sy_pg s) (sy_broker s) es = (w, b) \<Longrightarrow>
     (sys_step d)\<^sup>*\<^sup>* s (s\<lparr>sy_pg := w, sy_broker := b\<rparr>)"
proof (induction es arbitrary: s)
  case Nil
  then have "s\<lparr>sy_pg := w, sy_broker := b\<rparr> = s" by (cases s) simp
  then show ?case by simp
next
  case (Cons e es)
  show ?case
  proof (cases e)
    case CtxDone
    with Cons.prems have "s\<lparr>sy_pg := w, sy_broker := b\<rparr> = s" by (cases s) simp
    then show ?thesis by simp
  next
    case Tick
    obtain err w1 b1 where f: "Flush produce_sync (sy_pg s) (sy_broker s) = (err, w1, b1)"
      by (metis prod_cases3)
    let ?s1 = "s\<lparr>sy_pg := w1, sy_broker := b1\<rparr>"
    have "Poller_Run produce_sync (sy_pg ?s1) (sy_broker ?s1) es = (w, b)"
      using Cons.prems Tick f by simp
    from Cons.IH [OF this] have "(sys_step d)\<^sup>*\<^sup>* ?s1 (s\<lparr>sy_pg := w, sy_broker := b\<rparr>)"
      by simp
    with sys_step.flush [OF f, of d] show ?thesis
      by (rule converse_rtranclp_into_rtranclp)
  qed
qed

lemma drain_steps:
  assumes "reachable d s" and "pipeline_codec d"
    and "pg_healthy (sy_pg s)" and "br_script (sy_broker s) = []"
  obtains s1 where "(sys_step d)\<^sup>*\<^sup>* s s1" and "pending (pg_tables (sy_pg s1)) = []"
    and "stamps_only (pg_tables (sy_pg s)) (pg_tables (sy_pg s1))"
    and "pg_healthy (sy_pg s1)" and "br_script (sy_broker s1) = []"
proof -
  let ?n = "length (pending (pg_tables (sy_pg s)))"
  obtain w b where run: "Poller_Run produce_sync (sy_pg s) (sy_broker s) (replicate ?n Tick) = (w, b)"
    by (cases "Poller_Run produce_sync (sy_pg s) (sy_broker s) (replicate ?n Tick)") blast
  have ok: "outbox_ok (pg_tables (sy_pg s))"
    by (rule sys_invD(5) [OF pipeline_codec.reachable_inv [OF assms(2,1)]])
  have "pending (pg_tables w) = [] \<and> stamps_only (pg_tables (sy_pg s)) (pg_tables w) \<and>
      pg_healthy w \<and> br_script b = []"
    by (rule kafka_live.Poller_Run_drains [OF assms(4,3) ok _ run]) simp
  then show thesis
    using Poller_Run_steps [OF run, of d] by (intro that [of "s\<lparr>sy_pg := w, sy_broker := b\<rparr>"]) simp_all
qed

lemma pricing_step:
  assumes "dp_decode_vc d bytes = Inr vc" and "price (app_rate d) vc = Inr cost"
    and "\<And>e. \<exists>payload. dp_encode_er d e = Inr payload"
    and "bytes \<in> set (br_logs (sy_broker s) TopicVoyageCreated)"
    and "br_script (sy_broker s) = []" and "pipeline_codec d"
  obtains b payload er where "sys_step d s (s\<lparr>sy_broker := b\<rparr>)"
    and "payload \<in> set (br_logs b TopicEstimateReady)" and "dp_decode_er d payload = Inr er"
    and "er_VoyageID er = vc_ClientRequestID vc" and "er_VoyageVersion er = vc_Version vc"
    and "er_AmountMinor er = Minor cost"
proof -
  let ?r = "\<lparr>kr_Topic = TopicVoyageCreated, kr_Partition = 0, kr_Offset = 0, kr_Value = bytes\<rparr>"
  let ?e = "BuildEstimateReady vc cost (br_now (sy_broker s))"
  obtain payload where enc: "dp_encode_er d ?e = Inr payload"
    using assms(3) by blast
  let ?b = "(sy_broker s)\<lparr>br_logs := appended (br_logs (sy_broker s)) TopicEstimateReady payload\<rparr>"
  have "Consumer_handle (app_consumer d) (sy_broker s) ?r = (True, ?b)"
    using assms(1,2,5) enc
    by (simp add: Consumer_handle_def app_consumer_def price_def produce_sync_healthy)
  with assms(4) have "sys_step d s (s\<lparr>sy_broker := ?b\<rparr>)"
    by (intro sys_step.price_record) simp_all
  moreover obtain t where "dp_decode_er d payload = Inr (?e\<lparr>er_CalculatedAt := t\<rparr>)"
    using pipeline_codec.er_round [OF assms(6) enc] by blast
  ultimately show thesis
    by (intro that [of ?b payload "?e\<lparr>er_CalculatedAt := t\<rparr>"]) (simp_all add: BuildEstimateReady_def)
qed

lemma estimate_step:
  assumes "dp_decode_er d bytes = Inr er"
    and "bytes \<in> set (br_logs (sy_broker s) TopicEstimateReady)"
    and "pg_healthy (sy_pg s)" and "voyages (pg_tables (sy_pg s)) (er_VoyageID er) = Some row"
    and "row_version row = er_VoyageVersion er"
  obtains s' where "sys_step d s s'"
    and "voyages (pg_tables (sy_pg s')) (er_VoyageID er) =
      Some (row\<lparr>row_estimate_minor := Some (er_AmountMinor er)\<rparr>)"
proof -
  let ?r = "\<lparr>kr_Topic = TopicEstimateReady, kr_Partition = 0, kr_Offset = 0, kr_Value = bytes\<rparr>"
  obtain done' w where h: "EstimateConsumer_handle (app_estimate_consumer d) (ec_view s) ?r = (done', w)"
    by (cases "EstimateConsumer_handle (app_estimate_consumer d) (ec_view s) ?r") blast
  have "voyages (pg_tables (ew_repo w)) (er_VoyageID er) =
      Some (row\<lparr>row_estimate_minor := Some (er_AmountMinor er)\<rparr>)"
  proof -
    have "next_outcome (pg_script (sy_pg s)) = Done"
      using assms(3) by (simp add: pg_healthy_def)
    moreover have "snd (upsertEstimate (er_VoyageID er) (er_VoyageVersion er) (er_AmountMinor er)
        (pg_tables (sy_pg s))) = t \<Longrightarrow> voyages t (er_VoyageID er) =
      Some (row\<lparr>row_estimate_minor := Some (er_AmountMinor er)\<rparr>)" for t
      using assms(4,5) by (auto simp: upsertEstimate_def)
    ultimately show ?thesis
      using h assms(1)
      by (auto simp: EstimateConsumer_handle_def ec_view_def pg_UpsertEstimate_def Let_def split_beta
          split: option.splits if_splits)
  qed
  with sys_step.estimate_record [of ?r s d, OF _ h] assms(2) show thesis
    by (intro that [of "ec_put w"]) (auto simp: ec_put_def)
qed

text \<open>An event of the drained outbox is in the log.\<close>

lemma event_in_log:
  assumes "sys_inv d s" and "pending (pg_tables (sy_pg s)) = []"
    and "vc \<in> set (events d (pg_tables (sy_pg s)))"
  obtains bytes where "bytes \<in> set (br_logs (sy_broker s) TopicVoyageCreated)"
    and "dp_decode_vc d bytes = Inr vc"
proof -
  obtain r where r: "r \<in> set (outbox (pg_tables (sy_pg s)))" and "event_of d r = Some vc"
    using assms(3) by (auto simp: events_def map_filter_def)
  then have "dp_decode_vc d (ob_payload r) = Inr vc"
    by (simp add: event_of_def split: sum.splits)
  moreover have "ob_published_at r \<noteq> None" and "ob_topic r = TopicVoyageCreated"
    using assms(2) r sys_invD(2) [OF assms(1)]
    by (auto simp: pending_def filter_empty_conv tables_inv_def outbox_matches_def)
  then have "ob_payload r \<in> set (br_logs (sy_broker s) TopicVoyageCreated)"
    using sys_invD(4) [OF assms(1)] r by (auto simp: stamped_in_log_def)
  ultimately show thesis by (rule that [rotated])
qed

lemma estimate_arrives_steps:
  assumes cod: "pipeline_codec d" and reach: "reachable d s"
    and "pg_healthy (sy_pg s)" and "br_script (sy_broker s) = []"
    and enc: "\<And>e. \<exists>payload. dp_encode_er d e = Inr payload"
    and row: "voyages (pg_tables (sy_pg s)) cid = Some row" and v1: "row_version row = 1"
    and cost: "EstimateCost (row_distance_nm row) (FromUSD (row_fees_minor row)) (app_rate d) = Inr cost"
  shows "\<exists>s'. (sys_step d)\<^sup>*\<^sup>* s s' \<and> voyages (pg_tables (sy_pg s')) cid =
    Some (row\<lparr>row_estimate_minor := Some (Minor cost)\<rparr>)"
proof -
  let ?vc = "ToVoyageCreated (row_voyage row)"
  obtain s1 where steps: "(sys_step d)\<^sup>*\<^sup>* s s1" and drained: "pending (pg_tables (sy_pg s1)) = []"
    and "stamps_only (pg_tables (sy_pg s)) (pg_tables (sy_pg s1))"
    and s1: "pg_healthy (sy_pg s1)" "br_script (sy_broker s1) = []"
    using drain_steps [OF reach cod assms(3,4)] .
  then have row1: "voyages (pg_tables (sy_pg s1)) cid = Some row"
    using row by (simp add: stamps_only_def)
  have inv: "sys_inv d s1"
    using pipeline_codec.reachable_inv [OF cod] reachable_steps [OF steps reach] .
  then have vc: "?vc \<in> set (events d (pg_tables (sy_pg s1)))"
    and cid: "row_client_request_id row = cid"
    using row1 v1 sys_invD(2) [OF inv] by (auto simp: tables_inv_def rows_match_def keys_ok_def)
  have ev: "price (app_rate d) ?vc = Inr cost" "vc_ClientRequestID ?vc = cid" "vc_Version ?vc = 1"
    using cost cid v1 by (simp_all add: price_def ToVoyageCreated_def row_voyage_def)
  obtain bytes where bytes: "bytes \<in> set (br_logs (sy_broker s1) TopicVoyageCreated)"
    and dec: "dp_decode_vc d bytes = Inr ?vc"
    using event_in_log [OF inv drained vc] .
  obtain b payload er where step2: "sys_step d s1 (s1\<lparr>sy_broker := b\<rparr>)"
    and payload: "payload \<in> set (br_logs b TopicEstimateReady)" "dp_decode_er d payload = Inr er"
    and er: "er_VoyageID er = cid" "er_VoyageVersion er = 1" "er_AmountMinor er = Minor cost"
    using pricing_step [OF dec ev(1) enc bytes s1(2) cod] ev(2,3) by metis
  obtain s3 where "sys_step d (s1\<lparr>sy_broker := b\<rparr>) s3"
    and "voyages (pg_tables (sy_pg s3)) cid = Some (row\<lparr>row_estimate_minor := Some (Minor cost)\<rparr>)"
    using estimate_step [of d payload er "s1\<lparr>sy_broker := b\<rparr>" row] payload s1(1) row1 v1 er by auto
  with steps step2 show ?thesis
    by (meson rtranclp.rtrancl_into_rtrancl)
qed

section \<open>The wiring over the serde\<close>

text \<open>Both processes build their serde from \<open>eventreg.All()\<close> and pass it to the encoder and the
  consumers.\<close>

definition serde_deployment ::
  "('s \<Rightarrow> voyage_created \<Rightarrow> goerr + byte list) \<Rightarrow> ('s \<Rightarrow> byte list \<Rightarrow> goerr + voyage_created) \<Rightarrow>
   ('s \<Rightarrow> estimate_ready \<Rightarrow> goerr + byte list) \<Rightarrow> ('s \<Rightarrow> byte list \<Rightarrow> goerr + estimate_ready) \<Rightarrow>
   's serde \<Rightarrow> int64 \<Rightarrow> goerr + byte list \<Rightarrow> (instant \<Rightarrow> int) \<Rightarrow> deployment" where
  "serde_deployment marshal_v unmarshal_v marshal_e unmarshal_e byType rate carrier since =
     \<lparr>dp_encode_vc = serde_Encode marshal_v byType T_VoyageCreated,
      dp_decode_vc = serde_Decode unmarshal_v byType T_VoyageCreated,
      dp_encode_er = serde_Encode marshal_e byType T_EstimateReady,
      dp_decode_er = serde_Decode unmarshal_e byType T_EstimateReady,
      dp_ratePerNmMinor = rate, dp_carrier = carrier, dp_since = since\<rparr>"

text \<open>The Avro library for the two event types: only the estimate's time may be rounded.\<close>

locale avro_events =
  v: avro_library marshal_v unmarshal_v "\<lambda>v. v" + e: avro_library marshal_e unmarshal_e norm
  for marshal_v :: "'s \<Rightarrow> voyage_created \<Rightarrow> goerr + byte list"
    and unmarshal_v :: "'s \<Rightarrow> byte list \<Rightarrow> goerr + voyage_created"
    and marshal_e :: "'s \<Rightarrow> estimate_ready \<Rightarrow> goerr + byte list"
    and unmarshal_e :: "'s \<Rightarrow> byte list \<Rightarrow> goerr + estimate_ready"
    and norm :: "estimate_ready \<Rightarrow> estimate_ready" +
  assumes norm_time: "\<exists>t. norm e = e\<lparr>er_CalculatedAt := t\<rparr>"

sublocale avro_events \<subseteq> pipeline_codec
  "serde_deployment marshal_v unmarshal_v marshal_e unmarshal_e byType rate carrier since"
  for byType rate carrier since
proof (unfold_locales, goal_cases)
  case (1 x bytes)
  then show ?case
    by (simp add: serde_deployment_def v.serde.dec_enc)
next
  case (2 x bytes)
  then have "serde_Decode unmarshal_e byType T_EstimateReady bytes = Inr (norm x)"
    by (simp add: serde_deployment_def e.serde.dec_enc)
  with norm_time [of x] show ?case
    by (auto simp: serde_deployment_def)
qed

interpretation avro: avro_events marshal_vc unmarshal_vc marshal_er unmarshal_er to_millis
  by unfold_locales (auto simp: to_millis_def)

end
