(* ===== verification/Json.thy ===== *)
theory Json
  imports Go_Prelude
begin

text \<open>
  The part of Go's \<open>encoding/json\<close> the onboard client uses: the compact text of a value as
  \<open>json.Marshal\<close> writes it (HTML characters, U+2028 and U+2029 escaped, ill-formed UTF-8
  replaced), and the reading of a text as \<open>json.Unmarshal\<close> accepts it. A Go string is a list of
  bytes. Not modelled: the depth limit of 10000, and the wording of a syntax error.
\<close>

section \<open>Bytes and UTF-8\<close>

definition code :: "char \<Rightarrow> nat" where
  "code c = of_char c"

lemma code_less [simp]: "code c < 256"
  by (simp add: code_def)

definition chr :: "nat \<Rightarrow> char" where
  "chr n = char_of n"

lemma code_chr [simp]: "n < 256 \<Longrightarrow> code (chr n) = n"
  by (simp add: code_def chr_def)

lemma chr_code [simp]: "chr (code c) = c"
  by (simp add: code_def chr_def)

lemma code_eq_iff: "code c = code d \<longleftrightarrow> c = d"
  by (simp add: code_def)

definition between :: "nat \<Rightarrow> char \<Rightarrow> nat \<Rightarrow> bool" where
  "between lo c hi \<longleftrightarrow> lo \<le> code c \<and> code c \<le> hi"

text \<open>The length of the well-formed multi-byte sequence a text starts with, or 0.\<close>

definition utf8_len :: "string \<Rightarrow> nat" where
  "utf8_len s =
     (case s of
        a # b # r \<Rightarrow>
          if between 194 a 223 \<and> between 128 b 191 then 2
          else (case r of
            c # r \<Rightarrow>
              if between 128 c 191 \<and>
                (code a = 224 \<and> between 160 b 191 \<or> between 225 a 236 \<and> between 128 b 191 \<or>
                 code a = 237 \<and> between 128 b 159 \<or> between 238 a 239 \<and> between 128 b 191)
              then 3
              else (case r of
                d # _ \<Rightarrow>
                  if between 128 c 191 \<and> between 128 d 191 \<and>
                    (code a = 240 \<and> between 144 b 191 \<or> between 241 a 243 \<and> between 128 b 191 \<or>
                     code a = 244 \<and> between 128 b 143)
                  then 4 else 0
              | [] \<Rightarrow> 0)
          | [] \<Rightarrow> 0)
      | _ \<Rightarrow> 0)"

lemma utf8_len_bound: "utf8_len s \<le> length s"
  by (auto simp: utf8_len_def split: list.splits)

lemma utf8_len_cases: "utf8_len s \<in> {0, 2, 3, 4}"
  by (auto simp: utf8_len_def split: list.splits)

lemma utf8_len_ascii: "code c < 128 \<Longrightarrow> utf8_len (c # r) = 0"
  by (auto simp: utf8_len_def between_def split: list.splits)

definition utf8_encode :: "nat \<Rightarrow> string" where
  "utf8_encode u =
     (if u < 128 then [chr u]
      else if u < 2048 then [chr (192 + u div 64), chr (128 + u mod 64)]
      else if u < 65536
      then [chr (224 + u div 4096), chr (128 + u div 64 mod 64), chr (128 + u mod 64)]
      else [chr (240 + u div 262144), chr (128 + u div 4096 mod 64), chr (128 + u div 64 mod 64),
            chr (128 + u mod 64)])"

text \<open>U+FFFD, U+2028 and U+2029 in UTF-8.\<close>

definition replacement :: string where
  "replacement = [chr 239, chr 191, chr 189]"

definition line_sep :: string where "line_sep = [chr 226, chr 128, chr 168]"

definition para_sep :: string where "para_sep = [chr 226, chr 128, chr 169]"

section \<open>Writing strings\<close>

definition hex_digit :: "nat \<Rightarrow> char" where
  "hex_digit d = (if d < 10 then chr (48 + d) else chr (87 + d))"

definition escape_u :: "nat \<Rightarrow> string" where
  "escape_u u = [CHR 0x5C, CHR ''u'', hex_digit (u div 4096), hex_digit (u div 256 mod 16),
     hex_digit (u div 16 mod 16), hex_digit (u mod 16)]"

definition escape_ascii :: "char \<Rightarrow> string" where
  "escape_ascii c =
     (let n = code c in
      if n = 34 \<or> n = 92 then [CHR 0x5C, c]
      else if n = 8 then [CHR 0x5C, CHR ''b'']
      else if n = 12 then [CHR 0x5C, CHR ''f'']
      else if n = 10 then [CHR 0x5C, CHR ''n'']
      else if n = 13 then [CHR 0x5C, CHR ''r'']
      else if n = 9 then [CHR 0x5C, CHR ''t'']
      else if n < 32 \<or> n = 60 \<or> n = 62 \<or> n = 38 then escape_u n
      else [c])"

function escape :: "string \<Rightarrow> string" where
  "escape [] = []"
| "escape (c # r) =
     (if code c < 128 then escape_ascii c @ escape r
      else
        let n = utf8_len (c # r) in
        if n = 0 then escape_u 65533 @ escape r
        else if take n (c # r) = line_sep then escape_u 8232 @ escape (drop n (c # r))
        else if take n (c # r) = para_sep then escape_u 8233 @ escape (drop n (c # r))
        else take n (c # r) @ escape (drop n (c # r)))"
  by pat_completeness auto
termination by (relation "measure length") auto

text \<open>Well-formed UTF-8.\<close>

function utf8_ok :: "string \<Rightarrow> bool" where
  "utf8_ok [] \<longleftrightarrow> True"
| "utf8_ok (c # r) \<longleftrightarrow>
     (if code c < 128 then utf8_ok r
      else if utf8_len (c # r) = 0 then False
      else utf8_ok (drop (utf8_len (c # r)) (c # r)))"
  by pat_completeness auto
termination by (relation "measure length") auto

declare escape.simps(2) [simp del] utf8_ok.simps(2) [simp del]

section \<open>Reading strings\<close>

definition hex_value :: "char \<Rightarrow> nat option" where
  "hex_value c =
     (if between 48 c 57 then Some (code c - 48)
      else if between 97 c 102 then Some (code c - 87)
      else if between 65 c 70 then Some (code c - 55)
      else None)"

fun hex4 :: "string \<Rightarrow> (nat \<times> string) option" where
  "hex4 (a # b # c # d # r) =
     (case (hex_value a, hex_value b, hex_value c, hex_value d) of
        (Some w, Some x, Some y, Some z) \<Rightarrow> Some (((w * 16 + x) * 16 + y) * 16 + z, r)
      | _ \<Rightarrow> None)"
| "hex4 _ = None"

text \<open>The second half of a surrogate pair.\<close>

definition low_surrogate :: "string \<Rightarrow> (nat \<times> string) option" where
  "low_surrogate s =
     (case s of
        a # b # r \<Rightarrow>
          if code a = 92 \<and> code b = 117
          then (case hex4 r of
                  Some (v, r') \<Rightarrow> if 56320 \<le> v \<and> v < 57344 then Some (v, r') else None
                | None \<Rightarrow> None)
          else None
      | _ \<Rightarrow> None)"

definition read_u :: "string \<Rightarrow> (string \<times> string) option" where
  "read_u s =
     (case hex4 s of
        None \<Rightarrow> None
      | Some (u, r) \<Rightarrow>
          if u < 55296 \<or> 57344 \<le> u then Some (utf8_encode u, r)
          else if u < 56320
          then (case low_surrogate r of
                  Some (v, r') \<Rightarrow> Some (utf8_encode (65536 + (u - 55296) * 1024 + (v - 56320)), r')
                | None \<Rightarrow> Some (replacement, r))
          else Some (replacement, r))"

text \<open>What follows a backslash.\<close>

definition read_escape :: "string \<Rightarrow> (string \<times> string) option" where
  "read_escape s =
     (case s of
        [] \<Rightarrow> None
      | e # r \<Rightarrow>
          let n = code e in
          if n = 34 \<or> n = 92 \<or> n = 47 then Some ([e], r)
          else if n = 98 then Some ([chr 8], r)
          else if n = 102 then Some ([chr 12], r)
          else if n = 110 then Some ([chr 10], r)
          else if n = 114 then Some ([chr 13], r)
          else if n = 116 then Some ([chr 9], r)
          else if n = 117 then read_u r
          else None)"

lemma hex4_shorter: "hex4 s = Some (u, r) \<Longrightarrow> length r < length s"
  by (cases s rule: hex4.cases) (auto split: option.splits)

lemma low_surrogate_shorter: "low_surrogate s = Some (v, r) \<Longrightarrow> length r < length s"
  by (auto simp: low_surrogate_def split: list.splits option.splits if_splits dest: hex4_shorter)

lemma read_u_shorter: "read_u s = Some (t, r) \<Longrightarrow> length r < length s"
proof -
  assume *: "read_u s = Some (t, r)"
  then obtain u r1 where r1: "hex4 s = Some (u, r1)"
    by (auto simp: read_u_def split: option.splits)
  with * have "r = r1 \<or> (\<exists>v. low_surrogate r1 = Some (v, r))"
    by (auto simp: read_u_def split: option.splits if_splits)
  then show ?thesis
    using hex4_shorter [OF r1] low_surrogate_shorter [of r1] by fastforce
qed

lemma read_escape_shorter: "read_escape s = Some (t, r) \<Longrightarrow> length r < length s"
  by (auto simp: read_escape_def Let_def split: list.splits if_splits dest: read_u_shorter)

definition prepend :: "string \<Rightarrow> (string \<times> string) option \<Rightarrow> (string \<times> string) option" where
  "prepend t x = map_option (\<lambda>(s, r). (t @ s, r)) x"

text \<open>The rest of a string literal, after its opening quote.\<close>

function read_chars :: "string \<Rightarrow> (string \<times> string) option" where
  "read_chars [] = None"
| "read_chars (c # r) =
     (if code c = 34 then Some ([], r)
      else if code c = 92
      then (case read_escape r of
              None \<Rightarrow> None
            | Some (t, r') \<Rightarrow> prepend t (read_chars r'))
      else if code c < 32 then None
      else if code c < 128 then prepend [c] (read_chars r)
      else if utf8_len (c # r) = 0 then prepend replacement (read_chars r)
      else prepend (take (utf8_len (c # r)) (c # r)) (read_chars (drop (utf8_len (c # r)) (c # r))))"
  by pat_completeness auto
termination
  by (relation "measure length") (auto dest: read_escape_shorter)

declare read_chars.simps(2) [simp del]

section \<open>A string survives\<close>

lemma prepend_simps [simp]: "prepend t (Some (s, r)) = Some (t @ s, r)" "prepend t None = None"
  by (simp_all add: prepend_def)

lemma read_escape_backslash:
  "code c = 92 \<Longrightarrow> read_chars (c # r) =
     (case read_escape r of None \<Rightarrow> None | Some (t, r') \<Rightarrow> prepend t (read_chars r'))"
  by (simp add: read_chars.simps(2))

lemma code_literals [simp]:
  "code (CHR 0x5C) = 92" "code (CHR ''u'') = 117" "code (CHR ''b'') = 98" "code (CHR ''f'') = 102"
  "code (CHR ''n'') = 110" "code (CHR ''r'') = 114" "code (CHR ''t'') = 116"
  by (simp_all add: code_def)

lemma chr_eq: "code c = n \<Longrightarrow> chr n = c"
  by (metis chr_code)

lemma hex_value_digit [simp]: "d < 16 \<Longrightarrow> hex_value (hex_digit d) = Some d"
  by (auto simp: hex_value_def hex_digit_def between_def)

lemma four_hex: "(((u div 4096) * 16 + u div 256 mod 16) * 16 + u div 16 mod 16) * 16 + u mod 16 = (u :: nat)"
proof -
  have "u div 4096 * 16 + u div 256 mod 16 = u div 256"
    using div_mult_mod_eq [of "u div 256" 16] by (simp add: div_mult2_eq [symmetric])
  moreover have "u div 256 * 16 + u div 16 mod 16 = u div 16"
    using div_mult_mod_eq [of "u div 16" 16] by (simp add: div_mult2_eq [symmetric])
  ultimately show ?thesis
    by simp
qed

lemma read_chars_escape_u:
  assumes "u < 55296 \<or> 57344 \<le> u \<and> u < 65536"
  shows "read_chars (escape_u u @ r) = prepend (utf8_encode u) (read_chars r)"
proof -
  have "hex4 (hex_digit (u div 4096) # hex_digit (u div 256 mod 16) #
      hex_digit (u div 16 mod 16) # hex_digit (u mod 16) # r) = Some (u, r)"
    using assms four_hex [of u] by auto
  then have "read_u (hex_digit (u div 4096) # hex_digit (u div 256 mod 16) #
      hex_digit (u div 16 mod 16) # hex_digit (u mod 16) # r) = Some (utf8_encode u, r)"
    using assms by (auto simp: read_u_def)
  then show ?thesis
    by (simp add: escape_u_def read_escape_backslash read_escape_def)
qed

lemma read_chars_ascii:
  assumes "code c < 128"
  shows "read_chars (escape_ascii c @ r) = prepend [c] (read_chars r)"
proof -
  have u: "read_chars (escape_u (code c) @ r) = prepend [c] (read_chars r)"
    using assms by (simp add: read_chars_escape_u utf8_encode_def)
  have esc: "read_chars (CHR 0x5C # e # r) = prepend [c] (read_chars r)"
    if "read_escape (e # r) = Some ([c], r)" for e
    using that by (simp add: read_escape_backslash code_def)
  have plain: "read_chars (c # r) = prepend [c] (read_chars r)"
    if "32 \<le> code c" "code c \<noteq> 34" "code c \<noteq> 92"
    using that assms by (simp add: read_chars.simps(2))
  show ?thesis
    using u plain
    by (auto simp: escape_ascii_def Let_def read_escape_def intro!: esc chr_eq)
qed

lemma seps_encode: "utf8_encode 8232 = line_sep" "utf8_encode 8233 = para_sep"
  by (simp_all add: utf8_encode_def line_sep_def para_sep_def)

lemma take_utf8_len_head: "utf8_len (c # r) \<noteq> 0 \<Longrightarrow> \<exists>t. take (utf8_len (c # r)) (c # r) = c # t"
  by (cases "utf8_len (c # r)") auto

text \<open>A well-formed sequence stays one when the text after it changes.\<close>

lemma utf8_len_take:
  "utf8_len s \<noteq> 0 \<Longrightarrow> utf8_len (take (utf8_len s) s @ r) = utf8_len s"
  by (cases s; cases "tl s"; cases "tl (tl s)"; cases "tl (tl (tl s))")
    (auto simp: utf8_len_def between_def split: if_splits)

lemma read_chars_sequence:
  assumes "128 \<le> code c" and "utf8_len (c # s) \<noteq> 0"
  shows "read_chars (take (utf8_len (c # s)) (c # s) @ r) =
    prepend (take (utf8_len (c # s)) (c # s)) (read_chars r)"
proof -
  let ?n = "utf8_len (c # s)"
  obtain t where t: "take ?n (c # s) = c # t"
    using take_utf8_len_head [OF assms(2)] by blast
  have len: "utf8_len (c # t @ r) = ?n"
    using utf8_len_take [OF assms(2), of r] t by simp
  have "length (c # t) = ?n"
    using utf8_len_bound [of "c # s"] by (simp add: t [symmetric] del: length_Cons)
  then have "take ?n (c # t @ r) = c # t" and "drop ?n (c # t @ r) = r"
    by (simp_all del: length_Cons add: append_Cons [symmetric] del: append_Cons)
  with assms len show ?thesis
    by (simp add: t read_chars.simps(2))
qed

theorem read_chars_escape:
  "utf8_ok s \<Longrightarrow> code q = 34 \<Longrightarrow> read_chars (escape s @ q # r) = Some (s, r)"
proof (induction s rule: escape.induct)
  case 1
  then show ?case by (simp add: read_chars.simps(2))
next
  case (2 c s)
  show ?case
  proof (cases "code c < 128")
    case True
    then show ?thesis
      using 2 by (simp add: escape.simps(2) utf8_ok.simps(2) read_chars_ascii)
  next
    case False
    let ?n = "utf8_len (c # s)"
    have n: "?n \<noteq> 0" and ok: "utf8_ok (drop ?n (c # s))"
      using "2.prems"(1) False by (simp_all add: utf8_ok.simps(2) split: if_splits)
    have IH: "read_chars (escape (drop ?n (c # s)) @ q # r) = Some (drop ?n (c # s), r)"
      using "2.IH"(3-5) [OF False refl n] ok "2.prems"(2) by metis
    have td: "t @ drop ?n (c # s) = c # s" if "take ?n (c # s) = t" for t
      using append_take_drop_id [of ?n "c # s"] that by simp
    show ?thesis
    proof (cases "take ?n (c # s) = line_sep \<or> take ?n (c # s) = para_sep")
      case True
      then show ?thesis
        using False n IH
        by (auto simp: td escape.simps(2) Let_def read_chars_escape_u seps_encode simp del: take_Cons' drop_Cons')
    next
      case seq: False
      have "128 \<le> code c" using False by simp
      with seq n IH show ?thesis
        using False
        by (simp add: escape.simps(2) Let_def read_chars_sequence del: take_Cons' drop_Cons')
    qed
  qed
qed

end
