(* ===== verification/Json_Value.thy ===== *)
theory Json_Value
  imports Json
begin

text \<open>
  JSON values for \<open>encoding/json\<close>: rendering, parsing, and the theorem that parsing reads back
  what was rendered. A number is kept as its literal.
\<close>

datatype json =
    JNull
  | JBool bool
  | JNum string
  | JStr string
  | JArr "json list"
  | JObj "(string \<times> json) list"

definition quoted :: "string \<Rightarrow> string" where
  "quoted s = ''\"'' @ escape s @ ''\"''"

fun render :: "json \<Rightarrow> string"
  and render_elems :: "json list \<Rightarrow> string"
  and render_members :: "(string \<times> json) list \<Rightarrow> string" where
  "render JNull = ''null''"
| "render (JBool b) = (if b then ''true'' else ''false'')"
| "render (JNum lit) = lit"
| "render (JStr s) = quoted s"
| "render (JArr js) = ''['' @ render_elems js @ '']''"
| "render (JObj ms) = ''{'' @ render_members ms @ ''}''"
| "render_elems [] = ''''"
| "render_elems [j] = render j"
| "render_elems (j # js) = render j @ '','' @ render_elems js"
| "render_members [] = ''''"
| "render_members [(k, j)] = quoted k @ '':'' @ render j"
| "render_members ((k, j) # ms) = quoted k @ '':'' @ render j @ '','' @ render_members ms"

section \<open>Parsing\<close>

definition is_ws :: "char \<Rightarrow> bool" where
  "is_ws c \<longleftrightarrow> code c = 32 \<or> code c = 9 \<or> code c = 10 \<or> code c = 13"

definition skip_ws :: "string \<Rightarrow> string" where
  "skip_ws s = dropWhile is_ws s"

definition is_digit :: "char \<Rightarrow> bool" where
  "is_digit c \<longleftrightarrow> between 48 c 57"

text \<open>A run of digits with at least one.\<close>

definition read_digits :: "string \<Rightarrow> (string \<times> string) option" where
  "read_digits s =
     (case takeWhile is_digit s of [] \<Rightarrow> None | ds \<Rightarrow> Some (ds, dropWhile is_digit s))"

text \<open>The optional parts of a number: nothing is read where the mark is missing, and a mark with
  no digits is an error.\<close>

definition read_frac :: "string \<Rightarrow> (string \<times> string) option" where
  "read_frac s =
     (case s of
        c # r \<Rightarrow> if code c = 46 then prepend [c] (read_digits r) else Some ([], s)
      | [] \<Rightarrow> Some ([], s))"

definition read_exp :: "string \<Rightarrow> (string \<times> string) option" where
  "read_exp s =
     (case s of
        c # r \<Rightarrow>
          if code c = 101 \<or> code c = 69
          then (case r of
                  d # r' \<Rightarrow> if code d = 43 \<or> code d = 45 then prepend [c, d] (read_digits r')
                           else prepend [c] (read_digits r)
                | [] \<Rightarrow> None)
          else Some ([], s)
      | [] \<Rightarrow> Some ([], s))"

definition read_sign :: "string \<Rightarrow> string \<times> string" where
  "read_sign s = (case s of c # r \<Rightarrow> if code c = 45 then ([c], r) else ([], s) | [] \<Rightarrow> ([], s))"

definition read_number :: "string \<Rightarrow> (string \<times> string) option" where
  "read_number s =
     (case read_sign s of (sign, s1) \<Rightarrow>
      case read_digits s1 of
        None \<Rightarrow> None
      | Some (ds, s2) \<Rightarrow>
          if code (hd ds) = 48 \<and> tl ds \<noteq> [] then None
          else (case read_frac s2 of
                  None \<Rightarrow> None
                | Some (frac, s3) \<Rightarrow> prepend (sign @ ds @ frac) (read_exp s3)))"

definition read_literal :: "string \<Rightarrow> json \<Rightarrow> string \<Rightarrow> (json \<times> string) option" where
  "read_literal word j s =
     (if take (length word) s = word then Some (j, drop (length word) s) else None)"

fun read_value :: "nat \<Rightarrow> string \<Rightarrow> (json \<times> string) option"
  and read_elems :: "nat \<Rightarrow> string \<Rightarrow> (json list \<times> string) option"
  and read_members :: "nat \<Rightarrow> string \<Rightarrow> ((string \<times> json) list \<times> string) option" where
  "read_value 0 s = None"
| "read_value (Suc n) s =
     (case skip_ws s of
        [] \<Rightarrow> None
      | c # r \<Rightarrow>
          if code c = 34 then map_option (\<lambda>(t, r). (JStr t, r)) (read_chars r)
          else if code c = 123
          then (case skip_ws r of
                  [] \<Rightarrow> None
                | d # r' \<Rightarrow> if code d = 125 then Some (JObj [], r')
                            else map_option (\<lambda>(ms, r). (JObj ms, r)) (read_members n (d # r')))
          else if code c = 91
          then (case skip_ws r of
                  [] \<Rightarrow> None
                | d # r' \<Rightarrow> if code d = 93 then Some (JArr [], r')
                            else map_option (\<lambda>(js, r). (JArr js, r)) (read_elems n (d # r')))
          else if code c = 116 then read_literal ''true'' (JBool True) (c # r)
          else if code c = 102 then read_literal ''false'' (JBool False) (c # r)
          else if code c = 110 then read_literal ''null'' JNull (c # r)
          else map_option (\<lambda>(lit, r). (JNum lit, r)) (read_number (c # r)))"
| "read_elems 0 s = None"
| "read_elems (Suc n) s =
     (case read_value n s of
        None \<Rightarrow> None
      | Some (j, r) \<Rightarrow>
          (case skip_ws r of
             [] \<Rightarrow> None
           | d # r' \<Rightarrow>
               if code d = 44 then map_option (\<lambda>(js, r). (j # js, r)) (read_elems n r')
               else if code d = 93 then Some ([j], r')
               else None))"
| "read_members 0 s = None"
| "read_members (Suc n) s =
     (case skip_ws s of
        [] \<Rightarrow> None
      | c # r \<Rightarrow>
          if code c \<noteq> 34 then None
          else
            (case read_chars r of
               None \<Rightarrow> None
             | Some (k, r1) \<Rightarrow>
                 (case skip_ws r1 of
                    [] \<Rightarrow> None
                  | d # r2 \<Rightarrow>
                      if code d \<noteq> 58 then None
                      else
                        (case read_value n r2 of
                           None \<Rightarrow> None
                         | Some (j, r3) \<Rightarrow>
                             (case skip_ws r3 of
                                [] \<Rightarrow> None
                              | e # r4 \<Rightarrow>
                                  if code e = 44
                                  then map_option (\<lambda>(ms, r). ((k, j) # ms, r)) (read_members n r4)
                                  else if code e = 125 then Some ([(k, j)], r4)
                                  else None)))))"

text \<open>The nesting is at most the length of the text.\<close>

definition parse_json :: "string \<Rightarrow> json option" where
  "parse_json s =
     (case read_value (2 * length s + 2) s of
        Some (j, r) \<Rightarrow> if skip_ws r = [] then Some j else None
      | None \<Rightarrow> None)"

section \<open>Integer literals\<close>

definition digit_value :: "char \<Rightarrow> nat" where
  "digit_value c = code c - 48"

definition digits_value :: "string \<Rightarrow> nat" where
  "digits_value = foldl (\<lambda>n c. 10 * n + digit_value c) 0"

text \<open>\<open>strconv.ParseInt(s, 10, 64)\<close> on a number literal: decimal digits only, in range.\<close>

definition ParseInt64 :: "string \<Rightarrow> int64 option" where
  "ParseInt64 s =
     (let (neg, ds) = (case s of c # r \<Rightarrow> if code c = 45 then (True, r)
                                    else if code c = 43 then (False, r) else (False, s)
                       | [] \<Rightarrow> (False, s)) in
      if ds = [] \<or> \<not> list_all is_digit ds then None
      else
        let i = (if neg then - int (digits_value ds) else int (digits_value ds)) in
        if in_int64 i then Some (word_of_int i) else None)"

lemma digit_char_props [simp]: "d < 10 \<Longrightarrow> code (digit_char d) = 48 + d"
  by (simp add: digit_char_def chr_def [symmetric])

lemma is_digit_digit_char: "d < 10 \<Longrightarrow> is_digit (digit_char d)"
  by (simp add: is_digit_def between_def)

lemma nat_text_digits: "list_all is_digit (nat_text n) \<and> nat_text n \<noteq> []"
proof (induction n rule: nat_text.induct)
  case (1 n)
  then show ?case
    by (subst (1 2) nat_text.simps) (auto simp: is_digit_digit_char)
qed

lemma digits_value_nat_text [simp]: "digits_value (nat_text n) = n"
proof (induction n rule: nat_text.induct)
  case (1 n)
  then show ?case
    by (subst nat_text.simps) (auto simp: digits_value_def digit_value_def)
qed

lemma nat_text_head: "code (hd (nat_text n)) = 48 \<Longrightarrow> n = 0"
proof (induction n rule: nat_text.induct)
  case (1 n)
  have ne: "nat_text (n div 10) \<noteq> []"
    using nat_text_digits by blast
  show ?case
  proof (cases "n < 10")
    case True
    with "1.prems" show ?thesis by (simp add: nat_text.simps [of n])
  next
    case False
    with "1.prems" ne have "code (hd (nat_text (n div 10))) = 48"
      by (simp add: nat_text.simps [of n])
    with "1.IH" False have "n div 10 = 0" by simp
    with False show ?thesis by simp
  qed
qed

lemma not_digit_dash: "\<not> is_digit (CHR ''-'')"
  by (simp add: is_digit_def between_def code_def)

lemma digit_not_sign: "is_digit c \<Longrightarrow> code c \<noteq> 45 \<and> code c \<noteq> 43"
  by (auto simp: is_digit_def between_def)

lemma ParseInt64_int_text: "in_int64 i \<Longrightarrow> ParseInt64 (int_text i) = Some (word_of_int i)"
proof -
  assume i: "in_int64 i"
  obtain c r where nt: "nat_text (nat \<bar>i\<bar>) = c # r"
    using nat_text_digits [of "nat \<bar>i\<bar>"] by (cases "nat_text (nat \<bar>i\<bar>)") auto
  have ds: "list_all is_digit (c # r)" and val: "digits_value (c # r) = nat \<bar>i\<bar>"
    using nat_text_digits [of "nat \<bar>i\<bar>"] digits_value_nat_text [of "nat \<bar>i\<bar>"] by (simp_all add: nt)
  show ?thesis
  proof (cases "i < 0")
    case True
    then have "int_text i = CHR ''-'' # c # r"
      using nt by (simp add: int_text_def)
    with True i ds val show ?thesis
      by (simp add: ParseInt64_def code_def)
  next
    case False
    then have "int_text i = c # r"
      using nt by (simp add: int_text_def)
    with False i ds val digit_not_sign [of c] show ?thesis
      by (simp add: ParseInt64_def)
  qed
qed

text \<open>A rendered integer is a number the parser takes whole.\<close>

definition ends_number :: "string \<Rightarrow> bool" where
  "ends_number r \<longleftrightarrow>
     (case r of [] \<Rightarrow> True
      | c # _ \<Rightarrow> \<not> is_digit c \<and> code c \<noteq> 46 \<and> code c \<noteq> 101 \<and> code c \<noteq> 69)"

lemma read_digits_all:
  "list_all is_digit ds \<Longrightarrow> ds \<noteq> [] \<Longrightarrow> ends_number r \<Longrightarrow> read_digits (ds @ r) = Some (ds, r)"
proof -
  assume ds: "list_all is_digit ds" "ds \<noteq> []" and "ends_number r"
  then have tw: "takeWhile is_digit (ds @ r) = ds" and dw: "dropWhile is_digit (ds @ r) = r"
    by (cases r; simp add: ends_number_def list_all_iff)+
  obtain a l where "ds = a # l"
    using ds(2) by (cases ds) blast
  then show ?thesis
    unfolding read_digits_def tw dw by simp
qed

lemma read_number_int_text:
  assumes "ends_number r"
  shows "read_number (int_text i @ r) = Some (int_text i, r)"
proof -
  let ?ds = "nat_text (nat \<bar>i\<bar>)"
  have ds: "list_all is_digit ?ds" "?ds \<noteq> []"
    using nat_text_digits by blast+
  have zero: "\<not> (code (hd ?ds) = 48 \<and> tl ?ds \<noteq> [])"
    using nat_text_head [of "nat \<bar>i\<bar>"] by (auto simp: nat_text.simps [of 0])
  have rest: "read_frac r = Some ([], r)" "read_exp r = Some ([], r)"
    using assms by (auto simp: read_frac_def read_exp_def ends_number_def split: list.splits)
  have sign: "read_sign (int_text i @ r) = (if i < 0 then (''-'', ?ds @ r) else ('''', ?ds @ r))"
    using ds digit_not_sign [of "hd ?ds"]
    by (cases ?ds) (auto simp: int_text_def read_sign_def code_def)
  show ?thesis
    using zero rest read_digits_all [OF ds assms]
    unfolding read_number_def sign by (auto simp: int_text_def)
qed

section \<open>Rendering and parsing\<close>

text \<open>Values whose strings are well-formed and whose numbers are integers.\<close>

fun json_ok :: "json \<Rightarrow> bool" where
  "json_ok (JNum lit) \<longleftrightarrow> (\<exists>i. lit = int_text i)"
| "json_ok (JStr s) \<longleftrightarrow> utf8_ok s"
| "json_ok (JArr js) \<longleftrightarrow> (\<forall>j \<in> set js. json_ok j)"
| "json_ok (JObj ms) \<longleftrightarrow> (\<forall>m \<in> set ms. utf8_ok (fst m) \<and> json_ok (snd m))"
| "json_ok _ \<longleftrightarrow> True"

lemma skip_ws_Cons [simp]: "\<not> is_ws c \<Longrightarrow> skip_ws (c # r) = c # r"
  by (simp add: skip_ws_def)

lemma literal_codes [simp]:
  "code (CHR 0x22) = 34" "code (CHR ''{'') = 123" "code (CHR ''['') = 91" "code (CHR ''}'') = 125"
  "code (CHR '']'') = 93" "code (CHR '','') = 44" "code (CHR '':'') = 58" "code (CHR ''-'') = 45"
  "code (CHR ''l'') = 108" "code (CHR ''s'') = 115" "code (CHR ''e'') = 101"
  "code (CHR ''a'') = 97" "code (CHR ''f'') = 102"
  by (simp_all add: code_def)

text \<open>The first character of a rendered value is neither space nor one that closes or ends
  anything.\<close>

lemma render_head:
  assumes "json_ok j"
  shows "\<exists>c r. render j = c # r \<and> \<not> is_ws c \<and> code c \<noteq> 125 \<and> code c \<noteq> 93"
proof (cases j)
  case (JNum lit)
  then obtain i where i: "lit = int_text i" using assms by auto
  obtain c r where nt: "nat_text (nat \<bar>i\<bar>) = c # r"
    using nat_text_digits [of "nat \<bar>i\<bar>"] by (cases "nat_text (nat \<bar>i\<bar>)") auto
  have "is_digit c"
    using nat_text_digits [of "nat \<bar>i\<bar>"] nt by simp
  with nt i show ?thesis
    by (auto simp: JNum int_text_def is_ws_def is_digit_def between_def)
qed (auto simp: is_ws_def quoted_def)

lemma render_nonempty: "json_ok j \<Longrightarrow> 0 < length (render j)"
  using render_head [of j] by auto

lemma read_value_num:
  assumes "ends_number r"
  shows "read_value (Suc n) (int_text i @ r) = Some (JNum (int_text i), r)"
proof -
  obtain c s where nt: "nat_text (nat \<bar>i\<bar>) = c # s"
    using nat_text_digits [of "nat \<bar>i\<bar>"] by (cases "nat_text (nat \<bar>i\<bar>)") auto
  have c: "is_digit c"
    using nat_text_digits [of "nat \<bar>i\<bar>"] nt by simp
  obtain d t where h: "int_text i @ r = d # t" and d: "d = CHR ''-'' \<or> is_digit d"
    using nt c by (cases "i < 0") (auto simp: int_text_def)
  have "read_number (d # t) = Some (int_text i, r)"
    using read_number_int_text [OF assms, of i] h by simp
  with d show ?thesis
    unfolding h by (auto simp: is_ws_def is_digit_def between_def)
qed

lemma ends_number_sep [simp]:
  "ends_number (CHR '','' # r)" "ends_number (CHR ''}'' # r)" "ends_number (CHR '']'' # r)"
  "ends_number []"
  by (simp_all add: ends_number_def is_digit_def between_def)

lemma read_chars_quoted:
  "utf8_ok s \<Longrightarrow> read_chars (escape s @ CHR 0x22 # r) = Some (s, r)"
  by (rule read_chars_escape) simp_all

lemma is_ws_seps [simp]:
  "\<not> is_ws (CHR 0x22)" "\<not> is_ws (CHR ''{'')" "\<not> is_ws (CHR ''['')" "\<not> is_ws (CHR ''}'')"
  "\<not> is_ws (CHR '']'')" "\<not> is_ws (CHR '','')" "\<not> is_ws (CHR '':'')" "\<not> is_ws (CHR ''t'')"
  "\<not> is_ws (CHR ''f'')" "\<not> is_ws (CHR ''n'')"
  by (simp_all add: is_ws_def)

theorem read_render:
  "json_ok j \<Longrightarrow> 2 * length (render j) < n \<Longrightarrow> ends_number r \<Longrightarrow>
     read_value n (render j @ r) = Some (j, r)"
  "\<forall>j \<in> set js. json_ok j \<Longrightarrow> js \<noteq> [] \<Longrightarrow> 2 * length (render_elems js) + 1 < n \<Longrightarrow>
     read_elems n (render_elems js @ CHR '']'' # r) = Some (js, r)"
  "\<forall>m \<in> set ms. utf8_ok (fst m) \<and> json_ok (snd m) \<Longrightarrow> ms \<noteq> [] \<Longrightarrow>
     2 * length (render_members ms) + 1 < n \<Longrightarrow>
     read_members n (render_members ms @ CHR ''}'' # r) = Some (ms, r)"
proof (induction j and js and ms arbitrary: n r and n r and n r
    rule: render_render_elems_render_members.induct)
  case 1
  then show ?case by (cases n) (simp_all add: read_literal_def)
next
  case (2 b)
  then show ?case by (cases n) (simp_all add: read_literal_def)
next
  case (3 lit)
  then obtain m where "n = Suc m" by (cases n) auto
  with 3 show ?case by (auto simp: read_value_num simp del: read_value.simps)
next
  case (4 s)
  then show ?case by (cases n) (simp_all add: quoted_def read_chars_quoted)
next
  case (5 js)
  then obtain m where n: "n = Suc m" by (cases n) auto
  show ?case
  proof (cases js)
    case Nil
    then show ?thesis by (simp add: n)
  next
    case (Cons j js')
    then have ok: "json_ok j" using 5 by simp
    obtain c t where h: "render_elems js = c # t" and c: "\<not> is_ws c" "code c \<noteq> 93"
      using render_head [OF ok] Cons by (cases js') auto
    have "read_elems m (render_elems js @ CHR '']'' # r) = Some (js, r)"
      using 5 Cons n by simp
    with h c show ?thesis by (simp add: n)
  qed
next
  case (6 ms)
  then obtain m where n: "n = Suc m" by (cases n) auto
  show ?case
  proof (cases ms)
    case Nil
    then show ?thesis by (simp add: n)
  next
    case (Cons p ms')
    obtain c t where h: "render_members ms = c # t" and c: "\<not> is_ws c" "code c \<noteq> 125"
      using Cons by (cases p; cases ms') (auto simp: quoted_def)
    have "read_members m (render_members ms @ CHR ''}'' # r) = Some (ms, r)"
      using 6 Cons n by simp
    with h c show ?thesis by (simp add: n)
  qed
next
  case 7
  then show ?case by simp
next
  case (8 j)
  then obtain m where n: "n = Suc m" by (cases n) auto
  with 8 show ?case by simp
next
  case (9 j j' js)
  then obtain m where n: "n = Suc m" by (cases n) auto
  from 9 n show ?case by simp
next
  case 10
  then show ?case by simp
next
  case (11 k j)
  then obtain m where n: "n = Suc m" by (cases n) auto
  from 11 n show ?case by (simp add: quoted_def read_chars_quoted)
next
  case (12 k j m' ms)
  then obtain m where n: "n = Suc m" by (cases n) auto
  from 12 n show ?case by (simp add: quoted_def read_chars_quoted)
qed

theorem parse_render: "json_ok j \<Longrightarrow> parse_json (render j) = Some j"
  using read_render(1) [of j "2 * length (render j) + 2" "[]"]
  by (simp add: parse_json_def skip_ws_def)

end
