(* ===== verification/Pipeline_Claims.thy ===== *)
theory Pipeline_Claims
  imports Pipeline_Progress Config
begin

text \<open>
  What the pipeline guarantees, for every run of the two services over any codec that reads
  back what it wrote, and a concrete run of the system the witnesses use.
\<close>

section \<open>A concrete run\<close>

definition demo_serde :: "unit serde" where
  "demo_serde = [T_VoyageCreated \<mapsto> \<lparr>entry_id = 1, entry_codec = ()\<rparr>,
     T_EstimateReady \<mapsto> \<lparr>entry_id = 2, entry_codec = ()\<rparr>]"

definition demo :: deployment where
  "demo = serde_deployment marshal_vc unmarshal_vc marshal_er unmarshal_er demo_serde 100
     (Inr []) (\<lambda>_. 0)"

lemma demo_codec: "pipeline_codec demo"
  unfolding demo_def by (rule avro.pipeline_codec_axioms)

definition demo_request :: create_voyage_request where
  "demo_request = \<lparr>cvq_ClientRequestId = ''a'', cvq_Origin = ''NLRTM'', cvq_Dest = ''SGSIN'',
     cvq_DistanceNm = 7, cvq_FeesMinor = 5\<rparr>"

definition demo_update :: update_voyage_request where
  "demo_update = \<lparr>uvq_Voyage = Some \<lparr>pbv_ClientRequestId = ''a'', pbv_Origin = ''NLRTM'',
     pbv_Dest = ''SGSIN'', pbv_DistanceNm = 9, pbv_FeesMinor = 5, pbv_Version = 2,
     pbv_EstimateMinor = 0\<rparr>\<rparr>"

text \<open>The voyage is created while the estimator is down, its event is published, priced and
  applied, and then it is updated; or it is updated at once.\<close>

definition demo_created :: system where
  "demo_created = sys_init\<lparr>sy_pg := snd (Server_CreateVoyage (app_repo demo)
     (app_estimator demo (Some (StatusErr Unavailable ''''))) (sy_pg sys_init) (Some demo_request))\<rparr>"

definition demo_flushed :: system where
  "demo_flushed =
     (case Flush produce_sync (sy_pg demo_created) (sy_broker demo_created) of
        (err, w, b) \<Rightarrow> demo_created\<lparr>sy_pg := w, sy_broker := b\<rparr>)"

definition demo_record :: "system \<Rightarrow> string \<Rightarrow> krecord" where
  "demo_record s topic = \<lparr>kr_Topic = topic, kr_Partition = 0, kr_Offset = 0,
     kr_Value = hd (br_logs (sy_broker s) topic)\<rparr>"

definition demo_priced :: system where
  "demo_priced = demo_flushed\<lparr>sy_broker := snd (Consumer_handle (app_consumer demo)
     (sy_broker demo_flushed) (demo_record demo_flushed TopicVoyageCreated))\<rparr>"

definition demo_estimated :: system where
  "demo_estimated = ec_put (snd (EstimateConsumer_handle (app_estimate_consumer demo)
     (ec_view demo_priced) (demo_record demo_priced TopicEstimateReady)))"

definition demo_updated :: system where
  "demo_updated = demo_estimated\<lparr>sy_pg :=
     snd (Server_UpdateVoyage (app_repo demo) (sy_pg demo_estimated) (Some demo_update))\<rparr>"

definition demo_raced :: system where
  "demo_raced = demo_created\<lparr>sy_pg :=
     snd (Server_UpdateVoyage (app_repo demo) (sy_pg demo_created) (Some demo_update))\<rparr>"

lemma demo_created_reachable: "reachable demo demo_created"
  unfolding demo_created_def
  by (rule reachable.step [OF reachable.init]) (rule sys_step.create [OF surjective_pairing])

lemma demo_flushed_reachable: "reachable demo demo_flushed"
proof -
  obtain err w b where f: "Flush produce_sync (sy_pg demo_created) (sy_broker demo_created) = (err, w, b)"
    by (metis prod_cases3)
  show ?thesis
    unfolding demo_flushed_def f prod.case
    by (rule reachable.step [OF demo_created_reachable]) (rule sys_step.flush [OF f])
qed

lemma demo_priced_log: "br_logs (sy_broker demo_priced) TopicEstimateReady \<noteq> []"
  by code_simp

lemma demo_priced_reachable: "reachable demo demo_priced"
proof -
  have "br_logs (sy_broker demo_flushed) TopicVoyageCreated \<noteq> []"
    by code_simp
  then show ?thesis
    unfolding demo_priced_def
    by (intro reachable.step [OF demo_flushed_reachable] sys_step.price_record [OF _ surjective_pairing])
      (simp add: demo_record_def)
qed

lemma demo_estimated_reachable: "reachable demo demo_estimated"
proof -
  show ?thesis
    unfolding demo_estimated_def
    using demo_priced_log
    by (intro reachable.step [OF demo_priced_reachable] sys_step.estimate_record [OF _ surjective_pairing])
      (simp add: demo_record_def)
qed

lemma demo_updated_reachable: "reachable demo demo_updated"
  unfolding demo_updated_def
  by (rule reachable.step [OF demo_estimated_reachable]) (rule sys_step.update [OF surjective_pairing])

lemma demo_raced_reachable: "reachable demo demo_raced"
  unfolding demo_raced_def
  by (rule reachable.step [OF demo_created_reachable]) (rule sys_step.update [OF surjective_pairing])

text \<open>The states of the run, as far as the witnesses look at them.\<close>

definition demo_row :: voyage_row where
  "demo_row = \<lparr>row_client_request_id = ''a'', row_origin = ''NLRTM'', row_dest = ''SGSIN'',
     row_distance_nm = 7, row_fees_minor = 5, row_version = 1, row_created_at = 0,
     row_updated_at = 0, row_estimate_minor = None\<rparr>"

lemma demo_flushed_row: "voyages (pg_tables (sy_pg demo_flushed)) ''a'' = Some demo_row"
  by code_simp

lemma demo_flushed_script: "pg_script (sy_pg demo_flushed) = []"
  by code_simp

lemma demo_event: "dp_decode_er demo (hd (br_logs (sy_broker demo_priced) TopicEstimateReady)) =
    Inr \<lparr>er_VoyageID = ''a'', er_VoyageVersion = 1, er_AmountMinor = 705, er_Currency = ''USD'',
         er_CalculatedAt = 0\<rparr>"
  by code_simp

lemma demo_estimated_row:
  "voyages (pg_tables (sy_pg demo_estimated)) ''a'' = Some (demo_row\<lparr>row_estimate_minor := Some 705\<rparr>) \<and>
   pg_script (sy_pg demo_estimated) = []"
proof -
  have "sy_pg demo_priced = sy_pg demo_flushed"
    by (simp add: demo_priced_def)
  then show ?thesis
    using demo_flushed_row demo_flushed_script demo_event
    by (simp add: demo_estimated_def EstimateConsumer_handle_def demo_record_def ec_view_def ec_put_def
        pg_UpsertEstimate_def pg_call_def upsertEstimate_def demo_row_def Let_def)
qed

lemma demo_updated_row:
  "map_option row_estimate (voyages (pg_tables (sy_pg demo_updated)) ''a'') = Some (2, Some 705)"
  using demo_estimated_row
  by (simp add: demo_updated_def Server_UpdateVoyage_def demo_update_def Validate_def getter_defs
      app_repo_def pg_repo_def pg_Update_def pg_call_def updateVoyageHigherWins_def demo_row_def
      pg_Get_def scanVoyage_def row_estimate_def word_sless_alt Let_def)

section \<open>Claims\<close>



text \<open>C2. The authoritative estimate of a voyage, once there, is the price of the voyage as it
  was created: however often and in whatever order events are redelivered, it is the
  estimator's result for the one creation event.\<close>

theorem estimate_is_price_of_creation:
  assumes "pipeline_codec d" and "reachable d s"
    and "voyages (pg_tables (sy_pg s)) cid = Some row" and "row_estimate_minor row = Some amount"
  shows "\<exists>v cost. v \<in> set (events d (pg_tables (sy_pg s))) \<and> vc_ClientRequestID v = cid \<and>
    EstimateCost (vc_DistanceNm v) (FromUSD (vc_FeesMinor v)) (app_rate d) = Inr cost \<and>
    amount = Minor cost \<and> (row_version row = 1 \<longrightarrow> v = ToVoyageCreated (row_voyage row))"
proof -
  let ?t = "pg_tables (sy_pg s)"
  have inv: "outbox_matches d ?t" "rows_match d ?t" "estimates_genuine d ?t" "keys_ok ?t"
    using sys_invD(2) [OF pipeline_codec.reachable_inv [OF assms(1,2)]] by (simp_all add: tables_inv_def)
  then obtain v cost where v: "v \<in> set (events d ?t)" "vc_ClientRequestID v = cid"
    and cost: "price (app_rate d) v = Inr cost" "amount = Minor cost"
    using assms(3,4) by (fastforce simp: estimates_genuine_def genuine_def)
  have "v = ToVoyageCreated (row_voyage row)" if "row_version row = 1"
  proof -
    have "ToVoyageCreated (row_voyage row) \<in> set (events d ?t)"
      and "vc_ClientRequestID (ToVoyageCreated (row_voyage row)) = cid"
      using inv(2,4) assms(3) that
      by (auto simp: rows_match_def keys_ok_def ToVoyageCreated_def row_voyage_def)
    with v inv(1) show ?thesis
      by (auto simp: outbox_matches_def distinct_map dest: inj_onD)
  qed
  with v cost show ?thesis
    by (auto simp: price_def)
qed

theorem estimate_is_price_of_creation_witness:
  "\<exists>v cost. v \<in> set (events demo (pg_tables (sy_pg demo_estimated))) \<and> vc_ClientRequestID v = ''a'' \<and>
    EstimateCost (vc_DistanceNm v) (FromUSD (vc_FeesMinor v)) (app_rate demo) = Inr cost \<and>
    705 = Minor cost"
proof -
  have row: "voyages (pg_tables (sy_pg demo_estimated)) ''a'' =
      Some (demo_row\<lparr>row_estimate_minor := Some 705\<rparr>)"
    using demo_estimated_row by simp
  have est: "row_estimate_minor (demo_row\<lparr>row_estimate_minor := Some 705\<rparr>) = Some 705"
    by simp
  from estimate_is_price_of_creation [OF demo_codec demo_estimated_reachable row est] show ?thesis
    by blast
qed



text \<open>C5. Once a voyage has been updated past version 1, its estimate never changes again, in
  any continuation: an update that overtakes the estimate leaves the voyage without one for
  good, and one that comes after it leaves the price of the old data in place.\<close>

theorem estimate_frozen_after_update:
  assumes "pipeline_codec d" and "reachable d s" and "(sys_step d)\<^sup>*\<^sup>* s s'"
    and "voyages (pg_tables (sy_pg s)) cid = Some row" and "row_version row \<noteq> 1"
  shows "\<exists>row'. voyages (pg_tables (sy_pg s')) cid = Some row' \<and> row_version row' \<noteq> 1 \<and>
    row_estimate_minor row' = row_estimate_minor row"
proof -
  have "left_v1 cid (row_estimate_minor row) (pg_tables (sy_pg s))"
    using assms(4,5) by (simp add: left_v1_def)
  from left_v1_steps [OF assms(3,2) this assms(1)] show ?thesis
    by (auto simp: left_v1_def)
qed

theorem estimate_frozen_after_update_witness:
  "\<exists>row. voyages (pg_tables (snd (Server_UpdateVoyage (app_repo demo) (sy_pg demo_updated)
     (Some demo_update)))) ''a'' = Some row \<and> row_estimate_minor row = Some 705"
proof -
  let ?s = "demo_updated\<lparr>sy_pg :=
    snd (Server_UpdateVoyage (app_repo demo) (sy_pg demo_updated) (Some demo_update))\<rparr>"
  have steps: "(sys_step demo)\<^sup>*\<^sup>* demo_updated ?s"
    by (intro r_into_rtranclp sys_step.update [OF surjective_pairing])
  obtain row where row: "voyages (pg_tables (sy_pg demo_updated)) ''a'' = Some row"
    and "row_version row = 2" and est: "row_estimate_minor row = Some 705"
    using demo_updated_row by (auto simp: row_estimate_def)
  then have "row_version row \<noteq> 1" by simp
  from estimate_frozen_after_update [OF demo_codec demo_updated_reachable steps row this] est
  show ?thesis by auto
qed

text \<open>C4. No event is lost between the outbox and the topic: in every reachable state the
  creation event of every stored voyage is still pending in the outbox or in the log of
  \<open>voyage.created\<close>, and everything on the two topics stems from the outbox: a decodable
  \<open>voyage.created\<close> record is an outbox event, a decodable \<open>estimate.ready\<close> record carries
  version 1 of a stored voyage.\<close>

theorem no_event_lost:
  assumes "pipeline_codec d" and "reachable d s"
  shows "(\<forall>r \<in> set (outbox (pg_tables (sy_pg s))). ob_published_at r = None \<or>
      ob_payload r \<in> set (br_logs (sy_broker s) TopicVoyageCreated)) \<and>
    (\<forall>bytes \<in> set (br_logs (sy_broker s) TopicVoyageCreated). \<forall>v. dp_decode_vc d bytes = Inr v \<longrightarrow>
      v \<in> set (events d (pg_tables (sy_pg s)))) \<and>
    (\<forall>bytes \<in> set (br_logs (sy_broker s) TopicEstimateReady). \<forall>e. dp_decode_er d bytes = Inr e \<longrightarrow>
      er_VoyageVersion e = 1 \<and> voyages (pg_tables (sy_pg s)) (er_VoyageID e) \<noteq> None)"
proof -
  note I = sys_invD [OF pipeline_codec.reachable_inv [OF assms]]
  have dom: "vc_ClientRequestID v \<in> dom (voyages (pg_tables (sy_pg s)))"
    if "v \<in> set (events d (pg_tables (sy_pg s)))" for v
    using I(2) that by (auto simp: tables_inv_def outbox_matches_def)
  have topic: "ob_topic r = TopicVoyageCreated" if "r \<in> set (outbox (pg_tables (sy_pg s)))" for r
    using I(2) that by (simp add: tables_inv_def outbox_matches_def)
  show ?thesis
    using I(3,4) topic dom by (fastforce simp: stamped_in_log_def logs_genuine_def genuine_def)
qed

theorem no_event_lost_witness:
  "voyages (pg_tables (sy_pg demo_priced)) ''a'' \<noteq> None"
proof -
  have "hd (br_logs (sy_broker demo_priced) TopicEstimateReady) \<in>
      set (br_logs (sy_broker demo_priced) TopicEstimateReady)"
    by (rule hd_in_set [OF demo_priced_log])
  with no_event_lost [OF demo_codec demo_priced_reachable] demo_event show ?thesis
    by fastforce
qed

end
