(* ===== verification/Event_Claims.thy ===== *)
theory Event_Claims
  imports Pipeline_Claims
begin

text \<open>
  What the relay and the two consumers guarantee, for every producer that keeps the contract
  of \<open>Broker\<close> (the interpretations \<open>kafka\<close> and \<open>kafka_live\<close>) and every script of failures.
\<close>

section \<open>Concrete worlds\<close>

definition idle_broker :: broker where
  "idle_broker = \<lparr>br_logs = (\<lambda>_. []), br_script = [], br_now = 0\<rparr>"

definition one_row :: tables where
  "one_row = \<lparr>voyages = Map.empty, outbox = [\<lparr>ob_id = 1, ob_topic = ''t'', ob_payload = [7],
     ob_created_at = 0, ob_published_at = None, ob_trace_carrier = None\<rparr>], next_id = 2\<rparr>"

definition one_row_pg :: "outcome list \<Rightarrow> pg" where
  "one_row_pg rs = \<lparr>pg_tables = one_row, pg_now = 5, pg_script = rs, pg_dedupeTotal = 0\<rparr>"

lemma one_row_ok: "outbox_ok one_row \<and> stamped_in_log (br_logs idle_broker) one_row"
  by (simp add: outbox_ok_def one_row_def stamped_in_log_def)

section \<open>Claims on the relay\<close>

text \<open>C14. Flag on ack: whatever fails, a flush changes nothing in the database but the publish
  stamps, and afterwards every stamped row is in the log of its topic.\<close>

theorem flush_stamps_only_published:
  assumes "Flush produce_sync w b = (err, w', b')"
    and "outbox_ok (pg_tables w)" and "stamped_in_log (br_logs b) (pg_tables w)"
  shows "voyages (pg_tables w') = voyages (pg_tables w) \<and>
    unstamped (pg_tables w') = unstamped (pg_tables w) \<and>
    (\<forall>r \<in> set (outbox (pg_tables w')). ob_published_at r = None \<or>
       ob_payload r \<in> set (br_logs b' (ob_topic r)))"
  using kafka.Flush_safe [OF assms] by (auto simp: stamps_only_def stamped_in_log_def)

theorem flush_stamps_only_published_witness:
  "\<exists>w' b'. Flush produce_sync (one_row_pg []) idle_broker = (None, w', b') \<and>
     ob_published_at (hd (outbox (pg_tables w'))) = Some 5 \<and> br_logs b' ''t'' = [[7]] \<and>
     voyages (pg_tables w') = Map.empty"
proof -
  let ?f = "Flush produce_sync (one_row_pg []) idle_broker"
  obtain err w' b' where f: "?f = (err, w', b')" by (metis prod_cases3)
  have "fst ?f = None \<and> ob_published_at (hd (outbox (pg_tables (fst (snd ?f))))) = Some 5 \<and>
      br_logs (snd (snd ?f)) ''t'' = [[7]]"
    by code_simp
  then have *: "err = None" "ob_published_at (hd (outbox (pg_tables w'))) = Some 5"
    "br_logs b' ''t'' = [[7]]"
    by (simp_all add: f)
  have "voyages (pg_tables w') = Map.empty"
    using flush_stamps_only_published [OF f] one_row_ok by (simp add: one_row_pg_def one_row_def)
  with f * show ?thesis by blast
qed

text \<open>C15. A flush publishes nothing but pending rows: what it appends to a topic are payloads of
  rows of that topic that were not stamped before.\<close>

theorem flush_publishes_only_pending:
  assumes "Flush produce_sync w b = (err, w', b')"
  shows "\<exists>xs. br_logs b' topic = br_logs b topic @ xs \<and>
    set xs \<subseteq> ob_payload ` {r \<in> set (outbox (pg_tables w)). ob_published_at r = None \<and> ob_topic r = topic}"
  using kafka.Flush_log [OF assms, of topic] by (auto simp: pending_def conj_assoc)

theorem flush_publishes_only_pending_witness:
  "\<exists>err w' b' xs. Flush produce_sync (one_row_pg [Done, Lost (ErrorsNew ''db'')]) idle_broker = (err, w', b') \<and>
     br_logs b' ''t'' = xs \<and> set xs \<subseteq> {[7]}"
proof -
  let ?f = "Flush produce_sync (one_row_pg [Done, Lost (ErrorsNew ''db'')]) idle_broker"
  obtain err w' b' where f: "?f = (err, w', b')" by (metis prod_cases3)
  from flush_publishes_only_pending [OF f, of "''t''"] f show ?thesis
    by (auto simp: idle_broker_def one_row_pg_def one_row_def)
qed

text \<open>C16. The relay drains the outbox: with the database and the broker up, \<open>n\<close> ticks publish a
  backlog of up to \<open>100 * n\<close> rows completely, and keep everything but the stamps.\<close>

theorem poller_drains:
  assumes "br_script b = []" and "pg_script w = []" and "outbox_ok (pg_tables w)"
    and "length (filter (\<lambda>r. ob_published_at r = None) (outbox (pg_tables w))) \<le> 100 * n"
    and "Poller_Run produce_sync w b (replicate n Tick) = (w', b')"
  shows "(\<forall>r \<in> set (outbox (pg_tables w')). ob_published_at r \<noteq> None) \<and>
    unstamped (pg_tables w') = unstamped (pg_tables w)"
  using kafka_live.Poller_Run_drains [of b w n w' b'] assms
  by (auto simp: pg_healthy_def pending_def stamps_only_def filter_empty_conv)

theorem poller_drains_witness:
  "\<exists>w' b'. Poller_Run produce_sync (one_row_pg []) idle_broker [Tick] = (w', b') \<and>
     (\<forall>r \<in> set (outbox (pg_tables w')). ob_published_at r \<noteq> None)"
proof -
  obtain w' b' where r: "Poller_Run produce_sync (one_row_pg []) idle_broker (replicate 1 Tick) = (w', b')"
    by (cases "Poller_Run produce_sync (one_row_pg []) idle_broker (replicate 1 Tick)")
  have "br_script idle_broker = []" "pg_script (one_row_pg []) = []" "outbox_ok (pg_tables (one_row_pg []))"
    using one_row_ok by (simp_all add: idle_broker_def one_row_pg_def)
  moreover have "length (filter (\<lambda>r. ob_published_at r = None) (outbox (pg_tables (one_row_pg [])))) \<le> 100 * 1"
    by (simp add: one_row_pg_def one_row_def)
  ultimately have "\<forall>r \<in> set (outbox (pg_tables w')). ob_published_at r \<noteq> None"
    using poller_drains [OF _ _ _ _ r] by blast
  moreover have "Poller_Run produce_sync (one_row_pg []) idle_broker [Tick] = (w', b')"
    using r by (simp only: One_nat_def replicate.simps)
  ultimately show ?thesis by blast
qed

section \<open>Claims on the consumers\<close>

definition vc_record :: "nat \<Rightarrow> string \<Rightarrow> krecord" where
  "vc_record n cid = \<lparr>kr_Topic = TopicVoyageCreated, kr_Partition = 0, kr_Offset = n,
     kr_Value = (case dp_encode_vc demo \<lparr>vc_ClientRequestID = cid, vc_Origin = ''NLRTM'',
       vc_Dest = ''SGSIN'', vc_DistanceNm = 7, vc_FeesMinor = 5, vc_Version = 1\<rparr> of Inr b \<Rightarrow> b | Inl _ \<Rightarrow> [])\<rparr>"



text \<open>C23. A commit can skip a failed record: when a record's estimate could not be produced and a
  later record of the same partition succeeds in the same batch, the group's offset moves past
  the failed one, although its estimate is nowhere; neither this process nor a restarted one
  is given it again.\<close>

theorem commit_skips_failed_record:
  assumes "Consumer_handle c b r1 = (False, b1)" and "Consumer_handle c b1 r2 = (True, b2)"
    and "kr_Partition r2 = kr_Partition r1" and "kr_Offset r1 < kr_Offset r2"
    and "each_record (Consumer_handle c) b [r1, r2] = (committable, b')"
  shows "committable = [r2] \<and> kr_Offset r1 < committed_offset (kr_Partition r1) old committable"
proof -
  have "committable = [r2]"
    using assms(1,2,5) by simp
  moreover have "kr_Offset r2 < committed_offset (kr_Partition r1) old [r2]"
    using committed_offset_above [of r2 "[r2]"] assms(3) by simp
  ultimately show ?thesis
    using assms(4) by simp
qed

theorem commit_skips_failed_record_witness:
  "\<exists>committable b'. each_record (Consumer_handle (app_consumer demo))
       (idle_broker\<lparr>br_script := [Lost (ErrorsNew ''leader change'')]\<rparr>) [vc_record 3 ''a'', vc_record 4 ''b''] =
       (committable, b') \<and> 3 < committed_offset 0 3 committable \<and>
     length (br_logs b' TopicEstimateReady) = 1"
proof -
  let ?c = "app_consumer demo" and ?b = "idle_broker\<lparr>br_script := [Lost (ErrorsNew ''leader change'')]\<rparr>"
  let ?r1 = "vc_record 3 ''a''" and ?r2 = "vc_record 4 ''b''"
  obtain ok1 b1 where h1: "Consumer_handle ?c ?b ?r1 = (ok1, b1)" by (cases "Consumer_handle ?c ?b ?r1")
  obtain ok2 b2 where h2: "Consumer_handle ?c b1 ?r2 = (ok2, b2)" by (cases "Consumer_handle ?c b1 ?r2")
  have "fst (Consumer_handle ?c ?b ?r1) = False \<and>
      fst (Consumer_handle ?c (snd (Consumer_handle ?c ?b ?r1)) ?r2) = True \<and>
      length (br_logs (snd (Consumer_handle ?c (snd (Consumer_handle ?c ?b ?r1)) ?r2)) TopicEstimateReady) = 1"
    by code_simp
  then have ok: "ok1 = False" "ok2 = True" "length (br_logs b2 TopicEstimateReady) = 1"
    by (simp_all add: h1 h2)
  then have e: "each_record (Consumer_handle ?c) ?b [?r1, ?r2] = ([?r2], b2)"
    using h1 h2 by simp
  have "3 < committed_offset 0 3 [?r2]"
    using commit_skips_failed_record [OF h1 [unfolded ok(1)] h2 [unfolded ok(2)] _ _ e, of 3]
    by (simp add: vc_record_def)
  with e ok(3) show ?thesis by blast
qed



lemma apply_record_other:
  "apply_record c r m vid = m vid \<or> (\<exists>ver amt. m vid = Some (ver, amt) \<and>
     (\<exists>x. apply_record c r m vid = Some (ver, Some x)))"
  by (auto simp: apply_record_def event_on_def apply_estimate_def split: sum.splits option.splits)






end
