(* ===== verification/Gateway.thy ===== *)
theory Gateway
  imports Grpc_Server
begin

text \<open>
  The GraphQL gateway's resolvers (\<open>gateway/graph/schema.resolvers.go\<close>, \<open>mapping.go\<close>) over an
  arbitrary client of the voyage service. A Go \<open>int\<close> is 64 bits wide; the conversion of the
  distance to the protobuf's \<open>int32\<close> keeps the low 32 bits.
\<close>

record 'w voyage_client =
  vcl_CreateVoyage :: "'w \<Rightarrow> create_voyage_request \<Rightarrow> (goerr + create_voyage_response) \<times> 'w"
  vcl_UpdateVoyage :: "'w \<Rightarrow> update_voyage_request \<Rightarrow> (goerr + update_voyage_response) \<times> 'w"
  vcl_GetVoyage :: "'w \<Rightarrow> get_voyage_request \<Rightarrow> (goerr + get_voyage_response) \<times> 'w"

definition toModelVoyage :: "pb_voyage option \<Rightarrow> model_voyage" where
  "toModelVoyage v =
     \<lparr>mv_ClientRequestID = pbv_GetClientRequestId v, mv_Origin = pbv_GetOrigin v,
      mv_Dest = pbv_GetDest v, mv_DistanceNm = int64_of_int32 (pbv_GetDistanceNm v),
      mv_FeesMinor = pbv_GetFeesMinor v, mv_Version = pbv_GetVersion v,
      mv_EstimateMinor = pbv_GetEstimateMinor v\<rparr>"

definition Resolver_CreateVoyage ::
  "'w voyage_client \<Rightarrow> 'w \<Rightarrow> create_voyage_input \<Rightarrow> (goerr + create_voyage_payload) \<times> 'w" where
  "Resolver_CreateVoyage client w inp =
     (if cvi_ClientRequestID inp = ''''
      then (Inl (ErrorsNew ''clientRequestId is required''), w)
      else
        (case vcl_CreateVoyage client w
                \<lparr>cvq_ClientRequestId = cvi_ClientRequestID inp, cvq_Origin = cvi_Origin inp,
                 cvq_Dest = cvi_Dest inp, cvq_DistanceNm = int32_of_int64 (cvi_DistanceNm inp),
                 cvq_FeesMinor = cvi_FeesMinor inp\<rparr> of
           (Inl err, w) \<Rightarrow> (Inl (Errorf ''create voyage'' err), w)
         | (Inr resp, w) \<Rightarrow>
             (Inr \<lparr>cvp_Voyage = Some (toModelVoyage (cvr_GetVoyage (Some resp))),
                   cvp_ProvisionalEstimateMinor = cvr_GetProvisionalEstimateMinor (Some resp),
                   cvp_EstimatePending = cvr_GetEstimatePending (Some resp)\<rparr>, w)))"

definition Resolver_UpdateVoyage ::
  "'w voyage_client \<Rightarrow> 'w \<Rightarrow> update_voyage_input \<Rightarrow> (goerr + model_voyage) \<times> 'w" where
  "Resolver_UpdateVoyage client w inp =
     (case vcl_UpdateVoyage client w
             \<lparr>uvq_Voyage = Some
                \<lparr>pbv_ClientRequestId = uvi_ClientRequestID inp, pbv_Origin = uvi_Origin inp,
                 pbv_Dest = uvi_Dest inp, pbv_DistanceNm = int32_of_int64 (uvi_DistanceNm inp),
                 pbv_FeesMinor = uvi_FeesMinor inp, pbv_Version = uvi_Version inp,
                 pbv_EstimateMinor = 0\<rparr>\<rparr> of
        (Inl err, w) \<Rightarrow> (Inl (Errorf ''update voyage'' err), w)
      | (Inr resp, w) \<Rightarrow> (Inr (toModelVoyage (uvr_GetVoyage (Some resp))), w))"

text \<open>\<open>None\<close> is the GraphQL \<open>null\<close> of an unknown voyage.\<close>

definition Resolver_Voyage ::
  "'w voyage_client \<Rightarrow> 'w \<Rightarrow> string \<Rightarrow> (goerr + model_voyage option) \<times> 'w" where
  "Resolver_Voyage client w clientRequestID =
     (case vcl_GetVoyage client w \<lparr>gvq_ClientRequestId = clientRequestID\<rparr> of
        (Inl err, w) \<Rightarrow>
          (if status_code err = NotFound then (Inr None, w)
           else (Inl (Errorf ''get voyage'' err), w))
      | (Inr resp, w) \<Rightarrow> (Inr (Some (toModelVoyage (gvr_GetVoyage (Some resp)))), w))"

section \<open>Over the voyage server\<close>

text \<open>A call that reaches the server is its answer; gRPC carries the status.\<close>

definition direct_client :: "'w voyage_repository \<Rightarrow> 'w estimator_port \<Rightarrow> 'w voyage_client" where
  "direct_client repo est =
     \<lparr>vcl_CreateVoyage = (\<lambda>w req. Server_CreateVoyage repo est w (Some req)),
      vcl_UpdateVoyage = (\<lambda>w req. Server_UpdateVoyage repo w (Some req)),
      vcl_GetVoyage = (\<lambda>w req. Server_GetVoyage repo w (Some req))\<rparr>"

definition model_of :: "voyage \<Rightarrow> model_voyage" where
  "model_of v =
     \<lparr>mv_ClientRequestID = ClientRequestID v, mv_Origin = Origin v, mv_Dest = Dest v,
      mv_DistanceNm = int64_of_int32 (DistanceNm v), mv_FeesMinor = FeesMinor v,
      mv_Version = Version v, mv_EstimateMinor = EstimateMinor v\<rparr>"

lemma toModelVoyage_toProto [simp]: "toModelVoyage (Some (toProto v)) = model_of v"
  by (simp add: toModelVoyage_def model_of_def toProto_def getter_defs)

lemma Server_GetVoyage_cases:
  assumes "Server_GetVoyage repo w req = (res, w')"
  obtains (empty) "gvq_GetClientRequestId req = ''''" and "w' = w"
      and "res = Inl (StatusErr InvalidArgument ''client_request_id required'')"
    | (missing) err where "repo_Get repo w (gvq_GetClientRequestId req) = (Inl err, w')"
      and "errors_is err ErrVoyageNotFound" and "gvq_GetClientRequestId req \<noteq> ''''"
      and "res = Inl (StatusErr NotFound ''voyage not found'')"
    | (failed) err where "repo_Get repo w (gvq_GetClientRequestId req) = (Inl err, w')"
      and "\<not> errors_is err ErrVoyageNotFound" and "gvq_GetClientRequestId req \<noteq> ''''"
      and "res = Inl (internalErr ''get voyage'' err)"
    | (found) v where "repo_Get repo w (gvq_GetClientRequestId req) = (Inr v, w')"
      and "gvq_GetClientRequestId req \<noteq> ''''"
      and "res = Inr \<lparr>gvr_Voyage = Some (toProto v)\<rparr>"
  using assms unfolding Server_GetVoyage_def
  by (auto split: prod.splits sum.splits if_splits)

context voyage_store
begin

text \<open>A query answers what is stored, and \<open>null\<close> exactly for an unknown voyage.\<close>

lemma resolver_voyage_view:
  assumes "invar w" and "Resolver_Voyage (direct_client repo est) w cid = (Inr m, w')" and "cid \<noteq> ''''"
  shows "m = map_option model_of (view w cid) \<and> view w' = view w"
proof -
  obtain res where s: "Server_GetVoyage repo w (Some \<lparr>gvq_ClientRequestId = cid\<rparr>) = (res, w')"
    using assms(2) by (auto simp: Resolver_Voyage_def direct_client_def split: prod.splits sum.splits if_splits)
  have m: "(case res of Inl err \<Rightarrow> status_code err = NotFound \<and> m = None
      | Inr r \<Rightarrow> m = Some (toModelVoyage (gvr_GetVoyage (Some r))))"
    using assms(2) s
    by (auto simp: Resolver_Voyage_def direct_client_def split: prod.splits sum.splits if_splits)
  from s show ?thesis
  proof (cases rule: Server_GetVoyage_cases)
    case empty
    with m show ?thesis by simp
  next
    case (missing err)
    then have "repo_Get repo w cid = (Inl err, w')" by (simp add: getter_defs)
    with get_not_found [OF assms(1) this missing(2)] get_view [OF assms(1) this] m missing show ?thesis
      by simp
  next
    case (failed err)
    with m show ?thesis by (simp add: internalErr_def)
  next
    case (found v)
    then have "repo_Get repo w cid = (Inr v, w')" by (simp add: getter_defs)
    with get_view [OF assms(1) this] m found show ?thesis
      by (simp add: getter_defs)
  qed
qed

end

end
