(* ===== verification/Server_Claims.thy ===== *)
theory Server_Claims
  imports Gateway
begin

text \<open>
  What the voyage server promises its callers, over the Postgres repository under every script
  of database failures: the lemmas of \<open>Grpc_Server\<close> and \<open>Gateway\<close> at the interpretation \<open>pg\<close>,
  with the worlds the witnesses use.
\<close>

section \<open>Concrete worlds\<close>

definition empty_pg :: pg where
  "empty_pg = \<lparr>pg_tables = \<lparr>voyages = Map.empty, outbox = [], next_id = 1\<rparr>, pg_now = 0,
     pg_script = [], pg_dedupeTotal = 0\<rparr>"

definition sample_encode :: outbox_encoder where
  "sample_encode v = Inr (''voyage.created'', [1])"

definition sample_repo :: "pg voyage_repository" where
  "sample_repo = pg_repo sample_encode (Inr [])"

definition sample_estimator :: "pg estimator_port" where
  "sample_estimator w v = (Inr (FromUSD 705), w)"

definition sample_request :: "create_voyage_request option" where
  "sample_request = Some \<lparr>cvq_ClientRequestId = ''a'', cvq_Origin = ''NLRTM'', cvq_Dest = ''SGSIN'',
     cvq_DistanceNm = 7, cvq_FeesMinor = 5\<rparr>"

definition sample_voyage :: voyage where
  "sample_voyage = \<lparr>ClientRequestID = ''a'', Origin = ''NLRTM'', Dest = ''SGSIN'', DistanceNm = 7,
     FeesMinor = 5, Version = 1, EstimateMinor = 0\<rparr>"

definition sample_update :: "int64 \<Rightarrow> update_voyage_request option" where
  "sample_update n = Some \<lparr>uvq_Voyage = Some (toProto (sample_voyage\<lparr>FeesMinor := 6, Version := n\<rparr>))\<rparr>"

definition created_pg :: pg where
  "created_pg = snd (Server_CreateVoyage sample_repo sample_estimator empty_pg sample_request)"

lemma empty_pg_inv: "pg_inv empty_pg"
  by (simp add: pg_inv_def empty_pg_def script_ok_def keys_ok_def)

lemma sample_frame: "est_frame pg_view pg_inv sample_estimator"
  by (simp add: est_frame_def sample_estimator_def)

lemma sample_create:
  "Server_CreateVoyage sample_repo sample_estimator empty_pg sample_request =
     (Inr \<lparr>cvr_Voyage = Some (toProto sample_voyage), cvr_ProvisionalEstimateMinor = 705,
           cvr_EstimatePending = False\<rparr>, created_pg)"
proof -
  have "fst (Server_CreateVoyage sample_repo sample_estimator empty_pg sample_request) =
      Inr \<lparr>cvr_Voyage = Some (toProto sample_voyage), cvr_ProvisionalEstimateMinor = 705,
           cvr_EstimatePending = False\<rparr>"
    by code_simp
  then show ?thesis
    by (simp add: created_pg_def prod_eq_iff)
qed

lemma created_pg_inv: "pg_inv created_pg"
  using pg.server_create_inv [OF empty_pg_inv sample_frame sample_create [unfolded sample_repo_def]] .

lemma created_pg_view: "pg_view created_pg ''a'' = Some sample_voyage"
  by code_simp

section \<open>Claims\<close>



text \<open>C9. Higher version wins: a successful \<open>UpdateVoyage\<close> replaces the stored data (all but
  the estimate) exactly when its version is strictly higher, is a no-op otherwise, touches no
  other voyage, and answers the state after it.\<close>

theorem update_higher_version_wins:
  assumes "pg_inv w" and "Server_UpdateVoyage (pg_repo encode carrier) w req = (Inr r, w')"
  shows "\<exists>u new. pg_view w (ClientRequestID (update_voyage req)) = Some u \<and>
    new = (if sint (Version u) < sint (Version (update_voyage req))
           then (update_voyage req)\<lparr>EstimateMinor := EstimateMinor u\<rparr> else u) \<and>
    pg_view w' = (pg_view w)(ClientRequestID (update_voyage req) \<mapsto> new) \<and>
    uvr_Voyage r = Some (toProto new)"
proof -
  let ?v = "update_voyage req"
  have view: "pg_view w' = merge_view (pg_view w) ?v"
    and resp: "uvr_Voyage r = map_option toProto (pg_view w' (ClientRequestID ?v))"
    using pg.server_update_view [OF assms] by simp_all
  have "uvr_Voyage r \<noteq> None"
    using assms(2) by (cases rule: Server_UpdateVoyage_cases) auto
  then obtain u where u: "pg_view w (ClientRequestID ?v) = Some u"
    using resp view by (cases "pg_view w (ClientRequestID ?v)") (auto simp: merge_view_def)
  with view resp show ?thesis
    by (auto simp: merge_view_def merge_voyage_def word_sless_alt)
qed

theorem update_higher_version_wins_witness:
  "\<exists>r w'. Server_UpdateVoyage sample_repo created_pg (sample_update 2) = (Inr r, w') \<and>
     pg_view w' ''a'' = Some (sample_voyage\<lparr>FeesMinor := 6, Version := 2\<rparr>)"
proof -
  let ?upd = "Server_UpdateVoyage sample_repo created_pg (sample_update 2)"
  obtain res w' where s: "?upd = (res, w')" by (cases ?upd)
  have "isl (fst ?upd) = False" by code_simp
  then obtain r where r: "res = Inr r" using s by (cases res) auto
  have v: "update_voyage (sample_update 2) = sample_voyage\<lparr>FeesMinor := 6, Version := 2\<rparr>"
    by (simp add: update_voyage_def sample_update_def getter_defs toProto_def sample_voyage_def)
  have "pg_view w' ''a'' = Some (sample_voyage\<lparr>FeesMinor := 6, Version := 2\<rparr>)"
    using update_higher_version_wins [OF created_pg_inv s [unfolded sample_repo_def r]] created_pg_view
    unfolding v by (auto simp: sample_voyage_def)
  with s r show ?thesis by blast
qed

definition run_updates :: "pg \<Rightarrow> voyage list \<Rightarrow> pg" where
  "run_updates w vs = fold (\<lambda>v w. snd (pg_Update w v)) vs w"

lemma pg_Update_healthy:
  assumes "pg_inv w" and "pg_healthy w"
  shows "pg_view (snd (pg_Update w v)) = merge_view (pg_view w) v \<and>
    pg_inv (snd (pg_Update w v)) \<and> pg_healthy (snd (pg_Update w v))"
proof -
  obtain res w' where u: "pg_Update w v = (res, w')" by (cases "pg_Update w v")
  have "pg_call w = (Done, w)"
    using assms(2) by (cases w) (simp add: pg_call_def pg_healthy_def)
  then have w': "w' = w\<lparr>pg_tables := updateVoyageHigherWins v (pg_tables w)\<rparr>"
    using u assms(2)
    by (auto simp: pg_Update_def pg_call_def pg_healthy_def dest!: pg_Get_world)
  then show ?thesis
    using assms pg_update_cases [OF assms(1) u]
    by (simp add: u pg_healthy_def pg_inv_def pg_view_def row_voyage_updateVoyage)
qed

lemma run_updates_view:
  "pg_inv w \<Longrightarrow> pg_healthy w \<Longrightarrow> pg_view (run_updates w vs) = fold (\<lambda>v m. merge_view m v) vs (pg_view w)"
  by (induction vs arbitrary: w) (simp_all add: run_updates_def pg_Update_healthy)

lemma merge_view_commute:
  assumes "ClientRequestID u = ClientRequestID v \<Longrightarrow> Version u = Version v \<Longrightarrow> u = v"
  shows "merge_view (merge_view m u) v = merge_view (merge_view m v) u"
proof (cases "ClientRequestID u = ClientRequestID v \<and> Version u = Version v")
  case True
  with assms have "u = v" by simp
  then show ?thesis by simp
next
  case False
  then have "ClientRequestID u = ClientRequestID v \<Longrightarrow> sint (Version u) \<noteq> sint (Version v)"
    by (auto dest: word_eq_of_sint)
  then show ?thesis
    by (auto simp: merge_view_def merge_voyage_def word_sless_alt fun_eq_iff split: option.splits)
qed

text \<open>C10. Updates commute: with the database up, the stored voyages after a batch of updates do
  not depend on the order they arrive in, as long as no two different updates of a voyage
  carry the same version.\<close>

theorem updates_order_independent:
  assumes "pg_inv w" and "pg_script w = []" and "mset us = mset vs"
    and "\<And>u v. u \<in> set us \<Longrightarrow> v \<in> set us \<Longrightarrow> ClientRequestID u = ClientRequestID v \<Longrightarrow>
      Version u = Version v \<Longrightarrow> u = v"
  shows "pg_view (run_updates w us) = pg_view (run_updates w vs)"
proof -
  have "fold (\<lambda>v m. merge_view m v) us = fold (\<lambda>v m. merge_view m v) vs"
    by (rule fold_multiset_equiv [OF _ assms(3)])
      (use merge_view_commute assms(4) in \<open>fastforce simp: fun_eq_iff\<close>)
  then show ?thesis
    using assms(1,2) by (simp add: run_updates_view pg_healthy_def)
qed

theorem updates_order_independent_witness:
  "pg_view (run_updates created_pg [sample_voyage\<lparr>Version := 3\<rparr>, sample_voyage\<lparr>Version := 2\<rparr>]) =
   pg_view (run_updates created_pg [sample_voyage\<lparr>Version := 2\<rparr>, sample_voyage\<lparr>Version := 3\<rparr>])"
proof (rule updates_order_independent [OF created_pg_inv])
  show "pg_script created_pg = []" by code_simp
qed (auto simp: sample_voyage_def)

text \<open>Bad input has no effect: \<open>CreateVoyage\<close> answers an invalid voyage with
  \<open>InvalidArgument\<close> and the validation's text before any call, and every other failure is an
  \<open>Internal\<close> status whose text names only the operation.\<close>

theorem create_errors:
  "case Validate (request_voyage req) of
     Some e \<Rightarrow> Server_CreateVoyage repo est w req = (Inl (StatusErr InvalidArgument (error_text e)), w)
   | None \<Rightarrow> (case Server_CreateVoyage repo est w req of
        (Inl err, w') \<Rightarrow> err = StatusErr Internal ''create voyage failed'' \<and>
            isl (fst (repo_Create repo w (request_voyage req))) \<or>
          err = StatusErr Internal ''quote voyage failed'' \<and>
            \<not> isl (fst (repo_Create repo w (request_voyage req)))
      | (Inr r, w') \<Rightarrow> \<not> isl (fst (repo_Create repo w (request_voyage req))))"
proof -
  obtain res w' where s: "Server_CreateVoyage repo est w req = (res, w')"
    by (cases "Server_CreateVoyage repo est w req")
  then show ?thesis
    by (cases rule: Server_CreateVoyage_cases) (simp_all add: internalErr_def sprintf_def s)
qed

text \<open>Degradation: when the estimator is unavailable the voyage is stored all the same and
  the answer says the estimate is pending; when it fails otherwise the caller gets an error
  although the voyage is stored.\<close>

theorem create_without_estimator:
  assumes "pg_inv w" and "pg_script w = []"
    and "Validate (request_voyage req) = None"
    and "pg_view w (cvq_GetClientRequestId req) = None"
    and "\<And>w v. est w v = (Inl err, w)"
  shows "\<exists>res w'. Server_CreateVoyage (pg_repo (\<lambda>v. Inr (encode v)) (Inr js)) est w req = (res, w') \<and>
    pg_view w' (cvq_GetClientRequestId req) = Some (new_voyage (request_voyage req)) \<and>
    res = (if errors_is err ErrEstimatorUnavailable
           then Inr \<lparr>cvr_Voyage = Some (toProto (new_voyage (request_voyage req))),
                     cvr_ProvisionalEstimateMinor = 0, cvr_EstimatePending = True\<rparr>
           else Inl (StatusErr Internal ''quote voyage failed''))"
proof -
  let ?repo = "pg_repo (\<lambda>v. Inr (encode v)) (Inr js)" and ?v = "request_voyage req"
  have cid: "ClientRequestID ?v = cvq_GetClientRequestId req"
    by (simp add: request_voyage_def)
  obtain x w1 where c: "repo_Create ?repo w ?v = (Inr x, w1)"
    using pg_live.create_live [OF assms(1), of encode js ?v] assms(2)
    unfolding pg_healthy_def by blast
  have x: "x = new_voyage ?v" "pg_view w1 = (pg_view w)(ClientRequestID ?v \<mapsto> new_voyage ?v)"
    using pg.create_fresh [OF assms(1) _ c] assms(4) cid by auto
  have "Server_CreateVoyage ?repo est w req =
      ((if errors_is err ErrEstimatorUnavailable
        then Inr \<lparr>cvr_Voyage = Some (toProto x), cvr_ProvisionalEstimateMinor = 0,
                  cvr_EstimatePending = True\<rparr>
        else Inl (internalErr ''quote voyage'' err)), w1)"
    using assms(3,5) c by (simp add: Server_CreateVoyage_def request_voyage_def [symmetric])
  with x cid show ?thesis
    by (simp add: internalErr_def sprintf_def)
qed

theorem create_without_estimator_witness:
  "\<exists>res w'. Server_CreateVoyage (pg_repo (\<lambda>v. Inr (''t'', [1])) (Inr []))
       (\<lambda>w v. (Inl (Errorf ''estimate a'' ErrEstimatorUnavailable), w)) empty_pg sample_request = (res, w') \<and>
     pg_view w' ''a'' = Some sample_voyage \<and> \<not> isl res"
proof -
  have "Validate (request_voyage sample_request) = None"
    by code_simp
  moreover have "pg_view empty_pg (cvq_GetClientRequestId sample_request) = None"
    by (simp add: pg_view_def empty_pg_def)
  moreover have "new_voyage (request_voyage sample_request) = sample_voyage"
    by (simp add: new_voyage_def request_voyage_def sample_request_def getter_defs sample_voyage_def)
  ultimately show ?thesis
    using create_without_estimator [OF empty_pg_inv, of sample_request
        "\<lambda>w v. (Inl (Errorf ''estimate a'' ErrEstimatorUnavailable), w)"
        "Errorf ''estimate a'' ErrEstimatorUnavailable" "\<lambda>v. (''t'', [1])" "[]"]
    by (fastforce simp: empty_pg_def sample_request_def getter_defs ErrEstimatorUnavailable_def)
qed

text \<open>C11. The transactional outbox at the repository, under every script of failures: creating a
  new voyage either fails and leaves voyages and outbox as they were, or commits the row at
  version 1 together with exactly one unpublished outbox row carrying its encoded event;
  an error can hide a commit, but a success never lacks its event.\<close>

theorem create_is_atomic:
  assumes "pg_Create encode carrier w v = (res, w')" and "script_ok (pg_script w)"
    and "voyages (pg_tables w) (ClientRequestID v) = None"
  shows "(isl res \<and> voyages (pg_tables w') = voyages (pg_tables w) \<and>
      outbox (pg_tables w') = outbox (pg_tables w)) \<or>
    (\<exists>row r. voyages (pg_tables w') = (voyages (pg_tables w))(ClientRequestID v \<mapsto> row) \<and>
      row_voyage row = new_voyage v \<and> row_estimate_minor row = None \<and>
      outbox (pg_tables w') = outbox (pg_tables w) @ [r] \<and> ob_published_at r = None \<and>
      encode (new_voyage v) = Inr (ob_topic r, ob_payload r) \<and>
      (res = Inr (new_voyage v) \<or> isl res))"
proof -
  from pg_Create_fresh [OF assms] show ?thesis
  proof (elim conjE disjE exE)
    assume "\<forall>x. res \<noteq> Inr x" and "same_rows (pg_tables w) (pg_tables w')"
    then show ?thesis by (cases res) (simp_all add: same_rows_def)
  next
    fix topic payload js
    assume enc: "encode (new_voyage v) = Inr (topic, payload)"
      and t: "pg_tables w' = created_tables (pg_now w) v topic payload js (pg_tables w)"
      and res: "\<forall>x. res = Inr x \<longrightarrow> x = new_voyage v"
    obtain row where row: "voyages (pg_tables w') = (voyages (pg_tables w))(ClientRequestID v \<mapsto> row)"
      "row_voyage row = new_voyage v" "row_estimate_minor row = None"
      unfolding t by (rule created_tables_fresh [OF assms(3)])
    have "outbox (pg_tables w') = outbox (pg_tables w) @
        [\<lparr>ob_id = next_id (pg_tables w), ob_topic = topic, ob_payload = payload,
          ob_created_at = pg_now w, ob_published_at = None, ob_trace_carrier = Some js\<rparr>]"
      using assms(3) by (simp add: t created_tables_def insertOutbox_def insertVoyage_def Let_def)
    moreover have "res = Inr (new_voyage v) \<or> isl res"
      using res by (cases res) simp_all
    ultimately show ?thesis
      using row enc by auto
  qed
qed

theorem create_is_atomic_witness:
  "\<exists>res w'. pg_Create sample_encode (Inr [])
       (empty_pg\<lparr>pg_script := [Done, Done, Done, Ghost (ErrorsNew ''conn reset'')]\<rparr>) sample_voyage = (res, w') \<and>
     isl res \<and> length (outbox (pg_tables w')) = 1 \<and>
     (\<exists>row. voyages (pg_tables w') = [''a'' \<mapsto> row] \<and> row_voyage row = new_voyage sample_voyage)"
proof -
  let ?w = "empty_pg\<lparr>pg_script := [Done, Done, Done, Ghost (ErrorsNew ''conn reset'')]\<rparr>"
  let ?c = "pg_Create sample_encode (Inr []) ?w sample_voyage"
  obtain res w' where c: "?c = (res, w')" by (cases ?c)
  have "isl (fst ?c) \<and> length (outbox (pg_tables (snd ?c))) = 1" by code_simp
  then have 1: "isl res" "length (outbox (pg_tables w')) = 1" by (simp_all add: c)
  have "script_ok (pg_script ?w)"
    by (simp add: script_ok_def infra_error_def ErrNoRows_def ErrVoyageNotFound_def)
  moreover have "voyages (pg_tables ?w) (ClientRequestID sample_voyage) = None"
    and "voyages (pg_tables ?w) = Map.empty" and "outbox (pg_tables ?w) = []"
    and "ClientRequestID sample_voyage = ''a''"
    by (simp_all add: empty_pg_def sample_voyage_def)
  ultimately show ?thesis
    using create_is_atomic [OF c] 1 c by auto
qed

text \<open>C34. A query through the gateway answers exactly what is stored: the voyage's data when it
  exists, the GraphQL \<open>null\<close> when it does not, and it changes nothing.\<close>

theorem query_answers_stored:
  assumes "pg_inv w" and "cid \<noteq> ''''"
    and "Resolver_Voyage (direct_client (pg_repo encode carrier) est) w cid = (Inr m, w')"
  shows "m = map_option model_of (pg_view w cid) \<and> pg_view w' = pg_view w"
  using assms by (intro pg.resolver_voyage_view)

theorem query_answers_stored_witness:
  "\<exists>w'. Resolver_Voyage (direct_client sample_repo sample_estimator) created_pg ''a'' =
     (Inr (Some (model_of sample_voyage)), w')"
proof -
  let ?q = "Resolver_Voyage (direct_client sample_repo sample_estimator) created_pg ''a''"
  obtain res w' where q: "?q = (res, w')" by (cases ?q)
  have "\<not> isl (fst ?q)" by code_simp
  then obtain m where m: "res = Inr m" using q by (cases res) auto
  have "m = Some (model_of sample_voyage)"
    using query_answers_stored [OF created_pg_inv _ q [unfolded m sample_repo_def]] created_pg_view
    by simp
  with q m show ?thesis by blast
qed



end
