(* ===== verification/Trace_Carrier.thy ===== *)
theory Trace_Carrier
  imports Poller Json_Value "HOL-Library.List_Lexorder" "HOL-Library.Char_ord"
begin

text \<open>
  The trace context that crosses the outbox: \<open>injectTraceCarrier\<close> in
  \<open>services/voyage/adapters/postgres/repository.go\<close> writes it into the outbox row and
  \<open>rowContext\<close> in \<open>services/voyage/adapters/kafka/poller.go\<close> restores it when the row is published.
  The propagator (its \<open>Inject\<close> and \<open>Extract\<close>) and the \<open>JSONB\<close> column the carrier rests in are
  parameters; \<open>encoding/json\<close> is the one of \<open>Json_Value\<close>.
\<close>

section \<open>Writing\<close>

text \<open>A \<open>propagation.MapCarrier\<close> is a map from strings to strings, here its entries. \<open>json.Marshal\<close>
  writes the entries of a map in the order of their keys.\<close>

type_synonym map_carrier = "(string \<times> string) list"

definition carrier_json :: "map_carrier \<Rightarrow> json" where
  "carrier_json kvs = JObj (map (\<lambda>(k, v). (k, JStr v)) (sort_key fst kvs))"

text \<open>What \<open>json.Marshal\<close> gives \<open>injectTraceCarrier\<close> for the propagator's carrier of a context.\<close>

definition marshalled_carrier :: "('ctx \<Rightarrow> map_carrier) \<Rightarrow> 'ctx \<Rightarrow> goerr + byte list" where
  "marshalled_carrier inject ctx = Inr (bytes_of (render (carrier_json (inject ctx))))"

section \<open>Reading\<close>

text \<open>Unmarshalling into a map of strings: a \<open>null\<close> entry is the empty string, a later entry of a key
  replaces an earlier one, and any other value is an error.\<close>

fun carrier_entries :: "(string \<rightharpoonup> string) \<Rightarrow> (string \<times> json) list \<Rightarrow> (string \<rightharpoonup> string) option" where
  "carrier_entries m [] = Some m"
| "carrier_entries m ((k, j) # ms) =
     (case j of
        JStr v \<Rightarrow> carrier_entries (m(k \<mapsto> v)) ms
      | JNull \<Rightarrow> carrier_entries (m(k \<mapsto> '''')) ms
      | _ \<Rightarrow> None)"

definition unmarshal_carrier :: "string \<Rightarrow> (string \<rightharpoonup> string) option" where
  "unmarshal_carrier s =
     (case parse_json s of
        Some JNull \<Rightarrow> Some Map.empty
      | Some (JObj ms) \<Rightarrow> carrier_entries Map.empty ms
      | _ \<Rightarrow> None)"

text \<open>A \<open>NULL\<close> column is scanned as a nil slice.\<close>

definition rowContext :: "('ctx \<Rightarrow> (string \<rightharpoonup> string) \<Rightarrow> 'ctx) \<Rightarrow> 'ctx \<Rightarrow> byte list option \<Rightarrow> 'ctx" where
  "rowContext extract ctx carrierJSON =
     (case carrierJSON of
        None \<Rightarrow> ctx
      | Some bs \<Rightarrow>
          if bs = [] then ctx
          else (case unmarshal_carrier (text_of bs) of
                  None \<Rightarrow> ctx
                | Some carrier \<Rightarrow> extract ctx carrier))"

section \<open>Round trip\<close>

lemma carrier_entries_strings:
  "carrier_entries m (map (\<lambda>(k, v). (k, JStr v)) kvs) = Some (m ++ map_of (rev kvs))"
  by (induction kvs arbitrary: m) (auto simp: map_add_def fun_eq_iff split: option.split)

lemma map_of_mset: "distinct (map fst xs) \<Longrightarrow> mset ys = mset xs \<Longrightarrow> map_of ys = map_of xs"
proof -
  assume xs: "distinct (map fst xs)" and eq: "mset ys = mset xs"
  then have "mset (map fst ys) = mset (map fst xs)" by simp
  with xs have "distinct (map fst ys)" by (metis mset_eq_imp_distinct_iff)
  with xs show ?thesis by (intro map_of_inject_set [THEN iffD2]) (metis eq mset_eq_setD)+
qed

text \<open>The members of a marshalled carrier, in whatever order.\<close>

lemma string_members:
  assumes "mset ms = mset (map (\<lambda>(k, v). (k, JStr v)) kvs)"
  obtains kvs' where "ms = map (\<lambda>(k, v). (k, JStr v)) kvs'" and "mset kvs' = mset kvs"
proof
  let ?str = "\<lambda>(k, v). (k, JStr v)" and ?un = "\<lambda>(k, j). (k, case j of JStr v \<Rightarrow> v | _ \<Rightarrow> '''')"
  have "x \<in> ?str ` set kvs" if "x \<in> set ms" for x
    using that assms by (metis list.set_map mset_eq_setD)
  then show "ms = map ?str (map ?un ms)"
    by (simp add: map_idI [symmetric]) (rule map_idI [symmetric], force)
  have "mset (map ?un ms) = image_mset ?un (mset ms)" by simp
  then show "mset (map ?un ms) = mset kvs"
    by (simp add: assms image_mset.compositionality comp_def split_def)
qed

lemma unmarshal_carrier_members:
  assumes "parse_json s = Some (JObj ms)" and "mset ms = mset (map (\<lambda>(k, v). (k, JStr v)) kvs)"
    and "distinct (map fst kvs)"
  shows "unmarshal_carrier s = Some (map_of kvs)"
proof -
  from assms(2) obtain kvs' where ms: "ms = map (\<lambda>(k, v). (k, JStr v)) kvs'" and eq: "mset kvs' = mset kvs"
    by (rule string_members)
  have "map_of (rev kvs') = map_of kvs"
    using assms(3) eq by (intro map_of_mset) simp_all
  then show ?thesis
    by (simp add: unmarshal_carrier_def assms(1) ms carrier_entries_strings)
qed

lemma carrier_json_ok:
  "\<forall>(k, v) \<in> set kvs. utf8_ok k \<and> utf8_ok v \<Longrightarrow> json_ok (carrier_json kvs)"
  by (auto simp: carrier_json_def)

text \<open>A \<open>JSONB\<close> column keeps the members of an object with distinct keys, not their order.\<close>

definition jsonb_ok :: "(byte list \<Rightarrow> byte list) \<Rightarrow> bool" where
  "jsonb_ok jsonb \<longleftrightarrow>
     (\<forall>bs ms. parse_json (text_of bs) = Some (JObj ms) \<and> distinct (map fst ms) \<longrightarrow>
        (\<exists>ms'. parse_json (text_of (jsonb bs)) = Some (JObj ms') \<and> mset ms' = mset ms))"

lemma rowContext_stored:
  assumes jsonb: "jsonb_ok jsonb" and keys: "distinct (map fst kvs)"
    and utf8: "\<forall>(k, v) \<in> set kvs. utf8_ok k \<and> utf8_ok v"
  shows "rowContext extract ctx (Some (jsonb (bytes_of (render (carrier_json kvs))))) = extract ctx (map_of kvs)"
proof -
  let ?ms = "map (\<lambda>(k, v). (k, JStr v)) (sort_key fst kvs)"
  have "parse_json (text_of (bytes_of (render (carrier_json kvs)))) = Some (JObj ?ms)"
    using parse_render [OF carrier_json_ok [OF utf8]] by (simp add: carrier_json_def)
  moreover have "distinct (map fst ?ms)"
    using keys by (simp add: comp_def split_def) (metis distinct_map distinct_sort set_sort)
  ultimately obtain ms' where ms': "parse_json (text_of (jsonb (bytes_of (render (carrier_json kvs))))) = Some (JObj ms')"
      "mset ms' = mset ?ms"
    using jsonb unfolding jsonb_ok_def by blast
  from ms'(2) have "mset ms' = mset (map (\<lambda>(k, v). (k, JStr v)) kvs)" by simp
  from unmarshal_carrier_members [OF ms'(1) this keys]
  have "unmarshal_carrier (text_of (jsonb (bytes_of (render (carrier_json kvs))))) = Some (map_of kvs)" .
  moreover have "jsonb (bytes_of (render (carrier_json kvs))) \<noteq> []"
  proof
    assume "jsonb (bytes_of (render (carrier_json kvs))) = []"
    with ms'(1) show False by (simp add: text_of_def parse_json_def skip_ws_def)
  qed
  ultimately show ?thesis by (simp add: rowContext_def)
qed

text \<open>A row that \<open>Create\<close> adds to the outbox holds the carrier it was given.\<close>

lemma pg_Create_event_carrier:
  assumes "pg_Create_event encode carrier op tx u w = (res, w')"
    and "outbox tx = outbox (pg_tables w)" and "row \<in> set (outbox (pg_tables w'))"
  shows "row \<in> set (outbox (pg_tables w)) \<or>
    (\<exists>js. injectTraceCarrier carrier = Inr js \<and> ob_trace_carrier row = Some js)"
proof (cases "encode u")
  case (Inl e)
  with assms show ?thesis by (simp add: pg_Create_event_def)
next
  case (Inr p)
  show ?thesis
  proof (cases "injectTraceCarrier carrier")
    case (Inl e)
    with assms Inr show ?thesis by (simp add: pg_Create_event_def split: prod.splits)
  next
    case js: (Inr js)
    from assms show ?thesis
      by (auto simp: pg_Create_event_def Inr js Let_def split_beta pg_commit_def pg_rollback_def
          insertOutbox_def split: if_splits option.splits)
  qed
qed

lemma pg_Create_carrier:
  assumes "pg_Create encode carrier w v = (res, w')" and "row \<in> set (outbox (pg_tables w'))"
    and "row \<notin> set (outbox (pg_tables w))"
  shows "\<exists>js. injectTraceCarrier carrier = Inr js \<and> ob_trace_carrier row = Some js"
proof -
  have "outbox (snd (insertVoyage now v t)) = outbox t" for now t
    by (simp add: insertVoyage_def Let_def split: option.split)
  then show ?thesis
    using assms
    by (auto simp: pg_Create_def Let_def split_beta split: option.splits sum.splits if_splits
        dest: pg_Get_world dest!: pg_Create_event_carrier)
qed

end
