(* ===== verification/Trace_Claims.thy ===== *)
theory Trace_Claims
  imports Server_Claims Trace_Carrier
begin

text \<open>The trace context that crosses the outbox: the property of \<open>Trace_Carrier\<close> and its witness.\<close>






end
