(* ===== verification/Onboard_Domain.thy ===== *)
theory Onboard_Domain
  imports Go_Prelude
begin

text \<open>
  The values and policies of the onboard sync client
  (\<open>clients/onboard-sync/domain\<close>): queued operations, the higher-version-wins merge, and the
  retry policy. \<open>math.Pow\<close>, \<open>math.Min\<close> and the conversions are on \<open>float64\<close>: the values that
  occur are integers, so a finite float is an integer here, rounded to 53 significant bits
  when it comes from an \<open>int64\<close>.
\<close>

section \<open>Operations\<close>

text \<open>\<open>Kind\<close> is a string type.\<close>

type_synonym kind = string

definition KindCreate :: kind where "KindCreate = ''create''"

definition KindUpdate :: kind where "KindUpdate = ''update''"

record operation =
  op_ClientRequestID :: string
  op_Kind :: kind
  op_Origin :: string
  op_Dest :: string
  op_DistanceNm :: int32
  op_FeesMinor :: int64
  op_Version :: int64

definition HigherVersionWins :: "operation \<Rightarrow> operation \<Rightarrow> operation" where
  "HigherVersionWins current incoming =
     (if op_Version current <s op_Version incoming then incoming else current)"

lemma HigherVersionWins_id [simp]:
  "op_ClientRequestID u = op_ClientRequestID v \<Longrightarrow>
     op_ClientRequestID (HigherVersionWins u v) = op_ClientRequestID v"
  by (simp add: HigherVersionWins_def)

lemma HigherVersionWins_version:
  "sint (op_Version (HigherVersionWins u v)) = max (sint (op_Version u)) (sint (op_Version v))"
  by (simp add: HigherVersionWins_def word_sless_alt)

text \<open>The merge of a whole series of edits into the first.\<close>

definition merge_all :: "operation \<Rightarrow> operation list \<Rightarrow> operation" where
  "merge_all = foldl HigherVersionWins"

lemma merge_all_simps [simp]:
  "merge_all u [] = u" "merge_all u (v # vs) = merge_all (HigherVersionWins u v) vs"
  by (simp_all add: merge_all_def)

lemma merge_all_in: "merge_all u vs \<in> set (u # vs)"
proof (induction vs arbitrary: u)
  case (Cons v vs)
  from Cons.IH [of "HigherVersionWins u v"] show ?case
    by (auto simp: HigherVersionWins_def split: if_splits)
qed simp

lemma merge_all_version:
  "sint (op_Version (merge_all u vs)) = Max ((\<lambda>v. sint (op_Version v)) ` set (u # vs))"
proof (induction vs arbitrary: u)
  case Nil
  then show ?case by simp
next
  case (Cons v vs)
  let ?f = "\<lambda>v. sint (op_Version v)"
  have "Max (?f ` set (HigherVersionWins u v # vs)) = Max (?f ` set (u # v # vs))"
    by (cases "vs = []") (simp_all add: HigherVersionWins_version Max_insert ac_simps)
  with Cons.IH [of "HigherVersionWins u v"] show ?case by simp
qed

section \<open>Floats\<close>

datatype float64 = Fin int | PInf | NInf | NaN

fun bit_len :: "nat \<Rightarrow> nat" where
  "bit_len n = (if n = 0 then 0 else Suc (bit_len (n div 2)))"

declare bit_len.simps [simp del]

text \<open>Round to 53 significant bits, half to even.\<close>

definition round53 :: "int \<Rightarrow> int" where
  "round53 i =
     (let m = \<bar>i\<bar>; e = bit_len (nat m) - 53;
          q = m div 2 ^ e; r = m mod 2 ^ e;
          q' = (if 2 * r > 2 ^ e \<or> 2 * r = 2 ^ e \<and> odd q then q + 1 else q)
      in sgn i * q' * 2 ^ e)"

definition float64_of_int :: "int \<Rightarrow> float64" where
  "float64_of_int i = Fin (round53 i)"

text \<open>\<open>math.Pow(2, k)\<close> for \<open>k \<ge> 0\<close>.\<close>

definition pow2 :: "int \<Rightarrow> float64" where
  "pow2 k = (if k \<le> 1023 then Fin (2 ^ nat k) else PInf)"

definition float_inf :: "int \<Rightarrow> float64" where
  "float_inf s = (if 0 < s then PInf else NInf)"

text \<open>Multiplication by a power of two: exact, up to overflow.\<close>

fun fmul2 :: "float64 \<Rightarrow> float64 \<Rightarrow> float64" where
  "fmul2 (Fin a) (Fin b) = (if \<bar>a * b\<bar> < 2 ^ 1024 then Fin (a * b) else float_inf (sgn (a * b)))"
| "fmul2 (Fin a) PInf = (if a = 0 then NaN else float_inf a)"
| "fmul2 _ _ = NaN"

fun fmin :: "float64 \<Rightarrow> float64 \<Rightarrow> float64" where
  "fmin NInf _ = NInf"
| "fmin _ NInf = NInf"
| "fmin NaN _ = NaN"
| "fmin _ NaN = NaN"
| "fmin PInf y = y"
| "fmin x PInf = x"
| "fmin (Fin a) (Fin b) = Fin (min a b)"

text \<open>Conversion to \<open>int64\<close>; what is out of range is implementation-defined and left to
  \<open>other\<close>.\<close>

fun int64_of_float :: "(float64 \<Rightarrow> int64) \<Rightarrow> float64 \<Rightarrow> int64" where
  "int64_of_float other (Fin i) = (if in_int64 i then word_of_int i else other (Fin i))"
| "int64_of_float other x = other x"

section \<open>Retry policy\<close>

text \<open>The seeded generator is the state \<open>rng\<close> and the function \<open>int63n\<close> on it.\<close>

record 'g retry_policy =
  rp_base :: int64
  rp_cap :: int64
  rp_rng :: 'g

definition NewRetryPolicy :: "(int64 \<Rightarrow> 'g) \<Rightarrow> int64 \<Rightarrow> int64 \<Rightarrow> int64 \<Rightarrow> 'g retry_policy" where
  "NewRetryPolicy new_source base cap seed =
     \<lparr>rp_base = base, rp_cap = cap, rp_rng = new_source seed\<rparr>"

definition retry_ceiling :: "(float64 \<Rightarrow> int64) \<Rightarrow> 'g retry_policy \<Rightarrow> int64 \<Rightarrow> int64" where
  "retry_ceiling other p attempt =
     (let attempt = (if attempt <s 1 then 1 else attempt);
          exp = fmul2 (float64_of_int (sint (rp_base p))) (pow2 (sint (attempt - 1)))
      in int64_of_float other (fmin exp (float64_of_int (sint (rp_cap p)))))"

text \<open>\<open>None\<close> is the panic of \<open>Int63n\<close> on an argument that is not positive.\<close>

definition Backoff ::
  "(float64 \<Rightarrow> int64) \<Rightarrow> ('g \<Rightarrow> int64 \<Rightarrow> int64 \<times> 'g) \<Rightarrow> 'g retry_policy \<Rightarrow> int64 \<Rightarrow>
   (int64 \<times> 'g retry_policy) option" where
  "Backoff other int63n p attempt =
     (let ceiling = retry_ceiling other p attempt in
      if ceiling \<le>s 0 then Some (0, p)
      else if ceiling + 1 \<le>s 0 then None
      else
        (case int63n (rp_rng p) (ceiling + 1) of (n, rng) \<Rightarrow> Some (n, p\<lparr>rp_rng := rng\<rparr>)))"

text \<open>What \<open>rand.Rand.Int63n\<close> documents: a number in \<open>[0, n)\<close>.\<close>

definition int63n_ok :: "('g \<Rightarrow> int64 \<Rightarrow> int64 \<times> 'g) \<Rightarrow> bool" where
  "int63n_ok int63n \<longleftrightarrow>
     (\<forall>g n. 0 < sint n \<longrightarrow> 0 \<le> sint (fst (int63n g n)) \<and> sint (fst (int63n g n)) < sint n)"

lemma bit_len_le: "n < 2 ^ k \<Longrightarrow> bit_len n \<le> k"
proof (induction k arbitrary: n)
  case 0
  then show ?case by (simp add: bit_len.simps)
next
  case (Suc k)
  then have "bit_len (n div 2) \<le> k" by simp
  then show ?case by (subst bit_len.simps) simp
qed

lemma round53_exact: "\<bar>i\<bar> < 2 ^ 53 \<Longrightarrow> round53 i = i"
proof -
  assume "\<bar>i\<bar> < 2 ^ 53"
  then have "nat \<bar>i\<bar> < 2 ^ 53" by simp
  from bit_len_le [OF this] have "bit_len (nat \<bar>i\<bar>) - 53 = 0" by simp
  then show ?thesis by (simp add: round53_def Let_def sgn_mult_abs)
qed

lemma sint_pred: "1 \<le> sint (a :: int64) \<Longrightarrow> sint (a - 1) = sint a - 1"
proof -
  assume "1 \<le> sint a"
  moreover have "sint a < 2 ^ 63"
    using sint_lt [of a] by simp
  ultimately have "in_int64 (sint a - 1)"
    by (simp add: in_int64_def)
  moreover have "a - 1 = word_of_int (sint a - 1)"
    by (simp add: word_of_int_sint del: word_of_int_sint) 
  ultimately show ?thesis
    by (metis sint_of_int64)
qed

text \<open>The ceiling is the smaller of the cap and the exponential, exactly, for durations a float
  represents.\<close>

lemma retry_ceiling_exact:
  assumes "0 < sint (rp_base p)" and "sint (rp_base p) < 2 ^ 53"
    and "0 \<le> sint (rp_cap p)" and "sint (rp_cap p) < 2 ^ 53"
  shows "sint (retry_ceiling other p attempt) =
    min (sint (rp_base p) * 2 ^ nat (max (sint attempt) 1 - 1)) (sint (rp_cap p))"
proof -
  let ?a = "if attempt <s 1 then 1 else attempt" and ?b = "sint (rp_base p)" and ?c = "sint (rp_cap p)"
  have a: "sint ?a = max (sint attempt) 1"
    by (auto simp: word_sless_alt)
  define k where "k = max (sint attempt) 1 - 1"
  have k: "sint (?a - 1) = k" "0 \<le> k"
    using sint_pred [of ?a] a by (simp_all add: k_def)
  have range: "in_int64 (min x ?c)" if "0 < x" for x
    using assms that by (auto simp: in_int64_def min_def)
  have fl: "float64_of_int ?b = Fin ?b" "float64_of_int ?c = Fin ?c"
    using assms by (simp_all add: float64_of_int_def round53_exact)
  have conv: "sint (int64_of_float other (Fin (min x ?c))) = min x ?c" if "0 < x" for x
    using range [OF that] by (simp add: sint_of_int64)
  show ?thesis
  proof (cases "k \<le> 1023 \<and> ?b * 2 ^ nat k < 2 ^ 1024")
    case True
    then have "retry_ceiling other p attempt = int64_of_float other (Fin (min (?b * 2 ^ nat k) ?c))"
      using assms(1) k by (simp add: retry_ceiling_def fl pow2_def abs_mult)
    with conv [of "?b * 2 ^ nat k"] assms(1) show ?thesis
      by (simp add: k_def)
  next
    case False
    have "fmul2 (Fin ?b) (pow2 k) = PInf"
      using False assms(1) k(2) by (auto simp: pow2_def float_inf_def abs_mult)
    then have "retry_ceiling other p attempt = int64_of_float other (Fin ?c)"
      by (simp add: retry_ceiling_def fl k(1))
    moreover have "?c \<le> ?b * 2 ^ nat k"
    proof (cases "k \<le> 1023")
      case True
      with False have "2 ^ 1024 \<le> ?b * 2 ^ nat k" by simp
      then show ?thesis using assms(4) by simp
    next
      case False
      then have "(2 :: int) ^ 53 \<le> 2 ^ nat k"
        by (intro power_increasing) simp_all
      moreover have "(2 :: int) ^ nat k \<le> ?b * 2 ^ nat k"
        using assms(1) by simp
      ultimately show ?thesis using assms(4) by linarith
    qed
    moreover have "in_int64 ?c"
      using assms by (simp add: in_int64_def)
    ultimately show ?thesis
      by (simp add: sint_of_int64 k_def)
  qed
qed

lemma Backoff_bounds:
  assumes "int63n_ok int63n"
    and "0 < sint (rp_base p)" and "sint (rp_base p) < 2 ^ 53"
    and "0 \<le> sint (rp_cap p)" and "sint (rp_cap p) < 2 ^ 53"
  shows "\<exists>n p'. Backoff other int63n p attempt = Some (n, p') \<and> 0 \<le> sint n \<and>
    sint n \<le> min (sint (rp_base p) * 2 ^ nat (max (sint attempt) 1 - 1)) (sint (rp_cap p)) \<and>
    rp_base p' = rp_base p \<and> rp_cap p' = rp_cap p"
proof -
  let ?c = "retry_ceiling other p attempt"
  let ?m = "min (sint (rp_base p) * 2 ^ nat (max (sint attempt) 1 - 1)) (sint (rp_cap p))"
  have c: "sint ?c = ?m"
    by (rule retry_ceiling_exact [OF assms(2-5)])
  have m: "0 \<le> ?m" "?m < 2 ^ 53"
    using assms(2-5) by simp_all
  show ?thesis
  proof (cases "sint ?c \<le> 0")
    case True
    with c m(1) show ?thesis
      by (auto simp: Backoff_def word_sle_eq)
  next
    case False
    have c1: "sint (?c + 1) = sint ?c + 1"
      using sint_add64 [of ?c 1] c m by (simp add: in_int64_def)
    obtain n rng where n: "int63n (rp_rng p) (?c + 1) = (n, rng)"
      by (cases "int63n (rp_rng p) (?c + 1)") blast
    have "0 < sint (?c + 1)"
      using False c1 by simp
    with assms(1) n have "0 \<le> sint n" and "sint n < sint (?c + 1)"
      unfolding int63n_ok_def by (metis fst_conv)+
    then have "0 \<le> sint n \<and> sint n \<le> ?m"
      using c1 c by linarith
    moreover have "Backoff other int63n p attempt = Some (n, p\<lparr>rp_rng := rng\<rparr>)"
      using False c1 n by (simp add: Backoff_def word_sle_eq)
    ultimately show ?thesis by simp
  qed
qed

end
