(* ===== verification/Operation_Json.thy ===== *)
theory Operation_Json
  imports Json_Value Onboard_Domain
begin

text \<open>
  \<open>json.Marshal\<close> and \<open>json.Unmarshal\<close> of an \<open>Operation\<close> with the tags of
  \<open>clients/onboard-sync/domain/operation.go\<close>. A field is matched by name without regard to
  (ASCII) case, the last of several wins, \<open>null\<close> leaves a field as it is, an unknown field is
  ignored, and a value of the wrong type is an error.
\<close>

definition int_json :: "int \<Rightarrow> json" where
  "int_json i = JNum (int_text i)"

definition operation_json :: "operation \<Rightarrow> json" where
  "operation_json op = JObj
     [(''client_request_id'', JStr (op_ClientRequestID op)), (''kind'', JStr (op_Kind op)),
      (''origin'', JStr (op_Origin op)), (''dest'', JStr (op_Dest op)),
      (''distance_nm'', int_json (sint (op_DistanceNm op))),
      (''fees_minor'', int_json (sint (op_FeesMinor op))),
      (''version'', int_json (sint (op_Version op)))]"

definition json_Marshal :: "operation \<Rightarrow> goerr + string" where
  "json_Marshal op = Inr (render (operation_json op))"

section \<open>Decoding\<close>

definition lower :: "char \<Rightarrow> char" where
  "lower c = (if between 65 c 90 then chr (code c + 32) else c)"

definition string_field :: "json \<Rightarrow> string \<Rightarrow> string option" where
  "string_field j old = (case j of JNull \<Rightarrow> Some old | JStr s \<Rightarrow> Some s | _ \<Rightarrow> None)"

definition int64_field :: "json \<Rightarrow> int64 \<Rightarrow> int64 option" where
  "int64_field j old = (case j of JNull \<Rightarrow> Some old | JNum lit \<Rightarrow> ParseInt64 lit | _ \<Rightarrow> None)"

definition int32_field :: "json \<Rightarrow> int32 \<Rightarrow> int32 option" where
  "int32_field j old =
     (case j of
        JNull \<Rightarrow> Some old
      | JNum lit \<Rightarrow>
          (case ParseInt64 lit of
             None \<Rightarrow> None
           | Some i \<Rightarrow> if - (2 ^ 31) \<le> sint i \<and> sint i < 2 ^ 31 then Some (int32_of_int64 i) else None)
      | _ \<Rightarrow> None)"

text \<open>One member; \<open>None\<close> for a value of the wrong type.\<close>

definition set_field :: "operation \<Rightarrow> string \<Rightarrow> json \<Rightarrow> operation option" where
  "set_field op key j =
     (let k = map lower key in
      if k = ''client_request_id''
      then map_option (\<lambda>s. op\<lparr>op_ClientRequestID := s\<rparr>) (string_field j (op_ClientRequestID op))
      else if k = ''kind'' then map_option (\<lambda>s. op\<lparr>op_Kind := s\<rparr>) (string_field j (op_Kind op))
      else if k = ''origin'' then map_option (\<lambda>s. op\<lparr>op_Origin := s\<rparr>) (string_field j (op_Origin op))
      else if k = ''dest'' then map_option (\<lambda>s. op\<lparr>op_Dest := s\<rparr>) (string_field j (op_Dest op))
      else if k = ''distance_nm''
      then map_option (\<lambda>i. op\<lparr>op_DistanceNm := i\<rparr>) (int32_field j (op_DistanceNm op))
      else if k = ''fees_minor''
      then map_option (\<lambda>i. op\<lparr>op_FeesMinor := i\<rparr>) (int64_field j (op_FeesMinor op))
      else if k = ''version''
      then map_option (\<lambda>i. op\<lparr>op_Version := i\<rparr>) (int64_field j (op_Version op))
      else Some op)"

fun set_fields :: "operation \<Rightarrow> (string \<times> json) list \<Rightarrow> operation option" where
  "set_fields op [] = Some op"
| "set_fields op ((k, j) # ms) =
     (case set_field op k j of None \<Rightarrow> None | Some op \<Rightarrow> set_fields op ms)"

definition zero_operation :: operation where
  "zero_operation = \<lparr>op_ClientRequestID = '''', op_Kind = '''', op_Origin = '''', op_Dest = '''',
     op_DistanceNm = 0, op_FeesMinor = 0, op_Version = 0\<rparr>"

definition ErrJson :: goerr where
  "ErrJson = ErrorsNew ''json: cannot unmarshal''"

definition json_Unmarshal :: "string \<Rightarrow> goerr + operation" where
  "json_Unmarshal text =
     (case parse_json text of
        None \<Rightarrow> Inl ErrJson
      | Some JNull \<Rightarrow> Inr zero_operation
      | Some (JObj ms) \<Rightarrow>
          (case set_fields zero_operation ms of None \<Rightarrow> Inl ErrJson | Some op \<Rightarrow> Inr op)
      | Some _ \<Rightarrow> Inl ErrJson)"

section \<open>Round trip\<close>

text \<open>An operation whose strings are UTF-8.\<close>

definition op_utf8 :: "operation \<Rightarrow> bool" where
  "op_utf8 op \<longleftrightarrow> utf8_ok (op_ClientRequestID op) \<and> utf8_ok (op_Kind op) \<and>
     utf8_ok (op_Origin op) \<and> utf8_ok (op_Dest op)"

lemma utf8_ok_ascii: "list_all (\<lambda>c. code c < 128) s \<Longrightarrow> utf8_ok s"
  by (induction s) (simp_all add: utf8_ok.simps(2))

lemma field_names_ascii:
  "utf8_ok ''client_request_id'' \<and> utf8_ok ''kind'' \<and> utf8_ok ''origin'' \<and> utf8_ok ''dest'' \<and>
   utf8_ok ''distance_nm'' \<and> utf8_ok ''fees_minor'' \<and> utf8_ok ''version''"
  by (intro conjI; rule utf8_ok_ascii; simp add: code_def)

lemma json_ok_operation: "op_utf8 op \<Longrightarrow> json_ok (operation_json op)"
  using field_names_ascii by (auto simp: operation_json_def int_json_def op_utf8_def)

lemma int64_field_int_json [simp]: "int64_field (int_json (sint (x :: int64))) old = Some x"
  by (simp add: int64_field_def int_json_def ParseInt64_int_text)

lemma int32_field_int_json [simp]: "int32_field (int_json (sint (x :: int32))) old = Some x"
proof -
  have "ParseInt64 (int_text (sint x)) = Some (int64_of_int32 x)"
    by (simp add: ParseInt64_int_text in_int64_sint32 int64_of_int32_def)
  then show ?thesis
    using sint32_bounds [of x] by (simp add: int32_field_def int_json_def)
qed

lemma string_field_JStr [simp]: "string_field (JStr s) old = Some s"
  by (simp add: string_field_def)

lemma lower_names:
  "map lower ''client_request_id'' = ''client_request_id'' \<and> map lower ''kind'' = ''kind'' \<and>
   map lower ''origin'' = ''origin'' \<and> map lower ''dest'' = ''dest'' \<and>
   map lower ''distance_nm'' = ''distance_nm'' \<and> map lower ''fees_minor'' = ''fees_minor'' \<and>
   map lower ''version'' = ''version''"
  by (simp add: lower_def between_def code_def)

lemma set_field_name [simp]:
  "set_field op ''client_request_id'' j =
     map_option (\<lambda>s. op\<lparr>op_ClientRequestID := s\<rparr>) (string_field j (op_ClientRequestID op))"
  "set_field op ''kind'' j = map_option (\<lambda>s. op\<lparr>op_Kind := s\<rparr>) (string_field j (op_Kind op))"
  "set_field op ''origin'' j = map_option (\<lambda>s. op\<lparr>op_Origin := s\<rparr>) (string_field j (op_Origin op))"
  "set_field op ''dest'' j = map_option (\<lambda>s. op\<lparr>op_Dest := s\<rparr>) (string_field j (op_Dest op))"
  "set_field op ''distance_nm'' j =
     map_option (\<lambda>i. op\<lparr>op_DistanceNm := i\<rparr>) (int32_field j (op_DistanceNm op))"
  "set_field op ''fees_minor'' j =
     map_option (\<lambda>i. op\<lparr>op_FeesMinor := i\<rparr>) (int64_field j (op_FeesMinor op))"
  "set_field op ''version'' j =
     map_option (\<lambda>i. op\<lparr>op_Version := i\<rparr>) (int64_field j (op_Version op))"
  unfolding set_field_def Let_def using lower_names by (simp_all only: list.inject char.inject if_True
      refl not_Cons_self2 list.distinct) simp_all

theorem json_round_trip: "op_utf8 op \<Longrightarrow> json_Marshal op = Inr line \<Longrightarrow> json_Unmarshal line = Inr op"
proof -
  assume ok: "op_utf8 op" and "json_Marshal op = Inr line"
  then have "parse_json line = Some (operation_json op)"
    using parse_render [OF json_ok_operation [OF ok]] by (simp add: json_Marshal_def)
  then show ?thesis
    by (simp add: json_Unmarshal_def operation_json_def zero_operation_def)
qed

section \<open>A line is a line\<close>

text \<open>The rendered text has no control character, so it is one line of the file.\<close>

definition printable :: "string \<Rightarrow> bool" where
  "printable s \<longleftrightarrow> (\<forall>c \<in> set s. 32 \<le> code c)"

lemma printable_simps [simp]:
  "printable []" "printable (c # s) \<longleftrightarrow> 32 \<le> code c \<and> printable s"
  "printable (s @ t) \<longleftrightarrow> printable s \<and> printable t"
  by (auto simp: printable_def)

lemma printable_hex [simp]: "d < 16 \<Longrightarrow> 32 \<le> code (hex_digit d)"
  by (simp add: hex_digit_def)

lemma printable_escape_u: "u < 65536 \<Longrightarrow> printable (escape_u u)"
  by (simp add: escape_u_def)

lemma printable_escape_ascii: "code c < 128 \<Longrightarrow> printable (escape_ascii c)"
  by (auto simp: escape_ascii_def Let_def printable_escape_u)

lemma utf8_len_high: "128 \<le> code c \<Longrightarrow> d \<in> set (take (utf8_len (c # s)) (c # s)) \<Longrightarrow> 128 \<le> code d"
  by (auto simp: utf8_len_def between_def split: list.splits if_splits)

lemma printable_escape: "printable (escape s)"
proof (induction s rule: escape.induct)
  case 1
  then show ?case by simp
next
  case (2 c s)
  show ?case
  proof (cases "code c < 128")
    case True
    with 2 show ?thesis by (simp add: escape.simps(2) printable_escape_ascii)
  next
    case False
    have "printable (take (utf8_len (c # s)) (c # s))"
      using utf8_len_high [of c _ s] False by (force simp: printable_def)
    with 2 False show ?thesis
      by (simp add: escape.simps(2) Let_def printable_escape_u)
  qed
qed

lemma printable_nat_text: "printable (nat_text n)"
  using nat_text_digits [of n] by (auto simp: printable_def list_all_iff is_digit_def between_def)

lemma printable_int_text: "printable (int_text i)"
  by (simp add: int_text_def printable_nat_text code_def)

lemma printable_marshal: "json_Marshal op = Inr line \<Longrightarrow> printable line"
proof -
  assume "json_Marshal op = Inr line"
  then have "line = render (operation_json op)"
    by (simp add: json_Marshal_def)
  moreover have "printable (render (operation_json op))"
    by (simp add: operation_json_def quoted_def int_json_def printable_escape printable_int_text)
  ultimately show ?thesis by simp
qed

lemma marshal_nonempty: "json_Marshal op = Inr line \<Longrightarrow> line \<noteq> []"
  by (auto simp: json_Marshal_def operation_json_def)

end
