(* ===== verification/Graphql_Lib.thy ===== *)
theory Graphql_Lib
  imports Gateway Operation_Json
begin

text \<open>
  What the generated GraphQL executor (\<open>gen/graphql/generated.go\<close>) runs on. The executor's
  library, gqlgen's package \<open>graphql\<close>, is not part of the repository: every function of it that
  the executor calls is a field of \<open>gqlgen\<close>, over an opaque context \<open>'c\<close>, opaque selection sets
  \<open>'sel\<close> and a state \<open>'s\<close> that holds the reported errors and whatever the resolvers change.
  The laws of \<open>gqlgen_ok\<close> are the documented behaviour the theorems rely on.

  A Go value of type \<open>any\<close> is a \<open>gvalue\<close>, with the nil pointers of its pointer types; a decoded
  argument (nil, a map, a list, a string, a number, a boolean) is a \<open>json\<close>. A call returns, fails
  with an error, or panics.
\<close>

section \<open>Values, contexts, results\<close>

datatype 'a ret = Ret 'a | Fail goerr | Panic string

text \<open>The objects of the library's package \<open>introspection\<close>, by reference: what they hold is read
  through the accessors of \<open>introspection_lib\<close> below.\<close>

datatype directive_obj = DirectiveRef nat
datatype enum_value_obj = EnumValueRef nat
datatype field_obj = FieldRef nat
datatype input_value_obj = InputValueRef nat
datatype schema_obj = SchemaRef nat
datatype type_obj = TypeRef nat

text \<open>A Go pointer or slice is an option: \<open>None\<close> is nil.\<close>

datatype gvalue =
    VNil | VString string | VInt int64 | VBool bool
  | VVoyage "model_voyage option" | VPayload "create_voyage_payload option"
  | VCreateInput create_voyage_input | VUpdateInput update_voyage_input
  | VBoolPtr "bool option" | VStringPtr "string option" | VStrings "string list option"
  | VSchema "schema_obj option" | VType "type_obj option" | VTypes "type_obj list option"
  | VFields "field_obj list option" | VInputValues "input_value_obj list option"
  | VEnumValues "enum_value_obj list option" | VDirectives "directive_obj list option"

text \<open>\<open>graphql.Null\<close> and \<open>graphql.RequiredNull\<close> are two marshalers that both write \<open>null\<close>; a
  \<open>FieldSet\<close> writes an object, its values under the aliases of its fields, and an \<open>Array\<close> a list.\<close>

datatype marshaler =
    Null | RequiredNull | NilMarshaler | Scalar json | FieldSet "(string \<times> marshaler) list"
  | ArrayM "marshaler list"

record 'sel collected_field =
  cf_Name :: string
  cf_Alias :: string
  cf_Selections :: 'sel

text \<open>The \<open>Child\<close> closure of a field context, by the lookup function it calls.\<close>

datatype child =
    Child_CreateVoyagePayload | Child_Voyage | Child_Type | Child_Schema | Child_Directive
  | Child_EnumValue | Child_Field | Child_InputValue | Child_None goerr

record 'sel field_context =
  fc_Object :: string
  fc_Field :: "'sel collected_field"
  fc_Args :: "string \<rightharpoonup> gvalue"
  fc_IsMethod :: bool
  fc_IsResolver :: bool
  fc_Child :: child

section \<open>The library\<close>

record ('c, 'sel, 's) gqlgen =
  gq_CollectFields :: "'sel \<Rightarrow> string list \<Rightarrow> 'sel collected_field list"
  gq_ArgumentMap :: "'sel collected_field \<Rightarrow> (string \<rightharpoonup> json) \<Rightarrow> (string \<rightharpoonup> json)"
  gq_ProcessArgField :: "'c \<Rightarrow> (string \<rightharpoonup> json) \<Rightarrow> string \<Rightarrow> ('c \<Rightarrow> json \<Rightarrow> gvalue ret) \<Rightarrow> gvalue ret"
  gq_ResolveField :: "'c \<Rightarrow> 'sel collected_field \<Rightarrow>
     ('c \<Rightarrow> 'sel collected_field \<Rightarrow> 's \<Rightarrow> 'sel field_context ret \<times> 's) \<Rightarrow>
     ('c \<Rightarrow> 's \<Rightarrow> gvalue ret \<times> 's) \<Rightarrow>
     ('c \<Rightarrow> 'sel \<Rightarrow> gvalue \<Rightarrow> 's \<Rightarrow> marshaler ret \<times> 's) \<Rightarrow> bool \<Rightarrow> bool \<Rightarrow> 's \<Rightarrow> marshaler ret \<times> 's"
  gq_RootResolverMiddleware :: "'c \<Rightarrow> ('c \<Rightarrow> 's \<Rightarrow> marshaler ret \<times> 's) \<Rightarrow> 's \<Rightarrow> marshaler ret \<times> 's"
  gq_NewScalarFieldContext ::
    "string \<Rightarrow> 'sel collected_field \<Rightarrow> bool \<Rightarrow> bool \<Rightarrow> goerr \<Rightarrow> 'sel field_context ret"
  gq_WithFieldContext :: "'c \<Rightarrow> 'sel field_context \<Rightarrow> 'c"
  gq_GetFieldContext :: "'c \<Rightarrow> 'sel field_context"
  gq_WithPathContext :: "'c \<Rightarrow> string \<Rightarrow> 'c"
  gq_WithRootFieldContext :: "'c \<Rightarrow> string \<Rightarrow> 'sel collected_field \<Rightarrow> 'c"
  gq_WithObject :: "'c \<Rightarrow> string \<Rightarrow> 'c"
  gq_WithPathIndex :: "'c \<Rightarrow> nat \<Rightarrow> 'c"
  gq_WithIndex :: "'c \<Rightarrow> nat \<Rightarrow> 'c"
  gq_HasFieldError :: "'c \<Rightarrow> 'sel field_context \<Rightarrow> 's \<Rightarrow> bool"
  gq_AddErrorf :: "'c \<Rightarrow> string \<Rightarrow> 's \<Rightarrow> 's"
  gq_Error :: "'c \<Rightarrow> goerr \<Rightarrow> 's \<Rightarrow> 's"
  gq_Recover :: "'c \<Rightarrow> string \<Rightarrow> goerr"
  gq_ErrorOnPath :: "'c \<Rightarrow> goerr \<Rightarrow> goerr"
  gq_UnmarshalID :: "json \<Rightarrow> goerr + string"
  gq_UnmarshalString :: "json \<Rightarrow> goerr + string"
  gq_UnmarshalInt :: "json \<Rightarrow> goerr + int64"
  gq_UnmarshalBoolean :: "json \<Rightarrow> goerr + bool"
  gq_CoerceList :: "json \<Rightarrow> json list"
  gq_MarshalID :: "string \<Rightarrow> marshaler"
  gq_MarshalString :: "string \<Rightarrow> marshaler"
  gq_MarshalInt :: "int64 \<Rightarrow> marshaler"
  gq_MarshalBoolean :: "bool \<Rightarrow> marshaler"
  gq_MarshalSlice ::
    "'c \<Rightarrow> nat \<Rightarrow> ('c \<Rightarrow> nat \<Rightarrow> 's \<Rightarrow> marshaler ret \<times> 's) \<Rightarrow> 's \<Rightarrow> marshaler list ret \<times> 's"
  gq_schedule :: "nat \<Rightarrow> nat list"
  gq_MarshalGQL :: "marshaler \<Rightarrow> string"

text \<open>\<open>gq_WithObject c t\<close> is \<open>WithFieldContext\<close> of a context that names only its object, at the
  root of an operation. \<open>gq_schedule n\<close> is the order in which \<open>Dispatch\<close> lets the \<open>n\<close> values of a
  field set that were handed to \<open>Concurrently\<close> act on the state. \<open>gq_MarshalSlice\<close> is
  \<open>MarshalSliceConcurrently\<close>: it marshals element \<open>i\<close> of a slice under the context
  \<open>gq_WithIndex c i\<close>; \<open>gq_WithPathIndex\<close> is \<open>WithPathContext\<close> of a path with an index.

  The introspection objects of the parsed schema, and the two methods of the library's execution
  context that hand them out (an error when introspection is disabled).\<close>

record introspection_lib =
  in_IntrospectSchema :: "goerr + schema_obj option"
  in_IntrospectType :: "string \<Rightarrow> goerr + type_obj option"
  in_Directive_Name :: "directive_obj \<Rightarrow> string"
  in_Directive_Description :: "directive_obj \<Rightarrow> string option"
  in_Directive_IsRepeatable :: "directive_obj \<Rightarrow> bool"
  in_Directive_Locations :: "directive_obj \<Rightarrow> string list option"
  in_Directive_Args :: "directive_obj \<Rightarrow> input_value_obj list option"
  in_EnumValue_Name :: "enum_value_obj \<Rightarrow> string"
  in_EnumValue_Description :: "enum_value_obj \<Rightarrow> string option"
  in_EnumValue_IsDeprecated :: "enum_value_obj \<Rightarrow> bool"
  in_EnumValue_DeprecationReason :: "enum_value_obj \<Rightarrow> string option"
  in_Field_Name :: "field_obj \<Rightarrow> string"
  in_Field_Description :: "field_obj \<Rightarrow> string option"
  in_Field_Args :: "field_obj \<Rightarrow> input_value_obj list option"
  in_Field_Type :: "field_obj \<Rightarrow> type_obj option"
  in_Field_IsDeprecated :: "field_obj \<Rightarrow> bool"
  in_Field_DeprecationReason :: "field_obj \<Rightarrow> string option"
  in_InputValue_Name :: "input_value_obj \<Rightarrow> string"
  in_InputValue_Description :: "input_value_obj \<Rightarrow> string option"
  in_InputValue_Type :: "input_value_obj \<Rightarrow> type_obj option"
  in_InputValue_DefaultValue :: "input_value_obj \<Rightarrow> string option"
  in_InputValue_IsDeprecated :: "input_value_obj \<Rightarrow> bool"
  in_InputValue_DeprecationReason :: "input_value_obj \<Rightarrow> string option"
  in_Schema_Description :: "schema_obj \<Rightarrow> string option"
  in_Schema_Types :: "schema_obj \<Rightarrow> type_obj list option"
  in_Schema_QueryType :: "schema_obj \<Rightarrow> type_obj option"
  in_Schema_MutationType :: "schema_obj \<Rightarrow> type_obj option"
  in_Schema_SubscriptionType :: "schema_obj \<Rightarrow> type_obj option"
  in_Schema_Directives :: "schema_obj \<Rightarrow> directive_obj list option"
  in_Type_Kind :: "type_obj \<Rightarrow> string"
  in_Type_Name :: "type_obj \<Rightarrow> string option"
  in_Type_Description :: "type_obj \<Rightarrow> string option"
  in_Type_SpecifiedByURL :: "type_obj \<Rightarrow> string option"
  in_Type_Fields :: "type_obj \<Rightarrow> bool \<Rightarrow> field_obj list option"
  in_Type_Interfaces :: "type_obj \<Rightarrow> type_obj list option"
  in_Type_PossibleTypes :: "type_obj \<Rightarrow> type_obj list option"
  in_Type_EnumValues :: "type_obj \<Rightarrow> bool \<Rightarrow> enum_value_obj list option"
  in_Type_InputFields :: "type_obj \<Rightarrow> input_value_obj list option"
  in_Type_OfType :: "type_obj \<Rightarrow> type_obj option"
  in_Type_IsOneOf :: "type_obj \<Rightarrow> bool"

section \<open>What it does\<close>

text \<open>The JSON text a marshaler writes.\<close>

fun marshaler_json :: "marshaler \<Rightarrow> json" where
  "marshaler_json Null = JNull"
| "marshaler_json RequiredNull = JNull"
| "marshaler_json NilMarshaler = JNull"
| "marshaler_json (Scalar j) = j"
| "marshaler_json (ArrayM ms) = JArr (map marshaler_json ms)"
| "marshaler_json (FieldSet kvs) = JObj (map (\<lambda>(k, m). (k, marshaler_json m)) kvs)"

text \<open>\<open>ResolveField\<close> makes the field's context, runs the resolver under it and marshals the value
  it returns; an error is reported and the field is null, and so is a panic of either.\<close>

definition resolve_field_law :: "('c, 'sel, 's) gqlgen \<Rightarrow> bool" where
  "resolve_field_law g \<longleftrightarrow>
     (\<forall>c fld init resolve marsh nonnull s.
        (\<forall>e s'. init c fld s = (Fail e, s') \<longrightarrow>
           gq_ResolveField g c fld init resolve marsh True nonnull s = (Ret Null, s')) \<and>
        (\<forall>fc s' e s''. init c fld s = (Ret fc, s') \<and>
             resolve (gq_WithFieldContext g c fc) s' = (Fail e, s'') \<longrightarrow>
           gq_ResolveField g c fld init resolve marsh True nonnull s =
             (Ret Null, gq_Error g (gq_WithFieldContext g c fc) e s'')) \<and>
        (\<forall>fc s' p s''. init c fld s = (Ret fc, s') \<and>
             resolve (gq_WithFieldContext g c fc) s' = (Panic p, s'') \<longrightarrow>
           gq_ResolveField g c fld init resolve marsh True nonnull s =
             (Ret Null, gq_Error g (gq_WithFieldContext g c fc)
                (gq_Recover g (gq_WithFieldContext g c fc) p) s'')) \<and>
        (\<forall>fc s' v s'' m s'''. init c fld s = (Ret fc, s') \<and>
             resolve (gq_WithFieldContext g c fc) s' = (Ret v, s'') \<and> v \<noteq> VNil \<and>
             marsh (gq_WithFieldContext g c fc) (cf_Selections fld) v s'' = (Ret m, s''') \<longrightarrow>
           gq_ResolveField g c fld init resolve marsh True nonnull s = (Ret m, s''')) \<and>
        (\<forall>fc s' v s'' p s'''. init c fld s = (Ret fc, s') \<and>
             resolve (gq_WithFieldContext g c fc) s' = (Ret v, s'') \<and> v \<noteq> VNil \<and>
             marsh (gq_WithFieldContext g c fc) (cf_Selections fld) v s'' = (Panic p, s''') \<longrightarrow>
           gq_ResolveField g c fld init resolve marsh True nonnull s =
             (Ret Null, gq_Error g (gq_WithFieldContext g c fc)
                (gq_Recover g (gq_WithFieldContext g c fc) p) s''')))"

definition scalar_laws :: "('c, 'sel, 's) gqlgen \<Rightarrow> bool" where
  "scalar_laws g \<longleftrightarrow>
     (\<forall>s. gq_UnmarshalID g (JStr s) = Inr s \<and> gq_UnmarshalString g (JStr s) = Inr s \<and>
          gq_MarshalID g s = Scalar (JStr s) \<and> gq_MarshalString g s = Scalar (JStr s)) \<and>
     (\<forall>i. gq_UnmarshalInt g (int_json (sint i)) = Inr i \<and>
          gq_MarshalInt g i = Scalar (int_json (sint i))) \<and>
     (\<forall>b. gq_UnmarshalBoolean g (JBool b) = Inr b \<and> gq_MarshalBoolean g b = Scalar (JBool b))"

text \<open>Marshalling a slice gives one marshaler per element, each made by a call for its element; where
  the calls leave the state alone it is left alone. The order of the calls is not fixed.\<close>

definition slice_law :: "('c, 'sel, 's) gqlgen \<Rightarrow> bool" where
  "slice_law g \<longleftrightarrow>
     (\<forall>c n f P s.
        (\<forall>i < n. \<forall>s. \<exists>m s'. f (gq_WithIndex g c i) i s = (Ret m, s') \<and> P i m) \<longrightarrow>
        (\<exists>ms s'. gq_MarshalSlice g c n f s = (Ret ms, s') \<and> length ms = n \<and> (\<forall>i < n. P i (ms ! i)))) \<and>
     (\<forall>c n f m s.
        (\<forall>i < n. f (gq_WithIndex g c i) i s = (Ret (m i), s)) \<longrightarrow>
        gq_MarshalSlice g c n f s = (Ret (map m [0..<n]), s))"

definition context_laws :: "('c, 'sel, 's) gqlgen \<Rightarrow> bool" where
  "context_laws g \<longleftrightarrow>
     (\<forall>c fc. gq_GetFieldContext g (gq_WithFieldContext g c fc) = fc) \<and>
     (\<forall>object fld m r e. gq_NewScalarFieldContext g object fld m r e =
        Ret \<lparr>fc_Object = object, fc_Field = fld, fc_Args = Map.empty, fc_IsMethod = m,
             fc_IsResolver = r, fc_Child = Child_None e\<rparr>) \<and>
     (\<forall>c raw k f j. raw k = Some j \<longrightarrow>
        gq_ProcessArgField g c raw k f = f (gq_WithPathContext g c k) j) \<and>
     (\<forall>c f s. gq_RootResolverMiddleware g c f s = f c s) \<and>
     (\<forall>n. distinct (gq_schedule g n) \<and> set (gq_schedule g n) = {..<n})"

definition gqlgen_ok :: "('c, 'sel, 's) gqlgen \<Rightarrow> bool" where
  "gqlgen_ok g \<longleftrightarrow> resolve_field_law g \<and> scalar_laws g \<and> slice_law g \<and> context_laws g"

end
