(* ===== verification/Graphql_Input.thy ===== *)
theory Graphql_Input
  imports Graphql_Lib
begin

text \<open>
  The input side of the generated executor (\<open>gen/graphql/generated.go\<close>): unmarshalling of the
  scalars and of the two input objects, the argument maps of the three fields with arguments,
  and the complexity estimate.
\<close>

fun bind_ret :: "'a ret \<Rightarrow> ('a \<Rightarrow> 'b ret) \<Rightarrow> 'b ret" where
  "bind_ret (Ret x) f = f x"
| "bind_ret (Fail e) f = Fail e"
| "bind_ret (Panic p) f = Panic p"

lemma bind_ret_Ret [simp]: "bind_ret r f = Ret y \<longleftrightarrow> (\<exists>x. r = Ret x \<and> f x = Ret y)"
  by (cases r) auto

section \<open>Scalars\<close>

definition unmarshalNID2string :: "('c, 'sel, 's) gqlgen \<Rightarrow> 'c \<Rightarrow> json \<Rightarrow> string ret" where
  "unmarshalNID2string g c v =
     (case gq_UnmarshalID g v of Inl err \<Rightarrow> Fail (gq_ErrorOnPath g c err) | Inr res \<Rightarrow> Ret res)"

definition unmarshalNString2string :: "('c, 'sel, 's) gqlgen \<Rightarrow> 'c \<Rightarrow> json \<Rightarrow> string ret" where
  "unmarshalNString2string g c v =
     (case gq_UnmarshalString g v of Inl err \<Rightarrow> Fail (gq_ErrorOnPath g c err) | Inr res \<Rightarrow> Ret res)"

definition unmarshalNInt2int :: "('c, 'sel, 's) gqlgen \<Rightarrow> 'c \<Rightarrow> json \<Rightarrow> int64 ret" where
  "unmarshalNInt2int g c v =
     (case gq_UnmarshalInt g v of Inl err \<Rightarrow> Fail (gq_ErrorOnPath g c err) | Inr res \<Rightarrow> Ret res)"

definition unmarshalNBoolean2bool :: "('c, 'sel, 's) gqlgen \<Rightarrow> 'c \<Rightarrow> json \<Rightarrow> bool ret" where
  "unmarshalNBoolean2bool g c v =
     (case gq_UnmarshalBoolean g v of Inl err \<Rightarrow> Fail (gq_ErrorOnPath g c err) | Inr res \<Rightarrow> Ret res)"

definition unmarshalOBoolean2bool :: "('c, 'sel, 's) gqlgen \<Rightarrow> 'c \<Rightarrow> json \<Rightarrow> bool ret" where
  "unmarshalOBoolean2bool g c v =
     (case gq_UnmarshalBoolean g v of Inl err \<Rightarrow> Fail (gq_ErrorOnPath g c err) | Inr res \<Rightarrow> Ret res)"

definition unmarshalN__TypeKind :: "('c, 'sel, 's) gqlgen \<Rightarrow> 'c \<Rightarrow> json \<Rightarrow> string ret" where
  "unmarshalN__TypeKind g c v =
     (case gq_UnmarshalString g v of Inl err \<Rightarrow> Fail (gq_ErrorOnPath g c err) | Inr res \<Rightarrow> Ret res)"

definition unmarshalN__DirectiveLocation :: "('c, 'sel, 's) gqlgen \<Rightarrow> 'c \<Rightarrow> json \<Rightarrow> string ret" where
  "unmarshalN__DirectiveLocation g c v =
     (case gq_UnmarshalString g v of Inl err \<Rightarrow> Fail (gq_ErrorOnPath g c err) | Inr res \<Rightarrow> Ret res)"

definition unmarshalOBooleanPtr :: "('c, 'sel, 's) gqlgen \<Rightarrow> 'c \<Rightarrow> json \<Rightarrow> bool option ret" where
  "unmarshalOBooleanPtr g c v =
     (if v = JNull then Ret None
      else case gq_UnmarshalBoolean g v of Inl err \<Rightarrow> Fail (gq_ErrorOnPath g c err) | Inr res \<Rightarrow> Ret (Some res))"

definition unmarshalOStringPtr :: "('c, 'sel, 's) gqlgen \<Rightarrow> 'c \<Rightarrow> json \<Rightarrow> string option ret" where
  "unmarshalOStringPtr g c v =
     (if v = JNull then Ret None
      else case gq_UnmarshalString g v of Inl err \<Rightarrow> Fail (gq_ErrorOnPath g c err) | Inr res \<Rightarrow> Ret (Some res))"

text \<open>The loop over the decoded list, \<open>i\<close> the index of its next element.\<close>

fun unmarshal_locations ::
  "('c, 'sel, 's) gqlgen \<Rightarrow> 'c \<Rightarrow> nat \<Rightarrow> json list \<Rightarrow> string list ret" where
  "unmarshal_locations g c i [] = Ret []"
| "unmarshal_locations g c i (v # vs) =
     bind_ret (unmarshalN__DirectiveLocation g (gq_WithPathIndex g c i) v) (\<lambda>res.
       bind_ret (unmarshal_locations g c (Suc i) vs) (\<lambda>rest. Ret (res # rest)))"

definition unmarshalN__DirectiveLocationSlice ::
  "('c, 'sel, 's) gqlgen \<Rightarrow> 'c \<Rightarrow> json \<Rightarrow> string list ret" where
  "unmarshalN__DirectiveLocationSlice g c v = unmarshal_locations g c 0 (gq_CoerceList g v)"

section \<open>Input objects\<close>

text \<open>The entries of a decoded map: where a JSON object repeats a key its last entry stays.\<close>

definition map_entry :: "(string \<times> json) list \<Rightarrow> string \<Rightarrow> json option" where
  "map_entry ms k = map_of (rev ms) k"

definition zero_create_input :: create_voyage_input where
  "zero_create_input = \<lparr>cvi_ClientRequestID = '''', cvi_Origin = '''', cvi_Dest = '''',
     cvi_DistanceNm = 0, cvi_FeesMinor = 0\<rparr>"

fun create_input_fields ::
  "('c, 'sel, 's) gqlgen \<Rightarrow> 'c \<Rightarrow> (string \<Rightarrow> json option) \<Rightarrow> create_voyage_input \<Rightarrow> string list \<Rightarrow>
   create_voyage_input ret" where
  "create_input_fields g c asMap it [] = Ret it"
| "create_input_fields g c asMap it (k # ks) =
     (case asMap k of
        None \<Rightarrow> create_input_fields g c asMap it ks
      | Some v \<Rightarrow>
          (let c' = gq_WithPathContext g c k in
           if k = ''clientRequestId''
           then bind_ret (unmarshalNID2string g c' v) (\<lambda>data.
             create_input_fields g c asMap (it\<lparr>cvi_ClientRequestID := data\<rparr>) ks)
           else if k = ''origin''
           then bind_ret (unmarshalNString2string g c' v) (\<lambda>data.
             create_input_fields g c asMap (it\<lparr>cvi_Origin := data\<rparr>) ks)
           else if k = ''dest''
           then bind_ret (unmarshalNString2string g c' v) (\<lambda>data.
             create_input_fields g c asMap (it\<lparr>cvi_Dest := data\<rparr>) ks)
           else if k = ''distanceNm''
           then bind_ret (unmarshalNInt2int g c' v) (\<lambda>data.
             create_input_fields g c asMap (it\<lparr>cvi_DistanceNm := data\<rparr>) ks)
           else if k = ''feesMinor''
           then bind_ret (unmarshalNInt2int g c' v) (\<lambda>data.
             create_input_fields g c asMap (it\<lparr>cvi_FeesMinor := data\<rparr>) ks)
           else create_input_fields g c asMap it ks))"

definition unmarshalInputCreateVoyageInput ::
  "('c, 'sel, 's) gqlgen \<Rightarrow> 'c \<Rightarrow> json \<Rightarrow> create_voyage_input ret" where
  "unmarshalInputCreateVoyageInput g c obj =
     (case obj of
        JNull \<Rightarrow> Ret zero_create_input
      | JObj ms \<Rightarrow> create_input_fields g c (map_entry ms) zero_create_input
          [''clientRequestId'', ''origin'', ''dest'', ''distanceNm'', ''feesMinor'']
      | _ \<Rightarrow> Panic ''interface conversion'')"

definition zero_update_input :: update_voyage_input where
  "zero_update_input = \<lparr>uvi_ClientRequestID = '''', uvi_Origin = '''', uvi_Dest = '''',
     uvi_DistanceNm = 0, uvi_FeesMinor = 0, uvi_Version = 0\<rparr>"

fun update_input_fields ::
  "('c, 'sel, 's) gqlgen \<Rightarrow> 'c \<Rightarrow> (string \<Rightarrow> json option) \<Rightarrow> update_voyage_input \<Rightarrow> string list \<Rightarrow>
   update_voyage_input ret" where
  "update_input_fields g c asMap it [] = Ret it"
| "update_input_fields g c asMap it (k # ks) =
     (case asMap k of
        None \<Rightarrow> update_input_fields g c asMap it ks
      | Some v \<Rightarrow>
          (let c' = gq_WithPathContext g c k in
           if k = ''clientRequestId''
           then bind_ret (unmarshalNID2string g c' v) (\<lambda>data.
             update_input_fields g c asMap (it\<lparr>uvi_ClientRequestID := data\<rparr>) ks)
           else if k = ''origin''
           then bind_ret (unmarshalNString2string g c' v) (\<lambda>data.
             update_input_fields g c asMap (it\<lparr>uvi_Origin := data\<rparr>) ks)
           else if k = ''dest''
           then bind_ret (unmarshalNString2string g c' v) (\<lambda>data.
             update_input_fields g c asMap (it\<lparr>uvi_Dest := data\<rparr>) ks)
           else if k = ''distanceNm''
           then bind_ret (unmarshalNInt2int g c' v) (\<lambda>data.
             update_input_fields g c asMap (it\<lparr>uvi_DistanceNm := data\<rparr>) ks)
           else if k = ''feesMinor''
           then bind_ret (unmarshalNInt2int g c' v) (\<lambda>data.
             update_input_fields g c asMap (it\<lparr>uvi_FeesMinor := data\<rparr>) ks)
           else if k = ''version''
           then bind_ret (unmarshalNInt2int g c' v) (\<lambda>data.
             update_input_fields g c asMap (it\<lparr>uvi_Version := data\<rparr>) ks)
           else update_input_fields g c asMap it ks))"

definition unmarshalInputUpdateVoyageInput ::
  "('c, 'sel, 's) gqlgen \<Rightarrow> 'c \<Rightarrow> json \<Rightarrow> update_voyage_input ret" where
  "unmarshalInputUpdateVoyageInput g c obj =
     (case obj of
        JNull \<Rightarrow> Ret zero_update_input
      | JObj ms \<Rightarrow> update_input_fields g c (map_entry ms) zero_update_input
          [''clientRequestId'', ''origin'', ''dest'', ''distanceNm'', ''feesMinor'', ''version'']
      | _ \<Rightarrow> Panic ''interface conversion'')"

definition unmarshalNCreateVoyageInput ::
  "('c, 'sel, 's) gqlgen \<Rightarrow> 'c \<Rightarrow> json \<Rightarrow> create_voyage_input ret" where
  "unmarshalNCreateVoyageInput g c v =
     (case unmarshalInputCreateVoyageInput g c v of
        Fail err \<Rightarrow> Fail (gq_ErrorOnPath g c err) | r \<Rightarrow> r)"

definition unmarshalNUpdateVoyageInput ::
  "('c, 'sel, 's) gqlgen \<Rightarrow> 'c \<Rightarrow> json \<Rightarrow> update_voyage_input ret" where
  "unmarshalNUpdateVoyageInput g c v =
     (case unmarshalInputUpdateVoyageInput g c v of
        Fail err \<Rightarrow> Fail (gq_ErrorOnPath g c err) | r \<Rightarrow> r)"

section \<open>Arguments\<close>

definition field_Mutation_createVoyage_args ::
  "('c, 'sel, 's) gqlgen \<Rightarrow> 'c \<Rightarrow> (string \<rightharpoonup> json) \<Rightarrow> (string \<rightharpoonup> gvalue) ret" where
  "field_Mutation_createVoyage_args g c rawArgs =
     bind_ret
       (gq_ProcessArgField g c rawArgs ''input''
          (\<lambda>c v. bind_ret (unmarshalNCreateVoyageInput g c v) (\<lambda>i. Ret (VCreateInput i))))
       (\<lambda>arg0. Ret [''input'' \<mapsto> arg0])"

definition field_Mutation_updateVoyage_args ::
  "('c, 'sel, 's) gqlgen \<Rightarrow> 'c \<Rightarrow> (string \<rightharpoonup> json) \<Rightarrow> (string \<rightharpoonup> gvalue) ret" where
  "field_Mutation_updateVoyage_args g c rawArgs =
     bind_ret
       (gq_ProcessArgField g c rawArgs ''input''
          (\<lambda>c v. bind_ret (unmarshalNUpdateVoyageInput g c v) (\<lambda>i. Ret (VUpdateInput i))))
       (\<lambda>arg0. Ret [''input'' \<mapsto> arg0])"

definition field_Query_voyage_args ::
  "('c, 'sel, 's) gqlgen \<Rightarrow> 'c \<Rightarrow> (string \<rightharpoonup> json) \<Rightarrow> (string \<rightharpoonup> gvalue) ret" where
  "field_Query_voyage_args g c rawArgs =
     bind_ret
       (gq_ProcessArgField g c rawArgs ''clientRequestId''
          (\<lambda>c v. bind_ret (unmarshalNID2string g c v) (\<lambda>i. Ret (VString i))))
       (\<lambda>arg0. Ret [''clientRequestId'' \<mapsto> arg0])"

definition field_Query_type_args ::
  "('c, 'sel, 's) gqlgen \<Rightarrow> 'c \<Rightarrow> (string \<rightharpoonup> json) \<Rightarrow> (string \<rightharpoonup> gvalue) ret" where
  "field_Query_type_args g c rawArgs =
     bind_ret
       (gq_ProcessArgField g c rawArgs ''name''
          (\<lambda>c v. bind_ret (unmarshalNString2string g c v) (\<lambda>i. Ret (VString i))))
       (\<lambda>arg0. Ret [''name'' \<mapsto> arg0])"

definition field___Directive_args_args ::
  "('c, 'sel, 's) gqlgen \<Rightarrow> 'c \<Rightarrow> (string \<rightharpoonup> json) \<Rightarrow> (string \<rightharpoonup> gvalue) ret" where
  "field___Directive_args_args g c rawArgs =
     bind_ret
       (gq_ProcessArgField g c rawArgs ''includeDeprecated''
          (\<lambda>c v. bind_ret (unmarshalOBooleanPtr g c v) (\<lambda>b. Ret (VBoolPtr b))))
       (\<lambda>arg0. Ret [''includeDeprecated'' \<mapsto> arg0])"

definition field___Field_args_args ::
  "('c, 'sel, 's) gqlgen \<Rightarrow> 'c \<Rightarrow> (string \<rightharpoonup> json) \<Rightarrow> (string \<rightharpoonup> gvalue) ret" where
  "field___Field_args_args g c rawArgs =
     bind_ret
       (gq_ProcessArgField g c rawArgs ''includeDeprecated''
          (\<lambda>c v. bind_ret (unmarshalOBooleanPtr g c v) (\<lambda>b. Ret (VBoolPtr b))))
       (\<lambda>arg0. Ret [''includeDeprecated'' \<mapsto> arg0])"

definition field___Type_enumValues_args ::
  "('c, 'sel, 's) gqlgen \<Rightarrow> 'c \<Rightarrow> (string \<rightharpoonup> json) \<Rightarrow> (string \<rightharpoonup> gvalue) ret" where
  "field___Type_enumValues_args g c rawArgs =
     bind_ret
       (gq_ProcessArgField g c rawArgs ''includeDeprecated''
          (\<lambda>c v. bind_ret (unmarshalOBoolean2bool g c v) (\<lambda>b. Ret (VBool b))))
       (\<lambda>arg0. Ret [''includeDeprecated'' \<mapsto> arg0])"

definition field___Type_fields_args ::
  "('c, 'sel, 's) gqlgen \<Rightarrow> 'c \<Rightarrow> (string \<rightharpoonup> json) \<Rightarrow> (string \<rightharpoonup> gvalue) ret" where
  "field___Type_fields_args g c rawArgs =
     bind_ret
       (gq_ProcessArgField g c rawArgs ''includeDeprecated''
          (\<lambda>c v. bind_ret (unmarshalOBoolean2bool g c v) (\<lambda>b. Ret (VBool b))))
       (\<lambda>arg0. Ret [''includeDeprecated'' \<mapsto> arg0])"

section \<open>Complexity\<close>

record complexity_root =
  cxp_EstimatePending :: "(int64 \<Rightarrow> int64) option"
  cxp_ProvisionalEstimateMinor :: "(int64 \<Rightarrow> int64) option"
  cxp_Voyage :: "(int64 \<Rightarrow> int64) option"
  cxm_CreateVoyage :: "(int64 \<Rightarrow> create_voyage_input \<Rightarrow> int64) option"
  cxm_UpdateVoyage :: "(int64 \<Rightarrow> update_voyage_input \<Rightarrow> int64) option"
  cxq_Voyage :: "(int64 \<Rightarrow> string \<Rightarrow> int64) option"
  cxv_ClientRequestID :: "(int64 \<Rightarrow> int64) option"
  cxv_Dest :: "(int64 \<Rightarrow> int64) option"
  cxv_DistanceNm :: "(int64 \<Rightarrow> int64) option"
  cxv_EstimateMinor :: "(int64 \<Rightarrow> int64) option"
  cxv_FeesMinor :: "(int64 \<Rightarrow> int64) option"
  cxv_Origin :: "(int64 \<Rightarrow> int64) option"
  cxv_Version :: "(int64 \<Rightarrow> int64) option"

text \<open>A case of the switch whose function is nil breaks out of it.\<close>

definition complexity_case :: "(int64 \<Rightarrow> int64) option \<Rightarrow> int64 \<Rightarrow> (int64 \<times> bool) ret" where
  "complexity_case f childComplexity =
     (case f of None \<Rightarrow> Ret (0, False) | Some f \<Rightarrow> Ret (f childComplexity, True))"

definition Complexity ::
  "('c, 'sel, 's) gqlgen \<Rightarrow> complexity_root \<Rightarrow> 'c \<Rightarrow> string \<Rightarrow> string \<Rightarrow> int64 \<Rightarrow> (string \<rightharpoonup> json) \<Rightarrow>
   (int64 \<times> bool) ret" where
  "Complexity g root c typeName field childComplexity rawArgs =
     (let k = typeName @ ''.'' @ field in
      if k = ''CreateVoyagePayload.estimatePending''
      then complexity_case (cxp_EstimatePending root) childComplexity
      else if k = ''CreateVoyagePayload.provisionalEstimateMinor''
      then complexity_case (cxp_ProvisionalEstimateMinor root) childComplexity
      else if k = ''CreateVoyagePayload.voyage''
      then complexity_case (cxp_Voyage root) childComplexity
      else if k = ''Mutation.createVoyage''
      then (case cxm_CreateVoyage root of
              None \<Rightarrow> Ret (0, False)
            | Some f \<Rightarrow>
                (case field_Mutation_createVoyage_args g c rawArgs of
                   Fail err \<Rightarrow> Ret (0, False)
                 | Panic p \<Rightarrow> Panic p
                 | Ret args \<Rightarrow>
                     (case args ''input'' of
                        Some (VCreateInput i) \<Rightarrow> Ret (f childComplexity i, True)
                      | _ \<Rightarrow> Panic ''interface conversion'')))
      else if k = ''Mutation.updateVoyage''
      then (case cxm_UpdateVoyage root of
              None \<Rightarrow> Ret (0, False)
            | Some f \<Rightarrow>
                (case field_Mutation_updateVoyage_args g c rawArgs of
                   Fail err \<Rightarrow> Ret (0, False)
                 | Panic p \<Rightarrow> Panic p
                 | Ret args \<Rightarrow>
                     (case args ''input'' of
                        Some (VUpdateInput i) \<Rightarrow> Ret (f childComplexity i, True)
                      | _ \<Rightarrow> Panic ''interface conversion'')))
      else if k = ''Query.voyage''
      then (case cxq_Voyage root of
              None \<Rightarrow> Ret (0, False)
            | Some f \<Rightarrow>
                (case field_Query_voyage_args g c rawArgs of
                   Fail err \<Rightarrow> Ret (0, False)
                 | Panic p \<Rightarrow> Panic p
                 | Ret args \<Rightarrow>
                     (case args ''clientRequestId'' of
                        Some (VString i) \<Rightarrow> Ret (f childComplexity i, True)
                      | _ \<Rightarrow> Panic ''interface conversion'')))
      else if k = ''Voyage.clientRequestId'' then complexity_case (cxv_ClientRequestID root) childComplexity
      else if k = ''Voyage.dest'' then complexity_case (cxv_Dest root) childComplexity
      else if k = ''Voyage.distanceNm'' then complexity_case (cxv_DistanceNm root) childComplexity
      else if k = ''Voyage.estimateMinor'' then complexity_case (cxv_EstimateMinor root) childComplexity
      else if k = ''Voyage.feesMinor'' then complexity_case (cxv_FeesMinor root) childComplexity
      else if k = ''Voyage.origin'' then complexity_case (cxv_Origin root) childComplexity
      else if k = ''Voyage.version'' then complexity_case (cxv_Version root) childComplexity
      else Ret (0, False))"

end
