(* ===== verification/Graphql_Context.thy ===== *)
theory Graphql_Context
  imports Graphql_Input
begin

text \<open>
  What the objects of the generated executor (\<open>gen/graphql/generated.go\<close>) share: the execution
  context, the marshallers of the non-null scalars, the contexts of fields with arguments, and
  the loop of an object over its collected fields. A leading underscore of a generated name is
  dropped.

  The source's \<open>deferred\<close> maps are made empty and never written, so the counter \<open>Deferred\<close>
  stays zero and no deferred group is ever processed.
\<close>

section \<open>The execution context\<close>

record 's resolver_root =
  rr_CreateVoyage :: "'s \<Rightarrow> create_voyage_input \<Rightarrow> (goerr + create_voyage_payload option) \<times> 's"
  rr_UpdateVoyage :: "'s \<Rightarrow> update_voyage_input \<Rightarrow> (goerr + model_voyage option) \<times> 's"
  rr_Voyage :: "'s \<Rightarrow> string \<Rightarrow> (goerr + model_voyage option) \<times> 's"

record ('c, 'sel, 's) execution_context =
  ec_graphql :: "('c, 'sel, 's) gqlgen"
  ec_Resolvers :: "'s resolver_root"
  ec_Variables :: "string \<rightharpoonup> json"
  ec_introspection :: introspection_lib
  ec_depth :: nat

text \<open>\<open>ec_depth\<close> is no part of the source: it bounds the nesting of \<open>__Type\<close> objects that the model
  follows, where the source recurses without a bound.\<close>

text \<open>A value of another type than the marshaller takes: \<open>ResolveField\<close> refuses it.\<close>

definition unexpected_type :: "'s \<Rightarrow> marshaler ret \<times> 's" where
  "unexpected_type s = (Panic ''unexpected type'', s)"

section \<open>Marshallers\<close>

definition null_message :: string where
  "null_message = ''the requested element is null which the schema does not allow''"

definition report_null :: "('c, 'sel, 's) execution_context \<Rightarrow> 'c \<Rightarrow> 's \<Rightarrow> 's" where
  "report_null ec c s =
     (if gq_HasFieldError (ec_graphql ec) c (gq_GetFieldContext (ec_graphql ec) c) s then s
      else gq_AddErrorf (ec_graphql ec) c null_message s)"

definition marshalNBoolean2bool ::
  "('c, 'sel, 's) execution_context \<Rightarrow> 'c \<Rightarrow> 'sel \<Rightarrow> bool \<Rightarrow> 's \<Rightarrow> marshaler ret \<times> 's" where
  "marshalNBoolean2bool ec c sel v s =
     (let res = gq_MarshalBoolean (ec_graphql ec) v in
      (Ret res, if res = Null then report_null ec c s else s))"

definition marshalNID2string ::
  "('c, 'sel, 's) execution_context \<Rightarrow> 'c \<Rightarrow> 'sel \<Rightarrow> string \<Rightarrow> 's \<Rightarrow> marshaler ret \<times> 's" where
  "marshalNID2string ec c sel v s =
     (let res = gq_MarshalID (ec_graphql ec) v in
      (Ret res, if res = Null then report_null ec c s else s))"

definition marshalNInt2int ::
  "('c, 'sel, 's) execution_context \<Rightarrow> 'c \<Rightarrow> 'sel \<Rightarrow> int64 \<Rightarrow> 's \<Rightarrow> marshaler ret \<times> 's" where
  "marshalNInt2int ec c sel v s =
     (let res = gq_MarshalInt (ec_graphql ec) v in
      (Ret res, if res = Null then report_null ec c s else s))"

definition marshalNString2string ::
  "('c, 'sel, 's) execution_context \<Rightarrow> 'c \<Rightarrow> 'sel \<Rightarrow> string \<Rightarrow> 's \<Rightarrow> marshaler ret \<times> 's" where
  "marshalNString2string ec c sel v s =
     (let res = gq_MarshalString (ec_graphql ec) v in
      (Ret res, if res = Null then report_null ec c s else s))"

section \<open>The fields of an object\<close>

text \<open>The loop over the collected fields: a value per field, and the number of those that are
  null where the schema does not allow it.\<close>

fun object_fields ::
  "('sel collected_field \<Rightarrow> 's \<Rightarrow> (marshaler \<times> nat) ret \<times> 's) \<Rightarrow> 'sel collected_field list \<Rightarrow> 's \<Rightarrow>
   ((string \<times> marshaler) list \<times> nat) ret \<times> 's" where
  "object_fields value [] s = (Ret ([], 0), s)"
| "object_fields value (fld # flds) s =
     (case value fld s of
        (Ret (m, n), s) \<Rightarrow>
          (case object_fields value flds s of
             (Ret (kvs, invalids), s) \<Rightarrow> (Ret ((cf_Alias fld, m) # kvs, n + invalids), s)
           | (Fail e, s) \<Rightarrow> (Fail e, s)
           | (Panic p, s) \<Rightarrow> (Panic p, s))
      | (Fail e, s) \<Rightarrow> (Fail e, s)
      | (Panic p, s) \<Rightarrow> (Panic p, s))"

text \<open>\<open>if out.Values[i] == graphql.Null { out.Invalids++ }\<close>\<close>

definition non_null :: "marshaler ret \<times> 's \<Rightarrow> (marshaler \<times> nat) ret \<times> 's" where
  "non_null r = (case r of (m, s) \<Rightarrow> (bind_ret m (\<lambda>m. Ret (m, if m = Null then 1 else 0)), s))"

text \<open>\<open>if out.Invalids > 0 { return graphql.Null }; return out\<close>\<close>

definition object_result :: "((string \<times> marshaler) list \<times> nat) ret \<times> 's \<Rightarrow> marshaler ret \<times> 's" where
  "object_result r =
     (case r of (r, s) \<Rightarrow>
        (bind_ret r (\<lambda>(kvs, invalids). Ret (if invalids > 0 then Null else FieldSet kvs)), s))"

text \<open>\<open>if out.Values[i] == graphql.RequiredNull { out.Invalids++ }\<close>\<close>

definition required_null :: "marshaler ret \<times> 's \<Rightarrow> (marshaler \<times> nat) ret \<times> 's" where
  "required_null r =
     (case r of (m, s) \<Rightarrow> (bind_ret m (\<lambda>m. Ret (m, if m = RequiredNull then 1 else 0)), s))"

section \<open>Fields with arguments\<close>

text \<open>A field with arguments: they are unmarshalled when its context is made. An error is
  reported and returned; a panic is recovered, reported and returned.\<close>

definition context_with_args ::
  "('c, 'sel, 's) execution_context \<Rightarrow> 'c \<Rightarrow> 'sel field_context \<Rightarrow>
   ('c \<Rightarrow> (string \<rightharpoonup> json) \<Rightarrow> (string \<rightharpoonup> gvalue) ret) \<Rightarrow> 's \<Rightarrow> 'sel field_context ret \<times> 's" where
  "context_with_args ec c fc args s =
     (let g = ec_graphql ec; c' = gq_WithFieldContext g c fc in
      case args c' (gq_ArgumentMap g (fc_Field fc) (ec_Variables ec)) of
        Ret a \<Rightarrow> (Ret (fc\<lparr>fc_Args := a\<rparr>), s)
      | Fail err \<Rightarrow> (Fail err, gq_Error g c' err s)
      | Panic p \<Rightarrow> (Fail (gq_Recover g c' p), gq_Error g c' (gq_Recover g c' p) s))"

end
