(* ===== verification/Graphql_Introspection.thy ===== *)
theory Graphql_Introspection
  imports Graphql_Context
begin

text \<open>
  The introspection objects of the generated executor (\<open>gen/graphql/generated.go\<close>): the marshallers of
  their types, and the field functions, field contexts and object functions of \<open>__EnumValue\<close>,
  \<open>__InputValue\<close>, \<open>__Field\<close> and \<open>__Directive\<close>. The leading underscores of a generated name are
  dropped where a name cannot start with one, and \<open>Ptr\<close> and \<open>Slice\<close> stand for the marks of a pointer
  and a slice.

  The objects are mutually recursive in the source, always through \<open>___Type\<close>. Here each of them
  takes the object function of \<open>__Type\<close> as its first argument \<open>ty\<close>.
\<close>

section \<open>Scalars\<close>

definition marshalN__DirectiveLocation ::
  "('c, 'sel, 's) execution_context \<Rightarrow> 'c \<Rightarrow> 'sel \<Rightarrow> string \<Rightarrow> 's \<Rightarrow> marshaler ret \<times> 's" where
  "marshalN__DirectiveLocation ec c sel v s =
     (let res = gq_MarshalString (ec_graphql ec) v in
      (Ret res, if res = Null then report_null ec c s else s))"

definition marshalN__TypeKind ::
  "('c, 'sel, 's) execution_context \<Rightarrow> 'c \<Rightarrow> 'sel \<Rightarrow> string \<Rightarrow> 's \<Rightarrow> marshaler ret \<times> 's" where
  "marshalN__TypeKind ec c sel v s =
     (let res = gq_MarshalString (ec_graphql ec) v in
      (Ret res, if res = Null then report_null ec c s else s))"

definition marshalOBoolean2bool ::
  "('c, 'sel, 's) execution_context \<Rightarrow> 'c \<Rightarrow> 'sel \<Rightarrow> bool \<Rightarrow> 's \<Rightarrow> marshaler ret \<times> 's" where
  "marshalOBoolean2bool ec c sel v s = (Ret (gq_MarshalBoolean (ec_graphql ec) v), s)"

definition marshalOBooleanPtr ::
  "('c, 'sel, 's) execution_context \<Rightarrow> 'c \<Rightarrow> 'sel \<Rightarrow> bool option \<Rightarrow> 's \<Rightarrow> marshaler ret \<times> 's" where
  "marshalOBooleanPtr ec c sel v s =
     (case v of None \<Rightarrow> (Ret Null, s) | Some v \<Rightarrow> (Ret (gq_MarshalBoolean (ec_graphql ec) v), s))"

definition marshalOStringPtr ::
  "('c, 'sel, 's) execution_context \<Rightarrow> 'c \<Rightarrow> 'sel \<Rightarrow> string option \<Rightarrow> 's \<Rightarrow> marshaler ret \<times> 's" where
  "marshalOStringPtr ec c sel v s =
     (case v of None \<Rightarrow> (Ret Null, s) | Some v \<Rightarrow> (Ret (gq_MarshalString (ec_graphql ec) v), s))"

section \<open>Slices\<close>

text \<open>The elements of a Go slice: a nil slice has none.\<close>

definition slice_elements :: "'a list option \<Rightarrow> 'a list" where
  "slice_elements v = (case v of None \<Rightarrow> [] | Some xs \<Rightarrow> xs)"

text \<open>The body of the slice marshallers: the elements are marshalled concurrently, and one that is
  null makes the whole slice null. (The field context's \<open>Result\<close>, which the closure also sets, is not
  read by the executor.)\<close>

definition marshal_slice ::
  "('c, 'sel, 's) execution_context \<Rightarrow> 'c \<Rightarrow> ('c \<Rightarrow> 'a \<Rightarrow> 's \<Rightarrow> marshaler ret \<times> 's) \<Rightarrow> 'a list \<Rightarrow> 's \<Rightarrow>
   marshaler ret \<times> 's" where
  "marshal_slice ec c marshal v s =
     (case gq_MarshalSlice (ec_graphql ec) c (length v) (\<lambda>c i. marshal c (v ! i)) s of
        (ret, s) \<Rightarrow> (bind_ret ret (\<lambda>es. Ret (if Null \<in> set es then Null else ArrayM es)), s))"

definition marshalN__DirectiveLocationSlice ::
  "('c, 'sel, 's) execution_context \<Rightarrow> 'c \<Rightarrow> 'sel \<Rightarrow> string list option \<Rightarrow> 's \<Rightarrow> marshaler ret \<times> 's" where
  "marshalN__DirectiveLocationSlice ec c sel v =
     marshal_slice ec c (\<lambda>c x. marshalN__DirectiveLocation ec c sel x) (slice_elements v)"

section \<open>References to \<open>__Type\<close>\<close>

type_synonym ('c, 'sel, 's) type_object = "'c \<Rightarrow> 'sel \<Rightarrow> type_obj \<Rightarrow> 's \<Rightarrow> marshaler ret \<times> 's"

definition marshalN__Type ::
  "('c, 'sel, 's) type_object \<Rightarrow> ('c, 'sel, 's) execution_context \<Rightarrow> 'c \<Rightarrow> 'sel \<Rightarrow> type_obj \<Rightarrow> 's \<Rightarrow>
   marshaler ret \<times> 's" where
  "marshalN__Type ty ec c sel v = ty c sel v"

definition marshalN__TypePtr ::
  "('c, 'sel, 's) type_object \<Rightarrow> ('c, 'sel, 's) execution_context \<Rightarrow> 'c \<Rightarrow> 'sel \<Rightarrow> type_obj option \<Rightarrow> 's \<Rightarrow>
   marshaler ret \<times> 's" where
  "marshalN__TypePtr ty ec c sel v s =
     (case v of None \<Rightarrow> (Ret Null, report_null ec c s) | Some v \<Rightarrow> ty c sel v s)"

definition marshalO__TypePtr ::
  "('c, 'sel, 's) type_object \<Rightarrow> ('c, 'sel, 's) execution_context \<Rightarrow> 'c \<Rightarrow> 'sel \<Rightarrow> type_obj option \<Rightarrow> 's \<Rightarrow>
   marshaler ret \<times> 's" where
  "marshalO__TypePtr ty ec c sel v s =
     (case v of None \<Rightarrow> (Ret Null, s) | Some v \<Rightarrow> ty c sel v s)"

definition marshalN__TypeSlice ::
  "('c, 'sel, 's) type_object \<Rightarrow> ('c, 'sel, 's) execution_context \<Rightarrow> 'c \<Rightarrow> 'sel \<Rightarrow> type_obj list option \<Rightarrow> 's \<Rightarrow> marshaler ret \<times> 's" where
  "marshalN__TypeSlice ty ec c sel v =
     marshal_slice ec c (\<lambda>c x. marshalN__Type ty ec c sel x) (slice_elements v)"

definition marshalO__TypeSlice ::
  "('c, 'sel, 's) type_object \<Rightarrow> ('c, 'sel, 's) execution_context \<Rightarrow> 'c \<Rightarrow> 'sel \<Rightarrow> type_obj list option \<Rightarrow> 's \<Rightarrow> marshaler ret \<times> 's" where
  "marshalO__TypeSlice ty ec c sel v s =
     (case v of
        None \<Rightarrow> (Ret Null, s)
      | Some v \<Rightarrow> marshal_slice ec c (\<lambda>c x. marshalN__Type ty ec c sel x) v s)"

section \<open>\<open>__EnumValue\<close>\<close>

definition fieldContext___EnumValue_name ::
  "('c, 'sel, 's) execution_context \<Rightarrow> 'sel collected_field \<Rightarrow> 'sel field_context ret" where
  "fieldContext___EnumValue_name ec fld =
     gq_NewScalarFieldContext (ec_graphql ec) ''__EnumValue'' fld False False
       (ErrorsNew ''field of type String does not have child fields'')"

definition EnumValue_name ::
  "('c, 'sel, 's) execution_context \<Rightarrow> 'c \<Rightarrow> 'sel collected_field \<Rightarrow> enum_value_obj \<Rightarrow> 's \<Rightarrow>
   marshaler ret \<times> 's" where
  "EnumValue_name ec c fld obj =
     gq_ResolveField (ec_graphql ec) c fld
       (\<lambda>c fld s. (fieldContext___EnumValue_name ec fld, s))
       (\<lambda>c s. (Ret (VString (in_EnumValue_Name (ec_introspection ec) obj)), s))
       (\<lambda>c sel v s. case v of VString x \<Rightarrow> marshalNString2string ec c sel x s | _ \<Rightarrow> unexpected_type s)
       True True"

definition fieldContext___EnumValue_description ::
  "('c, 'sel, 's) execution_context \<Rightarrow> 'sel collected_field \<Rightarrow> 'sel field_context ret" where
  "fieldContext___EnumValue_description ec fld =
     gq_NewScalarFieldContext (ec_graphql ec) ''__EnumValue'' fld True False
       (ErrorsNew ''field of type String does not have child fields'')"

definition EnumValue_description ::
  "('c, 'sel, 's) execution_context \<Rightarrow> 'c \<Rightarrow> 'sel collected_field \<Rightarrow> enum_value_obj \<Rightarrow> 's \<Rightarrow>
   marshaler ret \<times> 's" where
  "EnumValue_description ec c fld obj =
     gq_ResolveField (ec_graphql ec) c fld
       (\<lambda>c fld s. (fieldContext___EnumValue_description ec fld, s))
       (\<lambda>c s. (Ret (VStringPtr (in_EnumValue_Description (ec_introspection ec) obj)), s))
       (\<lambda>c sel v s. case v of VStringPtr x \<Rightarrow> marshalOStringPtr ec c sel x s | _ \<Rightarrow> unexpected_type s)
       True False"

definition fieldContext___EnumValue_isDeprecated ::
  "('c, 'sel, 's) execution_context \<Rightarrow> 'sel collected_field \<Rightarrow> 'sel field_context ret" where
  "fieldContext___EnumValue_isDeprecated ec fld =
     gq_NewScalarFieldContext (ec_graphql ec) ''__EnumValue'' fld True False
       (ErrorsNew ''field of type Boolean does not have child fields'')"

definition EnumValue_isDeprecated ::
  "('c, 'sel, 's) execution_context \<Rightarrow> 'c \<Rightarrow> 'sel collected_field \<Rightarrow> enum_value_obj \<Rightarrow> 's \<Rightarrow>
   marshaler ret \<times> 's" where
  "EnumValue_isDeprecated ec c fld obj =
     gq_ResolveField (ec_graphql ec) c fld
       (\<lambda>c fld s. (fieldContext___EnumValue_isDeprecated ec fld, s))
       (\<lambda>c s. (Ret (VBool (in_EnumValue_IsDeprecated (ec_introspection ec) obj)), s))
       (\<lambda>c sel v s. case v of VBool x \<Rightarrow> marshalNBoolean2bool ec c sel x s | _ \<Rightarrow> unexpected_type s)
       True True"

definition fieldContext___EnumValue_deprecationReason ::
  "('c, 'sel, 's) execution_context \<Rightarrow> 'sel collected_field \<Rightarrow> 'sel field_context ret" where
  "fieldContext___EnumValue_deprecationReason ec fld =
     gq_NewScalarFieldContext (ec_graphql ec) ''__EnumValue'' fld True False
       (ErrorsNew ''field of type String does not have child fields'')"

definition EnumValue_deprecationReason ::
  "('c, 'sel, 's) execution_context \<Rightarrow> 'c \<Rightarrow> 'sel collected_field \<Rightarrow> enum_value_obj \<Rightarrow> 's \<Rightarrow>
   marshaler ret \<times> 's" where
  "EnumValue_deprecationReason ec c fld obj =
     gq_ResolveField (ec_graphql ec) c fld
       (\<lambda>c fld s. (fieldContext___EnumValue_deprecationReason ec fld, s))
       (\<lambda>c s. (Ret (VStringPtr (in_EnumValue_DeprecationReason (ec_introspection ec) obj)), s))
       (\<lambda>c sel v s. case v of VStringPtr x \<Rightarrow> marshalOStringPtr ec c sel x s | _ \<Rightarrow> unexpected_type s)
       True False"

definition EnumValue_value ::
  "('c, 'sel, 's) execution_context \<Rightarrow> 'c \<Rightarrow> enum_value_obj \<Rightarrow> 'sel collected_field \<Rightarrow> 's \<Rightarrow>
   (marshaler \<times> nat) ret \<times> 's" where
  "EnumValue_value ec c obj fld s =
     (if cf_Name fld = ''__typename''
      then (Ret (gq_MarshalString (ec_graphql ec) ''__EnumValue'', 0), s)
      else if cf_Name fld = ''name''
      then non_null (EnumValue_name ec c fld obj s)
      else if cf_Name fld = ''description''
      then required_null (EnumValue_description ec c fld obj s)
      else if cf_Name fld = ''isDeprecated''
      then non_null (EnumValue_isDeprecated ec c fld obj s)
      else if cf_Name fld = ''deprecationReason''
      then required_null (EnumValue_deprecationReason ec c fld obj s)
      else (Panic (''unknown field '' @ cf_Name fld), s))"

definition EnumValue_object ::
  "('c, 'sel, 's) execution_context \<Rightarrow> 'c \<Rightarrow> 'sel \<Rightarrow> enum_value_obj \<Rightarrow> 's \<Rightarrow> marshaler ret \<times> 's" where
  "EnumValue_object ec c sel obj s =
     object_result (object_fields (EnumValue_value ec c obj)
       (gq_CollectFields (ec_graphql ec) sel [''__EnumValue'']) s)"

definition childFields___EnumValue ::
  "('c, 'sel, 's) execution_context \<Rightarrow> 'c \<Rightarrow> 'sel collected_field \<Rightarrow> 's \<Rightarrow> 'sel field_context ret \<times> 's" where
  "childFields___EnumValue ec c fld s =
     (if cf_Name fld = ''name'' then (fieldContext___EnumValue_name ec fld, s)
      else if cf_Name fld = ''description'' then (fieldContext___EnumValue_description ec fld, s)
      else if cf_Name fld = ''isDeprecated'' then (fieldContext___EnumValue_isDeprecated ec fld, s)
      else if cf_Name fld = ''deprecationReason'' then (fieldContext___EnumValue_deprecationReason ec fld, s)
      else (Fail (ErrorsNew (''no field named '' @ cf_Name fld @ '' was found under type __EnumValue'')), s))"

definition marshalN__EnumValue ::
  "('c, 'sel, 's) execution_context \<Rightarrow> 'c \<Rightarrow> 'sel \<Rightarrow> enum_value_obj \<Rightarrow> 's \<Rightarrow> marshaler ret \<times> 's" where
  "marshalN__EnumValue ec c sel v = EnumValue_object ec c sel v"

definition marshalO__EnumValueSlice ::
  "('c, 'sel, 's) execution_context \<Rightarrow> 'c \<Rightarrow> 'sel \<Rightarrow> enum_value_obj list option \<Rightarrow> 's \<Rightarrow> marshaler ret \<times> 's" where
  "marshalO__EnumValueSlice ec c sel v s =
     (case v of
        None \<Rightarrow> (Ret Null, s)
      | Some v \<Rightarrow> marshal_slice ec c (\<lambda>c x. marshalN__EnumValue ec c sel x) v s)"

section \<open>\<open>__InputValue\<close>\<close>

definition fieldContext___InputValue_name ::
  "('c, 'sel, 's) execution_context \<Rightarrow> 'sel collected_field \<Rightarrow> 'sel field_context ret" where
  "fieldContext___InputValue_name ec fld =
     gq_NewScalarFieldContext (ec_graphql ec) ''__InputValue'' fld False False
       (ErrorsNew ''field of type String does not have child fields'')"

definition InputValue_name ::
  "('c, 'sel, 's) execution_context \<Rightarrow> 'c \<Rightarrow> 'sel collected_field \<Rightarrow> input_value_obj \<Rightarrow> 's \<Rightarrow>
   marshaler ret \<times> 's" where
  "InputValue_name ec c fld obj =
     gq_ResolveField (ec_graphql ec) c fld
       (\<lambda>c fld s. (fieldContext___InputValue_name ec fld, s))
       (\<lambda>c s. (Ret (VString (in_InputValue_Name (ec_introspection ec) obj)), s))
       (\<lambda>c sel v s. case v of VString x \<Rightarrow> marshalNString2string ec c sel x s | _ \<Rightarrow> unexpected_type s)
       True True"

definition fieldContext___InputValue_description ::
  "('c, 'sel, 's) execution_context \<Rightarrow> 'sel collected_field \<Rightarrow> 'sel field_context ret" where
  "fieldContext___InputValue_description ec fld =
     gq_NewScalarFieldContext (ec_graphql ec) ''__InputValue'' fld True False
       (ErrorsNew ''field of type String does not have child fields'')"

definition InputValue_description ::
  "('c, 'sel, 's) execution_context \<Rightarrow> 'c \<Rightarrow> 'sel collected_field \<Rightarrow> input_value_obj \<Rightarrow> 's \<Rightarrow>
   marshaler ret \<times> 's" where
  "InputValue_description ec c fld obj =
     gq_ResolveField (ec_graphql ec) c fld
       (\<lambda>c fld s. (fieldContext___InputValue_description ec fld, s))
       (\<lambda>c s. (Ret (VStringPtr (in_InputValue_Description (ec_introspection ec) obj)), s))
       (\<lambda>c sel v s. case v of VStringPtr x \<Rightarrow> marshalOStringPtr ec c sel x s | _ \<Rightarrow> unexpected_type s)
       True False"

definition fieldContext___InputValue_type ::
  "('c, 'sel, 's) execution_context \<Rightarrow> 'sel collected_field \<Rightarrow> 'sel field_context ret" where
  "fieldContext___InputValue_type ec fld =
     Ret \<lparr>fc_Object = ''__InputValue'', fc_Field = fld, fc_Args = Map.empty, fc_IsMethod = False,
          fc_IsResolver = False, fc_Child = Child_Type\<rparr>"

definition InputValue_type ::
  "('c, 'sel, 's) type_object \<Rightarrow> ('c, 'sel, 's) execution_context \<Rightarrow> 'c \<Rightarrow> 'sel collected_field \<Rightarrow> input_value_obj \<Rightarrow> 's \<Rightarrow>
   marshaler ret \<times> 's" where
  "InputValue_type ty ec c fld obj =
     gq_ResolveField (ec_graphql ec) c fld
       (\<lambda>c fld s. (fieldContext___InputValue_type ec fld, s))
       (\<lambda>c s. (Ret (VType (in_InputValue_Type (ec_introspection ec) obj)), s))
       (\<lambda>c sel v s. case v of VType x \<Rightarrow> marshalN__TypePtr ty ec c sel x s | _ \<Rightarrow> unexpected_type s)
       True True"

definition fieldContext___InputValue_defaultValue ::
  "('c, 'sel, 's) execution_context \<Rightarrow> 'sel collected_field \<Rightarrow> 'sel field_context ret" where
  "fieldContext___InputValue_defaultValue ec fld =
     gq_NewScalarFieldContext (ec_graphql ec) ''__InputValue'' fld False False
       (ErrorsNew ''field of type String does not have child fields'')"

definition InputValue_defaultValue ::
  "('c, 'sel, 's) execution_context \<Rightarrow> 'c \<Rightarrow> 'sel collected_field \<Rightarrow> input_value_obj \<Rightarrow> 's \<Rightarrow>
   marshaler ret \<times> 's" where
  "InputValue_defaultValue ec c fld obj =
     gq_ResolveField (ec_graphql ec) c fld
       (\<lambda>c fld s. (fieldContext___InputValue_defaultValue ec fld, s))
       (\<lambda>c s. (Ret (VStringPtr (in_InputValue_DefaultValue (ec_introspection ec) obj)), s))
       (\<lambda>c sel v s. case v of VStringPtr x \<Rightarrow> marshalOStringPtr ec c sel x s | _ \<Rightarrow> unexpected_type s)
       True False"

definition fieldContext___InputValue_isDeprecated ::
  "('c, 'sel, 's) execution_context \<Rightarrow> 'sel collected_field \<Rightarrow> 'sel field_context ret" where
  "fieldContext___InputValue_isDeprecated ec fld =
     gq_NewScalarFieldContext (ec_graphql ec) ''__InputValue'' fld True False
       (ErrorsNew ''field of type Boolean does not have child fields'')"

definition InputValue_isDeprecated ::
  "('c, 'sel, 's) execution_context \<Rightarrow> 'c \<Rightarrow> 'sel collected_field \<Rightarrow> input_value_obj \<Rightarrow> 's \<Rightarrow>
   marshaler ret \<times> 's" where
  "InputValue_isDeprecated ec c fld obj =
     gq_ResolveField (ec_graphql ec) c fld
       (\<lambda>c fld s. (fieldContext___InputValue_isDeprecated ec fld, s))
       (\<lambda>c s. (Ret (VBool (in_InputValue_IsDeprecated (ec_introspection ec) obj)), s))
       (\<lambda>c sel v s. case v of VBool x \<Rightarrow> marshalNBoolean2bool ec c sel x s | _ \<Rightarrow> unexpected_type s)
       True True"

definition fieldContext___InputValue_deprecationReason ::
  "('c, 'sel, 's) execution_context \<Rightarrow> 'sel collected_field \<Rightarrow> 'sel field_context ret" where
  "fieldContext___InputValue_deprecationReason ec fld =
     gq_NewScalarFieldContext (ec_graphql ec) ''__InputValue'' fld True False
       (ErrorsNew ''field of type String does not have child fields'')"

definition InputValue_deprecationReason ::
  "('c, 'sel, 's) execution_context \<Rightarrow> 'c \<Rightarrow> 'sel collected_field \<Rightarrow> input_value_obj \<Rightarrow> 's \<Rightarrow>
   marshaler ret \<times> 's" where
  "InputValue_deprecationReason ec c fld obj =
     gq_ResolveField (ec_graphql ec) c fld
       (\<lambda>c fld s. (fieldContext___InputValue_deprecationReason ec fld, s))
       (\<lambda>c s. (Ret (VStringPtr (in_InputValue_DeprecationReason (ec_introspection ec) obj)), s))
       (\<lambda>c sel v s. case v of VStringPtr x \<Rightarrow> marshalOStringPtr ec c sel x s | _ \<Rightarrow> unexpected_type s)
       True False"

definition InputValue_value ::
  "('c, 'sel, 's) type_object \<Rightarrow> ('c, 'sel, 's) execution_context \<Rightarrow> 'c \<Rightarrow> input_value_obj \<Rightarrow> 'sel collected_field \<Rightarrow> 's \<Rightarrow>
   (marshaler \<times> nat) ret \<times> 's" where
  "InputValue_value ty ec c obj fld s =
     (if cf_Name fld = ''__typename''
      then (Ret (gq_MarshalString (ec_graphql ec) ''__InputValue'', 0), s)
      else if cf_Name fld = ''name''
      then non_null (InputValue_name ec c fld obj s)
      else if cf_Name fld = ''description''
      then required_null (InputValue_description ec c fld obj s)
      else if cf_Name fld = ''type''
      then non_null (InputValue_type ty ec c fld obj s)
      else if cf_Name fld = ''defaultValue''
      then required_null (InputValue_defaultValue ec c fld obj s)
      else if cf_Name fld = ''isDeprecated''
      then non_null (InputValue_isDeprecated ec c fld obj s)
      else if cf_Name fld = ''deprecationReason''
      then required_null (InputValue_deprecationReason ec c fld obj s)
      else (Panic (''unknown field '' @ cf_Name fld), s))"

definition InputValue_object ::
  "('c, 'sel, 's) type_object \<Rightarrow> ('c, 'sel, 's) execution_context \<Rightarrow> 'c \<Rightarrow> 'sel \<Rightarrow> input_value_obj \<Rightarrow> 's \<Rightarrow> marshaler ret \<times> 's" where
  "InputValue_object ty ec c sel obj s =
     object_result (object_fields (InputValue_value ty ec c obj)
       (gq_CollectFields (ec_graphql ec) sel [''__InputValue'']) s)"

definition childFields___InputValue ::
  "('c, 'sel, 's) execution_context \<Rightarrow> 'c \<Rightarrow> 'sel collected_field \<Rightarrow> 's \<Rightarrow> 'sel field_context ret \<times> 's" where
  "childFields___InputValue ec c fld s =
     (if cf_Name fld = ''name'' then (fieldContext___InputValue_name ec fld, s)
      else if cf_Name fld = ''description'' then (fieldContext___InputValue_description ec fld, s)
      else if cf_Name fld = ''type'' then (fieldContext___InputValue_type ec fld, s)
      else if cf_Name fld = ''defaultValue'' then (fieldContext___InputValue_defaultValue ec fld, s)
      else if cf_Name fld = ''isDeprecated'' then (fieldContext___InputValue_isDeprecated ec fld, s)
      else if cf_Name fld = ''deprecationReason'' then (fieldContext___InputValue_deprecationReason ec fld, s)
      else (Fail (ErrorsNew (''no field named '' @ cf_Name fld @ '' was found under type __InputValue'')), s))"

definition marshalN__InputValue ::
  "('c, 'sel, 's) type_object \<Rightarrow> ('c, 'sel, 's) execution_context \<Rightarrow> 'c \<Rightarrow> 'sel \<Rightarrow> input_value_obj \<Rightarrow> 's \<Rightarrow> marshaler ret \<times> 's" where
  "marshalN__InputValue ty ec c sel v = InputValue_object ty ec c sel v"

definition marshalN__InputValueSlice ::
  "('c, 'sel, 's) type_object \<Rightarrow> ('c, 'sel, 's) execution_context \<Rightarrow> 'c \<Rightarrow> 'sel \<Rightarrow> input_value_obj list option \<Rightarrow> 's \<Rightarrow> marshaler ret \<times> 's" where
  "marshalN__InputValueSlice ty ec c sel v =
     marshal_slice ec c (\<lambda>c x. marshalN__InputValue ty ec c sel x) (slice_elements v)"

definition marshalO__InputValueSlice ::
  "('c, 'sel, 's) type_object \<Rightarrow> ('c, 'sel, 's) execution_context \<Rightarrow> 'c \<Rightarrow> 'sel \<Rightarrow> input_value_obj list option \<Rightarrow> 's \<Rightarrow> marshaler ret \<times> 's" where
  "marshalO__InputValueSlice ty ec c sel v s =
     (case v of
        None \<Rightarrow> (Ret Null, s)
      | Some v \<Rightarrow> marshal_slice ec c (\<lambda>c x. marshalN__InputValue ty ec c sel x) v s)"

section \<open>\<open>__Field\<close>\<close>

definition fieldContext___Field_name ::
  "('c, 'sel, 's) execution_context \<Rightarrow> 'sel collected_field \<Rightarrow> 'sel field_context ret" where
  "fieldContext___Field_name ec fld =
     gq_NewScalarFieldContext (ec_graphql ec) ''__Field'' fld False False
       (ErrorsNew ''field of type String does not have child fields'')"

definition Field_name ::
  "('c, 'sel, 's) execution_context \<Rightarrow> 'c \<Rightarrow> 'sel collected_field \<Rightarrow> field_obj \<Rightarrow> 's \<Rightarrow>
   marshaler ret \<times> 's" where
  "Field_name ec c fld obj =
     gq_ResolveField (ec_graphql ec) c fld
       (\<lambda>c fld s. (fieldContext___Field_name ec fld, s))
       (\<lambda>c s. (Ret (VString (in_Field_Name (ec_introspection ec) obj)), s))
       (\<lambda>c sel v s. case v of VString x \<Rightarrow> marshalNString2string ec c sel x s | _ \<Rightarrow> unexpected_type s)
       True True"

definition fieldContext___Field_description ::
  "('c, 'sel, 's) execution_context \<Rightarrow> 'sel collected_field \<Rightarrow> 'sel field_context ret" where
  "fieldContext___Field_description ec fld =
     gq_NewScalarFieldContext (ec_graphql ec) ''__Field'' fld True False
       (ErrorsNew ''field of type String does not have child fields'')"

definition Field_description ::
  "('c, 'sel, 's) execution_context \<Rightarrow> 'c \<Rightarrow> 'sel collected_field \<Rightarrow> field_obj \<Rightarrow> 's \<Rightarrow>
   marshaler ret \<times> 's" where
  "Field_description ec c fld obj =
     gq_ResolveField (ec_graphql ec) c fld
       (\<lambda>c fld s. (fieldContext___Field_description ec fld, s))
       (\<lambda>c s. (Ret (VStringPtr (in_Field_Description (ec_introspection ec) obj)), s))
       (\<lambda>c sel v s. case v of VStringPtr x \<Rightarrow> marshalOStringPtr ec c sel x s | _ \<Rightarrow> unexpected_type s)
       True False"

definition fieldContext___Field_args ::
  "('c, 'sel, 's) execution_context \<Rightarrow> 'c \<Rightarrow> 'sel collected_field \<Rightarrow> 's \<Rightarrow> 'sel field_context ret \<times> 's" where
  "fieldContext___Field_args ec c fld =
     context_with_args ec c
       \<lparr>fc_Object = ''__Field'', fc_Field = fld, fc_Args = Map.empty, fc_IsMethod = False,
        fc_IsResolver = False, fc_Child = Child_InputValue\<rparr>
       (field___Field_args_args (ec_graphql ec))"

definition Field_args ::
  "('c, 'sel, 's) type_object \<Rightarrow> ('c, 'sel, 's) execution_context \<Rightarrow> 'c \<Rightarrow> 'sel collected_field \<Rightarrow> field_obj \<Rightarrow> 's \<Rightarrow>
   marshaler ret \<times> 's" where
  "Field_args ty ec c fld obj =
     gq_ResolveField (ec_graphql ec) c fld
       (fieldContext___Field_args ec)
       (\<lambda>c s. (Ret (VInputValues (in_Field_Args (ec_introspection ec) obj)), s))
       (\<lambda>c sel v s. case v of VInputValues x \<Rightarrow> marshalN__InputValueSlice ty ec c sel x s | _ \<Rightarrow> unexpected_type s)
       True True"

definition fieldContext___Field_type ::
  "('c, 'sel, 's) execution_context \<Rightarrow> 'sel collected_field \<Rightarrow> 'sel field_context ret" where
  "fieldContext___Field_type ec fld =
     Ret \<lparr>fc_Object = ''__Field'', fc_Field = fld, fc_Args = Map.empty, fc_IsMethod = False,
          fc_IsResolver = False, fc_Child = Child_Type\<rparr>"

definition Field_type ::
  "('c, 'sel, 's) type_object \<Rightarrow> ('c, 'sel, 's) execution_context \<Rightarrow> 'c \<Rightarrow> 'sel collected_field \<Rightarrow> field_obj \<Rightarrow> 's \<Rightarrow>
   marshaler ret \<times> 's" where
  "Field_type ty ec c fld obj =
     gq_ResolveField (ec_graphql ec) c fld
       (\<lambda>c fld s. (fieldContext___Field_type ec fld, s))
       (\<lambda>c s. (Ret (VType (in_Field_Type (ec_introspection ec) obj)), s))
       (\<lambda>c sel v s. case v of VType x \<Rightarrow> marshalN__TypePtr ty ec c sel x s | _ \<Rightarrow> unexpected_type s)
       True True"

definition fieldContext___Field_isDeprecated ::
  "('c, 'sel, 's) execution_context \<Rightarrow> 'sel collected_field \<Rightarrow> 'sel field_context ret" where
  "fieldContext___Field_isDeprecated ec fld =
     gq_NewScalarFieldContext (ec_graphql ec) ''__Field'' fld True False
       (ErrorsNew ''field of type Boolean does not have child fields'')"

definition Field_isDeprecated ::
  "('c, 'sel, 's) execution_context \<Rightarrow> 'c \<Rightarrow> 'sel collected_field \<Rightarrow> field_obj \<Rightarrow> 's \<Rightarrow>
   marshaler ret \<times> 's" where
  "Field_isDeprecated ec c fld obj =
     gq_ResolveField (ec_graphql ec) c fld
       (\<lambda>c fld s. (fieldContext___Field_isDeprecated ec fld, s))
       (\<lambda>c s. (Ret (VBool (in_Field_IsDeprecated (ec_introspection ec) obj)), s))
       (\<lambda>c sel v s. case v of VBool x \<Rightarrow> marshalNBoolean2bool ec c sel x s | _ \<Rightarrow> unexpected_type s)
       True True"

definition fieldContext___Field_deprecationReason ::
  "('c, 'sel, 's) execution_context \<Rightarrow> 'sel collected_field \<Rightarrow> 'sel field_context ret" where
  "fieldContext___Field_deprecationReason ec fld =
     gq_NewScalarFieldContext (ec_graphql ec) ''__Field'' fld True False
       (ErrorsNew ''field of type String does not have child fields'')"

definition Field_deprecationReason ::
  "('c, 'sel, 's) execution_context \<Rightarrow> 'c \<Rightarrow> 'sel collected_field \<Rightarrow> field_obj \<Rightarrow> 's \<Rightarrow>
   marshaler ret \<times> 's" where
  "Field_deprecationReason ec c fld obj =
     gq_ResolveField (ec_graphql ec) c fld
       (\<lambda>c fld s. (fieldContext___Field_deprecationReason ec fld, s))
       (\<lambda>c s. (Ret (VStringPtr (in_Field_DeprecationReason (ec_introspection ec) obj)), s))
       (\<lambda>c sel v s. case v of VStringPtr x \<Rightarrow> marshalOStringPtr ec c sel x s | _ \<Rightarrow> unexpected_type s)
       True False"

definition Field_value ::
  "('c, 'sel, 's) type_object \<Rightarrow> ('c, 'sel, 's) execution_context \<Rightarrow> 'c \<Rightarrow> field_obj \<Rightarrow> 'sel collected_field \<Rightarrow> 's \<Rightarrow>
   (marshaler \<times> nat) ret \<times> 's" where
  "Field_value ty ec c obj fld s =
     (if cf_Name fld = ''__typename''
      then (Ret (gq_MarshalString (ec_graphql ec) ''__Field'', 0), s)
      else if cf_Name fld = ''name''
      then non_null (Field_name ec c fld obj s)
      else if cf_Name fld = ''description''
      then required_null (Field_description ec c fld obj s)
      else if cf_Name fld = ''args''
      then non_null (Field_args ty ec c fld obj s)
      else if cf_Name fld = ''type''
      then non_null (Field_type ty ec c fld obj s)
      else if cf_Name fld = ''isDeprecated''
      then non_null (Field_isDeprecated ec c fld obj s)
      else if cf_Name fld = ''deprecationReason''
      then required_null (Field_deprecationReason ec c fld obj s)
      else (Panic (''unknown field '' @ cf_Name fld), s))"

definition Field_object ::
  "('c, 'sel, 's) type_object \<Rightarrow> ('c, 'sel, 's) execution_context \<Rightarrow> 'c \<Rightarrow> 'sel \<Rightarrow> field_obj \<Rightarrow> 's \<Rightarrow> marshaler ret \<times> 's" where
  "Field_object ty ec c sel obj s =
     object_result (object_fields (Field_value ty ec c obj)
       (gq_CollectFields (ec_graphql ec) sel [''__Field'']) s)"

definition childFields___Field ::
  "('c, 'sel, 's) execution_context \<Rightarrow> 'c \<Rightarrow> 'sel collected_field \<Rightarrow> 's \<Rightarrow> 'sel field_context ret \<times> 's" where
  "childFields___Field ec c fld s =
     (if cf_Name fld = ''name'' then (fieldContext___Field_name ec fld, s)
      else if cf_Name fld = ''description'' then (fieldContext___Field_description ec fld, s)
      else if cf_Name fld = ''args'' then fieldContext___Field_args ec c fld s
      else if cf_Name fld = ''type'' then (fieldContext___Field_type ec fld, s)
      else if cf_Name fld = ''isDeprecated'' then (fieldContext___Field_isDeprecated ec fld, s)
      else if cf_Name fld = ''deprecationReason'' then (fieldContext___Field_deprecationReason ec fld, s)
      else (Fail (ErrorsNew (''no field named '' @ cf_Name fld @ '' was found under type __Field'')), s))"

definition marshalN__Field ::
  "('c, 'sel, 's) type_object \<Rightarrow> ('c, 'sel, 's) execution_context \<Rightarrow> 'c \<Rightarrow> 'sel \<Rightarrow> field_obj \<Rightarrow> 's \<Rightarrow> marshaler ret \<times> 's" where
  "marshalN__Field ty ec c sel v = Field_object ty ec c sel v"

definition marshalO__FieldSlice ::
  "('c, 'sel, 's) type_object \<Rightarrow> ('c, 'sel, 's) execution_context \<Rightarrow> 'c \<Rightarrow> 'sel \<Rightarrow> field_obj list option \<Rightarrow> 's \<Rightarrow> marshaler ret \<times> 's" where
  "marshalO__FieldSlice ty ec c sel v s =
     (case v of
        None \<Rightarrow> (Ret Null, s)
      | Some v \<Rightarrow> marshal_slice ec c (\<lambda>c x. marshalN__Field ty ec c sel x) v s)"

section \<open>\<open>__Directive\<close>\<close>

definition fieldContext___Directive_name ::
  "('c, 'sel, 's) execution_context \<Rightarrow> 'sel collected_field \<Rightarrow> 'sel field_context ret" where
  "fieldContext___Directive_name ec fld =
     gq_NewScalarFieldContext (ec_graphql ec) ''__Directive'' fld False False
       (ErrorsNew ''field of type String does not have child fields'')"

definition Directive_name ::
  "('c, 'sel, 's) execution_context \<Rightarrow> 'c \<Rightarrow> 'sel collected_field \<Rightarrow> directive_obj \<Rightarrow> 's \<Rightarrow>
   marshaler ret \<times> 's" where
  "Directive_name ec c fld obj =
     gq_ResolveField (ec_graphql ec) c fld
       (\<lambda>c fld s. (fieldContext___Directive_name ec fld, s))
       (\<lambda>c s. (Ret (VString (in_Directive_Name (ec_introspection ec) obj)), s))
       (\<lambda>c sel v s. case v of VString x \<Rightarrow> marshalNString2string ec c sel x s | _ \<Rightarrow> unexpected_type s)
       True True"

definition fieldContext___Directive_description ::
  "('c, 'sel, 's) execution_context \<Rightarrow> 'sel collected_field \<Rightarrow> 'sel field_context ret" where
  "fieldContext___Directive_description ec fld =
     gq_NewScalarFieldContext (ec_graphql ec) ''__Directive'' fld True False
       (ErrorsNew ''field of type String does not have child fields'')"

definition Directive_description ::
  "('c, 'sel, 's) execution_context \<Rightarrow> 'c \<Rightarrow> 'sel collected_field \<Rightarrow> directive_obj \<Rightarrow> 's \<Rightarrow>
   marshaler ret \<times> 's" where
  "Directive_description ec c fld obj =
     gq_ResolveField (ec_graphql ec) c fld
       (\<lambda>c fld s. (fieldContext___Directive_description ec fld, s))
       (\<lambda>c s. (Ret (VStringPtr (in_Directive_Description (ec_introspection ec) obj)), s))
       (\<lambda>c sel v s. case v of VStringPtr x \<Rightarrow> marshalOStringPtr ec c sel x s | _ \<Rightarrow> unexpected_type s)
       True False"

definition fieldContext___Directive_isRepeatable ::
  "('c, 'sel, 's) execution_context \<Rightarrow> 'sel collected_field \<Rightarrow> 'sel field_context ret" where
  "fieldContext___Directive_isRepeatable ec fld =
     gq_NewScalarFieldContext (ec_graphql ec) ''__Directive'' fld False False
       (ErrorsNew ''field of type Boolean does not have child fields'')"

definition Directive_isRepeatable ::
  "('c, 'sel, 's) execution_context \<Rightarrow> 'c \<Rightarrow> 'sel collected_field \<Rightarrow> directive_obj \<Rightarrow> 's \<Rightarrow>
   marshaler ret \<times> 's" where
  "Directive_isRepeatable ec c fld obj =
     gq_ResolveField (ec_graphql ec) c fld
       (\<lambda>c fld s. (fieldContext___Directive_isRepeatable ec fld, s))
       (\<lambda>c s. (Ret (VBool (in_Directive_IsRepeatable (ec_introspection ec) obj)), s))
       (\<lambda>c sel v s. case v of VBool x \<Rightarrow> marshalNBoolean2bool ec c sel x s | _ \<Rightarrow> unexpected_type s)
       True True"

definition fieldContext___Directive_locations ::
  "('c, 'sel, 's) execution_context \<Rightarrow> 'sel collected_field \<Rightarrow> 'sel field_context ret" where
  "fieldContext___Directive_locations ec fld =
     gq_NewScalarFieldContext (ec_graphql ec) ''__Directive'' fld False False
       (ErrorsNew ''field of type __DirectiveLocation does not have child fields'')"

definition Directive_locations ::
  "('c, 'sel, 's) execution_context \<Rightarrow> 'c \<Rightarrow> 'sel collected_field \<Rightarrow> directive_obj \<Rightarrow> 's \<Rightarrow>
   marshaler ret \<times> 's" where
  "Directive_locations ec c fld obj =
     gq_ResolveField (ec_graphql ec) c fld
       (\<lambda>c fld s. (fieldContext___Directive_locations ec fld, s))
       (\<lambda>c s. (Ret (VStrings (in_Directive_Locations (ec_introspection ec) obj)), s))
       (\<lambda>c sel v s. case v of VStrings x \<Rightarrow> marshalN__DirectiveLocationSlice ec c sel x s | _ \<Rightarrow> unexpected_type s)
       True True"

definition fieldContext___Directive_args ::
  "('c, 'sel, 's) execution_context \<Rightarrow> 'c \<Rightarrow> 'sel collected_field \<Rightarrow> 's \<Rightarrow> 'sel field_context ret \<times> 's" where
  "fieldContext___Directive_args ec c fld =
     context_with_args ec c
       \<lparr>fc_Object = ''__Directive'', fc_Field = fld, fc_Args = Map.empty, fc_IsMethod = False,
        fc_IsResolver = False, fc_Child = Child_InputValue\<rparr>
       (field___Directive_args_args (ec_graphql ec))"

definition Directive_args ::
  "('c, 'sel, 's) type_object \<Rightarrow> ('c, 'sel, 's) execution_context \<Rightarrow> 'c \<Rightarrow> 'sel collected_field \<Rightarrow> directive_obj \<Rightarrow> 's \<Rightarrow>
   marshaler ret \<times> 's" where
  "Directive_args ty ec c fld obj =
     gq_ResolveField (ec_graphql ec) c fld
       (fieldContext___Directive_args ec)
       (\<lambda>c s. (Ret (VInputValues (in_Directive_Args (ec_introspection ec) obj)), s))
       (\<lambda>c sel v s. case v of VInputValues x \<Rightarrow> marshalN__InputValueSlice ty ec c sel x s | _ \<Rightarrow> unexpected_type s)
       True True"

definition Directive_value ::
  "('c, 'sel, 's) type_object \<Rightarrow> ('c, 'sel, 's) execution_context \<Rightarrow> 'c \<Rightarrow> directive_obj \<Rightarrow> 'sel collected_field \<Rightarrow> 's \<Rightarrow>
   (marshaler \<times> nat) ret \<times> 's" where
  "Directive_value ty ec c obj fld s =
     (if cf_Name fld = ''__typename''
      then (Ret (gq_MarshalString (ec_graphql ec) ''__Directive'', 0), s)
      else if cf_Name fld = ''name''
      then non_null (Directive_name ec c fld obj s)
      else if cf_Name fld = ''description''
      then required_null (Directive_description ec c fld obj s)
      else if cf_Name fld = ''isRepeatable''
      then non_null (Directive_isRepeatable ec c fld obj s)
      else if cf_Name fld = ''locations''
      then non_null (Directive_locations ec c fld obj s)
      else if cf_Name fld = ''args''
      then non_null (Directive_args ty ec c fld obj s)
      else (Panic (''unknown field '' @ cf_Name fld), s))"

definition Directive_object ::
  "('c, 'sel, 's) type_object \<Rightarrow> ('c, 'sel, 's) execution_context \<Rightarrow> 'c \<Rightarrow> 'sel \<Rightarrow> directive_obj \<Rightarrow> 's \<Rightarrow> marshaler ret \<times> 's" where
  "Directive_object ty ec c sel obj s =
     object_result (object_fields (Directive_value ty ec c obj)
       (gq_CollectFields (ec_graphql ec) sel [''__Directive'']) s)"

definition childFields___Directive ::
  "('c, 'sel, 's) execution_context \<Rightarrow> 'c \<Rightarrow> 'sel collected_field \<Rightarrow> 's \<Rightarrow> 'sel field_context ret \<times> 's" where
  "childFields___Directive ec c fld s =
     (if cf_Name fld = ''name'' then (fieldContext___Directive_name ec fld, s)
      else if cf_Name fld = ''description'' then (fieldContext___Directive_description ec fld, s)
      else if cf_Name fld = ''isRepeatable'' then (fieldContext___Directive_isRepeatable ec fld, s)
      else if cf_Name fld = ''locations'' then (fieldContext___Directive_locations ec fld, s)
      else if cf_Name fld = ''args'' then fieldContext___Directive_args ec c fld s
      else (Fail (ErrorsNew (''no field named '' @ cf_Name fld @ '' was found under type __Directive'')), s))"

definition marshalN__Directive ::
  "('c, 'sel, 's) type_object \<Rightarrow> ('c, 'sel, 's) execution_context \<Rightarrow> 'c \<Rightarrow> 'sel \<Rightarrow> directive_obj \<Rightarrow> 's \<Rightarrow> marshaler ret \<times> 's" where
  "marshalN__Directive ty ec c sel v = Directive_object ty ec c sel v"

definition marshalN__DirectiveSlice ::
  "('c, 'sel, 's) type_object \<Rightarrow> ('c, 'sel, 's) execution_context \<Rightarrow> 'c \<Rightarrow> 'sel \<Rightarrow> directive_obj list option \<Rightarrow> 's \<Rightarrow> marshaler ret \<times> 's" where
  "marshalN__DirectiveSlice ty ec c sel v =
     marshal_slice ec c (\<lambda>c x. marshalN__Directive ty ec c sel x) (slice_elements v)"

end
