(* ===== verification/Graphql_Types.thy ===== *)
theory Graphql_Types
  imports Graphql_Introspection
begin

text \<open>
  The introspection objects \<open>__Type\<close> and \<open>__Schema\<close> of the generated executor
  (\<open>gen/graphql/generated.go\<close>), the recursion between the objects, and the two fields of \<open>Query\<close> that
  answer them.
\<close>

section \<open>\<open>__Type\<close>\<close>

definition fieldContext___Type_kind ::
  "('c, 'sel, 's) execution_context \<Rightarrow> 'sel collected_field \<Rightarrow> 'sel field_context ret" where
  "fieldContext___Type_kind ec fld =
     gq_NewScalarFieldContext (ec_graphql ec) ''__Type'' fld True False
       (ErrorsNew ''field of type __TypeKind does not have child fields'')"

definition Type_kind ::
  "('c, 'sel, 's) execution_context \<Rightarrow> 'c \<Rightarrow> 'sel collected_field \<Rightarrow> type_obj \<Rightarrow> 's \<Rightarrow>
   marshaler ret \<times> 's" where
  "Type_kind ec c fld obj =
     gq_ResolveField (ec_graphql ec) c fld
       (\<lambda>c fld s. (fieldContext___Type_kind ec fld, s))
       (\<lambda>c s. (Ret (VString (in_Type_Kind (ec_introspection ec) obj)), s))
       (\<lambda>c sel v s. case v of VString x \<Rightarrow> marshalN__TypeKind ec c sel x s | _ \<Rightarrow> unexpected_type s)
       True True"

definition fieldContext___Type_name ::
  "('c, 'sel, 's) execution_context \<Rightarrow> 'sel collected_field \<Rightarrow> 'sel field_context ret" where
  "fieldContext___Type_name ec fld =
     gq_NewScalarFieldContext (ec_graphql ec) ''__Type'' fld True False
       (ErrorsNew ''field of type String does not have child fields'')"

definition Type_name ::
  "('c, 'sel, 's) execution_context \<Rightarrow> 'c \<Rightarrow> 'sel collected_field \<Rightarrow> type_obj \<Rightarrow> 's \<Rightarrow>
   marshaler ret \<times> 's" where
  "Type_name ec c fld obj =
     gq_ResolveField (ec_graphql ec) c fld
       (\<lambda>c fld s. (fieldContext___Type_name ec fld, s))
       (\<lambda>c s. (Ret (VStringPtr (in_Type_Name (ec_introspection ec) obj)), s))
       (\<lambda>c sel v s. case v of VStringPtr x \<Rightarrow> marshalOStringPtr ec c sel x s | _ \<Rightarrow> unexpected_type s)
       True False"

definition fieldContext___Type_description ::
  "('c, 'sel, 's) execution_context \<Rightarrow> 'sel collected_field \<Rightarrow> 'sel field_context ret" where
  "fieldContext___Type_description ec fld =
     gq_NewScalarFieldContext (ec_graphql ec) ''__Type'' fld True False
       (ErrorsNew ''field of type String does not have child fields'')"

definition Type_description ::
  "('c, 'sel, 's) execution_context \<Rightarrow> 'c \<Rightarrow> 'sel collected_field \<Rightarrow> type_obj \<Rightarrow> 's \<Rightarrow>
   marshaler ret \<times> 's" where
  "Type_description ec c fld obj =
     gq_ResolveField (ec_graphql ec) c fld
       (\<lambda>c fld s. (fieldContext___Type_description ec fld, s))
       (\<lambda>c s. (Ret (VStringPtr (in_Type_Description (ec_introspection ec) obj)), s))
       (\<lambda>c sel v s. case v of VStringPtr x \<Rightarrow> marshalOStringPtr ec c sel x s | _ \<Rightarrow> unexpected_type s)
       True False"

definition fieldContext___Type_specifiedByURL ::
  "('c, 'sel, 's) execution_context \<Rightarrow> 'sel collected_field \<Rightarrow> 'sel field_context ret" where
  "fieldContext___Type_specifiedByURL ec fld =
     gq_NewScalarFieldContext (ec_graphql ec) ''__Type'' fld True False
       (ErrorsNew ''field of type String does not have child fields'')"

definition Type_specifiedByURL ::
  "('c, 'sel, 's) execution_context \<Rightarrow> 'c \<Rightarrow> 'sel collected_field \<Rightarrow> type_obj \<Rightarrow> 's \<Rightarrow>
   marshaler ret \<times> 's" where
  "Type_specifiedByURL ec c fld obj =
     gq_ResolveField (ec_graphql ec) c fld
       (\<lambda>c fld s. (fieldContext___Type_specifiedByURL ec fld, s))
       (\<lambda>c s. (Ret (VStringPtr (in_Type_SpecifiedByURL (ec_introspection ec) obj)), s))
       (\<lambda>c sel v s. case v of VStringPtr x \<Rightarrow> marshalOStringPtr ec c sel x s | _ \<Rightarrow> unexpected_type s)
       True False"

definition fieldContext___Type_fields ::
  "('c, 'sel, 's) execution_context \<Rightarrow> 'c \<Rightarrow> 'sel collected_field \<Rightarrow> 's \<Rightarrow> 'sel field_context ret \<times> 's" where
  "fieldContext___Type_fields ec c fld =
     context_with_args ec c
       \<lparr>fc_Object = ''__Type'', fc_Field = fld, fc_Args = Map.empty, fc_IsMethod = True,
        fc_IsResolver = False, fc_Child = Child_Field\<rparr>
       (field___Type_fields_args (ec_graphql ec))"

definition Type_fields ::
  "('c, 'sel, 's) type_object \<Rightarrow> ('c, 'sel, 's) execution_context \<Rightarrow> 'c \<Rightarrow> 'sel collected_field \<Rightarrow> type_obj \<Rightarrow> 's \<Rightarrow>
   marshaler ret \<times> 's" where
  "Type_fields ty ec c fld obj =
     gq_ResolveField (ec_graphql ec) c fld
       (fieldContext___Type_fields ec)
       (\<lambda>c s. case fc_Args (gq_GetFieldContext (ec_graphql ec) c) ''includeDeprecated'' of
          Some (VBool b) \<Rightarrow> (Ret (VFields (in_Type_Fields (ec_introspection ec) obj b)), s)
        | _ \<Rightarrow> (Panic ''interface conversion'', s))
       (\<lambda>c sel v s. case v of VFields x \<Rightarrow> marshalO__FieldSlice ty ec c sel x s | _ \<Rightarrow> unexpected_type s)
       True False"

definition fieldContext___Type_interfaces ::
  "('c, 'sel, 's) execution_context \<Rightarrow> 'sel collected_field \<Rightarrow> 'sel field_context ret" where
  "fieldContext___Type_interfaces ec fld =
     Ret \<lparr>fc_Object = ''__Type'', fc_Field = fld, fc_Args = Map.empty, fc_IsMethod = True,
          fc_IsResolver = False, fc_Child = Child_Type\<rparr>"

definition Type_interfaces ::
  "('c, 'sel, 's) type_object \<Rightarrow> ('c, 'sel, 's) execution_context \<Rightarrow> 'c \<Rightarrow> 'sel collected_field \<Rightarrow> type_obj \<Rightarrow> 's \<Rightarrow>
   marshaler ret \<times> 's" where
  "Type_interfaces ty ec c fld obj =
     gq_ResolveField (ec_graphql ec) c fld
       (\<lambda>c fld s. (fieldContext___Type_interfaces ec fld, s))
       (\<lambda>c s. (Ret (VTypes (in_Type_Interfaces (ec_introspection ec) obj)), s))
       (\<lambda>c sel v s. case v of VTypes x \<Rightarrow> marshalO__TypeSlice ty ec c sel x s | _ \<Rightarrow> unexpected_type s)
       True False"

definition fieldContext___Type_possibleTypes ::
  "('c, 'sel, 's) execution_context \<Rightarrow> 'sel collected_field \<Rightarrow> 'sel field_context ret" where
  "fieldContext___Type_possibleTypes ec fld =
     Ret \<lparr>fc_Object = ''__Type'', fc_Field = fld, fc_Args = Map.empty, fc_IsMethod = True,
          fc_IsResolver = False, fc_Child = Child_Type\<rparr>"

definition Type_possibleTypes ::
  "('c, 'sel, 's) type_object \<Rightarrow> ('c, 'sel, 's) execution_context \<Rightarrow> 'c \<Rightarrow> 'sel collected_field \<Rightarrow> type_obj \<Rightarrow> 's \<Rightarrow>
   marshaler ret \<times> 's" where
  "Type_possibleTypes ty ec c fld obj =
     gq_ResolveField (ec_graphql ec) c fld
       (\<lambda>c fld s. (fieldContext___Type_possibleTypes ec fld, s))
       (\<lambda>c s. (Ret (VTypes (in_Type_PossibleTypes (ec_introspection ec) obj)), s))
       (\<lambda>c sel v s. case v of VTypes x \<Rightarrow> marshalO__TypeSlice ty ec c sel x s | _ \<Rightarrow> unexpected_type s)
       True False"

definition fieldContext___Type_enumValues ::
  "('c, 'sel, 's) execution_context \<Rightarrow> 'c \<Rightarrow> 'sel collected_field \<Rightarrow> 's \<Rightarrow> 'sel field_context ret \<times> 's" where
  "fieldContext___Type_enumValues ec c fld =
     context_with_args ec c
       \<lparr>fc_Object = ''__Type'', fc_Field = fld, fc_Args = Map.empty, fc_IsMethod = True,
        fc_IsResolver = False, fc_Child = Child_EnumValue\<rparr>
       (field___Type_enumValues_args (ec_graphql ec))"

definition Type_enumValues ::
  "('c, 'sel, 's) execution_context \<Rightarrow> 'c \<Rightarrow> 'sel collected_field \<Rightarrow> type_obj \<Rightarrow> 's \<Rightarrow>
   marshaler ret \<times> 's" where
  "Type_enumValues ec c fld obj =
     gq_ResolveField (ec_graphql ec) c fld
       (fieldContext___Type_enumValues ec)
       (\<lambda>c s. case fc_Args (gq_GetFieldContext (ec_graphql ec) c) ''includeDeprecated'' of
          Some (VBool b) \<Rightarrow> (Ret (VEnumValues (in_Type_EnumValues (ec_introspection ec) obj b)), s)
        | _ \<Rightarrow> (Panic ''interface conversion'', s))
       (\<lambda>c sel v s. case v of VEnumValues x \<Rightarrow> marshalO__EnumValueSlice ec c sel x s | _ \<Rightarrow> unexpected_type s)
       True False"

definition fieldContext___Type_inputFields ::
  "('c, 'sel, 's) execution_context \<Rightarrow> 'sel collected_field \<Rightarrow> 'sel field_context ret" where
  "fieldContext___Type_inputFields ec fld =
     Ret \<lparr>fc_Object = ''__Type'', fc_Field = fld, fc_Args = Map.empty, fc_IsMethod = True,
          fc_IsResolver = False, fc_Child = Child_InputValue\<rparr>"

definition Type_inputFields ::
  "('c, 'sel, 's) type_object \<Rightarrow> ('c, 'sel, 's) execution_context \<Rightarrow> 'c \<Rightarrow> 'sel collected_field \<Rightarrow> type_obj \<Rightarrow> 's \<Rightarrow>
   marshaler ret \<times> 's" where
  "Type_inputFields ty ec c fld obj =
     gq_ResolveField (ec_graphql ec) c fld
       (\<lambda>c fld s. (fieldContext___Type_inputFields ec fld, s))
       (\<lambda>c s. (Ret (VInputValues (in_Type_InputFields (ec_introspection ec) obj)), s))
       (\<lambda>c sel v s. case v of VInputValues x \<Rightarrow> marshalO__InputValueSlice ty ec c sel x s | _ \<Rightarrow> unexpected_type s)
       True False"

definition fieldContext___Type_ofType ::
  "('c, 'sel, 's) execution_context \<Rightarrow> 'sel collected_field \<Rightarrow> 'sel field_context ret" where
  "fieldContext___Type_ofType ec fld =
     Ret \<lparr>fc_Object = ''__Type'', fc_Field = fld, fc_Args = Map.empty, fc_IsMethod = True,
          fc_IsResolver = False, fc_Child = Child_Type\<rparr>"

definition Type_ofType ::
  "('c, 'sel, 's) type_object \<Rightarrow> ('c, 'sel, 's) execution_context \<Rightarrow> 'c \<Rightarrow> 'sel collected_field \<Rightarrow> type_obj \<Rightarrow> 's \<Rightarrow>
   marshaler ret \<times> 's" where
  "Type_ofType ty ec c fld obj =
     gq_ResolveField (ec_graphql ec) c fld
       (\<lambda>c fld s. (fieldContext___Type_ofType ec fld, s))
       (\<lambda>c s. (Ret (VType (in_Type_OfType (ec_introspection ec) obj)), s))
       (\<lambda>c sel v s. case v of VType x \<Rightarrow> marshalO__TypePtr ty ec c sel x s | _ \<Rightarrow> unexpected_type s)
       True False"

definition fieldContext___Type_isOneOf ::
  "('c, 'sel, 's) execution_context \<Rightarrow> 'sel collected_field \<Rightarrow> 'sel field_context ret" where
  "fieldContext___Type_isOneOf ec fld =
     gq_NewScalarFieldContext (ec_graphql ec) ''__Type'' fld True False
       (ErrorsNew ''field of type Boolean does not have child fields'')"

definition Type_isOneOf ::
  "('c, 'sel, 's) execution_context \<Rightarrow> 'c \<Rightarrow> 'sel collected_field \<Rightarrow> type_obj \<Rightarrow> 's \<Rightarrow>
   marshaler ret \<times> 's" where
  "Type_isOneOf ec c fld obj =
     gq_ResolveField (ec_graphql ec) c fld
       (\<lambda>c fld s. (fieldContext___Type_isOneOf ec fld, s))
       (\<lambda>c s. (Ret (VBool (in_Type_IsOneOf (ec_introspection ec) obj)), s))
       (\<lambda>c sel v s. case v of VBool x \<Rightarrow> marshalOBoolean2bool ec c sel x s | _ \<Rightarrow> unexpected_type s)
       True False"

definition Type_value ::
  "('c, 'sel, 's) type_object \<Rightarrow> ('c, 'sel, 's) execution_context \<Rightarrow> 'c \<Rightarrow> type_obj \<Rightarrow> 'sel collected_field \<Rightarrow> 's \<Rightarrow>
   (marshaler \<times> nat) ret \<times> 's" where
  "Type_value ty ec c obj fld s =
     (if cf_Name fld = ''__typename''
      then (Ret (gq_MarshalString (ec_graphql ec) ''__Type'', 0), s)
      else if cf_Name fld = ''kind''
      then non_null (Type_kind ec c fld obj s)
      else if cf_Name fld = ''name''
      then required_null (Type_name ec c fld obj s)
      else if cf_Name fld = ''description''
      then required_null (Type_description ec c fld obj s)
      else if cf_Name fld = ''specifiedByURL''
      then required_null (Type_specifiedByURL ec c fld obj s)
      else if cf_Name fld = ''fields''
      then required_null (Type_fields ty ec c fld obj s)
      else if cf_Name fld = ''interfaces''
      then required_null (Type_interfaces ty ec c fld obj s)
      else if cf_Name fld = ''possibleTypes''
      then required_null (Type_possibleTypes ty ec c fld obj s)
      else if cf_Name fld = ''enumValues''
      then required_null (Type_enumValues ec c fld obj s)
      else if cf_Name fld = ''inputFields''
      then required_null (Type_inputFields ty ec c fld obj s)
      else if cf_Name fld = ''ofType''
      then required_null (Type_ofType ty ec c fld obj s)
      else if cf_Name fld = ''isOneOf''
      then required_null (Type_isOneOf ec c fld obj s)
      else (Panic (''unknown field '' @ cf_Name fld), s))"

definition Type_object ::
  "('c, 'sel, 's) type_object \<Rightarrow> ('c, 'sel, 's) execution_context \<Rightarrow> 'c \<Rightarrow> 'sel \<Rightarrow> type_obj \<Rightarrow> 's \<Rightarrow> marshaler ret \<times> 's" where
  "Type_object ty ec c sel obj s =
     object_result (object_fields (Type_value ty ec c obj)
       (gq_CollectFields (ec_graphql ec) sel [''__Type'']) s)"

definition childFields___Type ::
  "('c, 'sel, 's) execution_context \<Rightarrow> 'c \<Rightarrow> 'sel collected_field \<Rightarrow> 's \<Rightarrow> 'sel field_context ret \<times> 's" where
  "childFields___Type ec c fld s =
     (if cf_Name fld = ''kind'' then (fieldContext___Type_kind ec fld, s)
      else if cf_Name fld = ''name'' then (fieldContext___Type_name ec fld, s)
      else if cf_Name fld = ''description'' then (fieldContext___Type_description ec fld, s)
      else if cf_Name fld = ''specifiedByURL'' then (fieldContext___Type_specifiedByURL ec fld, s)
      else if cf_Name fld = ''fields'' then fieldContext___Type_fields ec c fld s
      else if cf_Name fld = ''interfaces'' then (fieldContext___Type_interfaces ec fld, s)
      else if cf_Name fld = ''possibleTypes'' then (fieldContext___Type_possibleTypes ec fld, s)
      else if cf_Name fld = ''enumValues'' then fieldContext___Type_enumValues ec c fld s
      else if cf_Name fld = ''inputFields'' then (fieldContext___Type_inputFields ec fld, s)
      else if cf_Name fld = ''ofType'' then (fieldContext___Type_ofType ec fld, s)
      else if cf_Name fld = ''isOneOf'' then (fieldContext___Type_isOneOf ec fld, s)
      else (Fail (ErrorsNew (''no field named '' @ cf_Name fld @ '' was found under type __Type'')), s))"

section \<open>The recursion\<close>

text \<open>The source recurses as deep as the selections nest. The model follows it through at most \<open>n\<close>
  nested \<open>__Type\<close> objects; at a bound above the nesting of the selections the bound is never
  reached, and the result does not depend on it.\<close>

fun introspect_type ::
  "nat \<Rightarrow> ('c, 'sel, 's) execution_context \<Rightarrow> ('c, 'sel, 's) type_object" where
  "introspect_type 0 ec c sel obj s = (Panic ''stack overflow'', s)"
| "introspect_type (Suc n) ec c sel obj s = Type_object (introspect_type n ec) ec c sel obj s"

section \<open>\<open>__Schema\<close>\<close>

definition fieldContext___Schema_description ::
  "('c, 'sel, 's) execution_context \<Rightarrow> 'sel collected_field \<Rightarrow> 'sel field_context ret" where
  "fieldContext___Schema_description ec fld =
     gq_NewScalarFieldContext (ec_graphql ec) ''__Schema'' fld True False
       (ErrorsNew ''field of type String does not have child fields'')"

definition Schema_description ::
  "('c, 'sel, 's) execution_context \<Rightarrow> 'c \<Rightarrow> 'sel collected_field \<Rightarrow> schema_obj \<Rightarrow> 's \<Rightarrow>
   marshaler ret \<times> 's" where
  "Schema_description ec c fld obj =
     gq_ResolveField (ec_graphql ec) c fld
       (\<lambda>c fld s. (fieldContext___Schema_description ec fld, s))
       (\<lambda>c s. (Ret (VStringPtr (in_Schema_Description (ec_introspection ec) obj)), s))
       (\<lambda>c sel v s. case v of VStringPtr x \<Rightarrow> marshalOStringPtr ec c sel x s | _ \<Rightarrow> unexpected_type s)
       True False"

definition fieldContext___Schema_types ::
  "('c, 'sel, 's) execution_context \<Rightarrow> 'sel collected_field \<Rightarrow> 'sel field_context ret" where
  "fieldContext___Schema_types ec fld =
     Ret \<lparr>fc_Object = ''__Schema'', fc_Field = fld, fc_Args = Map.empty, fc_IsMethod = True,
          fc_IsResolver = False, fc_Child = Child_Type\<rparr>"

definition Schema_types ::
  "('c, 'sel, 's) type_object \<Rightarrow> ('c, 'sel, 's) execution_context \<Rightarrow> 'c \<Rightarrow> 'sel collected_field \<Rightarrow> schema_obj \<Rightarrow> 's \<Rightarrow>
   marshaler ret \<times> 's" where
  "Schema_types ty ec c fld obj =
     gq_ResolveField (ec_graphql ec) c fld
       (\<lambda>c fld s. (fieldContext___Schema_types ec fld, s))
       (\<lambda>c s. (Ret (VTypes (in_Schema_Types (ec_introspection ec) obj)), s))
       (\<lambda>c sel v s. case v of VTypes x \<Rightarrow> marshalN__TypeSlice ty ec c sel x s | _ \<Rightarrow> unexpected_type s)
       True True"

definition fieldContext___Schema_queryType ::
  "('c, 'sel, 's) execution_context \<Rightarrow> 'sel collected_field \<Rightarrow> 'sel field_context ret" where
  "fieldContext___Schema_queryType ec fld =
     Ret \<lparr>fc_Object = ''__Schema'', fc_Field = fld, fc_Args = Map.empty, fc_IsMethod = True,
          fc_IsResolver = False, fc_Child = Child_Type\<rparr>"

definition Schema_queryType ::
  "('c, 'sel, 's) type_object \<Rightarrow> ('c, 'sel, 's) execution_context \<Rightarrow> 'c \<Rightarrow> 'sel collected_field \<Rightarrow> schema_obj \<Rightarrow> 's \<Rightarrow>
   marshaler ret \<times> 's" where
  "Schema_queryType ty ec c fld obj =
     gq_ResolveField (ec_graphql ec) c fld
       (\<lambda>c fld s. (fieldContext___Schema_queryType ec fld, s))
       (\<lambda>c s. (Ret (VType (in_Schema_QueryType (ec_introspection ec) obj)), s))
       (\<lambda>c sel v s. case v of VType x \<Rightarrow> marshalN__TypePtr ty ec c sel x s | _ \<Rightarrow> unexpected_type s)
       True True"

definition fieldContext___Schema_mutationType ::
  "('c, 'sel, 's) execution_context \<Rightarrow> 'sel collected_field \<Rightarrow> 'sel field_context ret" where
  "fieldContext___Schema_mutationType ec fld =
     Ret \<lparr>fc_Object = ''__Schema'', fc_Field = fld, fc_Args = Map.empty, fc_IsMethod = True,
          fc_IsResolver = False, fc_Child = Child_Type\<rparr>"

definition Schema_mutationType ::
  "('c, 'sel, 's) type_object \<Rightarrow> ('c, 'sel, 's) execution_context \<Rightarrow> 'c \<Rightarrow> 'sel collected_field \<Rightarrow> schema_obj \<Rightarrow> 's \<Rightarrow>
   marshaler ret \<times> 's" where
  "Schema_mutationType ty ec c fld obj =
     gq_ResolveField (ec_graphql ec) c fld
       (\<lambda>c fld s. (fieldContext___Schema_mutationType ec fld, s))
       (\<lambda>c s. (Ret (VType (in_Schema_MutationType (ec_introspection ec) obj)), s))
       (\<lambda>c sel v s. case v of VType x \<Rightarrow> marshalO__TypePtr ty ec c sel x s | _ \<Rightarrow> unexpected_type s)
       True False"

definition fieldContext___Schema_subscriptionType ::
  "('c, 'sel, 's) execution_context \<Rightarrow> 'sel collected_field \<Rightarrow> 'sel field_context ret" where
  "fieldContext___Schema_subscriptionType ec fld =
     Ret \<lparr>fc_Object = ''__Schema'', fc_Field = fld, fc_Args = Map.empty, fc_IsMethod = True,
          fc_IsResolver = False, fc_Child = Child_Type\<rparr>"

definition Schema_subscriptionType ::
  "('c, 'sel, 's) type_object \<Rightarrow> ('c, 'sel, 's) execution_context \<Rightarrow> 'c \<Rightarrow> 'sel collected_field \<Rightarrow> schema_obj \<Rightarrow> 's \<Rightarrow>
   marshaler ret \<times> 's" where
  "Schema_subscriptionType ty ec c fld obj =
     gq_ResolveField (ec_graphql ec) c fld
       (\<lambda>c fld s. (fieldContext___Schema_subscriptionType ec fld, s))
       (\<lambda>c s. (Ret (VType (in_Schema_SubscriptionType (ec_introspection ec) obj)), s))
       (\<lambda>c sel v s. case v of VType x \<Rightarrow> marshalO__TypePtr ty ec c sel x s | _ \<Rightarrow> unexpected_type s)
       True False"

definition fieldContext___Schema_directives ::
  "('c, 'sel, 's) execution_context \<Rightarrow> 'sel collected_field \<Rightarrow> 'sel field_context ret" where
  "fieldContext___Schema_directives ec fld =
     Ret \<lparr>fc_Object = ''__Schema'', fc_Field = fld, fc_Args = Map.empty, fc_IsMethod = True,
          fc_IsResolver = False, fc_Child = Child_Directive\<rparr>"

definition Schema_directives ::
  "('c, 'sel, 's) type_object \<Rightarrow> ('c, 'sel, 's) execution_context \<Rightarrow> 'c \<Rightarrow> 'sel collected_field \<Rightarrow> schema_obj \<Rightarrow> 's \<Rightarrow>
   marshaler ret \<times> 's" where
  "Schema_directives ty ec c fld obj =
     gq_ResolveField (ec_graphql ec) c fld
       (\<lambda>c fld s. (fieldContext___Schema_directives ec fld, s))
       (\<lambda>c s. (Ret (VDirectives (in_Schema_Directives (ec_introspection ec) obj)), s))
       (\<lambda>c sel v s. case v of VDirectives x \<Rightarrow> marshalN__DirectiveSlice ty ec c sel x s | _ \<Rightarrow> unexpected_type s)
       True True"

definition Schema_value ::
  "('c, 'sel, 's) type_object \<Rightarrow> ('c, 'sel, 's) execution_context \<Rightarrow> 'c \<Rightarrow> schema_obj \<Rightarrow> 'sel collected_field \<Rightarrow> 's \<Rightarrow>
   (marshaler \<times> nat) ret \<times> 's" where
  "Schema_value ty ec c obj fld s =
     (if cf_Name fld = ''__typename''
      then (Ret (gq_MarshalString (ec_graphql ec) ''__Schema'', 0), s)
      else if cf_Name fld = ''description''
      then required_null (Schema_description ec c fld obj s)
      else if cf_Name fld = ''types''
      then non_null (Schema_types ty ec c fld obj s)
      else if cf_Name fld = ''queryType''
      then non_null (Schema_queryType ty ec c fld obj s)
      else if cf_Name fld = ''mutationType''
      then required_null (Schema_mutationType ty ec c fld obj s)
      else if cf_Name fld = ''subscriptionType''
      then required_null (Schema_subscriptionType ty ec c fld obj s)
      else if cf_Name fld = ''directives''
      then non_null (Schema_directives ty ec c fld obj s)
      else (Panic (''unknown field '' @ cf_Name fld), s))"

definition Schema_object ::
  "('c, 'sel, 's) type_object \<Rightarrow> ('c, 'sel, 's) execution_context \<Rightarrow> 'c \<Rightarrow> 'sel \<Rightarrow> schema_obj \<Rightarrow> 's \<Rightarrow> marshaler ret \<times> 's" where
  "Schema_object ty ec c sel obj s =
     object_result (object_fields (Schema_value ty ec c obj)
       (gq_CollectFields (ec_graphql ec) sel [''__Schema'']) s)"

definition childFields___Schema ::
  "('c, 'sel, 's) execution_context \<Rightarrow> 'c \<Rightarrow> 'sel collected_field \<Rightarrow> 's \<Rightarrow> 'sel field_context ret \<times> 's" where
  "childFields___Schema ec c fld s =
     (if cf_Name fld = ''description'' then (fieldContext___Schema_description ec fld, s)
      else if cf_Name fld = ''types'' then (fieldContext___Schema_types ec fld, s)
      else if cf_Name fld = ''queryType'' then (fieldContext___Schema_queryType ec fld, s)
      else if cf_Name fld = ''mutationType'' then (fieldContext___Schema_mutationType ec fld, s)
      else if cf_Name fld = ''subscriptionType'' then (fieldContext___Schema_subscriptionType ec fld, s)
      else if cf_Name fld = ''directives'' then (fieldContext___Schema_directives ec fld, s)
      else (Fail (ErrorsNew (''no field named '' @ cf_Name fld @ '' was found under type __Schema'')), s))"

definition marshalO__SchemaPtr ::
  "('c, 'sel, 's) type_object \<Rightarrow> ('c, 'sel, 's) execution_context \<Rightarrow> 'c \<Rightarrow> 'sel \<Rightarrow> schema_obj option \<Rightarrow> 's \<Rightarrow>
   marshaler ret \<times> 's" where
  "marshalO__SchemaPtr ty ec c sel v s =
     (case v of None \<Rightarrow> (Ret Null, s) | Some v \<Rightarrow> Schema_object ty ec c sel v s)"

section \<open>\<open>Query.__type\<close> and \<open>Query.__schema\<close>\<close>

definition fieldContext_Query_type ::
  "('c, 'sel, 's) execution_context \<Rightarrow> 'c \<Rightarrow> 'sel collected_field \<Rightarrow> 's \<Rightarrow> 'sel field_context ret \<times> 's" where
  "fieldContext_Query_type ec c fld =
     context_with_args ec c
       \<lparr>fc_Object = ''Query'', fc_Field = fld, fc_Args = Map.empty, fc_IsMethod = True,
        fc_IsResolver = False, fc_Child = Child_Type\<rparr>
       (field_Query_type_args (ec_graphql ec))"

definition Query_type ::
  "('c, 'sel, 's) execution_context \<Rightarrow> 'c \<Rightarrow> 'sel collected_field \<Rightarrow> 's \<Rightarrow> marshaler ret \<times> 's" where
  "Query_type ec c fld =
     gq_ResolveField (ec_graphql ec) c fld
       (fieldContext_Query_type ec)
       (\<lambda>c s. case fc_Args (gq_GetFieldContext (ec_graphql ec) c) ''name'' of
          Some (VString name) \<Rightarrow>
            (case in_IntrospectType (ec_introspection ec) name of
               Inl err \<Rightarrow> (Fail err, s) | Inr v \<Rightarrow> (Ret (VType v), s))
        | _ \<Rightarrow> (Panic ''interface conversion'', s))
       (\<lambda>c sel v s. case v of
          VType x \<Rightarrow> marshalO__TypePtr (introspect_type (ec_depth ec) ec) ec c sel x s
        | _ \<Rightarrow> unexpected_type s)
       True False"

definition fieldContext_Query_schema ::
  "('c, 'sel, 's) execution_context \<Rightarrow> 'sel collected_field \<Rightarrow> 'sel field_context ret" where
  "fieldContext_Query_schema ec fld =
     Ret \<lparr>fc_Object = ''Query'', fc_Field = fld, fc_Args = Map.empty, fc_IsMethod = True,
          fc_IsResolver = False, fc_Child = Child_Schema\<rparr>"

definition Query_schema ::
  "('c, 'sel, 's) execution_context \<Rightarrow> 'c \<Rightarrow> 'sel collected_field \<Rightarrow> 's \<Rightarrow> marshaler ret \<times> 's" where
  "Query_schema ec c fld =
     gq_ResolveField (ec_graphql ec) c fld
       (\<lambda>c fld s. (fieldContext_Query_schema ec fld, s))
       (\<lambda>c s. case in_IntrospectSchema (ec_introspection ec) of
          Inl err \<Rightarrow> (Fail err, s) | Inr v \<Rightarrow> (Ret (VSchema v), s))
       (\<lambda>c sel v s. case v of
          VSchema x \<Rightarrow> marshalO__SchemaPtr (introspect_type (ec_depth ec) ec) ec c sel x s
        | _ \<Rightarrow> unexpected_type s)
       True False"

end
