(* ===== verification/Graphql_Object.thy ===== *)
theory Graphql_Object
  imports Graphql_Types
begin

text \<open>
  The output side of the generated executor (\<open>gen/graphql/generated.go\<close>): the field functions of
  \<open>Voyage\<close>, \<open>CreateVoyagePayload\<close>, \<open>Mutation\<close> and \<open>Query\<close> with their field contexts, the objects,
  and \<open>Exec\<close>.
\<close>

section \<open>Voyage\<close>

definition fieldContext_Voyage_clientRequestId ::
  "('c, 'sel, 's) execution_context \<Rightarrow> 'sel collected_field \<Rightarrow> 'sel field_context ret" where
  "fieldContext_Voyage_clientRequestId ec fld =
     gq_NewScalarFieldContext (ec_graphql ec) ''Voyage'' fld False False
       (ErrorsNew ''field of type ID does not have child fields'')"

definition Voyage_clientRequestId ::
  "('c, 'sel, 's) execution_context \<Rightarrow> 'c \<Rightarrow> 'sel collected_field \<Rightarrow> model_voyage \<Rightarrow> 's \<Rightarrow> marshaler ret \<times> 's" where
  "Voyage_clientRequestId ec c fld obj =
     gq_ResolveField (ec_graphql ec) c fld
       (\<lambda>c fld s. (fieldContext_Voyage_clientRequestId ec fld, s))
       (\<lambda>c s. (Ret (VString (mv_ClientRequestID obj)), s))
       (\<lambda>c sel v s. case v of VString x \<Rightarrow> marshalNID2string ec c sel x s | _ \<Rightarrow> unexpected_type s)
       True True"

definition fieldContext_Voyage_origin ::
  "('c, 'sel, 's) execution_context \<Rightarrow> 'sel collected_field \<Rightarrow> 'sel field_context ret" where
  "fieldContext_Voyage_origin ec fld =
     gq_NewScalarFieldContext (ec_graphql ec) ''Voyage'' fld False False
       (ErrorsNew ''field of type String does not have child fields'')"

definition Voyage_origin ::
  "('c, 'sel, 's) execution_context \<Rightarrow> 'c \<Rightarrow> 'sel collected_field \<Rightarrow> model_voyage \<Rightarrow> 's \<Rightarrow> marshaler ret \<times> 's" where
  "Voyage_origin ec c fld obj =
     gq_ResolveField (ec_graphql ec) c fld
       (\<lambda>c fld s. (fieldContext_Voyage_origin ec fld, s))
       (\<lambda>c s. (Ret (VString (mv_Origin obj)), s))
       (\<lambda>c sel v s. case v of VString x \<Rightarrow> marshalNString2string ec c sel x s | _ \<Rightarrow> unexpected_type s)
       True True"

definition fieldContext_Voyage_dest ::
  "('c, 'sel, 's) execution_context \<Rightarrow> 'sel collected_field \<Rightarrow> 'sel field_context ret" where
  "fieldContext_Voyage_dest ec fld =
     gq_NewScalarFieldContext (ec_graphql ec) ''Voyage'' fld False False
       (ErrorsNew ''field of type String does not have child fields'')"

definition Voyage_dest ::
  "('c, 'sel, 's) execution_context \<Rightarrow> 'c \<Rightarrow> 'sel collected_field \<Rightarrow> model_voyage \<Rightarrow> 's \<Rightarrow> marshaler ret \<times> 's" where
  "Voyage_dest ec c fld obj =
     gq_ResolveField (ec_graphql ec) c fld
       (\<lambda>c fld s. (fieldContext_Voyage_dest ec fld, s))
       (\<lambda>c s. (Ret (VString (mv_Dest obj)), s))
       (\<lambda>c sel v s. case v of VString x \<Rightarrow> marshalNString2string ec c sel x s | _ \<Rightarrow> unexpected_type s)
       True True"

definition fieldContext_Voyage_distanceNm ::
  "('c, 'sel, 's) execution_context \<Rightarrow> 'sel collected_field \<Rightarrow> 'sel field_context ret" where
  "fieldContext_Voyage_distanceNm ec fld =
     gq_NewScalarFieldContext (ec_graphql ec) ''Voyage'' fld False False
       (ErrorsNew ''field of type Int does not have child fields'')"

definition Voyage_distanceNm ::
  "('c, 'sel, 's) execution_context \<Rightarrow> 'c \<Rightarrow> 'sel collected_field \<Rightarrow> model_voyage \<Rightarrow> 's \<Rightarrow> marshaler ret \<times> 's" where
  "Voyage_distanceNm ec c fld obj =
     gq_ResolveField (ec_graphql ec) c fld
       (\<lambda>c fld s. (fieldContext_Voyage_distanceNm ec fld, s))
       (\<lambda>c s. (Ret (VInt (mv_DistanceNm obj)), s))
       (\<lambda>c sel v s. case v of VInt x \<Rightarrow> marshalNInt2int ec c sel x s | _ \<Rightarrow> unexpected_type s)
       True True"

definition fieldContext_Voyage_feesMinor ::
  "('c, 'sel, 's) execution_context \<Rightarrow> 'sel collected_field \<Rightarrow> 'sel field_context ret" where
  "fieldContext_Voyage_feesMinor ec fld =
     gq_NewScalarFieldContext (ec_graphql ec) ''Voyage'' fld False False
       (ErrorsNew ''field of type Int does not have child fields'')"

definition Voyage_feesMinor ::
  "('c, 'sel, 's) execution_context \<Rightarrow> 'c \<Rightarrow> 'sel collected_field \<Rightarrow> model_voyage \<Rightarrow> 's \<Rightarrow> marshaler ret \<times> 's" where
  "Voyage_feesMinor ec c fld obj =
     gq_ResolveField (ec_graphql ec) c fld
       (\<lambda>c fld s. (fieldContext_Voyage_feesMinor ec fld, s))
       (\<lambda>c s. (Ret (VInt (mv_FeesMinor obj)), s))
       (\<lambda>c sel v s. case v of VInt x \<Rightarrow> marshalNInt2int ec c sel x s | _ \<Rightarrow> unexpected_type s)
       True True"

definition fieldContext_Voyage_version ::
  "('c, 'sel, 's) execution_context \<Rightarrow> 'sel collected_field \<Rightarrow> 'sel field_context ret" where
  "fieldContext_Voyage_version ec fld =
     gq_NewScalarFieldContext (ec_graphql ec) ''Voyage'' fld False False
       (ErrorsNew ''field of type Int does not have child fields'')"

definition Voyage_version ::
  "('c, 'sel, 's) execution_context \<Rightarrow> 'c \<Rightarrow> 'sel collected_field \<Rightarrow> model_voyage \<Rightarrow> 's \<Rightarrow> marshaler ret \<times> 's" where
  "Voyage_version ec c fld obj =
     gq_ResolveField (ec_graphql ec) c fld
       (\<lambda>c fld s. (fieldContext_Voyage_version ec fld, s))
       (\<lambda>c s. (Ret (VInt (mv_Version obj)), s))
       (\<lambda>c sel v s. case v of VInt x \<Rightarrow> marshalNInt2int ec c sel x s | _ \<Rightarrow> unexpected_type s)
       True True"

definition fieldContext_Voyage_estimateMinor ::
  "('c, 'sel, 's) execution_context \<Rightarrow> 'sel collected_field \<Rightarrow> 'sel field_context ret" where
  "fieldContext_Voyage_estimateMinor ec fld =
     gq_NewScalarFieldContext (ec_graphql ec) ''Voyage'' fld False False
       (ErrorsNew ''field of type Int does not have child fields'')"

definition Voyage_estimateMinor ::
  "('c, 'sel, 's) execution_context \<Rightarrow> 'c \<Rightarrow> 'sel collected_field \<Rightarrow> model_voyage \<Rightarrow> 's \<Rightarrow> marshaler ret \<times> 's" where
  "Voyage_estimateMinor ec c fld obj =
     gq_ResolveField (ec_graphql ec) c fld
       (\<lambda>c fld s. (fieldContext_Voyage_estimateMinor ec fld, s))
       (\<lambda>c s. (Ret (VInt (mv_EstimateMinor obj)), s))
       (\<lambda>c sel v s. case v of VInt x \<Rightarrow> marshalNInt2int ec c sel x s | _ \<Rightarrow> unexpected_type s)
       True True"

definition Voyage_value ::
  "('c, 'sel, 's) execution_context \<Rightarrow> 'c \<Rightarrow> model_voyage \<Rightarrow> 'sel collected_field \<Rightarrow> 's \<Rightarrow>
   (marshaler \<times> nat) ret \<times> 's" where
  "Voyage_value ec c obj fld s =
     (if cf_Name fld = ''__typename''
      then (Ret (gq_MarshalString (ec_graphql ec) ''Voyage'', 0), s)
      else if cf_Name fld = ''clientRequestId'' then non_null (Voyage_clientRequestId ec c fld obj s)
      else if cf_Name fld = ''origin'' then non_null (Voyage_origin ec c fld obj s)
      else if cf_Name fld = ''dest'' then non_null (Voyage_dest ec c fld obj s)
      else if cf_Name fld = ''distanceNm'' then non_null (Voyage_distanceNm ec c fld obj s)
      else if cf_Name fld = ''feesMinor'' then non_null (Voyage_feesMinor ec c fld obj s)
      else if cf_Name fld = ''version'' then non_null (Voyage_version ec c fld obj s)
      else if cf_Name fld = ''estimateMinor'' then non_null (Voyage_estimateMinor ec c fld obj s)
      else (Panic (''unknown field '' @ cf_Name fld), s))"

definition Voyage_object ::
  "('c, 'sel, 's) execution_context \<Rightarrow> 'c \<Rightarrow> 'sel \<Rightarrow> model_voyage \<Rightarrow> 's \<Rightarrow> marshaler ret \<times> 's" where
  "Voyage_object ec c sel obj s =
     object_result (object_fields (Voyage_value ec c obj)
       (gq_CollectFields (ec_graphql ec) sel [''Voyage'']) s)"

definition marshalNVoyage ::
  "('c, 'sel, 's) execution_context \<Rightarrow> 'c \<Rightarrow> 'sel \<Rightarrow> model_voyage option \<Rightarrow> 's \<Rightarrow> marshaler ret \<times> 's" where
  "marshalNVoyage ec c sel v s =
     (case v of
        None \<Rightarrow> (Ret Null, report_null ec c s)
      | Some v \<Rightarrow> Voyage_object ec c sel v s)"

definition marshalNVoyage_value ::
  "('c, 'sel, 's) execution_context \<Rightarrow> 'c \<Rightarrow> 'sel \<Rightarrow> model_voyage \<Rightarrow> 's \<Rightarrow> marshaler ret \<times> 's" where
  "marshalNVoyage_value ec c sel v = Voyage_object ec c sel v"

definition marshalOVoyage ::
  "('c, 'sel, 's) execution_context \<Rightarrow> 'c \<Rightarrow> 'sel \<Rightarrow> model_voyage option \<Rightarrow> 's \<Rightarrow> marshaler ret \<times> 's" where
  "marshalOVoyage ec c sel v s =
     (case v of None \<Rightarrow> (Ret Null, s) | Some v \<Rightarrow> Voyage_object ec c sel v s)"

definition childFields_Voyage ::
  "('c, 'sel, 's) execution_context \<Rightarrow> 'sel collected_field \<Rightarrow> 'sel field_context ret" where
  "childFields_Voyage ec fld =
     (if cf_Name fld = ''clientRequestId'' then fieldContext_Voyage_clientRequestId ec fld
      else if cf_Name fld = ''origin'' then fieldContext_Voyage_origin ec fld
      else if cf_Name fld = ''dest'' then fieldContext_Voyage_dest ec fld
      else if cf_Name fld = ''distanceNm'' then fieldContext_Voyage_distanceNm ec fld
      else if cf_Name fld = ''feesMinor'' then fieldContext_Voyage_feesMinor ec fld
      else if cf_Name fld = ''version'' then fieldContext_Voyage_version ec fld
      else if cf_Name fld = ''estimateMinor'' then fieldContext_Voyage_estimateMinor ec fld
      else Fail (ErrorsNew (''no field named '' @ cf_Name fld @ '' was found under type Voyage'')))"

section \<open>CreateVoyagePayload\<close>

definition fieldContext_CreateVoyagePayload_voyage ::
  "('c, 'sel, 's) execution_context \<Rightarrow> 'sel collected_field \<Rightarrow> 'sel field_context ret" where
  "fieldContext_CreateVoyagePayload_voyage ec fld =
     Ret \<lparr>fc_Object = ''CreateVoyagePayload'', fc_Field = fld, fc_Args = Map.empty,
          fc_IsMethod = False, fc_IsResolver = False, fc_Child = Child_Voyage\<rparr>"

definition CreateVoyagePayload_voyage ::
  "('c, 'sel, 's) execution_context \<Rightarrow> 'c \<Rightarrow> 'sel collected_field \<Rightarrow> create_voyage_payload \<Rightarrow> 's \<Rightarrow> marshaler ret \<times> 's" where
  "CreateVoyagePayload_voyage ec c fld obj =
     gq_ResolveField (ec_graphql ec) c fld
       (\<lambda>c fld s. (fieldContext_CreateVoyagePayload_voyage ec fld, s))
       (\<lambda>c s. (Ret (VVoyage (cvp_Voyage obj)), s))
       (\<lambda>c sel v s. case v of VVoyage x \<Rightarrow> marshalNVoyage ec c sel x s | _ \<Rightarrow> unexpected_type s)
       True True"

definition fieldContext_CreateVoyagePayload_provisionalEstimateMinor ::
  "('c, 'sel, 's) execution_context \<Rightarrow> 'sel collected_field \<Rightarrow> 'sel field_context ret" where
  "fieldContext_CreateVoyagePayload_provisionalEstimateMinor ec fld =
     gq_NewScalarFieldContext (ec_graphql ec) ''CreateVoyagePayload'' fld False False
       (ErrorsNew ''field of type Int does not have child fields'')"

definition CreateVoyagePayload_provisionalEstimateMinor ::
  "('c, 'sel, 's) execution_context \<Rightarrow> 'c \<Rightarrow> 'sel collected_field \<Rightarrow> create_voyage_payload \<Rightarrow> 's \<Rightarrow> marshaler ret \<times> 's" where
  "CreateVoyagePayload_provisionalEstimateMinor ec c fld obj =
     gq_ResolveField (ec_graphql ec) c fld
       (\<lambda>c fld s. (fieldContext_CreateVoyagePayload_provisionalEstimateMinor ec fld, s))
       (\<lambda>c s. (Ret (VInt (cvp_ProvisionalEstimateMinor obj)), s))
       (\<lambda>c sel v s. case v of VInt x \<Rightarrow> marshalNInt2int ec c sel x s | _ \<Rightarrow> unexpected_type s)
       True True"

definition fieldContext_CreateVoyagePayload_estimatePending ::
  "('c, 'sel, 's) execution_context \<Rightarrow> 'sel collected_field \<Rightarrow> 'sel field_context ret" where
  "fieldContext_CreateVoyagePayload_estimatePending ec fld =
     gq_NewScalarFieldContext (ec_graphql ec) ''CreateVoyagePayload'' fld False False
       (ErrorsNew ''field of type Boolean does not have child fields'')"

definition CreateVoyagePayload_estimatePending ::
  "('c, 'sel, 's) execution_context \<Rightarrow> 'c \<Rightarrow> 'sel collected_field \<Rightarrow> create_voyage_payload \<Rightarrow> 's \<Rightarrow> marshaler ret \<times> 's" where
  "CreateVoyagePayload_estimatePending ec c fld obj =
     gq_ResolveField (ec_graphql ec) c fld
       (\<lambda>c fld s. (fieldContext_CreateVoyagePayload_estimatePending ec fld, s))
       (\<lambda>c s. (Ret (VBool (cvp_EstimatePending obj)), s))
       (\<lambda>c sel v s. case v of VBool x \<Rightarrow> marshalNBoolean2bool ec c sel x s | _ \<Rightarrow> unexpected_type s)
       True True"

definition CreateVoyagePayload_value ::
  "('c, 'sel, 's) execution_context \<Rightarrow> 'c \<Rightarrow> create_voyage_payload \<Rightarrow> 'sel collected_field \<Rightarrow> 's \<Rightarrow>
   (marshaler \<times> nat) ret \<times> 's" where
  "CreateVoyagePayload_value ec c obj fld s =
     (if cf_Name fld = ''__typename''
      then (Ret (gq_MarshalString (ec_graphql ec) ''CreateVoyagePayload'', 0), s)
      else if cf_Name fld = ''voyage'' then non_null (CreateVoyagePayload_voyage ec c fld obj s)
      else if cf_Name fld = ''provisionalEstimateMinor''
      then non_null (CreateVoyagePayload_provisionalEstimateMinor ec c fld obj s)
      else if cf_Name fld = ''estimatePending''
      then non_null (CreateVoyagePayload_estimatePending ec c fld obj s)
      else (Panic (''unknown field '' @ cf_Name fld), s))"

definition CreateVoyagePayload_object ::
  "('c, 'sel, 's) execution_context \<Rightarrow> 'c \<Rightarrow> 'sel \<Rightarrow> create_voyage_payload \<Rightarrow> 's \<Rightarrow> marshaler ret \<times> 's" where
  "CreateVoyagePayload_object ec c sel obj s =
     object_result (object_fields (CreateVoyagePayload_value ec c obj)
       (gq_CollectFields (ec_graphql ec) sel [''CreateVoyagePayload'']) s)"

definition marshalNCreateVoyagePayload ::
  "('c, 'sel, 's) execution_context \<Rightarrow> 'c \<Rightarrow> 'sel \<Rightarrow> create_voyage_payload option \<Rightarrow> 's \<Rightarrow> marshaler ret \<times> 's" where
  "marshalNCreateVoyagePayload ec c sel v s =
     (case v of
        None \<Rightarrow> (Ret Null, report_null ec c s)
      | Some v \<Rightarrow> CreateVoyagePayload_object ec c sel v s)"

definition marshalNCreateVoyagePayload_value ::
  "('c, 'sel, 's) execution_context \<Rightarrow> 'c \<Rightarrow> 'sel \<Rightarrow> create_voyage_payload \<Rightarrow> 's \<Rightarrow> marshaler ret \<times> 's" where
  "marshalNCreateVoyagePayload_value ec c sel v = CreateVoyagePayload_object ec c sel v"

definition childFields_CreateVoyagePayload ::
  "('c, 'sel, 's) execution_context \<Rightarrow> 'sel collected_field \<Rightarrow> 'sel field_context ret" where
  "childFields_CreateVoyagePayload ec fld =
     (if cf_Name fld = ''voyage'' then fieldContext_CreateVoyagePayload_voyage ec fld
      else if cf_Name fld = ''provisionalEstimateMinor''
      then fieldContext_CreateVoyagePayload_provisionalEstimateMinor ec fld
      else if cf_Name fld = ''estimatePending''
      then fieldContext_CreateVoyagePayload_estimatePending ec fld
      else Fail (ErrorsNew (''no field named '' @ cf_Name fld @
             '' was found under type CreateVoyagePayload'')))"

section \<open>Mutation\<close>

definition fieldContext_Mutation_createVoyage ::
  "('c, 'sel, 's) execution_context \<Rightarrow> 'c \<Rightarrow> 'sel collected_field \<Rightarrow> 's \<Rightarrow> 'sel field_context ret \<times> 's" where
  "fieldContext_Mutation_createVoyage ec c fld =
     context_with_args ec c
       \<lparr>fc_Object = ''Mutation'', fc_Field = fld, fc_Args = Map.empty, fc_IsMethod = True,
        fc_IsResolver = True, fc_Child = Child_CreateVoyagePayload\<rparr>
       (field_Mutation_createVoyage_args (ec_graphql ec))"

definition Mutation_createVoyage ::
  "('c, 'sel, 's) execution_context \<Rightarrow> 'c \<Rightarrow> 'sel collected_field \<Rightarrow> 's \<Rightarrow> marshaler ret \<times> 's" where
  "Mutation_createVoyage ec c fld =
     gq_ResolveField (ec_graphql ec) c fld
       (fieldContext_Mutation_createVoyage ec)
       (\<lambda>c s. case fc_Args (gq_GetFieldContext (ec_graphql ec) c) ''input'' of
          Some (VCreateInput i) \<Rightarrow>
            (case rr_CreateVoyage (ec_Resolvers ec) s i of
               (Inl err, s) \<Rightarrow> (Fail err, s) | (Inr v, s) \<Rightarrow> (Ret (VPayload v), s))
        | _ \<Rightarrow> (Panic ''interface conversion'', s))
       (\<lambda>c sel v s. case v of
          VPayload x \<Rightarrow> marshalNCreateVoyagePayload ec c sel x s | _ \<Rightarrow> unexpected_type s)
       True True"

definition fieldContext_Mutation_updateVoyage ::
  "('c, 'sel, 's) execution_context \<Rightarrow> 'c \<Rightarrow> 'sel collected_field \<Rightarrow> 's \<Rightarrow> 'sel field_context ret \<times> 's" where
  "fieldContext_Mutation_updateVoyage ec c fld =
     context_with_args ec c
       \<lparr>fc_Object = ''Mutation'', fc_Field = fld, fc_Args = Map.empty, fc_IsMethod = True,
        fc_IsResolver = True, fc_Child = Child_Voyage\<rparr>
       (field_Mutation_updateVoyage_args (ec_graphql ec))"

definition Mutation_updateVoyage ::
  "('c, 'sel, 's) execution_context \<Rightarrow> 'c \<Rightarrow> 'sel collected_field \<Rightarrow> 's \<Rightarrow> marshaler ret \<times> 's" where
  "Mutation_updateVoyage ec c fld =
     gq_ResolveField (ec_graphql ec) c fld
       (fieldContext_Mutation_updateVoyage ec)
       (\<lambda>c s. case fc_Args (gq_GetFieldContext (ec_graphql ec) c) ''input'' of
          Some (VUpdateInput i) \<Rightarrow>
            (case rr_UpdateVoyage (ec_Resolvers ec) s i of
               (Inl err, s) \<Rightarrow> (Fail err, s) | (Inr v, s) \<Rightarrow> (Ret (VVoyage v), s))
        | _ \<Rightarrow> (Panic ''interface conversion'', s))
       (\<lambda>c sel v s. case v of VVoyage x \<Rightarrow> marshalNVoyage ec c sel x s | _ \<Rightarrow> unexpected_type s)
       True True"

definition Mutation_value ::
  "('c, 'sel, 's) execution_context \<Rightarrow> 'c \<Rightarrow> 'sel collected_field \<Rightarrow> 's \<Rightarrow> (marshaler \<times> nat) ret \<times> 's" where
  "Mutation_value ec c fld s =
     (let g = ec_graphql ec; innerCtx = gq_WithRootFieldContext g c (cf_Name fld) fld in
      if cf_Name fld = ''__typename'' then (Ret (gq_MarshalString g ''Mutation'', 0), s)
      else if cf_Name fld = ''createVoyage''
      then non_null (gq_RootResolverMiddleware g innerCtx (\<lambda>c. Mutation_createVoyage ec c fld) s)
      else if cf_Name fld = ''updateVoyage''
      then non_null (gq_RootResolverMiddleware g innerCtx (\<lambda>c. Mutation_updateVoyage ec c fld) s)
      else (Panic (''unknown field '' @ cf_Name fld), s))"

definition Mutation_object ::
  "('c, 'sel, 's) execution_context \<Rightarrow> 'c \<Rightarrow> 'sel \<Rightarrow> 's \<Rightarrow> marshaler ret \<times> 's" where
  "Mutation_object ec c sel s =
     object_result (object_fields (Mutation_value ec (gq_WithObject (ec_graphql ec) c ''Mutation''))
       (gq_CollectFields (ec_graphql ec) sel [''Mutation'']) s)"

section \<open>Query\<close>

definition fieldContext_Query_voyage ::
  "('c, 'sel, 's) execution_context \<Rightarrow> 'c \<Rightarrow> 'sel collected_field \<Rightarrow> 's \<Rightarrow> 'sel field_context ret \<times> 's" where
  "fieldContext_Query_voyage ec c fld =
     context_with_args ec c
       \<lparr>fc_Object = ''Query'', fc_Field = fld, fc_Args = Map.empty, fc_IsMethod = True,
        fc_IsResolver = True, fc_Child = Child_Voyage\<rparr>
       (field_Query_voyage_args (ec_graphql ec))"

definition Query_voyage ::
  "('c, 'sel, 's) execution_context \<Rightarrow> 'c \<Rightarrow> 'sel collected_field \<Rightarrow> 's \<Rightarrow> marshaler ret \<times> 's" where
  "Query_voyage ec c fld =
     gq_ResolveField (ec_graphql ec) c fld
       (fieldContext_Query_voyage ec)
       (\<lambda>c s. case fc_Args (gq_GetFieldContext (ec_graphql ec) c) ''clientRequestId'' of
          Some (VString i) \<Rightarrow>
            (case rr_Voyage (ec_Resolvers ec) s i of
               (Inl err, s) \<Rightarrow> (Fail err, s) | (Inr v, s) \<Rightarrow> (Ret (VVoyage v), s))
        | _ \<Rightarrow> (Panic ''interface conversion'', s))
       (\<lambda>c sel v s. case v of VVoyage x \<Rightarrow> marshalOVoyage ec c sel x s | _ \<Rightarrow> unexpected_type s)
       True False"

text \<open>The closure handed to \<open>Concurrently\<close>: it recovers a panic of its field, leaving its result
  nil, and counts a required null.\<close>

definition Query_voyage_inner ::
  "('c, 'sel, 's) execution_context \<Rightarrow> 'c \<Rightarrow> 'sel collected_field \<Rightarrow> 's \<Rightarrow> marshaler ret \<times> 's" where
  "Query_voyage_inner ec c fld s =
     (case Query_voyage ec c fld s of
        (Panic p, s) \<Rightarrow>
          (Ret NilMarshaler, gq_Error (ec_graphql ec) c (gq_Recover (ec_graphql ec) c p) s)
      | r \<Rightarrow> r)"

text \<open>The value of a field is there when the loop leaves it, or is made by \<open>Dispatch\<close>.\<close>

datatype 's slot = Ready "marshaler \<times> nat" | Delayed "'s \<Rightarrow> marshaler ret \<times> 's"

definition Query_slot ::
  "('c, 'sel, 's) execution_context \<Rightarrow> 'c \<Rightarrow> 'sel collected_field \<Rightarrow> 's \<Rightarrow> 's slot ret \<times> 's" where
  "Query_slot ec c fld s =
     (let g = ec_graphql ec; innerCtx = gq_WithRootFieldContext g c (cf_Name fld) fld;
          now = (\<lambda>(r, s). (bind_ret r (\<lambda>v. Ret (Ready v)), s)) in
      if cf_Name fld = ''__typename'' then (Ret (Ready (gq_MarshalString g ''Query'', 0)), s)
      else if cf_Name fld = ''voyage''
      then (Ret (Delayed
              (gq_RootResolverMiddleware g innerCtx (\<lambda>c. Query_voyage_inner ec c fld))), s)
      else if cf_Name fld = ''__type''
      then now (required_null (gq_RootResolverMiddleware g innerCtx (\<lambda>c. Query_type ec c fld) s))
      else if cf_Name fld = ''__schema''
      then now (required_null (gq_RootResolverMiddleware g innerCtx (\<lambda>c. Query_schema ec c fld) s))
      else (Panic (''unknown field '' @ cf_Name fld), s))"

fun query_slots ::
  "('sel collected_field \<Rightarrow> 's \<Rightarrow> 's slot ret \<times> 's) \<Rightarrow> 'sel collected_field list \<Rightarrow> 's \<Rightarrow> 's slot list ret \<times> 's" where
  "query_slots slot [] s = (Ret [], s)"
| "query_slots slot (fld # flds) s =
     (case slot fld s of
        (Ret x, s) \<Rightarrow>
          (case query_slots slot flds s of
             (Ret xs, s) \<Rightarrow> (Ret (x # xs), s)
           | (Fail e, s) \<Rightarrow> (Fail e, s)
           | (Panic p, s) \<Rightarrow> (Panic p, s))
      | (Fail e, s) \<Rightarrow> (Fail e, s)
      | (Panic p, s) \<Rightarrow> (Panic p, s))"

text \<open>\<open>Dispatch\<close>: the delayed values are made in the order of the schedule. None of them panics:
  the closures recover.\<close>

fun dispatch :: "nat list \<Rightarrow> 's slot list \<Rightarrow> 's \<Rightarrow> 's slot list ret \<times> 's" where
  "dispatch [] slots s = (Ret slots, s)"
| "dispatch (i # is) slots s =
     (case slots ! i of
        Ready v \<Rightarrow> dispatch is slots s
      | Delayed run \<Rightarrow>
          (case required_null (run s) of
             (Ret v, s) \<Rightarrow> dispatch is (slots[i := Ready v]) s
           | (Fail e, s) \<Rightarrow> (Fail e, s)
           | (Panic p, s) \<Rightarrow> (Panic p, s)))"

fun slot_value :: "'s slot \<Rightarrow> marshaler \<times> nat" where
  "slot_value (Ready v) = v"
| "slot_value (Delayed run) = (NilMarshaler, 0)"

definition Query_object ::
  "('c, 'sel, 's) execution_context \<Rightarrow> 'c \<Rightarrow> 'sel \<Rightarrow> 's \<Rightarrow> marshaler ret \<times> 's" where
  "Query_object ec c sel s =
     (let g = ec_graphql ec; flds = gq_CollectFields g sel [''Query''] in
      case query_slots (Query_slot ec (gq_WithObject g c ''Query'')) flds s of
        (Fail e, s) \<Rightarrow> (Fail e, s)
      | (Panic p, s) \<Rightarrow> (Panic p, s)
      | (Ret slots, s) \<Rightarrow>
          (case dispatch (gq_schedule g (length slots)) slots s of
             (Fail e, s) \<Rightarrow> (Fail e, s)
           | (Panic p, s) \<Rightarrow> (Panic p, s)
           | (Ret slots, s) \<Rightarrow>
               (let vs = map slot_value slots in
                (Ret (if sum_list (map snd vs) > 0 then Null
                      else FieldSet (zip (map cf_Alias flds) (map fst vs))), s))))"

section \<open>Exec\<close>

datatype operation_kind = OpQuery | OpMutation | OpSubscription

text \<open>The response handler that \<open>Exec\<close> returns is called until it answers nil. Its captured
  variable is \<open>first\<close>; the counters of deferred results are those of the execution context.\<close>

record deferred_result =
  df_Result :: marshaler
  df_Path :: "string list"
  df_Label :: string
  df_Errors :: "goerr list"

record exec_state =
  ex_first :: bool
  ex_PendingDeferred :: int
  ex_Deferred :: int
  ex_DeferredResults :: "deferred_result list"

record response =
  rsp_Data :: string
  rsp_Path :: "string list"
  rsp_Label :: string
  rsp_Errors :: "goerr list"
  rsp_HasNext :: "bool option"

definition Exec_query ::
  "('c, 'sel, 's) execution_context \<Rightarrow> 'c \<Rightarrow> 'sel \<Rightarrow> exec_state \<Rightarrow> 's \<Rightarrow>
   response option ret \<times> exec_state \<times> 's" where
  "Exec_query ec c sel h s =
     (let has_next = (\<lambda>h. if ex_Deferred h > 0 then Some (ex_PendingDeferred h > 0) else None) in
      if ex_first h
      then (let h = h\<lparr>ex_first := False\<rparr> in
            case Query_object ec c sel s of
              (Fail e, s) \<Rightarrow> (Fail e, h, s)
            | (Panic p, s) \<Rightarrow> (Panic p, h, s)
            | (Ret m, s) \<Rightarrow>
                (Ret (Some \<lparr>rsp_Data = gq_MarshalGQL (ec_graphql ec) m, rsp_Path = [],
                            rsp_Label = '''', rsp_Errors = [], rsp_HasNext = has_next h\<rparr>), h, s))
      else if ex_PendingDeferred h > 0
      then (case ex_DeferredResults h of
              [] \<Rightarrow> (Panic ''all goroutines are asleep'', h, s)
            | r # rs \<Rightarrow>
                (let h = h\<lparr>ex_PendingDeferred := ex_PendingDeferred h - 1, ex_DeferredResults := rs\<rparr> in
                 (Ret (Some \<lparr>rsp_Data = gq_MarshalGQL (ec_graphql ec) (df_Result r),
                             rsp_Path = df_Path r, rsp_Label = df_Label r, rsp_Errors = df_Errors r,
                             rsp_HasNext = has_next h\<rparr>), h, s)))
      else (Ret None, h, s))"

definition Exec_mutation ::
  "('c, 'sel, 's) execution_context \<Rightarrow> 'c \<Rightarrow> 'sel \<Rightarrow> exec_state \<Rightarrow> 's \<Rightarrow>
   response option ret \<times> exec_state \<times> 's" where
  "Exec_mutation ec c sel h s =
     (if \<not> ex_first h then (Ret None, h, s)
      else (let h = h\<lparr>ex_first := False\<rparr> in
            case Mutation_object ec c sel s of
              (Fail e, s) \<Rightarrow> (Fail e, h, s)
            | (Panic p, s) \<Rightarrow> (Panic p, h, s)
            | (Ret m, s) \<Rightarrow>
                (Ret (Some \<lparr>rsp_Data = gq_MarshalGQL (ec_graphql ec) m, rsp_Path = [],
                            rsp_Label = '''', rsp_Errors = [], rsp_HasNext = None\<rparr>), h, s)))"

text \<open>\<open>one_shot\<close> is the library's \<open>OneShot(ErrorResponse(ctx, ...))\<close>.\<close>

definition Exec ::
  "('c, 'sel, 's) execution_context \<Rightarrow> (string \<Rightarrow> exec_state \<Rightarrow> 's \<Rightarrow> response option ret \<times> exec_state \<times> 's) \<Rightarrow>
   operation_kind \<Rightarrow> 'c \<Rightarrow> 'sel \<Rightarrow> exec_state \<Rightarrow> 's \<Rightarrow> response option ret \<times> exec_state \<times> 's" where
  "Exec ec one_shot kind c sel h s =
     (case kind of
        OpQuery \<Rightarrow> Exec_query ec c sel h s
      | OpMutation \<Rightarrow> Exec_mutation ec c sel h s
      | OpSubscription \<Rightarrow> one_shot ''unsupported GraphQL operation'' h s)"

definition exec_start :: exec_state where
  "exec_start = \<lparr>ex_first = True, ex_PendingDeferred = 0, ex_Deferred = 0, ex_DeferredResults = []\<rparr>"

end
