(* ===== verification/Graphql_Run.thy ===== *)
theory Graphql_Run
  imports Graphql_Object
begin

text \<open>
  What the executor does, over any library that keeps \<open>gqlgen_ok\<close>: the input objects of the
  onboard client are read back exactly, the object of a voyage answers each selected field with
  the model's value, and an error of a resolver makes its field null.
\<close>

section \<open>The library's laws as rules\<close>

lemma gqlgen_ok_simps:
  assumes "gqlgen_ok g"
  shows "gq_UnmarshalID g (JStr t) = Inr t" "gq_UnmarshalString g (JStr t) = Inr t"
    "gq_UnmarshalInt g (int_json (sint i)) = Inr i"
    "gq_MarshalID g t = Scalar (JStr t)" "gq_MarshalString g t = Scalar (JStr t)"
    "gq_MarshalInt g i = Scalar (int_json (sint i))" "gq_MarshalBoolean g b = Scalar (JBool b)"
    "gq_GetFieldContext g (gq_WithFieldContext g c fc) = fc"
    "gq_NewScalarFieldContext g object fld m r e = Ret \<lparr>fc_Object = object, fc_Field = fld,
       fc_Args = Map.empty, fc_IsMethod = m, fc_IsResolver = r, fc_Child = Child_None e\<rparr>"
    "gq_RootResolverMiddleware g c f s = f c s"
  using assms by (simp_all add: gqlgen_ok_def scalar_laws_def context_laws_def)

lemma gqlgen_ok_arg: "gqlgen_ok g \<Longrightarrow> raw k = Some j \<Longrightarrow>
   gq_ProcessArgField g c raw k f = f (gq_WithPathContext g c k) j"
  by (simp add: gqlgen_ok_def context_laws_def)

lemma gqlgen_ok_schedule: "gqlgen_ok g \<Longrightarrow>
   distinct (gq_schedule g n) \<and> set (gq_schedule g n) = {..<n}"
  by (simp add: gqlgen_ok_def context_laws_def)

lemma resolve_value:
  assumes "gqlgen_ok g" and "init c fld s = (Ret fc, sa)"
    and "resolve (gq_WithFieldContext g c fc) sa = (Ret v, sb)" and "v \<noteq> VNil"
    and "marsh (gq_WithFieldContext g c fc) (cf_Selections fld) v sb = (Ret m, sc)"
  shows "gq_ResolveField g c fld init resolve marsh True nonnull s = (Ret m, sc)"
  using assms unfolding gqlgen_ok_def resolve_field_law_def by meson

lemma resolve_error:
  assumes "gqlgen_ok g" and "init c fld s = (Ret fc, sa)"
    and "resolve (gq_WithFieldContext g c fc) sa = (Fail e, sb)"
  shows "gq_ResolveField g c fld init resolve marsh True nonnull s =
    (Ret Null, gq_Error g (gq_WithFieldContext g c fc) e sb)"
  using assms unfolding gqlgen_ok_def resolve_field_law_def by meson

lemma resolve_panic:
  assumes "gqlgen_ok g" and "init c fld s = (Ret fc, sa)"
    and "resolve (gq_WithFieldContext g c fc) sa = (Panic p, sb)"
  shows "gq_ResolveField g c fld init resolve marsh True nonnull s =
    (Ret Null, gq_Error g (gq_WithFieldContext g c fc) (gq_Recover g (gq_WithFieldContext g c fc) p) sb)"
  using assms unfolding gqlgen_ok_def resolve_field_law_def by meson

lemma slice_marshalled:
  assumes "gqlgen_ok g"
    and "\<forall>i < n. \<forall>s. \<exists>m s'. f (gq_WithIndex g c i) i s = (Ret m, s') \<and> P i m"
  shows "\<exists>ms s'. gq_MarshalSlice g c n f s = (Ret ms, s') \<and> length ms = n \<and> (\<forall>i < n. P i (ms ! i))"
  using assms unfolding gqlgen_ok_def slice_law_def by blast

lemma resolve_no_context:
  assumes "gqlgen_ok g" and "init c fld s = (Fail e, sa)"
  shows "gq_ResolveField g c fld init resolve marsh True nonnull s = (Ret Null, sa)"
  using assms unfolding gqlgen_ok_def resolve_field_law_def by meson

section \<open>Inputs\<close>

definition create_input_json :: "create_voyage_input \<Rightarrow> (string \<times> json) list" where
  "create_input_json i =
     [(''clientRequestId'', JStr (cvi_ClientRequestID i)), (''dest'', JStr (cvi_Dest i)),
      (''distanceNm'', int_json (sint (cvi_DistanceNm i))),
      (''feesMinor'', int_json (sint (cvi_FeesMinor i))), (''origin'', JStr (cvi_Origin i))]"

definition update_input_json :: "update_voyage_input \<Rightarrow> (string \<times> json) list" where
  "update_input_json i =
     [(''clientRequestId'', JStr (uvi_ClientRequestID i)), (''dest'', JStr (uvi_Dest i)),
      (''distanceNm'', int_json (sint (uvi_DistanceNm i))),
      (''feesMinor'', int_json (sint (uvi_FeesMinor i))), (''origin'', JStr (uvi_Origin i)),
      (''version'', int_json (sint (uvi_Version i)))]"

lemma unmarshal_create_input:
  assumes "gqlgen_ok g"
  shows "unmarshalNCreateVoyageInput g c (JObj (create_input_json i)) = Ret i"
  by (cases i) (simp add: unmarshalNCreateVoyageInput_def unmarshalInputCreateVoyageInput_def
      create_input_json_def map_entry_def zero_create_input_def unmarshalNID2string_def
      unmarshalNString2string_def unmarshalNInt2int_def Let_def gqlgen_ok_simps [OF assms])

lemma unmarshal_update_input:
  assumes "gqlgen_ok g"
  shows "unmarshalNUpdateVoyageInput g c (JObj (update_input_json i)) = Ret i"
  by (cases i) (simp add: unmarshalNUpdateVoyageInput_def unmarshalInputUpdateVoyageInput_def
      update_input_json_def map_entry_def zero_update_input_def unmarshalNID2string_def
      unmarshalNString2string_def unmarshalNInt2int_def Let_def gqlgen_ok_simps [OF assms])

section \<open>Objects\<close>

lemma object_fields_pure:
  assumes "\<And>fld. fld \<in> set flds \<Longrightarrow> value fld s = (Ret (m fld, 0), s)"
  shows "object_fields value flds s = (Ret (map (\<lambda>fld. (cf_Alias fld, m fld)) flds, 0), s)"
  using assms by (induction flds) simp_all

text \<open>The answer of a voyage's scalar fields.\<close>

definition voyage_field :: "model_voyage \<Rightarrow> string \<rightharpoonup> json" where
  "voyage_field v = map_of
     [(''__typename'', JStr ''Voyage''), (''clientRequestId'', JStr (mv_ClientRequestID v)),
      (''origin'', JStr (mv_Origin v)), (''dest'', JStr (mv_Dest v)),
      (''distanceNm'', int_json (sint (mv_DistanceNm v))),
      (''feesMinor'', int_json (sint (mv_FeesMinor v))),
      (''version'', int_json (sint (mv_Version v))),
      (''estimateMinor'', int_json (sint (mv_EstimateMinor v)))]"

definition voyage_answer :: "model_voyage \<Rightarrow> 'sel collected_field list \<Rightarrow> (string \<times> marshaler) list" where
  "voyage_answer v flds =
     map (\<lambda>fld. (cf_Alias fld, Scalar (the (voyage_field v (cf_Name fld))))) flds"

lemma non_null_Scalar [simp]: "non_null (Ret (Scalar j), s) = (Ret (Scalar j, 0), s)"
  by (simp add: non_null_def)

lemma resolve_scalar:
  assumes "gqlgen_ok g" and "v \<noteq> VNil" and "ctx fld = Ret fc"
    and "\<And>c. marsh c (cf_Selections fld) v s = (Ret m, s)"
  shows "gq_ResolveField g c fld (\<lambda>c fld s. (ctx fld, s)) (\<lambda>c s. (Ret v, s)) marsh True nonnull s =
    (Ret m, s)"
  by (rule resolve_value [OF assms(1)]) (use assms in simp_all)

lemmas context_defs = fieldContext_Voyage_clientRequestId_def fieldContext_Voyage_origin_def
  fieldContext_Voyage_dest_def fieldContext_Voyage_distanceNm_def
  fieldContext_Voyage_feesMinor_def fieldContext_Voyage_version_def
  fieldContext_Voyage_estimateMinor_def fieldContext_CreateVoyagePayload_estimatePending_def
  fieldContext_CreateVoyagePayload_provisionalEstimateMinor_def
  fieldContext_CreateVoyagePayload_voyage_def

lemmas scalar_marshal_defs = marshalNID2string_def marshalNString2string_def marshalNInt2int_def
  marshalNBoolean2bool_def

lemma voyage_scalar:
  assumes "gqlgen_ok (ec_graphql ec)"
  shows "Voyage_clientRequestId ec c fld v s = (Ret (Scalar (JStr (mv_ClientRequestID v))), s)"
    "Voyage_origin ec c fld v s = (Ret (Scalar (JStr (mv_Origin v))), s)"
    "Voyage_dest ec c fld v s = (Ret (Scalar (JStr (mv_Dest v))), s)"
    "Voyage_distanceNm ec c fld v s = (Ret (Scalar (int_json (sint (mv_DistanceNm v)))), s)"
    "Voyage_feesMinor ec c fld v s = (Ret (Scalar (int_json (sint (mv_FeesMinor v)))), s)"
    "Voyage_version ec c fld v s = (Ret (Scalar (int_json (sint (mv_Version v)))), s)"
    "Voyage_estimateMinor ec c fld v s = (Ret (Scalar (int_json (sint (mv_EstimateMinor v)))), s)"
  unfolding Voyage_clientRequestId_def Voyage_origin_def Voyage_dest_def Voyage_distanceNm_def
    Voyage_feesMinor_def Voyage_version_def Voyage_estimateMinor_def context_defs
    gqlgen_ok_simps [OF assms]
  by (rule resolve_scalar [OF assms _ refl];
      simp add: scalar_marshal_defs Let_def gqlgen_ok_simps [OF assms])+

lemma Voyage_value_field:
  assumes "gqlgen_ok (ec_graphql ec)" and "voyage_field v (cf_Name fld) = Some j"
  shows "Voyage_value ec c v fld s = (Ret (Scalar j, 0), s)"
  using assms(2)
  by (auto simp: Voyage_value_def voyage_field_def voyage_scalar [OF assms(1)]
      gqlgen_ok_simps [OF assms(1)] split: if_splits)

lemma Voyage_object_answer:
  assumes "gqlgen_ok (ec_graphql ec)"
    and "\<forall>fld \<in> set (gq_CollectFields (ec_graphql ec) sel [''Voyage'']).
      cf_Name fld \<in> dom (voyage_field v)"
  shows "Voyage_object ec c sel v s =
    (Ret (FieldSet (voyage_answer v (gq_CollectFields (ec_graphql ec) sel [''Voyage'']))), s)"
proof -
  have "Voyage_value ec c v fld s = (Ret (Scalar (the (voyage_field v (cf_Name fld))), 0), s)"
    if "fld \<in> set (gq_CollectFields (ec_graphql ec) sel [''Voyage''])" for fld
    using assms(2) that Voyage_value_field [OF assms(1)] by auto
  then have "object_fields (Voyage_value ec c v) (gq_CollectFields (ec_graphql ec) sel [''Voyage'']) s =
    (Ret (voyage_answer v (gq_CollectFields (ec_graphql ec) sel [''Voyage'']), 0), s)"
    unfolding voyage_answer_def by (rule object_fields_pure)
  then show ?thesis
    by (simp add: Voyage_object_def object_result_def)
qed

text \<open>The selections below a field that answers a voyage are fields of \<open>Voyage\<close>.\<close>

definition voyage_selection :: "('c, 'sel, 's) gqlgen \<Rightarrow> 'sel \<Rightarrow> bool" where
  "voyage_selection g sel \<longleftrightarrow>
     (\<forall>fld \<in> set (gq_CollectFields g sel [''Voyage'']).
        cf_Name fld \<in> set [''__typename'', ''clientRequestId'', ''origin'', ''dest'', ''distanceNm'',
          ''feesMinor'', ''version'', ''estimateMinor''])"

definition voyage_fields :: "('c, 'sel, 's) gqlgen \<Rightarrow> 'sel \<Rightarrow> model_voyage \<Rightarrow> marshaler" where
  "voyage_fields g sel v = FieldSet (voyage_answer v (gq_CollectFields g sel [''Voyage'']))"

lemma Voyage_object_fields:
  assumes "gqlgen_ok (ec_graphql ec)" and "voyage_selection (ec_graphql ec) sel"
  shows "Voyage_object ec c sel v s = (Ret (voyage_fields (ec_graphql ec) sel v), s)"
  unfolding voyage_fields_def
  by (rule Voyage_object_answer [OF assms(1)])
    (use assms(2) in \<open>force simp: voyage_selection_def voyage_field_def\<close>)

lemma marshal_voyage:
  assumes "gqlgen_ok (ec_graphql ec)" and "voyage_selection (ec_graphql ec) sel"
  shows "marshalNVoyage ec c sel (Some v) s = (Ret (voyage_fields (ec_graphql ec) sel v), s)"
    "marshalOVoyage ec c sel (Some v) s = (Ret (voyage_fields (ec_graphql ec) sel v), s)"
    "marshalOVoyage ec c sel None s = (Ret Null, s)"
  by (simp_all add: marshalNVoyage_def marshalOVoyage_def Voyage_object_fields [OF assms])

section \<open>The payload\<close>

definition payload_field ::
  "('c, 'sel, 's) gqlgen \<Rightarrow> model_voyage \<Rightarrow> int64 \<Rightarrow> bool \<Rightarrow> 'sel collected_field \<Rightarrow> marshaler" where
  "payload_field g v quote pending fld =
     (if cf_Name fld = ''__typename'' then Scalar (JStr ''CreateVoyagePayload'')
      else if cf_Name fld = ''voyage'' then voyage_fields g (cf_Selections fld) v
      else if cf_Name fld = ''provisionalEstimateMinor'' then Scalar (int_json (sint quote))
      else Scalar (JBool pending))"

definition payload_selection :: "('c, 'sel, 's) gqlgen \<Rightarrow> 'sel \<Rightarrow> bool" where
  "payload_selection g sel \<longleftrightarrow>
     (\<forall>fld \<in> set (gq_CollectFields g sel [''CreateVoyagePayload'']).
        cf_Name fld \<in> set [''__typename'', ''voyage'', ''provisionalEstimateMinor'', ''estimatePending''] \<and>
        (cf_Name fld = ''voyage'' \<longrightarrow> voyage_selection g (cf_Selections fld)))"

definition payload_fields ::
  "('c, 'sel, 's) gqlgen \<Rightarrow> 'sel \<Rightarrow> model_voyage \<Rightarrow> int64 \<Rightarrow> bool \<Rightarrow> marshaler" where
  "payload_fields g sel v quote pending =
     FieldSet (map (\<lambda>fld. (cf_Alias fld, payload_field g v quote pending fld))
       (gq_CollectFields g sel [''CreateVoyagePayload'']))"

lemma payload_scalar:
  assumes "gqlgen_ok (ec_graphql ec)"
  shows "CreateVoyagePayload_provisionalEstimateMinor ec c fld p s =
      (Ret (Scalar (int_json (sint (cvp_ProvisionalEstimateMinor p)))), s)"
    "CreateVoyagePayload_estimatePending ec c fld p s = (Ret (Scalar (JBool (cvp_EstimatePending p))), s)"
  unfolding CreateVoyagePayload_provisionalEstimateMinor_def CreateVoyagePayload_estimatePending_def
    context_defs gqlgen_ok_simps [OF assms]
  by (rule resolve_scalar [OF assms _ refl];
      simp add: scalar_marshal_defs Let_def gqlgen_ok_simps [OF assms])+

lemma payload_voyage:
  assumes "gqlgen_ok (ec_graphql ec)" and "voyage_selection (ec_graphql ec) (cf_Selections fld)"
    and "cvp_Voyage p = Some v"
  shows "CreateVoyagePayload_voyage ec c fld p s =
    (Ret (voyage_fields (ec_graphql ec) (cf_Selections fld) v), s)"
  unfolding CreateVoyagePayload_voyage_def context_defs
  by (rule resolve_scalar [OF assms(1) _ refl])
    (simp_all add: assms(3) marshal_voyage [OF assms(1,2)])

lemma CreateVoyagePayload_fields:
  assumes "gqlgen_ok (ec_graphql ec)" and "payload_selection (ec_graphql ec) sel"
    and "p = \<lparr>cvp_Voyage = Some v, cvp_ProvisionalEstimateMinor = quote, cvp_EstimatePending = pending\<rparr>"
  shows "CreateVoyagePayload_object ec c sel p s =
    (Ret (payload_fields (ec_graphql ec) sel v quote pending), s)"
proof -
  let ?flds = "gq_CollectFields (ec_graphql ec) sel [''CreateVoyagePayload'']"
  have "CreateVoyagePayload_value ec c p fld s =
      (Ret (payload_field (ec_graphql ec) v quote pending fld, 0), s)"
    if "fld \<in> set ?flds" for fld
  proof -
    have name: "cf_Name fld \<in> set [''__typename'', ''voyage'', ''provisionalEstimateMinor'', ''estimatePending'']"
      and sel: "cf_Name fld = ''voyage'' \<longrightarrow> voyage_selection (ec_graphql ec) (cf_Selections fld)"
      using assms(2) that unfolding payload_selection_def by blast+
    have "CreateVoyagePayload_voyage ec c fld p s =
        (Ret (voyage_fields (ec_graphql ec) (cf_Selections fld) v), s)" if "cf_Name fld = ''voyage''"
      using that sel by (intro payload_voyage [OF assms(1)]) (simp_all add: assms(3))
    then show ?thesis
      using name by (auto simp: CreateVoyagePayload_value_def payload_field_def non_null_def
          payload_scalar [OF assms(1)] gqlgen_ok_simps [OF assms(1)] voyage_fields_def assms(3))
  qed
  then have "object_fields (CreateVoyagePayload_value ec c p) ?flds s =
      (Ret (map (\<lambda>fld. (cf_Alias fld, payload_field (ec_graphql ec) v quote pending fld)) ?flds, 0), s)"
    by (rule object_fields_pure)
  then show ?thesis
    by (simp add: CreateVoyagePayload_object_def object_result_def payload_fields_def)
qed

end
