(* ===== verification/Graphql_Transport.thy ===== *)
theory Graphql_Transport
  imports Operation_Json
begin

text \<open>
  The onboard client's transport (\<open>clients/onboard-sync/adapters/graphqltransport/transport.go\<close>):
  it posts an operation's mutation with its variables and reads the answer. The network is
  the environment: \<open>tr_do\<close> is \<open>http.Client.Do\<close> under the request's deadline together with
  the reading of the body, and \<open>tr_url_error\<close> is the verdict of \<open>http.NewRequest\<close> on the URL.
\<close>

section \<open>Requests\<close>

record http_request =
  rq_URL :: string
  rq_ContentType :: string
  rq_Body :: string

record http_response =
  rs_StatusCode :: int
  rs_Body :: "goerr + string"

record 'w transport =
  tr_url :: string
  tr_url_error :: "goerr option"
  tr_do :: "'w \<Rightarrow> http_request \<Rightarrow> (goerr + http_response) \<times> 'w"

text \<open>The embedded documents of \<open>clients/onboard-sync/graphql\<close>.\<close>

definition text_lines :: "string list \<Rightarrow> string" where
  "text_lines ls = concat (map (\<lambda>l. l @ [CHR 0x0A]) ls)"

definition CreateVoyage_graphql :: string where
  "CreateVoyage_graphql = text_lines
     [''mutation CreateVoyage($input: CreateVoyageInput!) {'',
      ''  createVoyage(input: $input) {'',
      ''    voyage {'',
      ''      clientRequestId'',
      ''      origin'',
      ''      dest'',
      ''      version'',
      ''      estimateMinor'',
      ''    }'',
      ''    provisionalEstimateMinor'',
      ''    estimatePending'',
      ''  }'',
      ''}'']"

definition UpdateVoyage_graphql :: string where
  "UpdateVoyage_graphql = text_lines
     [''mutation UpdateVoyage($input: UpdateVoyageInput!) {'',
      ''  updateVoyage(input: $input) {'',
      ''    clientRequestId'',
      ''    version'',
      ''    estimateMinor'',
      ''  }'',
      ''}'']"

definition query :: "operation \<Rightarrow> string" where
  "query op = (if op_Kind op = KindUpdate then UpdateVoyage_graphql else CreateVoyage_graphql)"

text \<open>A Go map is marshalled with its keys in order.\<close>

definition variables :: "operation \<Rightarrow> json" where
  "variables op = JObj [(''input'', JObj
     ([(''clientRequestId'', JStr (op_ClientRequestID op)), (''dest'', JStr (op_Dest op)),
       (''distanceNm'', int_json (sint (op_DistanceNm op))),
       (''feesMinor'', int_json (sint (op_FeesMinor op))), (''origin'', JStr (op_Origin op))] @
      (if op_Kind op = KindUpdate then [(''version'', int_json (sint (op_Version op)))] else [])))]"

definition request_json :: "operation \<Rightarrow> json" where
  "request_json op = JObj [(''query'', JStr (query op)), (''variables'', variables op)]"

section \<open>Answers\<close>

text \<open>Decoding into \<open>graphqlResponse\<close>: the messages of \<open>errors\<close>; \<open>None\<close> for a wrong type.\<close>

fun error_message :: "string \<Rightarrow> (string \<times> json) list \<Rightarrow> string option" where
  "error_message old [] = Some old"
| "error_message old ((k, j) # ms) =
     (if map lower k = ''message''
      then (case string_field j old of None \<Rightarrow> None | Some s \<Rightarrow> error_message s ms)
      else error_message old ms)"

fun error_entries :: "json list \<Rightarrow> string list option" where
  "error_entries [] = Some []"
| "error_entries (j # js) =
     (case (case j of JNull \<Rightarrow> Some '''' | JObj ms \<Rightarrow> error_message '''' ms | _ \<Rightarrow> None) of
        None \<Rightarrow> None
      | Some s \<Rightarrow> map_option (\<lambda>ss. s # ss) (error_entries js))"

fun response_errors :: "string list \<Rightarrow> (string \<times> json) list \<Rightarrow> string list option" where
  "response_errors old [] = Some old"
| "response_errors old ((k, j) # ms) =
     (if map lower k = ''errors''
      then (case (case j of JNull \<Rightarrow> Some [] | JArr js \<Rightarrow> error_entries js | _ \<Rightarrow> None) of
              None \<Rightarrow> None
            | Some es \<Rightarrow> response_errors es ms)
      else response_errors old ms)"

definition decode_response :: "string \<Rightarrow> goerr + string list" where
  "decode_response payload =
     (case parse_json payload of
        None \<Rightarrow> Inl ErrJson
      | Some JNull \<Rightarrow> Inr []
      | Some (JObj ms) \<Rightarrow>
          (case response_errors [] ms of None \<Rightarrow> Inl ErrJson | Some es \<Rightarrow> Inr es)
      | Some _ \<Rightarrow> Inl ErrJson)"

section \<open>Send\<close>

definition Transport_Send :: "'w transport \<Rightarrow> 'w \<Rightarrow> operation \<Rightarrow> goerr option \<times> 'w" where
  "Transport_Send t w op =
     (let body = render (request_json op); cid = op_ClientRequestID op in
      case tr_url_error t of
        Some err \<Rightarrow> (Some (Errorf (sprintf [''transport request '', cid]) err), w)
      | None \<Rightarrow>
        (case tr_do t w \<lparr>rq_URL = tr_url t, rq_ContentType = ''application/json'', rq_Body = body\<rparr> of
           (Inl err, w) \<Rightarrow> (Some (Errorf (sprintf [''transport send '', cid]) err), w)
         | (Inr resp, w) \<Rightarrow>
           (case rs_Body resp of
              Inl err \<Rightarrow> (Some (Errorf (sprintf [''transport read '', cid]) err), w)
            | Inr payload \<Rightarrow>
              (if rs_StatusCode resp \<noteq> 200
               then (Some (ErrorsNew (sprintf [''transport '', cid, '': status '',
                       int_text (rs_StatusCode resp), '': '', payload])), w)
               else
                 (case decode_response payload of
                    Inl err \<Rightarrow> (Some (Errorf (sprintf [''transport decode '', cid]) err), w)
                  | Inr [] \<Rightarrow> (None, w)
                  | Inr (e # es) \<Rightarrow>
                      (Some (ErrorsNew (sprintf [''transport '', cid, '': graphql error: '', e])), w))))))"

text \<open>An acknowledgement is a clean answer, and nothing else.\<close>

lemma Transport_Send_ack_iff:
  "Transport_Send t w op = (None, w') \<longleftrightarrow>
     tr_url_error t = None \<and>
     (\<exists>resp payload. tr_do t w \<lparr>rq_URL = tr_url t, rq_ContentType = ''application/json'',
          rq_Body = render (request_json op)\<rparr> = (Inr resp, w') \<and>
        rs_StatusCode resp = 200 \<and> rs_Body resp = Inr payload \<and> decode_response payload = Inr [])"
  by (auto simp: Transport_Send_def Let_def split: option.splits prod.splits sum.splits list.splits)

text \<open>What the server reads back from the request body.\<close>

lemma int_json_ok [simp]: "json_ok (int_json i)"
  by (auto simp: int_json_def)

lemma request_json_ok: "op_utf8 op \<Longrightarrow> json_ok (request_json op)"
proof -
  assume op: "op_utf8 op"
  have ascii: "utf8_ok ''query'' \<and> utf8_ok ''variables'' \<and> utf8_ok ''input'' \<and>
    utf8_ok ''clientRequestId'' \<and> utf8_ok ''dest'' \<and> utf8_ok ''distanceNm'' \<and>
    utf8_ok ''feesMinor'' \<and> utf8_ok ''origin'' \<and> utf8_ok ''version''"
    by (intro conjI; rule utf8_ok_ascii; simp add: code_def)
  have "list_all (\<lambda>c. code c < 128) (query op)"
    by (simp add: query_def UpdateVoyage_graphql_def CreateVoyage_graphql_def text_lines_def code_def)
  then have "utf8_ok (query op)"
    by (rule utf8_ok_ascii)
  with op ascii show ?thesis
    by (simp add: request_json_def variables_def op_utf8_def del: json_ok.simps(1))
qed

lemma request_parses: "op_utf8 op \<Longrightarrow> parse_json (render (request_json op)) = Some (request_json op)"
  by (rule parse_render) (rule request_json_ok)

end
