(* ===== verification/Graphql_Gateway.thy ===== *)
theory Graphql_Gateway
  imports Graphql_Run Graphql_Transport
begin

text \<open>
  The executor over the gateway's resolvers (\<open>gateway/graph/resolver.go\<close> and the wiring at the
  end of \<open>schema.resolvers.go\<close>): what one root field does to the world and answers, and how the
  requests of the onboard client reach the voyage server. The state is the world the voyage
  client acts on, paired with the errors reported so far.
\<close>

section \<open>The resolver root\<close>

definition gateway_resolvers :: "'w voyage_client \<Rightarrow> ('w \<times> 'e) resolver_root" where
  "gateway_resolvers client =
     \<lparr>rr_CreateVoyage = (\<lambda>(w, e) i. case Resolver_CreateVoyage client w i of
        (r, w) \<Rightarrow> (map_sum id Some r, w, e)),
      rr_UpdateVoyage = (\<lambda>(w, e) i. case Resolver_UpdateVoyage client w i of
        (r, w) \<Rightarrow> (map_sum id Some r, w, e)),
      rr_Voyage = (\<lambda>(w, e) cid. case Resolver_Voyage client w cid of (r, w) \<Rightarrow> (r, w, e))\<rparr>"

section \<open>Root fields\<close>

lemma create_args:
  assumes "gqlgen_ok g" and "raw ''input'' = Some (JObj (create_input_json i))"
  shows "field_Mutation_createVoyage_args g c raw = Ret [''input'' \<mapsto> VCreateInput i]"
  by (simp add: field_Mutation_createVoyage_args_def gqlgen_ok_arg [where raw = raw, OF assms]
      unmarshal_create_input [OF assms(1)])

lemma update_args:
  assumes "gqlgen_ok g" and "raw ''input'' = Some (JObj (update_input_json i))"
  shows "field_Mutation_updateVoyage_args g c raw = Ret [''input'' \<mapsto> VUpdateInput i]"
  by (simp add: field_Mutation_updateVoyage_args_def gqlgen_ok_arg [where raw = raw, OF assms]
      unmarshal_update_input [OF assms(1)])

lemma query_args:
  assumes "gqlgen_ok g" and "raw ''clientRequestId'' = Some (JStr cid)"
  shows "field_Query_voyage_args g c raw = Ret [''clientRequestId'' \<mapsto> VString cid]"
  by (simp add: field_Query_voyage_args_def gqlgen_ok_arg [where raw = raw, OF assms] unmarshalNID2string_def
      gqlgen_ok_simps [OF assms(1)])

text \<open>The context of a root field whose arguments were unmarshalled to \<open>a\<close>.\<close>

lemma context_with_args_Ret:
  assumes "\<And>c. args c (gq_ArgumentMap (ec_graphql ec) (fc_Field fc) (ec_Variables ec)) = Ret a"
    and "fc_Args fc = Map.empty"
  shows "context_with_args ec c fc args s = (Ret (fc\<lparr>fc_Args := a\<rparr>), s)"
  by (simp add: context_with_args_def Let_def assms)

lemma create_context:
  assumes "gqlgen_ok (ec_graphql ec)"
    and "gq_ArgumentMap (ec_graphql ec) fld (ec_Variables ec) ''input'' =
      Some (JObj (create_input_json i))"
  obtains fc where "fieldContext_Mutation_createVoyage ec c fld s = (Ret fc, s)"
    and "fc_Args fc ''input'' = Some (VCreateInput i)"
  by (rule that, unfold fieldContext_Mutation_createVoyage_def, 
      rule context_with_args_Ret [where a = "[''input'' \<mapsto> VCreateInput i]"])
    (simp_all add: create_args [OF assms(1)] assms(2))

lemma update_context:
  assumes "gqlgen_ok (ec_graphql ec)"
    and "gq_ArgumentMap (ec_graphql ec) fld (ec_Variables ec) ''input'' =
      Some (JObj (update_input_json i))"
  obtains fc where "fieldContext_Mutation_updateVoyage ec c fld s = (Ret fc, s)"
    and "fc_Args fc ''input'' = Some (VUpdateInput i)"
  by (rule that, unfold fieldContext_Mutation_updateVoyage_def, 
      rule context_with_args_Ret [where a = "[''input'' \<mapsto> VUpdateInput i]"])
    (simp_all add: update_args [OF assms(1)] assms(2))

lemma query_context:
  assumes "gqlgen_ok (ec_graphql ec)"
    and "gq_ArgumentMap (ec_graphql ec) fld (ec_Variables ec) ''clientRequestId'' = Some (JStr cid)"
  obtains fc where "fieldContext_Query_voyage ec c fld s = (Ret fc, s)"
    and "fc_Args fc ''clientRequestId'' = Some (VString cid)"
  by (rule that, unfold fieldContext_Query_voyage_def, 
      rule context_with_args_Ret [where a = "[''clientRequestId'' \<mapsto> VString cid]"])
    (simp_all add: query_args [OF assms(1)] assms(2))

lemma Mutation_createVoyage_error:
  assumes ok: "gqlgen_ok (ec_graphql ec)"
    and arg: "gq_ArgumentMap (ec_graphql ec) fld (ec_Variables ec) ''input'' =
      Some (JObj (create_input_json i))"
    and res: "rr_CreateVoyage (ec_Resolvers ec) s i = (Inl err, s')"
  shows "\<exists>c'. Mutation_createVoyage ec c fld s = (Ret Null, gq_Error (ec_graphql ec) c' err s')"
proof -
  obtain fc where init: "fieldContext_Mutation_createVoyage ec c fld s = (Ret fc, s)"
    and args: "fc_Args fc ''input'' = Some (VCreateInput i)"
    by (rule create_context [OF ok arg])
  show ?thesis
    unfolding Mutation_createVoyage_def
    by (intro exI, rule resolve_error [OF ok], rule init) (simp add: gqlgen_ok_simps [OF ok] args res)
qed

lemma Mutation_createVoyage_value:
  assumes ok: "gqlgen_ok (ec_graphql ec)"
    and arg: "gq_ArgumentMap (ec_graphql ec) fld (ec_Variables ec) ''input'' =
      Some (JObj (create_input_json i))"
    and res: "rr_CreateVoyage (ec_Resolvers ec) s i = (Inr (Some \<lparr>cvp_Voyage = Some v,
      cvp_ProvisionalEstimateMinor = quote, cvp_EstimatePending = pending\<rparr>), s')"
    and sel: "payload_selection (ec_graphql ec) (cf_Selections fld)"
  shows "Mutation_createVoyage ec c fld s =
    (Ret (payload_fields (ec_graphql ec) (cf_Selections fld) v quote pending), s')"
proof -
  obtain fc where init: "fieldContext_Mutation_createVoyage ec c fld s = (Ret fc, s)"
    and args: "fc_Args fc ''input'' = Some (VCreateInput i)"
    by (rule create_context [OF ok arg])
  show ?thesis
    unfolding Mutation_createVoyage_def
    by (rule resolve_value [OF ok, where sb = s'], rule init,
      (simp add: gqlgen_ok_simps [OF ok] args res marshalNCreateVoyagePayload_def
        CreateVoyagePayload_fields [OF ok sel refl])+)
qed

lemma Mutation_updateVoyage_error:
  assumes ok: "gqlgen_ok (ec_graphql ec)"
    and arg: "gq_ArgumentMap (ec_graphql ec) fld (ec_Variables ec) ''input'' =
      Some (JObj (update_input_json i))"
    and res: "rr_UpdateVoyage (ec_Resolvers ec) s i = (Inl err, s')"
  shows "\<exists>c'. Mutation_updateVoyage ec c fld s = (Ret Null, gq_Error (ec_graphql ec) c' err s')"
proof -
  obtain fc where init: "fieldContext_Mutation_updateVoyage ec c fld s = (Ret fc, s)"
    and args: "fc_Args fc ''input'' = Some (VUpdateInput i)"
    by (rule update_context [OF ok arg])
  show ?thesis
    unfolding Mutation_updateVoyage_def
    by (intro exI, rule resolve_error [OF ok], rule init) (simp add: gqlgen_ok_simps [OF ok] args res)
qed

lemma Mutation_updateVoyage_value:
  assumes ok: "gqlgen_ok (ec_graphql ec)"
    and arg: "gq_ArgumentMap (ec_graphql ec) fld (ec_Variables ec) ''input'' =
      Some (JObj (update_input_json i))"
    and res: "rr_UpdateVoyage (ec_Resolvers ec) s i = (Inr (Some v), s')"
    and sel: "voyage_selection (ec_graphql ec) (cf_Selections fld)"
  shows "Mutation_updateVoyage ec c fld s =
    (Ret (voyage_fields (ec_graphql ec) (cf_Selections fld) v), s')"
proof -
  obtain fc where init: "fieldContext_Mutation_updateVoyage ec c fld s = (Ret fc, s)"
    and args: "fc_Args fc ''input'' = Some (VUpdateInput i)"
    by (rule update_context [OF ok arg])
  show ?thesis
    unfolding Mutation_updateVoyage_def
    by (rule resolve_value [OF ok, where sb = s'], rule init,
      (simp add: gqlgen_ok_simps [OF ok] args res marshal_voyage [OF ok sel])+)
qed

lemma Query_voyage_error:
  assumes ok: "gqlgen_ok (ec_graphql ec)"
    and arg: "gq_ArgumentMap (ec_graphql ec) fld (ec_Variables ec) ''clientRequestId'' = Some (JStr cid)"
    and res: "rr_Voyage (ec_Resolvers ec) s cid = (Inl err, s')"
  shows "\<exists>c'. Query_voyage ec c fld s = (Ret Null, gq_Error (ec_graphql ec) c' err s')"
proof -
  obtain fc where init: "fieldContext_Query_voyage ec c fld s = (Ret fc, s)"
    and args: "fc_Args fc ''clientRequestId'' = Some (VString cid)"
    by (rule query_context [OF ok arg])
  show ?thesis
    unfolding Query_voyage_def
    by (intro exI, rule resolve_error [OF ok], rule init) (simp add: gqlgen_ok_simps [OF ok] args res)
qed

definition voyage_or_null :: "('c, 'sel, 's) gqlgen \<Rightarrow> 'sel \<Rightarrow> model_voyage option \<Rightarrow> marshaler" where
  "voyage_or_null g sel v = (case v of None \<Rightarrow> Null | Some v \<Rightarrow> voyage_fields g sel v)"

lemma Query_voyage_value:
  assumes ok: "gqlgen_ok (ec_graphql ec)"
    and arg: "gq_ArgumentMap (ec_graphql ec) fld (ec_Variables ec) ''clientRequestId'' = Some (JStr cid)"
    and res: "rr_Voyage (ec_Resolvers ec) s cid = (Inr v, s')"
    and sel: "voyage_selection (ec_graphql ec) (cf_Selections fld)"
  shows "Query_voyage ec c fld s = (Ret (voyage_or_null (ec_graphql ec) (cf_Selections fld) v), s')"
proof -
  obtain fc where init: "fieldContext_Query_voyage ec c fld s = (Ret fc, s)"
    and args: "fc_Args fc ''clientRequestId'' = Some (VString cid)"
    by (rule query_context [OF ok arg])
  show ?thesis
    unfolding Query_voyage_def
    by (rule resolve_value [OF ok, where sb = s'], rule init,
      (simp add: gqlgen_ok_simps [OF ok] args res)+,
      cases v, simp_all add: voyage_or_null_def marshal_voyage [OF ok sel])
qed

section \<open>Mutations\<close>

lemma non_null_simps [simp]:
  "non_null (Ret Null, s) = (Ret (Null, 1), s)"
  "non_null (Ret (FieldSet kvs), s) = (Ret (FieldSet kvs, 0), s)"
  by (simp_all add: non_null_def)

lemma Mutation_object_one:
  assumes "gqlgen_ok (ec_graphql ec)"
    and "gq_CollectFields (ec_graphql ec) sel [''Mutation''] = [fld]"
    and "\<And>c. Mutation_value ec c fld s =
      non_null ((if cf_Name fld = ''createVoyage'' then Mutation_createVoyage ec else Mutation_updateVoyage ec)
        (gq_WithRootFieldContext (ec_graphql ec) c (cf_Name fld) fld) fld s)"
  shows "\<exists>c'. Mutation_object ec c sel s =
    object_result (case non_null ((if cf_Name fld = ''createVoyage'' then Mutation_createVoyage ec
        else Mutation_updateVoyage ec) c' fld s) of
      (Ret (m, n), s) \<Rightarrow> (Ret ([(cf_Alias fld, m)], n), s)
    | (Fail e, s) \<Rightarrow> (Fail e, s) | (Panic p, s) \<Rightarrow> (Panic p, s))"
  unfolding Mutation_object_def assms(2) object_fields.simps assms(3)
  by (intro exI [of _ "gq_WithRootFieldContext (ec_graphql ec)
      (gq_WithObject (ec_graphql ec) c ''Mutation'') (cf_Name fld) fld"])
    (auto split: prod.splits ret.splits intro!: arg_cong [where f = object_result])

lemma Mutation_value_root:
  assumes "gqlgen_ok (ec_graphql ec)" and "cf_Name fld \<in> set [''createVoyage'', ''updateVoyage'']"
  shows "Mutation_value ec c fld s =
    non_null ((if cf_Name fld = ''createVoyage'' then Mutation_createVoyage ec else Mutation_updateVoyage ec)
      (gq_WithRootFieldContext (ec_graphql ec) c (cf_Name fld) fld) fld s)"
  using assms(2) by (auto simp: Mutation_value_def Let_def gqlgen_ok_simps [OF assms(1)])

text \<open>A mutation with one root field: the field's value under its alias, or null.\<close>

lemma Mutation_object_field:
  assumes ok: "gqlgen_ok (ec_graphql ec)"
    and flds: "gq_CollectFields (ec_graphql ec) sel [''Mutation''] = [fld]"
    and name: "cf_Name fld \<in> set [''createVoyage'', ''updateVoyage'']"
    and run: "\<And>c. (if cf_Name fld = ''createVoyage'' then Mutation_createVoyage ec else Mutation_updateVoyage ec)
      c fld s = (Ret (FieldSet kvs), s')"
  shows "Mutation_object ec c sel s = (Ret (FieldSet [(cf_Alias fld, FieldSet kvs)]), s')"
proof -
  obtain c1 where "Mutation_object ec c sel s =
    object_result (case non_null ((if cf_Name fld = ''createVoyage'' then Mutation_createVoyage ec
        else Mutation_updateVoyage ec) c1 fld s) of
      (Ret (m, n), s) \<Rightarrow> (Ret ([(cf_Alias fld, m)], n), s)
    | (Fail e, s) \<Rightarrow> (Fail e, s) | (Panic p, s) \<Rightarrow> (Panic p, s))"
    using Mutation_object_one [OF ok flds Mutation_value_root [OF ok name], of c s] by blast
  then show ?thesis
    unfolding run by (simp add: object_result_def)
qed

lemma Mutation_object_null:
  assumes ok: "gqlgen_ok (ec_graphql ec)"
    and flds: "gq_CollectFields (ec_graphql ec) sel [''Mutation''] = [fld]"
    and name: "cf_Name fld \<in> set [''createVoyage'', ''updateVoyage'']"
    and run: "\<And>c. \<exists>c'. (if cf_Name fld = ''createVoyage'' then Mutation_createVoyage ec else Mutation_updateVoyage ec)
      c fld s = (Ret Null, f c')"
  shows "\<exists>c'. Mutation_object ec c sel s = (Ret Null, f c')"
proof -
  obtain c1 where "Mutation_object ec c sel s =
    object_result (case non_null ((if cf_Name fld = ''createVoyage'' then Mutation_createVoyage ec
        else Mutation_updateVoyage ec) c1 fld s) of
      (Ret (m, n), s) \<Rightarrow> (Ret ([(cf_Alias fld, m)], n), s)
    | (Fail e, s) \<Rightarrow> (Fail e, s) | (Panic p, s) \<Rightarrow> (Panic p, s))"
    using Mutation_object_one [OF ok flds Mutation_value_root [OF ok name], of c s] by blast
  moreover obtain c2 where "(if cf_Name fld = ''createVoyage'' then Mutation_createVoyage ec
      else Mutation_updateVoyage ec) c1 fld s = (Ret Null, f c2)"
    using run by blast
  ultimately have "Mutation_object ec c sel s = (Ret Null, f c2)"
    by (simp add: object_result_def)
  then show ?thesis by blast
qed

section \<open>Queries\<close>

text \<open>Dispatching delayed values that leave the state alone: whatever the schedule, each one is
  its field's value.\<close>

lemma dispatch_pure:
  assumes "\<And>i. i < length slots \<Longrightarrow>
      slots ! i = Ready (m i, 0) \<or>
      (\<exists>run. slots ! i = Delayed run \<and> run s = (Ret (m i), s) \<and> m i \<noteq> RequiredNull)"
    and "set is \<subseteq> {..<length slots}"
  shows "dispatch is slots s =
    (Ret (map (\<lambda>i. if i \<in> set is then Ready (m i, 0) else slots ! i) [0..<length slots]), s)"
  using assms
proof (induction "is" arbitrary: slots)
  case Nil
  then show ?case by (simp add: map_nth)
next
  case (Cons j js)
  let ?slots = "slots[j := Ready (m j, 0)]"
  have j: "j < length slots" using Cons.prems(2) by simp
  have "dispatch (j # js) slots s = dispatch js ?slots s"
  proof (cases "slots ! j = Ready (m j, 0)")
    case True
    then have "?slots = slots" by (metis list_update_id)
    with True show ?thesis by simp
  next
    case False
    with Cons.prems(1) [OF j] show ?thesis by (auto simp: required_null_def)
  qed
  also have "\<dots> = (Ret (map (\<lambda>i. if i \<in> set js then Ready (m i, 0) else ?slots ! i)
      [0..<length ?slots]), s)"
  proof (rule Cons.IH)
    fix i assume "i < length ?slots"
    then show "?slots ! i = Ready (m i, 0) \<or>
        (\<exists>run. ?slots ! i = Delayed run \<and> run s = (Ret (m i), s) \<and> m i \<noteq> RequiredNull)"
      using Cons.prems(1) [of i] by (cases "i = j") auto
  qed (use Cons.prems(2) in auto)
  also have "\<dots> = (Ret (map (\<lambda>i. if i \<in> set (j # js) then Ready (m i, 0) else slots ! i)
      [0..<length slots]), s)"
    using j by (auto simp: nth_list_update)
  finally show ?case .
qed

lemma dispatch_all:
  assumes "\<And>fld. fld \<in> set flds \<Longrightarrow> run fld s = (Ret (m fld), s) \<and> m fld \<noteq> RequiredNull"
    and "set sched = {..<length flds}"
  shows "dispatch sched (map (\<lambda>fld. Delayed (run fld)) flds) s = (Ret (map (\<lambda>fld. Ready (m fld, 0)) flds), s)"
proof -
  let ?slots = "map (\<lambda>fld. Delayed (run fld)) flds"
  have "dispatch sched ?slots s =
      (Ret (map (\<lambda>i. if i \<in> set sched then Ready (m (flds ! i), 0) else ?slots ! i) [0..<length ?slots]), s)"
    by (rule dispatch_pure) (use assms in simp_all)
  moreover have "map (\<lambda>i. if i \<in> set sched then Ready (m (flds ! i), 0) else ?slots ! i) [0..<length ?slots] =
      map (\<lambda>fld. Ready (m fld, 0)) flds"
    by (rule nth_equalityI) (simp_all add: assms(2))
  ultimately show ?thesis by (simp only:)
qed

lemma query_slots_delayed:
  assumes "\<And>fld. fld \<in> set flds \<Longrightarrow> slot fld s = (Ret (x fld), s)"
  shows "query_slots slot flds s = (Ret (map x flds), s)"
  using assms by (induction flds) simp_all

lemma voyage_or_null_not_required [simp]: "voyage_or_null g sel v \<noteq> RequiredNull"
  by (simp add: voyage_or_null_def voyage_fields_def split: option.splits)

end
