(* ===== verification/Graphql_Claims.thy ===== *)
theory Graphql_Claims
  imports Graphql_Gateway Server_Claims
begin

text \<open>
  The properties of the generated executor, alone and over the gateway's resolvers, with their
  witnesses. The witnesses run a small library that keeps \<open>gqlgen_ok\<close>: selections are trees of
  named fields, a context is the stack of field contexts, a field's arguments are the variables
  of the same names, and the state is the world paired with the list of reported errors.
\<close>

section \<open>A library for the witnesses\<close>

datatype selections = Sel "(string \<times> string \<times> selections) list"

fun collect :: "selections \<Rightarrow> string list \<Rightarrow> selections collected_field list" where
  "collect (Sel fs) implementors =
     map (\<lambda>(name, alias, sub). \<lparr>cf_Name = name, cf_Alias = alias, cf_Selections = sub\<rparr>) fs"

definition ref_ResolveField ::
  "selections field_context list \<Rightarrow> selections collected_field \<Rightarrow>
   (selections field_context list \<Rightarrow> selections collected_field \<Rightarrow> 'w \<times> goerr list \<Rightarrow>
      selections field_context ret \<times> 'w \<times> goerr list) \<Rightarrow>
   (selections field_context list \<Rightarrow> 'w \<times> goerr list \<Rightarrow> gvalue ret \<times> 'w \<times> goerr list) \<Rightarrow>
   (selections field_context list \<Rightarrow> selections \<Rightarrow> gvalue \<Rightarrow> 'w \<times> goerr list \<Rightarrow>
      marshaler ret \<times> 'w \<times> goerr list) \<Rightarrow> bool \<Rightarrow> bool \<Rightarrow> 'w \<times> goerr list \<Rightarrow>
   marshaler ret \<times> 'w \<times> goerr list" where
  "ref_ResolveField c fld init resolve marsh recovers nonnull s =
     (case init c fld s of
        (Ret fc, s) \<Rightarrow>
          (case resolve (fc # c) s of
             (Fail e, w, es) \<Rightarrow> (Ret Null, w, es @ [e])
           | (Panic p, w, es) \<Rightarrow> (Ret Null, w, es @ [ErrorsNew p])
           | (Ret v, s) \<Rightarrow>
               (if v = VNil then (Ret Null, s)
                else (case marsh (fc # c) (cf_Selections fld) v s of
                        (Panic p, w, es) \<Rightarrow> (Ret Null, w, es @ [ErrorsNew p])
                      | r \<Rightarrow> r)))
      | (_, s) \<Rightarrow> (Ret Null, s))"

fun ref_MarshalSlice ::
  "selections field_context list \<Rightarrow> nat list \<Rightarrow>
   (selections field_context list \<Rightarrow> nat \<Rightarrow> 's \<Rightarrow> marshaler ret \<times> 's) \<Rightarrow> 's \<Rightarrow> marshaler list ret \<times> 's" where
  "ref_MarshalSlice c [] f s = (Ret [], s)"
| "ref_MarshalSlice c (i # is) f s =
     (case f c i s of
        (Ret m, s) \<Rightarrow>
          (case ref_MarshalSlice c is f s of
             (Ret ms, s) \<Rightarrow> (Ret (m # ms), s) | (Fail e, s) \<Rightarrow> (Fail e, s) | (Panic p, s) \<Rightarrow> (Panic p, s))
      | (Fail e, s) \<Rightarrow> (Fail e, s)
      | (Panic p, s) \<Rightarrow> (Ret [], s))"

definition ref_gqlgen :: "(selections field_context list, selections, 'w \<times> goerr list) gqlgen" where
  "ref_gqlgen =
     \<lparr>gq_CollectFields = collect,
      gq_ArgumentMap = (\<lambda>fld vars. vars),
      gq_ProcessArgField = (\<lambda>c raw k f. case raw k of None \<Rightarrow> Ret VNil | Some j \<Rightarrow> f c j),
      gq_ResolveField = ref_ResolveField,
      gq_RootResolverMiddleware = (\<lambda>c f. f c),
      gq_NewScalarFieldContext = (\<lambda>object fld m r e. Ret \<lparr>fc_Object = object, fc_Field = fld,
        fc_Args = Map.empty, fc_IsMethod = m, fc_IsResolver = r, fc_Child = Child_None e\<rparr>),
      gq_WithFieldContext = (\<lambda>c fc. fc # c),
      gq_GetFieldContext = hd,
      gq_WithPathContext = (\<lambda>c k. c),
      gq_WithRootFieldContext = (\<lambda>c n f. c),
      gq_WithObject = (\<lambda>c n. c),
      gq_WithPathIndex = (\<lambda>c i. c),
      gq_WithIndex = (\<lambda>c i. c),
      gq_HasFieldError = (\<lambda>c fc s. snd s \<noteq> []),
      gq_AddErrorf = (\<lambda>c m s. (fst s, snd s @ [ErrorsNew m])),
      gq_Error = (\<lambda>c e s. (fst s, snd s @ [e])),
      gq_Recover = (\<lambda>c p. ErrorsNew p),
      gq_ErrorOnPath = (\<lambda>c e. e),
      gq_UnmarshalID = (\<lambda>j. case j of JStr t \<Rightarrow> Inr t | JNum t \<Rightarrow> Inr t | _ \<Rightarrow> Inl (ErrorsNew ''not an ID'')),
      gq_UnmarshalString = (\<lambda>j. case j of JStr t \<Rightarrow> Inr t | _ \<Rightarrow> Inl (ErrorsNew ''not a string'')),
      gq_UnmarshalInt = (\<lambda>j. case j of
         JNum t \<Rightarrow> (case ParseInt64 t of None \<Rightarrow> Inl (ErrorsNew ''not an int'') | Some i \<Rightarrow> Inr i)
       | _ \<Rightarrow> Inl (ErrorsNew ''not an int'')),
      gq_UnmarshalBoolean = (\<lambda>j. case j of JBool b \<Rightarrow> Inr b | _ \<Rightarrow> Inl (ErrorsNew ''not a boolean'')),
      gq_CoerceList = (\<lambda>j. case j of JArr js \<Rightarrow> js | JNull \<Rightarrow> [] | _ \<Rightarrow> [j]),
      gq_MarshalID = (\<lambda>t. Scalar (JStr t)),
      gq_MarshalString = (\<lambda>t. Scalar (JStr t)),
      gq_MarshalInt = (\<lambda>i. Scalar (int_json (sint i))),
      gq_MarshalBoolean = (\<lambda>b. Scalar (JBool b)),
      gq_MarshalSlice = (\<lambda>c n. ref_MarshalSlice c [0..<n]),
      gq_schedule = (\<lambda>n. rev [0..<n]),
      gq_MarshalGQL = (\<lambda>m. render (marshaler_json m))\<rparr>"

lemma ref_resolve_law: "resolve_field_law ref_gqlgen"
  unfolding resolve_field_law_def ref_gqlgen_def
  by (intro allI conjI) (auto simp: ref_ResolveField_def)

lemma ref_MarshalSlice_holds:
  assumes "\<forall>i \<in> set is. \<forall>s. \<exists>m s'. f c i s = (Ret m, s') \<and> P i m"
  shows "\<exists>ms s'. ref_MarshalSlice c is f s = (Ret ms, s') \<and> list_all2 P is ms"
  using assms
proof (induction "is" arbitrary: s)
  case (Cons i "is")
  from Cons.prems obtain m s1 where one: "f c i s = (Ret m, s1)" "P i m" by force
  moreover from Cons.IH [of s1] Cons.prems obtain ms s2
    where "ref_MarshalSlice c is f s1 = (Ret ms, s2)" "list_all2 P is ms" by auto
  ultimately show ?case by simp
qed simp

lemma ref_MarshalSlice_pure:
  "\<forall>i \<in> set is. f c i s = (Ret (m i), s) \<Longrightarrow> ref_MarshalSlice c is f s = (Ret (map m is), s)"
  by (induction "is") simp_all

lemma ref_slice_law: "slice_law ref_gqlgen"
  unfolding slice_law_def
proof (intro conjI allI impI)
  fix c :: "selections field_context list" and n P s
    and f :: "selections field_context list \<Rightarrow> nat \<Rightarrow> 'a \<times> goerr list \<Rightarrow> marshaler ret \<times> 'a \<times> goerr list"
  assume "\<forall>i<n. \<forall>s. \<exists>m s'. f (gq_WithIndex ref_gqlgen c i) i s = (Ret m, s') \<and> P i m"
  then have "\<forall>i \<in> set [0..<n]. \<forall>s. \<exists>m s'. f c i s = (Ret m, s') \<and> P i m"
    by (simp add: ref_gqlgen_def)
  from ref_MarshalSlice_holds [where P = P and s = s and f = f and c = c, OF this]
  show "\<exists>ms s'. gq_MarshalSlice ref_gqlgen c n f s = (Ret ms, s') \<and> length ms = n \<and> (\<forall>i<n. P i (ms ! i))"
    by (auto simp: ref_gqlgen_def list_all2_conv_all_nth)
next
  fix c :: "selections field_context list" and n m s
    and f :: "selections field_context list \<Rightarrow> nat \<Rightarrow> 'a \<times> goerr list \<Rightarrow> marshaler ret \<times> 'a \<times> goerr list"
  assume "\<forall>i<n. f (gq_WithIndex ref_gqlgen c i) i s = (Ret (m i), s)"
  then show "gq_MarshalSlice ref_gqlgen c n f s = (Ret (map m [0..<n]), s)"
    by (simp add: ref_gqlgen_def ref_MarshalSlice_pure)
qed

lemma ref_gqlgen_ok: "gqlgen_ok ref_gqlgen"
  using ref_resolve_law ref_slice_law
  by (auto simp: gqlgen_ok_def scalar_laws_def context_laws_def ref_gqlgen_def int_json_def
      ParseInt64_int_text)

section \<open>The onboard client's requests\<close>

definition create_input_of :: "operation \<Rightarrow> create_voyage_input" where
  "create_input_of op =
     \<lparr>cvi_ClientRequestID = op_ClientRequestID op, cvi_Origin = op_Origin op, cvi_Dest = op_Dest op,
      cvi_DistanceNm = int64_of_int32 (op_DistanceNm op), cvi_FeesMinor = op_FeesMinor op\<rparr>"

definition update_input_of :: "operation \<Rightarrow> update_voyage_input" where
  "update_input_of op =
     \<lparr>uvi_ClientRequestID = op_ClientRequestID op, uvi_Origin = op_Origin op, uvi_Dest = op_Dest op,
      uvi_DistanceNm = int64_of_int32 (op_DistanceNm op), uvi_FeesMinor = op_FeesMinor op,
      uvi_Version = op_Version op\<rparr>"

lemma variables_input:
  "variables op = JObj [(''input'', JObj (if op_Kind op = KindUpdate
     then update_input_json (update_input_of op) else create_input_json (create_input_of op)))]"
  by (simp add: variables_def create_input_json_def update_input_json_def create_input_of_def
      update_input_of_def)

text \<open>The gRPC requests the gateway makes of them.\<close>

definition create_request_of :: "operation \<Rightarrow> create_voyage_request" where
  "create_request_of op =
     \<lparr>cvq_ClientRequestId = op_ClientRequestID op, cvq_Origin = op_Origin op, cvq_Dest = op_Dest op,
      cvq_DistanceNm = op_DistanceNm op, cvq_FeesMinor = op_FeesMinor op\<rparr>"


lemma resolver_create_request:
  assumes "op_ClientRequestID op \<noteq> ''''"
    and "Server_CreateVoyage repo est w (Some (create_request_of op)) = (res, w')"
  shows "Resolver_CreateVoyage (direct_client repo est) w (create_input_of op) =
    (case res of
       Inl err \<Rightarrow> (Inl (Errorf ''create voyage'' err), w')
     | Inr r \<Rightarrow> (Inr \<lparr>cvp_Voyage = Some (toModelVoyage (cvr_Voyage r)),
         cvp_ProvisionalEstimateMinor = cvr_ProvisionalEstimateMinor r,
         cvp_EstimatePending = cvr_EstimatePending r\<rparr>, w'))"
  using assms by (simp add: Resolver_CreateVoyage_def direct_client_def create_input_of_def
      create_request_of_def getter_defs split: sum.splits)


text \<open>The sole root field of the client's document, its argument bound to the variable.\<close>

definition runs_document ::
  "('c, 'sel, 's) execution_context \<Rightarrow> operation \<Rightarrow> 'sel \<Rightarrow> 'sel collected_field \<Rightarrow> bool" where
  "runs_document ec op sel fld \<longleftrightarrow>
     gq_CollectFields (ec_graphql ec) sel [''Mutation''] = [fld] \<and>
     cf_Name fld = (if op_Kind op = KindUpdate then ''updateVoyage'' else ''createVoyage'') \<and>
     JObj [(''input'', the (gq_ArgumentMap (ec_graphql ec) fld (ec_Variables ec) ''input''))] =
       variables op \<and>
     gq_ArgumentMap (ec_graphql ec) fld (ec_Variables ec) ''input'' \<noteq> None \<and>
     (if op_Kind op = KindUpdate then voyage_selection (ec_graphql ec) (cf_Selections fld)
      else payload_selection (ec_graphql ec) (cf_Selections fld))"

lemma runs_document_arg:
  assumes "runs_document ec op sel fld"
  shows "gq_ArgumentMap (ec_graphql ec) fld (ec_Variables ec) ''input'' =
    Some (JObj (if op_Kind op = KindUpdate then update_input_json (update_input_of op)
      else create_input_json (create_input_of op)))"
  using assms by (auto simp: runs_document_def variables_input)

section \<open>Claims\<close>

text \<open>C32. The wire format of the onboard client and the executor's input types agree: the input
  object of every operation the transport sends unmarshals to exactly the operation's data,
  whatever the values, extreme integers included.\<close>

theorem onboard_inputs_read_back:
  assumes "gqlgen_ok g"
  shows "\<exists>inp. variables op = JObj [(''input'', inp)] \<and>
    (if op_Kind op = KindUpdate
     then unmarshalNUpdateVoyageInput g c inp = Ret
       \<lparr>uvi_ClientRequestID = op_ClientRequestID op, uvi_Origin = op_Origin op, uvi_Dest = op_Dest op,
        uvi_DistanceNm = int64_of_int32 (op_DistanceNm op), uvi_FeesMinor = op_FeesMinor op,
        uvi_Version = op_Version op\<rparr>
     else unmarshalNCreateVoyageInput g c inp = Ret
       \<lparr>cvi_ClientRequestID = op_ClientRequestID op, cvi_Origin = op_Origin op, cvi_Dest = op_Dest op,
        cvi_DistanceNm = int64_of_int32 (op_DistanceNm op), cvi_FeesMinor = op_FeesMinor op\<rparr>)"
  using unmarshal_create_input [OF assms, of c "create_input_of op"]
    unmarshal_update_input [OF assms, of c "update_input_of op"]
  by (simp add: variables_input create_input_of_def update_input_of_def)

definition sample_op :: operation where
  "sample_op = \<lparr>op_ClientRequestID = ''a'', op_Kind = KindCreate, op_Origin = ''NLRTM'',
     op_Dest = ''SGSIN'', op_DistanceNm = 7, op_FeesMinor = 5, op_Version = 1\<rparr>"

theorem onboard_inputs_read_back_witness:
  "unmarshalNCreateVoyageInput (ref_gqlgen :: (_, _, unit \<times> goerr list) gqlgen) []
     (JObj (create_input_json (create_input_of sample_op))) = Ret
   \<lparr>cvi_ClientRequestID = ''a'', cvi_Origin = ''NLRTM'', cvi_Dest = ''SGSIN'', cvi_DistanceNm = 7,
    cvi_FeesMinor = 5\<rparr>"
  using onboard_inputs_read_back [OF ref_gqlgen_ok, of sample_op "[]"]
  by (simp add: variables_input sample_op_def KindCreate_def KindUpdate_def int64_of_int32_def)

text \<open>A voyage is answered field by field: for every selection of the type's fields the
  executor answers an object with, under each alias and in the order of the selection, the
  value of the model's field of that name; it reports no error and changes nothing.\<close>

theorem voyage_object_answers:
  assumes "gqlgen_ok (ec_graphql ec)"
    and "\<forall>fld \<in> set (gq_CollectFields (ec_graphql ec) sel [''Voyage'']).
      cf_Name fld \<in> dom (voyage_field v)"
  shows "\<exists>m. Voyage_object ec c sel v s = (Ret m, s) \<and>
    marshaler_json m = JObj (map (\<lambda>fld. (cf_Alias fld, the (voyage_field v (cf_Name fld))))
      (gq_CollectFields (ec_graphql ec) sel [''Voyage'']))"
  using Voyage_object_answer [OF assms] by (simp add: voyage_answer_def)

text \<open>The introspection objects of a schema with one type, the scalar \<open>ID\<close>, seen also as a list of
  its kind.\<close>

definition sample_introspection :: introspection_lib where
  "sample_introspection =
     \<lparr>in_IntrospectSchema = Inr (Some (SchemaRef 0)),
      in_IntrospectType = (\<lambda>name. Inr (if name = ''ID'' then Some (TypeRef 0) else None)),
      in_Directive_Name = (\<lambda>d. ''oneOf''), in_Directive_Description = (\<lambda>d. None),
      in_Directive_IsRepeatable = (\<lambda>d. False), in_Directive_Locations = (\<lambda>d. Some [''INPUT_OBJECT'']),
      in_Directive_Args = (\<lambda>d. None),
      in_EnumValue_Name = (\<lambda>v. ''''), in_EnumValue_Description = (\<lambda>v. None),
      in_EnumValue_IsDeprecated = (\<lambda>v. False), in_EnumValue_DeprecationReason = (\<lambda>v. None),
      in_Field_Name = (\<lambda>f. ''id''), in_Field_Description = (\<lambda>f. None), in_Field_Args = (\<lambda>f. None),
      in_Field_Type = (\<lambda>f. Some (TypeRef 0)), in_Field_IsDeprecated = (\<lambda>f. False),
      in_Field_DeprecationReason = (\<lambda>f. None),
      in_InputValue_Name = (\<lambda>v. ''''), in_InputValue_Description = (\<lambda>v. None),
      in_InputValue_Type = (\<lambda>v. Some (TypeRef 0)), in_InputValue_DefaultValue = (\<lambda>v. None),
      in_InputValue_IsDeprecated = (\<lambda>v. False), in_InputValue_DeprecationReason = (\<lambda>v. None),
      in_Schema_Description = (\<lambda>s. None), in_Schema_Types = (\<lambda>s. Some [TypeRef 0, TypeRef 1]),
      in_Schema_QueryType = (\<lambda>s. Some (TypeRef 0)), in_Schema_MutationType = (\<lambda>s. None),
      in_Schema_SubscriptionType = (\<lambda>s. None), in_Schema_Directives = (\<lambda>s. Some [DirectiveRef 0]),
      in_Type_Kind = (\<lambda>t. if t = TypeRef 0 then ''SCALAR'' else ''LIST''),
      in_Type_Name = (\<lambda>t. if t = TypeRef 0 then Some ''ID'' else None),
      in_Type_Description = (\<lambda>t. None), in_Type_SpecifiedByURL = (\<lambda>t. None),
      in_Type_Fields = (\<lambda>t b. None), in_Type_Interfaces = (\<lambda>t. None), in_Type_PossibleTypes = (\<lambda>t. None),
      in_Type_EnumValues = (\<lambda>t b. None), in_Type_InputFields = (\<lambda>t. None),
      in_Type_OfType = (\<lambda>t. if t = TypeRef 0 then None else Some (TypeRef 0)),
      in_Type_IsOneOf = (\<lambda>t. False)\<rparr>"

definition sample_ec :: "(selections field_context list, selections, pg \<times> goerr list) execution_context" where
  "sample_ec = \<lparr>ec_graphql = ref_gqlgen,
     ec_Resolvers = gateway_resolvers (direct_client sample_repo sample_estimator),
     ec_Variables = [''input'' \<mapsto> JObj (create_input_json (create_input_of sample_op)),
       ''clientRequestId'' \<mapsto> JStr ''a''],
     ec_introspection = sample_introspection, ec_depth = 4\<rparr>"

definition sample_voyage_sel :: selections where
  "sample_voyage_sel = Sel [(''clientRequestId'', ''id'', Sel []), (''version'', ''version'', Sel [])]"

lemma sample_ec_ok: "gqlgen_ok (ec_graphql sample_ec)"
  by (simp add: sample_ec_def ref_gqlgen_ok)

lemma sample_collect: "gq_CollectFields (ec_graphql sample_ec) = collect"
  by (simp add: sample_ec_def ref_gqlgen_def)

theorem voyage_object_answers_witness:
  "\<exists>m. Voyage_object sample_ec [] sample_voyage_sel (model_of sample_voyage) (empty_pg, []) =
      (Ret m, (empty_pg, [])) \<and>
    marshaler_json m = JObj [(''id'', JStr ''a''), (''version'', JNum ''1'')]"
proof -
  have sel: "\<forall>fld \<in> set (gq_CollectFields (ec_graphql sample_ec) sample_voyage_sel [''Voyage'']).
      cf_Name fld \<in> dom (voyage_field (model_of sample_voyage))"
    by (simp add: sample_collect sample_voyage_sel_def voyage_field_def)
  have one: "int_text 1 = ''1''" by code_simp
  show ?thesis
    using voyage_object_answers [OF sample_ec_ok sel, of "[]" "(empty_pg, [])"]
    by (simp add: sample_collect sample_voyage_sel_def voyage_field_def model_of_def
        sample_voyage_def int_json_def one)
qed


definition sample_doc :: selections where
  "sample_doc = Sel [(''createVoyage'', ''createVoyage'',
     Sel [(''voyage'', ''voyage'', sample_voyage_sel), (''estimatePending'', ''estimatePending'', Sel [])])]"

lemma sample_document:
  "runs_document sample_ec sample_op sample_doc \<lparr>cf_Name = ''createVoyage'', cf_Alias = ''createVoyage'',
     cf_Selections = Sel [(''voyage'', ''voyage'', sample_voyage_sel),
       (''estimatePending'', ''estimatePending'', Sel [])]\<rparr>"
  by (simp add: runs_document_def sample_collect sample_doc_def sample_op_def KindCreate_def
      KindUpdate_def variables_input payload_selection_def voyage_selection_def sample_voyage_sel_def)
    (simp add: sample_ec_def ref_gqlgen_def sample_op_def KindCreate_def)

lemma sample_create_op:
  "Server_CreateVoyage sample_repo sample_estimator empty_pg (Some (create_request_of sample_op)) =
     (Inr \<lparr>cvr_Voyage = Some (toProto sample_voyage), cvr_ProvisionalEstimateMinor = 705,
           cvr_EstimatePending = False\<rparr>, created_pg)"
  using sample_create by (simp add: create_request_of_def sample_op_def sample_request_def)

lemma sample_mutation_run:
  "\<exists>m. Mutation_object sample_ec [] sample_doc (empty_pg, []) = (Ret m, (created_pg, []))"
proof -
  let ?fld = "\<lparr>cf_Name = ''createVoyage'', cf_Alias = ''createVoyage'',
     cf_Selections = Sel [(''voyage'', ''voyage'', sample_voyage_sel),
       (''estimatePending'', ''estimatePending'', Sel [])]\<rparr>"
  have arg: "gq_ArgumentMap (ec_graphql sample_ec) ?fld (ec_Variables sample_ec) ''input'' =
      Some (JObj (create_input_json (create_input_of sample_op)))"
    using runs_document_arg [OF sample_document] by (simp add: sample_op_def KindCreate_def KindUpdate_def)
  have "rr_CreateVoyage (ec_Resolvers sample_ec) (empty_pg, []) (create_input_of sample_op) =
      (Inr (Some \<lparr>cvp_Voyage = Some (toModelVoyage (Some (toProto sample_voyage))),
        cvp_ProvisionalEstimateMinor = 705, cvp_EstimatePending = False\<rparr>), (created_pg, []))"
    using resolver_create_request [OF _ sample_create_op]
    by (simp add: sample_ec_def gateway_resolvers_def sample_op_def)
  note run = Mutation_createVoyage_value [OF sample_ec_ok arg this]
  have sel: "payload_selection (ec_graphql sample_ec) (cf_Selections ?fld)"
    and flds: "gq_CollectFields (ec_graphql sample_ec) sample_doc [''Mutation''] = [?fld]"
    using sample_document by (simp_all add: runs_document_def sample_op_def KindCreate_def KindUpdate_def)
  show ?thesis
    by (rule exI, rule Mutation_object_field [OF sample_ec_ok flds])
      (simp_all add: run [OF sel, unfolded payload_fields_def])
qed
















text \<open>A response handler runs its mutation once: the first call makes the response, and every
  later call answers nil and leaves the world alone. A query with nothing deferred ends the same way.\<close>

theorem exec_runs_once:
  assumes "kind \<in> {OpQuery, OpMutation}"
    and "Exec ec one_shot kind c sel exec_start s = (Ret (Some r), h, s')"
  shows "Exec ec one_shot kind c' sel' h s'' = (Ret None, h, s'')"
proof -
  have "ex_first h = False \<and> ex_PendingDeferred h = 0"
    using assms by (auto simp: Exec_def Exec_query_def Exec_mutation_def exec_start_def Let_def
        split: prod.splits ret.splits)
  with assms(1) show ?thesis
    by (auto simp: Exec_def Exec_query_def Exec_mutation_def)
qed

theorem exec_runs_once_witness:
  "\<exists>r h. Exec sample_ec (\<lambda>m h s. (Ret None, h, s)) OpMutation [] sample_doc exec_start (empty_pg, []) =
      (Ret (Some r), h, (created_pg, [])) \<and>
    Exec sample_ec (\<lambda>m h s. (Ret None, h, s)) OpMutation [] sample_doc h (created_pg, []) =
      (Ret None, h, (created_pg, []))"
proof -
  from sample_mutation_run obtain m where
    "Mutation_object sample_ec [] sample_doc (empty_pg, []) = (Ret m, (created_pg, []))" by blast
  then have "Exec sample_ec (\<lambda>m h s. (Ret None, h, s)) OpMutation [] sample_doc exec_start (empty_pg, []) =
      (Ret (Some \<lparr>rsp_Data = gq_MarshalGQL (ec_graphql sample_ec) m, rsp_Path = [], rsp_Label = '''',
        rsp_Errors = [], rsp_HasNext = None\<rparr>),
       exec_start\<lparr>ex_first := False\<rparr>, (created_pg, []))"
    by (simp add: Exec_def Exec_mutation_def exec_start_def)
  with exec_runs_once [OF _ this] show ?thesis by blast
qed

text \<open>A complexity limit counts what the application configured and nothing else: a field
  with no function set has no custom complexity, and \<open>createVoyage\<close> with one set has the value
  of the function on the client's own input.\<close>

theorem complexity_of_create:
  assumes "gqlgen_ok g" and "rawArgs ''input'' = Some (JObj (create_input_json i))"
  shows "Complexity g root c ''Mutation'' ''createVoyage'' n rawArgs =
    Ret (case cxm_CreateVoyage root of None \<Rightarrow> (0, False) | Some f \<Rightarrow> (f n i, True))"
  by (simp add: Complexity_def create_args [where raw = rawArgs, OF assms] split: option.splits)

definition no_complexity :: complexity_root where
  "no_complexity = \<lparr>cxp_EstimatePending = None, cxp_ProvisionalEstimateMinor = None, cxp_Voyage = None,
     cxm_CreateVoyage = None, cxm_UpdateVoyage = None, cxq_Voyage = None, cxv_ClientRequestID = None,
     cxv_Dest = None, cxv_DistanceNm = None, cxv_EstimateMinor = None, cxv_FeesMinor = None,
     cxv_Origin = None, cxv_Version = None\<rparr>"

theorem complexity_of_create_witness:
  "Complexity (ref_gqlgen :: (_, _, unit \<times> goerr list) gqlgen)
     (no_complexity\<lparr>cxm_CreateVoyage := Some (\<lambda>n i. n + cvi_DistanceNm i)\<rparr>) []
     ''Mutation'' ''createVoyage'' 3 [''input'' \<mapsto> JObj (create_input_json (create_input_of sample_op))] =
   Ret (10, True)"
proof -
  let ?raw = "[''input'' \<mapsto> JObj (create_input_json (create_input_of sample_op))]"
  have raw: "?raw ''input'' = Some (JObj (create_input_json (create_input_of sample_op)))" by simp
  show ?thesis
    unfolding complexity_of_create [where rawArgs = ?raw, OF ref_gqlgen_ok raw]
    by (simp add: create_input_of_def sample_op_def int64_of_int32_def)
qed

end
