(* ===== verification/Graphql_Schema.thy ===== *)
theory Graphql_Schema
  imports Graphql_Run
begin

text \<open>
  The types the executor answers to: the fields of the repository's schema
  (\<open>gateway/schema.graphqls\<close>, held by \<open>sources\<close> in \<open>gen/graphql/generated.go\<close>) and of the introspection types of the GraphQL specification, what it
  means that a JSON value is an answer of a type to a selection, and the rules by which the pieces
  of the executor (fields, slices, objects) keep to it.
\<close>

section \<open>The schema\<close>

datatype gtype =
  TString | TBoolean | TInt | TID | TObject string | TList gtype | TNonNull gtype

fun nullable :: "gtype \<Rightarrow> bool" where
  "nullable (TNonNull t) = False"
| "nullable t = True"

fun object_type :: "gtype \<Rightarrow> string option" where
  "object_type (TObject ty) = Some ty"
| "object_type (TList t) = object_type t"
| "object_type (TNonNull t) = object_type t"
| "object_type t = None"

definition types_of :: "string \<Rightarrow> gtype" where
  "types_of ty = TList (TNonNull (TObject ty))"

lemma types_of_simps [simp]: "object_type (types_of ty) = Some ty" "nullable (types_of ty)"
  by (simp_all add: types_of_def)

text \<open>A type has named fields; a field has named arguments and a type.\<close>

type_synonym type_table = "(string \<times> (string \<times> (string \<times> gtype) list \<times> gtype) list) list"

text \<open>The repository's schema, its input types included.\<close>

definition repo_schema :: type_table where
  "repo_schema =
    [(''Query'',
        [(''voyage'', [(''clientRequestId'', TNonNull TID)], TObject ''Voyage'')]),
     (''Mutation'',
        [(''createVoyage'', [(''input'', TNonNull (TObject ''CreateVoyageInput''))], TNonNull (TObject ''CreateVoyagePayload'')),
         (''updateVoyage'', [(''input'', TNonNull (TObject ''UpdateVoyageInput''))], TNonNull (TObject ''Voyage''))]),
     (''Voyage'',
        [(''clientRequestId'', [], TNonNull TID), (''origin'', [], TNonNull TString),
         (''dest'', [], TNonNull TString), (''distanceNm'', [], TNonNull TInt),
         (''feesMinor'', [], TNonNull TInt), (''version'', [], TNonNull TInt),
         (''estimateMinor'', [], TNonNull TInt)]),
     (''CreateVoyagePayload'',
        [(''voyage'', [], TNonNull (TObject ''Voyage'')),
         (''provisionalEstimateMinor'', [], TNonNull TInt),
         (''estimatePending'', [], TNonNull TBoolean)]),
     (''CreateVoyageInput'',
        [(''clientRequestId'', [], TNonNull TID), (''origin'', [], TNonNull TString),
         (''dest'', [], TNonNull TString), (''distanceNm'', [], TNonNull TInt),
         (''feesMinor'', [], TNonNull TInt)]),
     (''UpdateVoyageInput'',
        [(''clientRequestId'', [], TNonNull TID), (''origin'', [], TNonNull TString),
         (''dest'', [], TNonNull TString), (''distanceNm'', [], TNonNull TInt),
         (''feesMinor'', [], TNonNull TInt), (''version'', [], TNonNull TInt)])]"

text \<open>The introspection types, as the library gives them to every schema.\<close>

definition introspection_schema :: type_table where
  "introspection_schema =
    [(''__Schema'',
        [(''description'', [], TString), (''types'', [], TNonNull (types_of ''__Type'')),
         (''queryType'', [], TNonNull (TObject ''__Type'')),
         (''mutationType'', [], TObject ''__Type''),
         (''subscriptionType'', [], TObject ''__Type''),
         (''directives'', [], TNonNull (types_of ''__Directive''))]),
     (''__Type'',
        [(''kind'', [], TNonNull TString), (''name'', [], TString),
         (''description'', [], TString), (''specifiedByURL'', [], TString),
         (''fields'', [(''includeDeprecated'', TBoolean)], types_of ''__Field''),
         (''interfaces'', [], types_of ''__Type''), (''possibleTypes'', [], types_of ''__Type''),
         (''enumValues'', [(''includeDeprecated'', TBoolean)], types_of ''__EnumValue''),
         (''inputFields'', [], types_of ''__InputValue''), (''ofType'', [], TObject ''__Type''),
         (''isOneOf'', [], TBoolean)]),
     (''__Field'',
        [(''name'', [], TNonNull TString), (''description'', [], TString),
         (''args'', [(''includeDeprecated'', TBoolean)], TNonNull (types_of ''__InputValue'')),
         (''type'', [], TNonNull (TObject ''__Type'')),
         (''isDeprecated'', [], TNonNull TBoolean), (''deprecationReason'', [], TString)]),
     (''__InputValue'',
        [(''name'', [], TNonNull TString), (''description'', [], TString),
         (''type'', [], TNonNull (TObject ''__Type'')), (''defaultValue'', [], TString),
         (''isDeprecated'', [], TNonNull TBoolean), (''deprecationReason'', [], TString)]),
     (''__EnumValue'',
        [(''name'', [], TNonNull TString), (''description'', [], TString),
         (''isDeprecated'', [], TNonNull TBoolean), (''deprecationReason'', [], TString)]),
     (''__Directive'',
        [(''name'', [], TNonNull TString), (''description'', [], TString),
         (''isRepeatable'', [], TNonNull TBoolean),
         (''locations'', [], TNonNull (TList (TNonNull TString))),
         (''args'', [(''includeDeprecated'', TBoolean)], TNonNull (types_of ''__InputValue''))])]"

definition introspection_fields :: "(string \<times> (string \<times> gtype) list \<times> gtype) list" where
  "introspection_fields =
     [(''__type'', [(''name'', TNonNull TString)], TObject ''__Type''),
      (''__schema'', [], TObject ''__Schema'')]"

text \<open>Every object also has its \<open>__typename\<close>, and \<open>Query\<close> the introspection fields.\<close>

definition schema_field :: "string \<Rightarrow> string \<Rightarrow> ((string \<times> gtype) list \<times> gtype) option" where
  "schema_field ty name =
     (if name = ''__typename'' then Some ([], TNonNull TString)
      else case map_of (repo_schema @ introspection_schema) ty of
        None \<Rightarrow> None
      | Some fs \<Rightarrow> map_of (if ty = ''Query'' then fs @ introspection_fields else fs) name)"

definition field_type :: "string \<Rightarrow> string \<Rightarrow> gtype option" where
  "field_type ty name = map_option snd (schema_field ty name)"

definition field_args :: "string \<Rightarrow> string \<Rightarrow> (string \<times> gtype) list" where
  "field_args ty name = (case schema_field ty name of None \<Rightarrow> [] | Some (args, t) \<Rightarrow> args)"

text \<open>The type of a field, as one table lookup.\<close>

lemma field_type_lookup:
  "field_type ty name =
     (case map_of (repo_schema @ introspection_schema) ty of
        None \<Rightarrow> if name = ''__typename'' then Some (TNonNull TString) else None
      | Some fs \<Rightarrow> map_of ((''__typename'', TNonNull TString) #
          map (\<lambda>(n, args, t). (n, t)) (if ty = ''Query'' then fs @ introspection_fields else fs)) name)"
proof -
  have "map_option snd (map_of fs name) = map_of (map (\<lambda>(n, args, t). (n, t)) fs) name"
    for fs :: "(string \<times> (string \<times> gtype) list \<times> gtype) list"
    by (induction fs) auto
  then show ?thesis
    by (cases "map_of (repo_schema @ introspection_schema) ty")
      (simp_all add: field_type_def schema_field_def del: map_of_append)
qed

lemmas schema_defs = field_type_lookup repo_schema_def introspection_schema_def introspection_fields_def

text \<open>A selection set of the type that the schema allows, of depth at most \<open>n\<close>.\<close>

fun selects :: "('c, 'sel, 's) gqlgen \<Rightarrow> nat \<Rightarrow> string \<Rightarrow> 'sel \<Rightarrow> bool" where
  "selects g 0 ty sel \<longleftrightarrow> False"
| "selects g (Suc n) ty sel \<longleftrightarrow>
     (\<forall>fld \<in> set (gq_CollectFields g sel [ty]).
        case field_type ty (cf_Name fld) of
          None \<Rightarrow> False
        | Some t \<Rightarrow>
            (case object_type t of None \<Rightarrow> True | Some ty' \<Rightarrow> selects g n ty' (cf_Selections fld)))"

text \<open>An answer of a type to a selection.\<close>

inductive conforms :: "('c, 'sel, 's) gqlgen \<Rightarrow> gtype \<Rightarrow> 'sel \<Rightarrow> json \<Rightarrow> bool" for g where
  conforms_null: "nullable t \<Longrightarrow> conforms g t sel JNull"
| conforms_string: "conforms g TString sel (JStr x)"
| conforms_id: "conforms g TID sel (JStr x)"
| conforms_int: "conforms g TInt sel (int_json i)"
| conforms_boolean: "conforms g TBoolean sel (JBool b)"
| conforms_list: "\<forall>j \<in> set js. conforms g t sel j \<Longrightarrow> conforms g (TList t) sel (JArr js)"
| conforms_non_null: "conforms g t sel j \<Longrightarrow> j \<noteq> JNull \<Longrightarrow> conforms g (TNonNull t) sel j"
| conforms_object:
    "map fst kvs = map cf_Alias (gq_CollectFields g sel [ty]) \<Longrightarrow>
     \<forall>i < length kvs. \<exists>t. field_type ty (cf_Name (gq_CollectFields g sel [ty] ! i)) = Some t \<and>
       conforms g t (cf_Selections (gq_CollectFields g sel [ty] ! i)) (snd (kvs ! i)) \<Longrightarrow>
     conforms g (TObject ty) sel (JObj kvs)"

inductive_cases conforms_nonnullE: "conforms g (TNonNull t) sel j"
inductive_cases conforms_objectE: "conforms g (TObject ty) sel (JObj kvs)"

lemma selects_Suc: "selects g n ty sel \<Longrightarrow> selects g (Suc n) ty sel"
proof (induction n arbitrary: ty sel)
  case (Suc n)
  show ?case
    unfolding selects.simps(2) [of g "Suc n"]
  proof
    fix fld assume "fld \<in> set (gq_CollectFields g sel [ty])"
    with Suc.prems have "case field_type ty (cf_Name fld) of None \<Rightarrow> False
        | Some t \<Rightarrow> (case object_type t of None \<Rightarrow> True | Some ty' \<Rightarrow> selects g n ty' (cf_Selections fld))"
      unfolding selects.simps(2) [of g n] by blast
    then show "case field_type ty (cf_Name fld) of None \<Rightarrow> False
        | Some t \<Rightarrow> (case object_type t of None \<Rightarrow> True | Some ty' \<Rightarrow> selects g (Suc n) ty' (cf_Selections fld))"
      using Suc.IH by (simp split: option.splits del: selects.simps)
  qed
qed simp

lemma selects_mono: "selects g n ty sel \<Longrightarrow> n \<le> m \<Longrightarrow> selects g m ty sel"
  by (induction m) (auto simp: le_Suc_eq intro: selects_Suc simp del: selects.simps)

text \<open>The scalar or object below a selected field.\<close>

lemma selects_field:
  assumes "selects g n ty sel" and "fld \<in> set (gq_CollectFields g sel [ty])"
  obtains t where "field_type ty (cf_Name fld) = Some t"
    and "\<And>ty'. object_type t = Some ty' \<Longrightarrow> selects g (n - 1) ty' (cf_Selections fld)"
  using assms by (cases n) (auto split: option.splits)

section \<open>Marshalled values of a type\<close>

text \<open>A marshalled value is \<open>graphql.Null\<close>, or an answer of its type that is not null.\<close>

definition fits :: "('c, 'sel, 's) gqlgen \<Rightarrow> gtype \<Rightarrow> 'sel \<Rightarrow> marshaler \<Rightarrow> bool" where
  "fits g t sel m \<longleftrightarrow> m = Null \<or> marshaler_json m \<noteq> JNull \<and> conforms g t sel (marshaler_json m)"

definition yields :: "('a \<Rightarrow> bool) \<Rightarrow> 'a ret \<times> 's \<Rightarrow> bool" where
  "yields P r \<longleftrightarrow> (\<exists>x s. r = (Ret x, s) \<and> P x)"

lemma yields_Ret [simp]: "yields P (Ret x, s) \<longleftrightarrow> P x"
  by (simp add: yields_def)

lemma yieldsE: "yields P r \<Longrightarrow> (\<And>x s. r = (Ret x, s) \<Longrightarrow> P x \<Longrightarrow> thesis) \<Longrightarrow> thesis"
  by (auto simp: yields_def)

lemma fits_Null [simp]: "fits g t sel Null"
  by (simp add: fits_def)

lemma fits_scalar [simp]:
  "fits g TString sel (Scalar (JStr x))" "fits g TID sel (Scalar (JStr x))"
  "fits g TBoolean sel (Scalar (JBool b))" "fits g TInt sel (Scalar (int_json i))"
  by (auto simp: fits_def int_json_def intro: conforms.intros conforms_int [unfolded int_json_def])

text \<open>The value of a field: counted invalid, or an answer of the field's type.\<close>

definition field_fits :: "('c, 'sel, 's) gqlgen \<Rightarrow> gtype \<Rightarrow> 'sel \<Rightarrow> marshaler \<times> nat \<Rightarrow> bool" where
  "field_fits g t sel v \<longleftrightarrow> snd v > 0 \<or> conforms g t sel (marshaler_json (fst v))"

lemma non_null_fits: "yields (fits g t sel) r \<Longrightarrow> yields (field_fits g (TNonNull t) sel) (non_null r)"
  by (auto simp: yields_def non_null_def fits_def field_fits_def intro: conforms_non_null)

lemma required_null_fits:
  "yields (fits g t sel) r \<Longrightarrow> nullable t \<Longrightarrow> yields (field_fits g t sel) (required_null r)"
  by (auto simp: yields_def required_null_def fits_def field_fits_def intro: conforms_null)

lemma field_fits_scalar [simp]:
  "field_fits g (TNonNull TString) sel (Scalar (JStr x), n)"
  "field_fits g (TNonNull TID) sel (Scalar (JStr x), n)"
  "field_fits g (TNonNull TInt) sel (Scalar (int_json i), n)"
  "field_fits g (TNonNull TBoolean) sel (Scalar (JBool b), n)"
  by (auto simp: field_fits_def int_json_def intro: conforms.intros conforms_int [unfolded int_json_def])

section \<open>Fields\<close>

text \<open>A field fits its type if what its marshaller makes of every value its resolver may return does:
  errors and panics before that make it null.\<close>

lemma resolve_fits:
  assumes "gqlgen_ok g"
    and init: "\<And>c s. \<exists>fc s'. init c fld s = (Ret fc, s') \<or> (\<exists>e. init c fld s = (Fail e, s'))"
    and marsh: "\<And>c s v s'. resolve c s = (Ret v, s') \<Longrightarrow>
      v \<noteq> VNil \<and> (\<forall>c s. yields (fits g t (cf_Selections fld)) (marsh c (cf_Selections fld) v s))"
  shows "yields (fits g t (cf_Selections fld)) (gq_ResolveField g c fld init resolve marsh True nonnull s)"
proof -
  from init [of c s] consider e s' where "init c fld s = (Fail e, s')"
    | fc s' where "init c fld s = (Ret fc, s')" by blast
  then show ?thesis
  proof cases
    case 1
    then show ?thesis by (simp add: resolve_no_context [OF assms(1)])
  next
    case (2 fc s1)
    obtain r s2 where r: "resolve (gq_WithFieldContext g c fc) s1 = (r, s2)" by fastforce
    show ?thesis
    proof (cases r)
      case (Ret v)
      with r marsh have v: "v \<noteq> VNil"
        and "yields (fits g t (cf_Selections fld)) (marsh (gq_WithFieldContext g c fc) (cf_Selections fld) v s2)"
        by blast+
      from this(2) obtain m s3
        where m: "marsh (gq_WithFieldContext g c fc) (cf_Selections fld) v s2 = (Ret m, s3)"
          "fits g t (cf_Selections fld) m" by (rule yieldsE)
      from r Ret have "resolve (gq_WithFieldContext g c fc) s1 = (Ret v, s2)" by simp
      from resolve_value [where init = init and resolve = resolve and marsh = marsh and v = v and fld = fld, OF assms(1) 2 this v m(1)] m(2) show ?thesis by simp
    next
      case (Fail e)
      with r have "resolve (gq_WithFieldContext g c fc) s1 = (Fail e, s2)" by simp
      from resolve_error [where init = init and resolve = resolve, OF assms(1) 2 this] show ?thesis by simp
    next
      case (Panic p)
      with r have "resolve (gq_WithFieldContext g c fc) s1 = (Panic p, s2)" by simp
      from resolve_panic [where init = init and resolve = resolve, OF assms(1) 2 this] show ?thesis by simp
    qed
  qed
qed

text \<open>The usual case: the context is made without looking at the state, and the resolver reads a
  value of the object.\<close>

lemma resolve_fits_pure:
  assumes "gqlgen_ok g" and "\<exists>fc. ctx fld = Ret fc" and "v \<noteq> VNil"
    and "\<And>c s. yields (fits g t (cf_Selections fld)) (marsh c (cf_Selections fld) v s)"
  shows "yields (fits g t (cf_Selections fld))
    (gq_ResolveField g c fld (\<lambda>c fld s. (ctx fld, s)) (\<lambda>c s. (Ret v, s)) marsh True nonnull s)"
  by (rule resolve_fits [OF assms(1)]) (use assms in auto)

lemma resolve_fits_args:
  assumes "gqlgen_ok g"
    and "\<And>c s. \<exists>fc s'. init c fld s = (Ret fc, s') \<or> (\<exists>e. init c fld s = (Fail e, s'))"
    and "v \<noteq> VNil" and "\<And>c s. yields (fits g t (cf_Selections fld)) (marsh c (cf_Selections fld) v s)"
  shows "yields (fits g t (cf_Selections fld))
    (gq_ResolveField g c fld init (\<lambda>c s. (Ret v, s)) marsh True nonnull s)"
  by (rule resolve_fits [where init = init, OF assms(1,2)]) (use assms in auto)

lemma context_with_args_total:
  "\<exists>fc' s'. context_with_args ec c fc args s = (Ret fc', s') \<or>
     (\<exists>e. context_with_args ec c fc args s = (Fail e, s'))"
  by (auto simp: context_with_args_def Let_def split: ret.split)

section \<open>Slices\<close>

lemma slice_fits:
  assumes ok: "gqlgen_ok (ec_graphql ec)"
    and elem: "\<And>c x s. x \<in> set xs \<Longrightarrow> yields (fits (ec_graphql ec) t sel) (marshal c x s)"
  shows "yields (fits (ec_graphql ec) (TList (TNonNull t)) sel) (marshal_slice ec c marshal xs s)"
proof -
  let ?g = "ec_graphql ec"
  have "\<forall>i < length xs. \<forall>s. \<exists>m s'. marshal (gq_WithIndex ?g c i) (xs ! i) s = (Ret m, s') \<and> fits ?g t sel m"
    using elem by (metis nth_mem yields_def)
  from slice_marshalled [where P = "\<lambda>i. fits ?g t sel" and f = "\<lambda>c i. marshal c (xs ! i)", OF ok this]
  obtain ms s' where ms: "gq_MarshalSlice ?g c (length xs) (\<lambda>c i. marshal c (xs ! i)) s = (Ret ms, s')"
      "length ms = length xs" "\<forall>i < length xs. fits ?g t sel (ms ! i)" by blast
  have "conforms ?g (TList (TNonNull t)) sel (JArr (map marshaler_json ms))" if "Null \<notin> set ms"
  proof (rule conforms_list, rule ballI)
    fix j assume "j \<in> set (map marshaler_json ms)"
    then obtain m where "m \<in> set ms" "j = marshaler_json m" by auto
    with that ms(2,3) show "conforms ?g (TNonNull t) sel j"
      by (auto simp: fits_def in_set_conv_nth intro: conforms_non_null)
  qed
  then show ?thesis
    by (auto simp: marshal_slice_def ms(1) fits_def)
qed

section \<open>Objects\<close>

lemma object_fields_fit:
  assumes "\<And>fld s. fld \<in> set flds \<Longrightarrow> yields (P fld) (value fld s)"
  shows "yields (\<lambda>(kvs, n). map fst kvs = map cf_Alias flds \<and>
    (\<exists>ns. n = sum_list ns \<and> list_all2 P flds (zip (map snd kvs) ns) \<and> length ns = length kvs))
    (object_fields value flds s)"
  using assms
proof (induction flds arbitrary: s)
  case (Cons fld flds)
  from Cons.prems [of fld s] obtain m n s1 where one: "value fld s = (Ret (m, n), s1)" "P fld (m, n)"
    by (auto elim: yieldsE)
  from Cons.IH [of s1] Cons.prems obtain kvs k s2 ns where
    rest: "object_fields value flds s1 = (Ret (kvs, k), s2)" "map fst kvs = map cf_Alias flds"
      "k = sum_list ns" "list_all2 P flds (zip (map snd kvs) ns)" "length ns = length kvs"
    by (fastforce elim!: yieldsE)
  from one rest show ?case
    by (auto intro: exI [of _ "n # ns"])
qed simp

text \<open>An object none of whose fields is counted invalid answers its type.\<close>

lemma fields_conform:
  assumes "map fst kvs = map cf_Alias (gq_CollectFields g sel [ty])"
    and "\<And>i. i < length kvs \<Longrightarrow> \<exists>t. field_type ty (cf_Name (gq_CollectFields g sel [ty] ! i)) = Some t \<and>
      field_fits g t (cf_Selections (gq_CollectFields g sel [ty] ! i)) (snd (kvs ! i), ns ! i)"
    and "sum_list ns = (0 :: nat)" and "length ns = length kvs"
  shows "conforms g (TObject ty) sel (JObj (map (\<lambda>(a, m). (a, marshaler_json m)) kvs))"
proof (rule conforms_object)
  show "map fst (map (\<lambda>(a, m). (a, marshaler_json m)) kvs) = map cf_Alias (gq_CollectFields g sel [ty])"
    using assms(1) by (simp add: split_def o_def)
  have "ns ! i = 0" if "i < length kvs" for i
    using assms(3,4) that by (metis nth_mem sum_list_eq_0_iff)
  with assms(2) show "\<forall>i < length (map (\<lambda>(a, m). (a, marshaler_json m)) kvs).
      \<exists>t. field_type ty (cf_Name (gq_CollectFields g sel [ty] ! i)) = Some t \<and>
        conforms g t (cf_Selections (gq_CollectFields g sel [ty] ! i))
          (snd (map (\<lambda>(a, m). (a, marshaler_json m)) kvs ! i))"
    by (fastforce simp: field_fits_def split_def)
qed

lemma object_fits:
  assumes "selects g n ty sel"
    and "\<And>fld t s. fld \<in> set (gq_CollectFields g sel [ty]) \<Longrightarrow> field_type ty (cf_Name fld) = Some t \<Longrightarrow>
      (\<And>ty'. object_type t = Some ty' \<Longrightarrow> selects g (n - 1) ty' (cf_Selections fld)) \<Longrightarrow>
      yields (field_fits g t (cf_Selections fld)) (value fld s)"
  shows "yields (fits g (TObject ty) sel)
    (object_result (object_fields value (gq_CollectFields g sel [ty]) s))"
proof -
  let ?flds = "gq_CollectFields g sel [ty]"
  let ?P = "\<lambda>fld v. \<exists>t. field_type ty (cf_Name fld) = Some t \<and> field_fits g t (cf_Selections fld) v"
  have "yields (?P fld) (value fld s)" if fld: "fld \<in> set ?flds" for fld s
  proof -
    from selects_field [OF assms(1) fld] obtain t where t: "field_type ty (cf_Name fld) = Some t"
      "\<And>ty'. object_type t = Some ty' \<Longrightarrow> selects g (n - 1) ty' (cf_Selections fld)" by blast
    from assms(2) [OF fld t] t(1) show ?thesis by (auto simp: yields_def)
  qed
  from object_fields_fit [of ?flds ?P "value" s, OF this] obtain kvs k s' ns where
    run: "object_fields value ?flds s = (Ret (kvs, k), s')" "map fst kvs = map cf_Alias ?flds"
      "k = sum_list ns" "list_all2 ?P ?flds (zip (map snd kvs) ns)" "length ns = length kvs"
    by (fastforce elim!: yieldsE)
  have len: "length ?flds = length kvs" using run(2) by (metis length_map)
  have "conforms g (TObject ty) sel (JObj (map (\<lambda>(a, m). (a, marshaler_json m)) kvs))" if "k = 0"
    by (rule fields_conform [where ns = ns])
      (use run(2-5) len that in \<open>auto simp: list_all2_conv_all_nth\<close>)
  then show ?thesis
    by (auto simp: run(1) object_result_def fits_def)
qed

lemma object_value_fits: "yields (fits g t sel) r \<Longrightarrow> nullable t \<Longrightarrow> 
  \<exists>m s. r = (Ret m, s) \<and> conforms g t sel (marshaler_json m)"
  by (auto simp: yields_def fits_def intro: conforms_null)

end
