(* ===== verification/Graphql_Conform.thy ===== *)
theory Graphql_Conform
  imports Graphql_Schema
begin

text \<open>
  Every object of the executor answers its type: for selections the schema allows, whatever the
  resolvers do and whatever the introspection library holds, an object is null or an answer of its
  type. A value that is missing where the schema requires one makes its parent null, never a hole.
\<close>

section \<open>Marshallers\<close>

named_theorems marshal_fits

lemma scalar_marshal_fits [marshal_fits]:
  assumes "gqlgen_ok (ec_graphql ec)"
  shows "yields (fits (ec_graphql ec) TString sel) (marshalNString2string ec c sel x s)"
    "yields (fits (ec_graphql ec) TID sel) (marshalNID2string ec c sel x s)"
    "yields (fits (ec_graphql ec) TInt sel) (marshalNInt2int ec c sel i s)"
    "yields (fits (ec_graphql ec) TBoolean sel) (marshalNBoolean2bool ec c sel b s)"
    "yields (fits (ec_graphql ec) TString sel) (marshalN__TypeKind ec c sel x s)"
    "yields (fits (ec_graphql ec) TString sel) (marshalN__DirectiveLocation ec c sel x s)"
    "yields (fits (ec_graphql ec) TBoolean sel) (marshalOBoolean2bool ec c sel b s)"
    "yields (fits (ec_graphql ec) TString sel) (marshalOStringPtr ec c sel xo s)"
  by (simp_all add: scalar_marshal_defs marshalN__TypeKind_def marshalN__DirectiveLocation_def
      marshalOBoolean2bool_def marshalOStringPtr_def Let_def gqlgen_ok_simps [OF assms] split: option.split)

lemma location_slice_fits [marshal_fits]:
  assumes "gqlgen_ok (ec_graphql ec)"
  shows "yields (fits (ec_graphql ec) (TList (TNonNull TString)) sel)
    (marshalN__DirectiveLocationSlice ec c sel xs s)"
  unfolding marshalN__DirectiveLocationSlice_def
  by (rule slice_fits [OF assms]) (rule marshal_fits [OF assms])

section \<open>Introspection\<close>

text \<open>What the objects assume of the object function of \<open>__Type\<close>, for selections of depth \<open>n\<close>.\<close>

definition type_ok ::
  "('c, 'sel, 's) execution_context \<Rightarrow> nat \<Rightarrow> ('c, 'sel, 's) type_object \<Rightarrow> bool" where
  "type_ok ec n ty \<longleftrightarrow>
     (\<forall>c sel obj s. selects (ec_graphql ec) n ''__Type'' sel \<longrightarrow>
        yields (fits (ec_graphql ec) (TObject ''__Type'') sel) (ty c sel obj s))"

lemma type_marshal_fits:
  assumes ok: "gqlgen_ok (ec_graphql ec)" and ty: "type_ok ec n ty"
    and sel: "selects (ec_graphql ec) n ''__Type'' sel"
  shows "yields (fits (ec_graphql ec) (TObject ''__Type'') sel) (marshalN__TypePtr ty ec c sel x s)"
    "yields (fits (ec_graphql ec) (TObject ''__Type'') sel) (marshalO__TypePtr ty ec c sel x s)"
    "yields (fits (ec_graphql ec) (types_of ''__Type'') sel) (marshalN__TypeSlice ty ec c sel xs s)"
    "yields (fits (ec_graphql ec) (types_of ''__Type'') sel) (marshalO__TypeSlice ty ec c sel xs s)"
  using ty sel
  by (auto simp: marshalN__TypePtr_def marshalO__TypePtr_def marshalN__TypeSlice_def marshalO__TypeSlice_def
      marshalN__Type_def type_ok_def types_of_def split: option.split intro!: slice_fits [OF ok])

lemmas EnumValue_field_defs = EnumValue_name_def EnumValue_description_def
  EnumValue_isDeprecated_def EnumValue_deprecationReason_def fieldContext___EnumValue_name_def
  fieldContext___EnumValue_description_def fieldContext___EnumValue_isDeprecated_def
  fieldContext___EnumValue_deprecationReason_def

lemma EnumValue_value_fits:
  assumes ok: "gqlgen_ok (ec_graphql ec)"
    and "field_type ''__EnumValue'' (cf_Name fld) = Some t"
  shows "yields (field_fits (ec_graphql ec) t (cf_Selections fld)) (EnumValue_value ec c obj fld s)"
  using assms(2)
  by (auto simp: schema_defs EnumValue_value_def EnumValue_field_defs context_with_args_total
      marshal_fits [OF ok] gqlgen_ok_simps [OF ok] split: if_splits
      intro!: non_null_fits required_null_fits resolve_fits_pure [OF ok] resolve_fits_args [OF ok])

lemma EnumValue_object_fits:
  assumes ok: "gqlgen_ok (ec_graphql ec)"
    and sel: "selects (ec_graphql ec) n ''__EnumValue'' sel"
  shows "yields (fits (ec_graphql ec) (TObject ''__EnumValue'') sel) (EnumValue_object ec c sel obj s)"
  unfolding EnumValue_object_def
  by (rule object_fits [OF sel], rule EnumValue_value_fits [OF ok])
    (auto intro: selects_mono)

lemma EnumValue_marshal_fits:
  assumes ok: "gqlgen_ok (ec_graphql ec)"
    and sel: "selects (ec_graphql ec) n ''__EnumValue'' sel"
  shows "yields (fits (ec_graphql ec) (TObject ''__EnumValue'') sel) (marshalN__EnumValue ec c sel x s)"
    "yields (fits (ec_graphql ec) (types_of ''__EnumValue'') sel) (marshalO__EnumValueSlice ec c sel xs s)"
  using EnumValue_object_fits [OF ok sel]
  by (auto simp: marshalN__EnumValue_def marshalO__EnumValueSlice_def types_of_def
      split: option.split intro!: slice_fits [OF ok])

lemmas InputValue_field_defs = InputValue_name_def InputValue_description_def
  InputValue_type_def InputValue_defaultValue_def InputValue_isDeprecated_def
  InputValue_deprecationReason_def fieldContext___InputValue_name_def
  fieldContext___InputValue_description_def fieldContext___InputValue_type_def
  fieldContext___InputValue_defaultValue_def fieldContext___InputValue_isDeprecated_def
  fieldContext___InputValue_deprecationReason_def

lemma InputValue_value_fits:
  assumes ok: "gqlgen_ok (ec_graphql ec)"
    and "field_type ''__InputValue'' (cf_Name fld) = Some t"
    and "\<And>ty'. object_type t = Some ty' \<Longrightarrow> selects (ec_graphql ec) n ty' (cf_Selections fld)"
    and ty: "type_ok ec n ty"
  shows "yields (field_fits (ec_graphql ec) t (cf_Selections fld)) (InputValue_value ty ec c obj fld s)"
  using assms(2,3)
  by (auto simp: schema_defs InputValue_value_def InputValue_field_defs context_with_args_total
      marshal_fits [OF ok] gqlgen_ok_simps [OF ok] split: if_splits
      intro!: non_null_fits required_null_fits resolve_fits_pure [OF ok] resolve_fits_args [OF ok]
        intro: type_marshal_fits [OF ok ty])

lemma InputValue_object_fits:
  assumes ok: "gqlgen_ok (ec_graphql ec)"
    and ty: "type_ok ec n ty"
    and sel: "selects (ec_graphql ec) n ''__InputValue'' sel"
  shows "yields (fits (ec_graphql ec) (TObject ''__InputValue'') sel) (InputValue_object ty ec c sel obj s)"
  unfolding InputValue_object_def
  by (rule object_fits [OF sel], rule InputValue_value_fits [OF ok _ _ ty])
    (auto intro: selects_mono)

lemma InputValue_marshal_fits:
  assumes ok: "gqlgen_ok (ec_graphql ec)"
    and ty: "type_ok ec n ty"
    and sel: "selects (ec_graphql ec) n ''__InputValue'' sel"
  shows "yields (fits (ec_graphql ec) (TObject ''__InputValue'') sel) (marshalN__InputValue ty ec c sel x s)"
    "yields (fits (ec_graphql ec) (types_of ''__InputValue'') sel) (marshalN__InputValueSlice ty ec c sel xs s)"
    "yields (fits (ec_graphql ec) (types_of ''__InputValue'') sel) (marshalO__InputValueSlice ty ec c sel xs s)"
  using InputValue_object_fits [OF ok ty sel]
  by (auto simp: marshalN__InputValue_def marshalN__InputValueSlice_def marshalO__InputValueSlice_def types_of_def
      split: option.split intro!: slice_fits [OF ok])

lemmas Field_field_defs = Field_name_def Field_description_def Field_args_def Field_type_def
  Field_isDeprecated_def Field_deprecationReason_def fieldContext___Field_name_def
  fieldContext___Field_description_def fieldContext___Field_args_def
  fieldContext___Field_type_def fieldContext___Field_isDeprecated_def
  fieldContext___Field_deprecationReason_def

lemma Field_value_fits:
  assumes ok: "gqlgen_ok (ec_graphql ec)"
    and "field_type ''__Field'' (cf_Name fld) = Some t"
    and "\<And>ty'. object_type t = Some ty' \<Longrightarrow> selects (ec_graphql ec) n ty' (cf_Selections fld)"
    and ty: "type_ok ec n ty"
  shows "yields (field_fits (ec_graphql ec) t (cf_Selections fld)) (Field_value ty ec c obj fld s)"
  using assms(2,3)
  by (auto simp: schema_defs Field_value_def Field_field_defs context_with_args_total
      marshal_fits [OF ok] gqlgen_ok_simps [OF ok] split: if_splits
      intro!: non_null_fits required_null_fits resolve_fits_pure [OF ok] resolve_fits_args [OF ok]
        intro: type_marshal_fits [OF ok ty] InputValue_marshal_fits [OF ok ty])

lemma Field_object_fits:
  assumes ok: "gqlgen_ok (ec_graphql ec)"
    and ty: "type_ok ec n ty"
    and sel: "selects (ec_graphql ec) n ''__Field'' sel"
  shows "yields (fits (ec_graphql ec) (TObject ''__Field'') sel) (Field_object ty ec c sel obj s)"
  unfolding Field_object_def
  by (rule object_fits [OF sel], rule Field_value_fits [OF ok _ _ ty])
    (auto intro: selects_mono)

lemma Field_marshal_fits:
  assumes ok: "gqlgen_ok (ec_graphql ec)"
    and ty: "type_ok ec n ty"
    and sel: "selects (ec_graphql ec) n ''__Field'' sel"
  shows "yields (fits (ec_graphql ec) (TObject ''__Field'') sel) (marshalN__Field ty ec c sel x s)"
    "yields (fits (ec_graphql ec) (types_of ''__Field'') sel) (marshalO__FieldSlice ty ec c sel xs s)"
  using Field_object_fits [OF ok ty sel]
  by (auto simp: marshalN__Field_def marshalO__FieldSlice_def types_of_def
      split: option.split intro!: slice_fits [OF ok])

lemmas Directive_field_defs = Directive_name_def Directive_description_def
  Directive_isRepeatable_def Directive_locations_def Directive_args_def
  fieldContext___Directive_name_def fieldContext___Directive_description_def
  fieldContext___Directive_isRepeatable_def fieldContext___Directive_locations_def
  fieldContext___Directive_args_def

lemma Directive_value_fits:
  assumes ok: "gqlgen_ok (ec_graphql ec)"
    and "field_type ''__Directive'' (cf_Name fld) = Some t"
    and "\<And>ty'. object_type t = Some ty' \<Longrightarrow> selects (ec_graphql ec) n ty' (cf_Selections fld)"
    and ty: "type_ok ec n ty"
  shows "yields (field_fits (ec_graphql ec) t (cf_Selections fld)) (Directive_value ty ec c obj fld s)"
  using assms(2,3)
  by (auto simp: schema_defs Directive_value_def Directive_field_defs context_with_args_total
      marshal_fits [OF ok] gqlgen_ok_simps [OF ok] split: if_splits
      intro!: non_null_fits required_null_fits resolve_fits_pure [OF ok] resolve_fits_args [OF ok]
        intro: InputValue_marshal_fits [OF ok ty])

lemma Directive_object_fits:
  assumes ok: "gqlgen_ok (ec_graphql ec)"
    and ty: "type_ok ec n ty"
    and sel: "selects (ec_graphql ec) n ''__Directive'' sel"
  shows "yields (fits (ec_graphql ec) (TObject ''__Directive'') sel) (Directive_object ty ec c sel obj s)"
  unfolding Directive_object_def
  by (rule object_fits [OF sel], rule Directive_value_fits [OF ok _ _ ty])
    (auto intro: selects_mono)

lemma Directive_marshal_fits:
  assumes ok: "gqlgen_ok (ec_graphql ec)"
    and ty: "type_ok ec n ty"
    and sel: "selects (ec_graphql ec) n ''__Directive'' sel"
  shows "yields (fits (ec_graphql ec) (TObject ''__Directive'') sel) (marshalN__Directive ty ec c sel x s)"
    "yields (fits (ec_graphql ec) (types_of ''__Directive'') sel) (marshalN__DirectiveSlice ty ec c sel xs s)"
  using Directive_object_fits [OF ok ty sel]
  by (auto simp: marshalN__Directive_def marshalN__DirectiveSlice_def types_of_def
      split: option.split intro!: slice_fits [OF ok])

lemma Type_lists_fit:
  assumes ok: "gqlgen_ok (ec_graphql ec)"
  shows "type_ok ec n ty \<Longrightarrow> selects (ec_graphql ec) n ''__Field'' (cf_Selections fld) \<Longrightarrow>
      yields (fits (ec_graphql ec) (types_of ''__Field'') (cf_Selections fld)) (Type_fields ty ec c fld obj s)"
    and "selects (ec_graphql ec) n ''__EnumValue'' (cf_Selections fld) \<Longrightarrow>
      yields (fits (ec_graphql ec) (types_of ''__EnumValue'') (cf_Selections fld)) (Type_enumValues ec c fld obj s)"
  unfolding Type_fields_def Type_enumValues_def fieldContext___Type_fields_def fieldContext___Type_enumValues_def
  by (rule resolve_fits [OF ok context_with_args_total];
      auto split: option.splits gvalue.splits intro: Field_marshal_fits [OF ok] EnumValue_marshal_fits [OF ok])+

lemmas Type_field_defs = Type_kind_def Type_name_def Type_description_def
  Type_specifiedByURL_def Type_interfaces_def Type_possibleTypes_def Type_inputFields_def
  Type_ofType_def Type_isOneOf_def fieldContext___Type_kind_def fieldContext___Type_name_def
  fieldContext___Type_description_def fieldContext___Type_specifiedByURL_def
  fieldContext___Type_interfaces_def fieldContext___Type_possibleTypes_def
  fieldContext___Type_inputFields_def fieldContext___Type_ofType_def
  fieldContext___Type_isOneOf_def

lemma Type_value_fits:
  assumes ok: "gqlgen_ok (ec_graphql ec)"
    and "field_type ''__Type'' (cf_Name fld) = Some t"
    and "\<And>ty'. object_type t = Some ty' \<Longrightarrow> selects (ec_graphql ec) n ty' (cf_Selections fld)"
    and ty: "type_ok ec n ty"
  shows "yields (field_fits (ec_graphql ec) t (cf_Selections fld)) (Type_value ty ec c obj fld s)"
  using assms(2,3)
  by (auto simp: schema_defs Type_value_def Type_field_defs context_with_args_total
      marshal_fits [OF ok] gqlgen_ok_simps [OF ok] split: if_splits
      intro!: non_null_fits required_null_fits resolve_fits_pure [OF ok] resolve_fits_args [OF ok]
        intro: type_marshal_fits [OF ok ty] InputValue_marshal_fits [OF ok ty] Type_lists_fit [OF ok] ty)

lemma Type_object_fits:
  assumes ok: "gqlgen_ok (ec_graphql ec)"
    and ty: "type_ok ec n ty"
    and sel: "selects (ec_graphql ec) (Suc n) ''__Type'' sel"
  shows "yields (fits (ec_graphql ec) (TObject ''__Type'') sel) (Type_object ty ec c sel obj s)"
  unfolding Type_object_def
  by (rule object_fits [OF sel], rule Type_value_fits [OF ok _ _ ty])
    (auto intro: selects_mono)

lemmas Schema_field_defs = Schema_description_def Schema_types_def Schema_queryType_def
  Schema_mutationType_def Schema_subscriptionType_def Schema_directives_def
  fieldContext___Schema_description_def fieldContext___Schema_types_def
  fieldContext___Schema_queryType_def fieldContext___Schema_mutationType_def
  fieldContext___Schema_subscriptionType_def fieldContext___Schema_directives_def

lemma Schema_value_fits:
  assumes ok: "gqlgen_ok (ec_graphql ec)"
    and "field_type ''__Schema'' (cf_Name fld) = Some t"
    and "\<And>ty'. object_type t = Some ty' \<Longrightarrow> selects (ec_graphql ec) n ty' (cf_Selections fld)"
    and ty: "type_ok ec n ty"
  shows "yields (field_fits (ec_graphql ec) t (cf_Selections fld)) (Schema_value ty ec c obj fld s)"
  using assms(2,3)
  by (auto simp: schema_defs Schema_value_def Schema_field_defs context_with_args_total
      marshal_fits [OF ok] gqlgen_ok_simps [OF ok] split: if_splits
      intro!: non_null_fits required_null_fits resolve_fits_pure [OF ok] resolve_fits_args [OF ok]
        intro: type_marshal_fits [OF ok ty] Directive_marshal_fits [OF ok ty])

lemma Schema_object_fits:
  assumes ok: "gqlgen_ok (ec_graphql ec)"
    and ty: "type_ok ec n ty"
    and sel: "selects (ec_graphql ec) n ''__Schema'' sel"
  shows "yields (fits (ec_graphql ec) (TObject ''__Schema'') sel) (Schema_object ty ec c sel obj s)"
  unfolding Schema_object_def
  by (rule object_fits [OF sel], rule Schema_value_fits [OF ok _ _ ty])
    (auto intro: selects_mono)

text \<open>The recursion: at bound \<open>n\<close> the selections of depth \<open>n\<close> are answered.\<close>

lemma introspect_type_ok:
  assumes ok: "gqlgen_ok (ec_graphql ec)"
  shows "type_ok ec n (introspect_type n ec)"
proof (induction n)
  case (Suc n)
  show ?case
    unfolding type_ok_def introspect_type.simps using Type_object_fits [OF ok Suc.IH] by blast
qed (simp add: type_ok_def)

lemma type_ok_mono: "type_ok ec k ty \<Longrightarrow> n \<le> k \<Longrightarrow> type_ok ec n ty"
  by (auto simp: type_ok_def intro: selects_mono)

section \<open>Voyages\<close>

lemma Voyage_value_fits:
  assumes ok: "gqlgen_ok (ec_graphql ec)" and "field_type ''Voyage'' (cf_Name fld) = Some t"
  shows "yields (field_fits (ec_graphql ec) t (cf_Selections fld)) (Voyage_value ec c obj fld s)"
  using assms(2)
  by (auto simp: schema_defs Voyage_value_def gqlgen_ok_simps [OF ok]
      voyage_scalar [OF ok] split: if_splits intro!: non_null_fits)

lemma Voyage_object_fits:
  assumes ok: "gqlgen_ok (ec_graphql ec)" and sel: "selects (ec_graphql ec) n ''Voyage'' sel"
  shows "yields (fits (ec_graphql ec) (TObject ''Voyage'') sel) (Voyage_object ec c sel obj s)"
  unfolding Voyage_object_def
  by (rule object_fits [OF sel], rule Voyage_value_fits [OF ok])

lemma Voyage_marshal_fits:
  assumes ok: "gqlgen_ok (ec_graphql ec)" and sel: "selects (ec_graphql ec) n ''Voyage'' sel"
  shows "yields (fits (ec_graphql ec) (TObject ''Voyage'') sel) (marshalNVoyage ec c sel x s)"
    "yields (fits (ec_graphql ec) (TObject ''Voyage'') sel) (marshalOVoyage ec c sel x s)"
  using Voyage_object_fits [OF ok sel]
  by (auto simp: marshalNVoyage_def marshalOVoyage_def split: option.split)

lemma CreateVoyagePayload_value_fits:
  assumes ok: "gqlgen_ok (ec_graphql ec)"
    and "field_type ''CreateVoyagePayload'' (cf_Name fld) = Some t"
    and "\<And>ty'. object_type t = Some ty' \<Longrightarrow> selects (ec_graphql ec) n ty' (cf_Selections fld)"
  shows "yields (field_fits (ec_graphql ec) t (cf_Selections fld)) (CreateVoyagePayload_value ec c obj fld s)"
  using assms(2,3)
  by (auto simp: schema_defs CreateVoyagePayload_value_def gqlgen_ok_simps [OF ok]
      payload_scalar [OF ok] CreateVoyagePayload_voyage_def context_defs split: if_splits
      intro!: non_null_fits resolve_fits_pure [OF ok] intro: Voyage_marshal_fits [OF ok])

lemma CreateVoyagePayload_object_fits:
  assumes ok: "gqlgen_ok (ec_graphql ec)"
    and sel: "selects (ec_graphql ec) n ''CreateVoyagePayload'' sel"
  shows "yields (fits (ec_graphql ec) (TObject ''CreateVoyagePayload'') sel)
    (CreateVoyagePayload_object ec c sel obj s)"
  unfolding CreateVoyagePayload_object_def
  by (rule object_fits [OF sel], rule CreateVoyagePayload_value_fits [OF ok])

lemma CreateVoyagePayload_marshal_fits:
  assumes ok: "gqlgen_ok (ec_graphql ec)"
    and sel: "selects (ec_graphql ec) n ''CreateVoyagePayload'' sel"
  shows "yields (fits (ec_graphql ec) (TObject ''CreateVoyagePayload'') sel)
    (marshalNCreateVoyagePayload ec c sel x s)"
  using CreateVoyagePayload_object_fits [OF ok sel]
  by (auto simp: marshalNCreateVoyagePayload_def split: option.split)

section \<open>The root objects\<close>

lemma Mutation_fields_fit:
  assumes ok: "gqlgen_ok (ec_graphql ec)"
  shows "selects (ec_graphql ec) n ''CreateVoyagePayload'' (cf_Selections fld) \<Longrightarrow>
      yields (fits (ec_graphql ec) (TObject ''CreateVoyagePayload'') (cf_Selections fld))
        (Mutation_createVoyage ec c fld s)"
    and "selects (ec_graphql ec) n ''Voyage'' (cf_Selections fld) \<Longrightarrow>
      yields (fits (ec_graphql ec) (TObject ''Voyage'') (cf_Selections fld)) (Mutation_updateVoyage ec c fld s)"
  unfolding Mutation_createVoyage_def Mutation_updateVoyage_def
    fieldContext_Mutation_createVoyage_def fieldContext_Mutation_updateVoyage_def
  by (rule resolve_fits [OF ok context_with_args_total];
      auto split: option.splits gvalue.splits prod.splits sum.splits
        intro: CreateVoyagePayload_marshal_fits [OF ok] Voyage_marshal_fits [OF ok])+

lemma Mutation_value_fits:
  assumes ok: "gqlgen_ok (ec_graphql ec)"
    and "field_type ''Mutation'' (cf_Name fld) = Some t"
    and "\<And>ty'. object_type t = Some ty' \<Longrightarrow> selects (ec_graphql ec) n ty' (cf_Selections fld)"
  shows "yields (field_fits (ec_graphql ec) t (cf_Selections fld)) (Mutation_value ec c fld s)"
  using assms(2,3)
  by (auto simp: schema_defs Mutation_value_def Let_def gqlgen_ok_simps [OF ok]
      split: if_splits intro!: non_null_fits intro: Mutation_fields_fit [OF ok])

lemma Mutation_object_fits:
  assumes ok: "gqlgen_ok (ec_graphql ec)" and sel: "selects (ec_graphql ec) n ''Mutation'' sel"
  shows "yields (fits (ec_graphql ec) (TObject ''Mutation'') sel) (Mutation_object ec c sel s)"
  unfolding Mutation_object_def
  by (rule object_fits [OF sel], rule Mutation_value_fits [OF ok])

lemma Query_fields_fit:
  assumes ok: "gqlgen_ok (ec_graphql ec)"
  shows "selects (ec_graphql ec) n ''Voyage'' (cf_Selections fld) \<Longrightarrow>
      yields (fits (ec_graphql ec) (TObject ''Voyage'') (cf_Selections fld)) (Query_voyage ec c fld s)"
    and "selects (ec_graphql ec) n ''__Type'' (cf_Selections fld) \<Longrightarrow> n \<le> ec_depth ec \<Longrightarrow>
      yields (fits (ec_graphql ec) (TObject ''__Type'') (cf_Selections fld)) (Query_type ec c fld s)"
    and "selects (ec_graphql ec) n ''__Schema'' (cf_Selections fld) \<Longrightarrow> n \<le> ec_depth ec \<Longrightarrow>
      yields (fits (ec_graphql ec) (TObject ''__Schema'') (cf_Selections fld)) (Query_schema ec c fld s)"
proof -
  note ty = type_ok_mono [OF introspect_type_ok [OF ok, of "ec_depth ec"]]
  show "selects (ec_graphql ec) n ''Voyage'' (cf_Selections fld) \<Longrightarrow>
      yields (fits (ec_graphql ec) (TObject ''Voyage'') (cf_Selections fld)) (Query_voyage ec c fld s)"
    unfolding Query_voyage_def fieldContext_Query_voyage_def
    by (rule resolve_fits [OF ok context_with_args_total])
      (auto split: option.splits gvalue.splits prod.splits sum.splits intro: Voyage_marshal_fits [OF ok])
  show "selects (ec_graphql ec) n ''__Type'' (cf_Selections fld) \<Longrightarrow> n \<le> ec_depth ec \<Longrightarrow>
      yields (fits (ec_graphql ec) (TObject ''__Type'') (cf_Selections fld)) (Query_type ec c fld s)"
    unfolding Query_type_def fieldContext_Query_type_def
    by (rule resolve_fits [OF ok context_with_args_total])
      (auto split: option.splits gvalue.splits sum.splits intro: type_marshal_fits [OF ok ty])
  show "selects (ec_graphql ec) n ''__Schema'' (cf_Selections fld) \<Longrightarrow> n \<le> ec_depth ec \<Longrightarrow>
      yields (fits (ec_graphql ec) (TObject ''__Schema'') (cf_Selections fld)) (Query_schema ec c fld s)"
    unfolding Query_schema_def fieldContext_Query_schema_def
    by (rule resolve_fits [OF ok])
      (auto simp: marshalO__SchemaPtr_def split: option.split sum.splits intro: Schema_object_fits [OF ok ty])
qed

text \<open>The slot of a field: a value that fits the field's type, or a delayed one that will.\<close>

definition slot_fits :: "('c, 'sel, 's) gqlgen \<Rightarrow> gtype \<Rightarrow> 'sel \<Rightarrow> 's slot \<Rightarrow> bool" where
  "slot_fits g t sel x =
     (case x of
        Ready v \<Rightarrow> field_fits g t sel v
      | Delayed run \<Rightarrow> nullable t \<and> (\<forall>s. yields (fits g t sel) (run s)))"

lemma Query_slot_fits:
  fixes ec :: "('c, 'sel, 's) execution_context"
  assumes ok: "gqlgen_ok (ec_graphql ec)" and "n \<le> ec_depth ec"
    and "field_type ''Query'' (cf_Name fld) = Some t"
    and "\<And>ty'. object_type t = Some ty' \<Longrightarrow> selects (ec_graphql ec) n ty' (cf_Selections fld)"
  shows "yields (slot_fits (ec_graphql ec) t (cf_Selections fld)) (Query_slot ec c fld s)"
proof -
  have ready: "yields (field_fits (ec_graphql ec) u (cf_Selections fld)) r \<Longrightarrow>
      yields (slot_fits (ec_graphql ec) u (cf_Selections fld))
        (case r of (r, s) \<Rightarrow> (bind_ret r (\<lambda>v. Ret (Ready v)), s))" for u and r :: "(marshaler \<times> nat) ret \<times> 's"
    by (auto simp: yields_def slot_fits_def)
  have inner: "yields (fits (ec_graphql ec) (TObject ''Voyage'') (cf_Selections fld)) (Query_voyage_inner ec c fld s)"
    if "selects (ec_graphql ec) n ''Voyage'' (cf_Selections fld)" for c s
    using Query_fields_fit(1) [OF ok that, of c s] by (auto simp: Query_voyage_inner_def elim!: yieldsE)
  show ?thesis
    using assms(2-)
    by (auto simp: schema_defs Query_slot_def Let_def gqlgen_ok_simps [OF ok] slot_fits_def
        split: if_splits intro!: ready required_null_fits intro: inner Query_fields_fit [OF ok])
qed

lemma query_slots_fit:
  assumes "\<And>fld s. fld \<in> set flds \<Longrightarrow> yields (P fld) (slot fld s)"
  shows "yields (list_all2 P flds) (query_slots slot flds s)"
  using assms
proof (induction flds arbitrary: s)
  case (Cons fld flds)
  from Cons.prems [of fld s] obtain x s1 where one: "slot fld s = (Ret x, s1)" "P fld x"
    by (auto elim: yieldsE)
  from Cons.IH [of s1] Cons.prems obtain xs s2
    where "query_slots slot flds s1 = (Ret xs, s2)" "list_all2 P flds xs" by (auto elim: yieldsE)
  with one show ?case by simp
qed simp

text \<open>\<open>Dispatch\<close> makes every delayed value the schedule names, and each fits its field.\<close>

lemma dispatch_fits:
  assumes "\<And>i. i < length slots \<Longrightarrow> slot_fits g (t i) (sel i) (slots ! i)"
    and "set is \<subseteq> {..<length slots}"
  shows "yields (\<lambda>out. length out = length slots \<and>
      (\<forall>i < length slots. slot_fits g (t i) (sel i) (out ! i) \<and>
         (i \<in> set is \<or> (\<exists>v. slots ! i = Ready v) \<longrightarrow> (\<exists>v. out ! i = Ready v))))
    (dispatch is slots s)"
  using assms
proof (induction "is" arbitrary: slots s)
  case (Cons j js)
  have j: "j < length slots" using Cons.prems(2) by simp
  show ?case
  proof (cases "slots ! j")
    case (Ready v)
    have "yields (\<lambda>out. length out = length slots \<and>
        (\<forall>i < length slots. slot_fits g (t i) (sel i) (out ! i) \<and>
           (i \<in> set js \<or> (\<exists>v. slots ! i = Ready v) \<longrightarrow> (\<exists>v. out ! i = Ready v))))
      (dispatch js slots s)"
      by (rule Cons.IH) (use Cons.prems in auto)
    with Ready show ?thesis by (auto simp: yields_def)
  next
    case (Delayed run)
    with Cons.prems(1) [OF j] have "yields (field_fits g (t j) (sel j)) (required_null (run s))"
      by (auto simp: slot_fits_def intro: required_null_fits)
    then obtain v s1 where v: "required_null (run s) = (Ret v, s1)" "field_fits g (t j) (sel j) v"
      by (rule yieldsE)
    have "yields (\<lambda>out. length out = length (slots[j := Ready v]) \<and>
        (\<forall>i < length (slots[j := Ready v]). slot_fits g (t i) (sel i) (out ! i) \<and>
           (i \<in> set js \<or> (\<exists>u. slots[j := Ready v] ! i = Ready u) \<longrightarrow> (\<exists>v. out ! i = Ready v))))
      (dispatch js (slots[j := Ready v]) s1)"
      by (rule Cons.IH) (use Cons.prems v(2) j in \<open>auto simp: nth_list_update slot_fits_def\<close>)
    with Delayed v(1) j show ?thesis
      by (auto simp: yields_def nth_list_update)
  qed
qed simp

lemma Query_object_fits:
  fixes ec :: "('c, 'sel, 's) execution_context"
  assumes ok: "gqlgen_ok (ec_graphql ec)" and sel: "selects (ec_graphql ec) n ''Query'' sel"
    and depth: "n \<le> ec_depth ec"
  shows "yields (fits (ec_graphql ec) (TObject ''Query'') sel) (Query_object ec c sel s)"
proof -
  let ?g = "ec_graphql ec"
  let ?flds = "gq_CollectFields ?g sel [''Query'']"
  let ?P = "\<lambda>fld x. \<exists>t. field_type ''Query'' (cf_Name fld) = Some t \<and> slot_fits ?g t (cf_Selections fld) x"
  have "yields (?P fld) (Query_slot ec c fld s)" if fld: "fld \<in> set ?flds" for c fld s
  proof -
    from selects_field [OF sel fld] obtain t where t: "field_type ''Query'' (cf_Name fld) = Some t"
      "\<And>ty'. object_type t = Some ty' \<Longrightarrow> selects ?g (n - 1) ty' (cf_Selections fld)" by blast
    have "n - 1 \<le> ec_depth ec" using depth by simp
    from Query_slot_fits [OF ok this t] t(1) show ?thesis by (auto simp: yields_def)
  qed
  from query_slots_fit [where P = ?P and flds = ?flds and slot = "Query_slot ec (gq_WithObject ?g c ''Query'')" and s = s, OF this]
  obtain slots s1 where slots: "query_slots (Query_slot ec (gq_WithObject ?g c ''Query'')) ?flds s = (Ret slots, s1)"
    "list_all2 ?P ?flds slots" by (auto elim: yieldsE)
  then have len: "length slots = length ?flds" by (simp add: list_all2_lengthD)
  let ?t = "\<lambda>i. the (field_type ''Query'' (cf_Name (?flds ! i)))"
  have P: "field_type ''Query'' (cf_Name (?flds ! i)) = Some (?t i) \<and>
      slot_fits ?g (?t i) (cf_Selections (?flds ! i)) (slots ! i)" if "i < length slots" for i
    using list_all2_nthD2 [OF slots(2) that] by auto
  have "yields (\<lambda>out. length out = length slots \<and>
      (\<forall>i < length slots. slot_fits ?g (?t i) (cf_Selections (?flds ! i)) (out ! i) \<and>
         (i \<in> set (gq_schedule ?g (length slots)) \<or> (\<exists>v. slots ! i = Ready v) \<longrightarrow> (\<exists>v. out ! i = Ready v))))
    (dispatch (gq_schedule ?g (length slots)) slots s1)"
    by (rule dispatch_fits [where t = ?t]) (use P gqlgen_ok_schedule [OF ok] in auto)
  then obtain out s2 where out: "dispatch (gq_schedule ?g (length slots)) slots s1 = (Ret out, s2)"
    "length out = length slots"
    "\<And>i. i < length slots \<Longrightarrow> slot_fits ?g (?t i) (cf_Selections (?flds ! i)) (out ! i)"
    "\<And>i. i < length slots \<Longrightarrow> \<exists>v. out ! i = Ready v"
    using gqlgen_ok_schedule [OF ok, of "length slots"] by (auto elim!: yieldsE)
  let ?vs = "map slot_value out" and ?kvs = "zip (map cf_Alias ?flds) (map fst (map slot_value out))"
  have "conforms ?g (TObject ''Query'') sel (JObj (map (\<lambda>(a, m). (a, marshaler_json m)) ?kvs))"
    if "sum_list (map snd ?vs) = 0"
  proof (rule fields_conform [OF _ _ that])
    fix i assume "i < length ?kvs"
    then have i: "i < length slots" using len out(2) by simp
    show "\<exists>t. field_type ''Query'' (cf_Name (?flds ! i)) = Some t \<and>
        field_fits ?g t (cf_Selections (?flds ! i)) (snd (?kvs ! i), map snd ?vs ! i)"
      using P [OF i] out(3,4) [OF i] i len out(2) by (auto simp: slot_fits_def)
  qed (use len out(2) in \<open>auto intro: nth_equalityI\<close>)
  then show ?thesis
    by (auto simp: Query_object_def Let_def slots(1) out(1) fits_def)
qed

end
