(* ===== verification/Graphql_Depth.thy ===== *)
theory Graphql_Depth
  imports Graphql_Conform
begin

text \<open>
  The recursion of the introspection objects ends: where the selections the schema allows nest at
  most \<open>n\<close> deep, every bound from \<open>n\<close> on gives the same result, so the bound \<open>ec_depth\<close> is never
  what decides an answer.
\<close>

section \<open>Two object functions of \<open>__Type\<close> that agree\<close>

definition type_eq ::
  "('c, 'sel, 's) execution_context \<Rightarrow> nat \<Rightarrow> ('c, 'sel, 's) type_object \<Rightarrow> ('c, 'sel, 's) type_object \<Rightarrow> bool" where
  "type_eq ec n ty ty' \<longleftrightarrow>
     (\<forall>c sel obj s. selects (ec_graphql ec) n ''__Type'' sel \<longrightarrow> ty c sel obj s = ty' c sel obj s)"

lemma resolve_eq:
  assumes "gqlgen_ok g"
    and init: "\<And>c s. \<exists>fc s'. init c fld s = (Ret fc, s') \<or> (\<exists>e. init c fld s = (Fail e, s'))"
    and marsh: "\<And>c s v s'. resolve c s = (Ret v, s') \<Longrightarrow> v \<noteq> VNil \<and>
      (\<forall>c s. yields (fits g t (cf_Selections fld)) (marsh c (cf_Selections fld) v s) \<and>
         marsh c (cf_Selections fld) v s = marsh' c (cf_Selections fld) v s)"
  shows "gq_ResolveField g c fld init resolve marsh True nonnull s =
    gq_ResolveField g c fld init resolve marsh' True nonnull s"
proof -
  from init [of c s] consider e s' where "init c fld s = (Fail e, s')"
    | fc s' where "init c fld s = (Ret fc, s')" by blast
  then show ?thesis
  proof cases
    case 1
    then show ?thesis by (simp add: resolve_no_context [OF assms(1)])
  next
    case (2 fc s1)
    let ?c = "gq_WithFieldContext g c fc"
    obtain r s2 where r: "resolve ?c s1 = (r, s2)" by fastforce
    show ?thesis
    proof (cases r)
      case (Ret v)
      with r have r: "resolve ?c s1 = (Ret v, s2)" by simp
      from marsh [OF r] obtain m s3 where v: "v \<noteq> VNil"
        and "marsh ?c (cf_Selections fld) v s2 = (Ret m, s3)"
        and "marsh' ?c (cf_Selections fld) v s2 = (Ret m, s3)" by (metis yields_def)
      note val = resolve_value [where init = init and resolve = resolve and v = v and fld = fld, OF assms(1) 2 r v]
      show ?thesis
        by (simp only: val [where marsh = marsh, OF \<open>marsh ?c (cf_Selections fld) v s2 = (Ret m, s3)\<close>]
            val [where marsh = marsh', OF \<open>marsh' ?c (cf_Selections fld) v s2 = (Ret m, s3)\<close>])
    next
      case (Fail e)
      with r have "resolve ?c s1 = (Fail e, s2)" by simp
      note res = resolve_error [where init = init and resolve = resolve, OF assms(1) 2 this]
      show ?thesis by (simp only: res)
    next
      case (Panic p)
      with r have "resolve ?c s1 = (Panic p, s2)" by simp
      note res = resolve_panic [where init = init and resolve = resolve, OF assms(1) 2 this]
      show ?thesis by (simp only: res)
    qed
  qed
qed

lemma resolve_eq_pure:
  assumes "gqlgen_ok g"
    and "\<And>c s. \<exists>fc s'. init c fld s = (Ret fc, s') \<or> (\<exists>e. init c fld s = (Fail e, s'))"
    and "v \<noteq> VNil" and "\<And>c s. yields (fits g t (cf_Selections fld)) (marsh c (cf_Selections fld) v s)"
    and "\<And>c s. marsh c (cf_Selections fld) v s = marsh' c (cf_Selections fld) v s"
  shows "gq_ResolveField g c fld init (\<lambda>c s. (Ret v, s)) marsh True nonnull s =
    gq_ResolveField g c fld init (\<lambda>c s. (Ret v, s)) marsh' True nonnull s"
  by (rule resolve_eq [where t = t and init = init, OF assms(1,2)]) (use assms in auto)

lemma object_fields_eq:
  assumes "\<And>fld s. fld \<in> set flds \<Longrightarrow> value fld s = value' fld s"
  shows "object_fields value flds s = object_fields value' flds s"
  using assms by (induction flds arbitrary: s) (simp_all split: ret.split prod.split)

lemma object_eq:
  assumes "selects g n ty sel"
    and "\<And>fld t s. fld \<in> set (gq_CollectFields g sel [ty]) \<Longrightarrow> field_type ty (cf_Name fld) = Some t \<Longrightarrow>
      (\<And>ty'. object_type t = Some ty' \<Longrightarrow> selects g (n - 1) ty' (cf_Selections fld)) \<Longrightarrow>
      value fld s = value' fld s"
  shows "object_result (object_fields value (gq_CollectFields g sel [ty]) s) =
    object_result (object_fields value' (gq_CollectFields g sel [ty]) s)"
proof (rule arg_cong [where f = object_result], rule object_fields_eq)
  fix fld s assume fld: "fld \<in> set (gq_CollectFields g sel [ty])"
  from selects_field [OF assms(1) fld] assms(2) [OF fld] show "value fld s = value' fld s" by blast
qed

section \<open>Marshallers\<close>

lemma type_marshal_eq:
  assumes "type_eq ec n ty ty'" and "selects (ec_graphql ec) n ''__Type'' sel"
  shows "marshalN__TypePtr ty ec c sel x s = marshalN__TypePtr ty' ec c sel x s"
    "marshalO__TypePtr ty ec c sel x s = marshalO__TypePtr ty' ec c sel x s"
    "marshalN__TypeSlice ty ec c sel xs s = marshalN__TypeSlice ty' ec c sel xs s"
    "marshalO__TypeSlice ty ec c sel xs s = marshalO__TypeSlice ty' ec c sel xs s"
proof -
  have ty: "ty c sel x s = ty' c sel x s" for c x s
    using assms by (simp add: type_eq_def)
  then have "(\<lambda>c x. marshalN__Type ty ec c sel x) = (\<lambda>c x. marshalN__Type ty' ec c sel x)"
    by (simp add: fun_eq_iff marshalN__Type_def)
  then show "marshalN__TypeSlice ty ec c sel xs s = marshalN__TypeSlice ty' ec c sel xs s"
    "marshalO__TypeSlice ty ec c sel xs s = marshalO__TypeSlice ty' ec c sel xs s"
    by (simp_all only: marshalN__TypeSlice_def marshalO__TypeSlice_def)
  show "marshalN__TypePtr ty ec c sel x s = marshalN__TypePtr ty' ec c sel x s"
    "marshalO__TypePtr ty ec c sel x s = marshalO__TypePtr ty' ec c sel x s"
    by (simp_all only: marshalN__TypePtr_def marshalO__TypePtr_def ty)
qed

section \<open>Objects\<close>

lemma InputValue_value_eq:
  assumes ok: "gqlgen_ok (ec_graphql ec)" and ty: "type_ok ec n ty" and eq: "type_eq ec n ty ty'"
    and "field_type ''__InputValue'' (cf_Name fld) = Some t"
    and "\<And>ty'. object_type t = Some ty' \<Longrightarrow> selects (ec_graphql ec) n ty' (cf_Selections fld)"
  shows "InputValue_value ty ec c obj fld s = InputValue_value ty' ec c obj fld s"
  using assms(4,5)
  by (auto simp: schema_defs InputValue_value_def context_with_args_total
      InputValue_type_def fieldContext___InputValue_type_def
      split: if_splits intro!: arg_cong [where f = non_null] arg_cong [where f = required_null]
        resolve_eq_pure [OF ok]
      intro: type_marshal_fits [OF ok ty]
        type_marshal_eq [OF eq])

lemma InputValue_object_eq:
  assumes ok: "gqlgen_ok (ec_graphql ec)" and ty: "type_ok ec n ty" and eq: "type_eq ec n ty ty'"
    and sel: "selects (ec_graphql ec) n ''__InputValue'' sel"
  shows "InputValue_object ty ec c sel obj s = InputValue_object ty' ec c sel obj s"
  unfolding InputValue_object_def
  by (rule object_eq [OF sel], rule InputValue_value_eq [OF ok ty eq]) (auto intro: selects_mono)

lemma InputValue_marshal_eq:
  assumes ok: "gqlgen_ok (ec_graphql ec)" and ty: "type_ok ec n ty" and eq: "type_eq ec n ty ty'"
    and sel: "selects (ec_graphql ec) n ''__InputValue'' sel"
  shows "marshalN__InputValueSlice ty ec c sel xs s = marshalN__InputValueSlice ty' ec c sel xs s"
    "marshalO__InputValueSlice ty ec c sel xs s = marshalO__InputValueSlice ty' ec c sel xs s"
proof -
  have "(\<lambda>c x. marshalN__InputValue ty ec c sel x) = (\<lambda>c x. marshalN__InputValue ty' ec c sel x)"
    by (simp add: fun_eq_iff marshalN__InputValue_def InputValue_object_eq [OF ok ty eq sel])
  then show "marshalN__InputValueSlice ty ec c sel xs s = marshalN__InputValueSlice ty' ec c sel xs s"
    "marshalO__InputValueSlice ty ec c sel xs s = marshalO__InputValueSlice ty' ec c sel xs s"
    by (simp_all only: marshalN__InputValueSlice_def marshalO__InputValueSlice_def)
qed

lemma Field_value_eq:
  assumes ok: "gqlgen_ok (ec_graphql ec)" and ty: "type_ok ec n ty" and eq: "type_eq ec n ty ty'"
    and "field_type ''__Field'' (cf_Name fld) = Some t"
    and "\<And>ty'. object_type t = Some ty' \<Longrightarrow> selects (ec_graphql ec) n ty' (cf_Selections fld)"
  shows "Field_value ty ec c obj fld s = Field_value ty' ec c obj fld s"
  using assms(4,5)
  by (auto simp: schema_defs Field_value_def context_with_args_total
      Field_args_def fieldContext___Field_args_def Field_type_def
      fieldContext___Field_type_def
      split: if_splits intro!: arg_cong [where f = non_null] arg_cong [where f = required_null]
        resolve_eq_pure [OF ok]
      intro: type_marshal_fits [OF ok ty] InputValue_marshal_fits [OF ok ty]
        type_marshal_eq [OF eq] InputValue_marshal_eq [OF ok ty eq])

lemma Field_object_eq:
  assumes ok: "gqlgen_ok (ec_graphql ec)" and ty: "type_ok ec n ty" and eq: "type_eq ec n ty ty'"
    and sel: "selects (ec_graphql ec) n ''__Field'' sel"
  shows "Field_object ty ec c sel obj s = Field_object ty' ec c sel obj s"
  unfolding Field_object_def
  by (rule object_eq [OF sel], rule Field_value_eq [OF ok ty eq]) (auto intro: selects_mono)

lemma Field_marshal_eq:
  assumes ok: "gqlgen_ok (ec_graphql ec)" and ty: "type_ok ec n ty" and eq: "type_eq ec n ty ty'"
    and sel: "selects (ec_graphql ec) n ''__Field'' sel"
  shows "marshalO__FieldSlice ty ec c sel xs s = marshalO__FieldSlice ty' ec c sel xs s"
proof -
  have "(\<lambda>c x. marshalN__Field ty ec c sel x) = (\<lambda>c x. marshalN__Field ty' ec c sel x)"
    by (simp add: fun_eq_iff marshalN__Field_def Field_object_eq [OF ok ty eq sel])
  then show "marshalO__FieldSlice ty ec c sel xs s = marshalO__FieldSlice ty' ec c sel xs s"
    by (simp_all only: marshalO__FieldSlice_def)
qed

lemma Directive_value_eq:
  assumes ok: "gqlgen_ok (ec_graphql ec)" and ty: "type_ok ec n ty" and eq: "type_eq ec n ty ty'"
    and "field_type ''__Directive'' (cf_Name fld) = Some t"
    and "\<And>ty'. object_type t = Some ty' \<Longrightarrow> selects (ec_graphql ec) n ty' (cf_Selections fld)"
  shows "Directive_value ty ec c obj fld s = Directive_value ty' ec c obj fld s"
  using assms(4,5)
  by (auto simp: schema_defs Directive_value_def context_with_args_total
      Directive_args_def fieldContext___Directive_args_def
      split: if_splits intro!: arg_cong [where f = non_null] arg_cong [where f = required_null]
        resolve_eq_pure [OF ok]
      intro: InputValue_marshal_fits [OF ok ty]
        InputValue_marshal_eq [OF ok ty eq])

lemma Directive_object_eq:
  assumes ok: "gqlgen_ok (ec_graphql ec)" and ty: "type_ok ec n ty" and eq: "type_eq ec n ty ty'"
    and sel: "selects (ec_graphql ec) n ''__Directive'' sel"
  shows "Directive_object ty ec c sel obj s = Directive_object ty' ec c sel obj s"
  unfolding Directive_object_def
  by (rule object_eq [OF sel], rule Directive_value_eq [OF ok ty eq]) (auto intro: selects_mono)

lemma Directive_marshal_eq:
  assumes ok: "gqlgen_ok (ec_graphql ec)" and ty: "type_ok ec n ty" and eq: "type_eq ec n ty ty'"
    and sel: "selects (ec_graphql ec) n ''__Directive'' sel"
  shows "marshalN__DirectiveSlice ty ec c sel xs s = marshalN__DirectiveSlice ty' ec c sel xs s"
proof -
  have "(\<lambda>c x. marshalN__Directive ty ec c sel x) = (\<lambda>c x. marshalN__Directive ty' ec c sel x)"
    by (simp add: fun_eq_iff marshalN__Directive_def Directive_object_eq [OF ok ty eq sel])
  then show "marshalN__DirectiveSlice ty ec c sel xs s = marshalN__DirectiveSlice ty' ec c sel xs s"
    by (simp_all only: marshalN__DirectiveSlice_def)
qed

lemma Type_fields_eq:
  assumes ok: "gqlgen_ok (ec_graphql ec)" and ty: "type_ok ec n ty" and eq: "type_eq ec n ty ty'"
    and "selects (ec_graphql ec) n ''__Field'' (cf_Selections fld)"
  shows "Type_fields ty ec c fld obj s = Type_fields ty' ec c fld obj s"
  unfolding Type_fields_def fieldContext___Type_fields_def
  by (rule resolve_eq [OF ok context_with_args_total])
    (use assms(4) in \<open>auto split: option.splits gvalue.splits
       intro: Field_marshal_fits [OF ok ty] Field_marshal_eq [OF ok ty eq]\<close>)

lemma Type_value_eq:
  assumes ok: "gqlgen_ok (ec_graphql ec)" and ty: "type_ok ec n ty" and eq: "type_eq ec n ty ty'"
    and "field_type ''__Type'' (cf_Name fld) = Some t"
    and "\<And>ty'. object_type t = Some ty' \<Longrightarrow> selects (ec_graphql ec) n ty' (cf_Selections fld)"
  shows "Type_value ty ec c obj fld s = Type_value ty' ec c obj fld s"
  using assms(4,5)
  by (auto simp: schema_defs Type_value_def context_with_args_total
      Type_interfaces_def fieldContext___Type_interfaces_def Type_possibleTypes_def
      fieldContext___Type_possibleTypes_def Type_inputFields_def
      fieldContext___Type_inputFields_def Type_ofType_def fieldContext___Type_ofType_def
      split: if_splits intro!: arg_cong [where f = non_null] arg_cong [where f = required_null]
        resolve_eq_pure [OF ok]
      intro: type_marshal_fits [OF ok ty] InputValue_marshal_fits [OF ok ty]
        type_marshal_eq [OF eq] InputValue_marshal_eq [OF ok ty eq] Type_fields_eq [OF ok ty eq])

lemma Type_object_eq:
  assumes ok: "gqlgen_ok (ec_graphql ec)" and ty: "type_ok ec n ty" and eq: "type_eq ec n ty ty'"
    and sel: "selects (ec_graphql ec) (Suc n) ''__Type'' sel"
  shows "Type_object ty ec c sel obj s = Type_object ty' ec c sel obj s"
  unfolding Type_object_def
  by (rule object_eq [OF sel], rule Type_value_eq [OF ok ty eq]) (auto intro: selects_mono)

lemma Schema_value_eq:
  assumes ok: "gqlgen_ok (ec_graphql ec)" and ty: "type_ok ec n ty" and eq: "type_eq ec n ty ty'"
    and "field_type ''__Schema'' (cf_Name fld) = Some t"
    and "\<And>ty'. object_type t = Some ty' \<Longrightarrow> selects (ec_graphql ec) n ty' (cf_Selections fld)"
  shows "Schema_value ty ec c obj fld s = Schema_value ty' ec c obj fld s"
  using assms(4,5)
  by (auto simp: schema_defs Schema_value_def context_with_args_total
      Schema_types_def fieldContext___Schema_types_def Schema_queryType_def
      fieldContext___Schema_queryType_def Schema_mutationType_def
      fieldContext___Schema_mutationType_def Schema_subscriptionType_def
      fieldContext___Schema_subscriptionType_def Schema_directives_def
      fieldContext___Schema_directives_def
      split: if_splits intro!: arg_cong [where f = non_null] arg_cong [where f = required_null]
        resolve_eq_pure [OF ok]
      intro: type_marshal_fits [OF ok ty] Directive_marshal_fits [OF ok ty]
        type_marshal_eq [OF eq] Directive_marshal_eq [OF ok ty eq])

lemma Schema_object_eq:
  assumes ok: "gqlgen_ok (ec_graphql ec)" and ty: "type_ok ec n ty" and eq: "type_eq ec n ty ty'"
    and sel: "selects (ec_graphql ec) n ''__Schema'' sel"
  shows "Schema_object ty ec c sel obj s = Schema_object ty' ec c sel obj s"
  unfolding Schema_object_def
  by (rule object_eq [OF sel], rule Schema_value_eq [OF ok ty eq]) (auto intro: selects_mono)

section \<open>The bound\<close>

text \<open>The objects do not look at \<open>ec_depth\<close>.\<close>

lemma selectors_depth:
  "ec_graphql (ec\<lparr>ec_depth := k\<rparr>) = ec_graphql ec"
  "ec_introspection (ec\<lparr>ec_depth := k\<rparr>) = ec_introspection ec"
  "ec_Resolvers (ec\<lparr>ec_depth := k\<rparr>) = ec_Resolvers ec"
  "ec_Variables (ec\<lparr>ec_depth := k\<rparr>) = ec_Variables ec"
  by simp_all

lemma report_null_depth: "report_null (ec\<lparr>ec_depth := k\<rparr>) = report_null ec"
  by (simp add: report_null_def fun_eq_iff)

lemma scalar_marshal_depth:
  "marshalNString2string (ec\<lparr>ec_depth := k\<rparr>) = marshalNString2string ec"
  "marshalNID2string (ec\<lparr>ec_depth := k\<rparr>) = marshalNID2string ec"
  "marshalNInt2int (ec\<lparr>ec_depth := k\<rparr>) = marshalNInt2int ec"
  "marshalNBoolean2bool (ec\<lparr>ec_depth := k\<rparr>) = marshalNBoolean2bool ec"
  "marshalN__TypeKind (ec\<lparr>ec_depth := k\<rparr>) = marshalN__TypeKind ec"
  "marshalN__DirectiveLocation (ec\<lparr>ec_depth := k\<rparr>) = marshalN__DirectiveLocation ec"
  "marshalOBoolean2bool (ec\<lparr>ec_depth := k\<rparr>) = marshalOBoolean2bool ec"
  "marshalOStringPtr (ec\<lparr>ec_depth := k\<rparr>) = marshalOStringPtr ec"
  unfolding scalar_marshal_defs marshalN__TypeKind_def marshalN__DirectiveLocation_def
    marshalOBoolean2bool_def marshalOStringPtr_def report_null_depth fun_eq_iff selectors_depth
  by simp_all

lemma context_with_args_depth: "context_with_args (ec\<lparr>ec_depth := k\<rparr>) = context_with_args ec"
  by (simp add: context_with_args_def fun_eq_iff)

lemma marshal_slice_depth: "marshal_slice (ec\<lparr>ec_depth := k\<rparr>) = marshal_slice ec"
  by (simp add: marshal_slice_def fun_eq_iff)

lemma type_marshal_depth:
  "marshalN__DirectiveLocationSlice (ec\<lparr>ec_depth := k\<rparr>) = marshalN__DirectiveLocationSlice ec"
  "marshalN__Type ty (ec\<lparr>ec_depth := k\<rparr>) = marshalN__Type ty ec"
  "marshalN__TypePtr ty (ec\<lparr>ec_depth := k\<rparr>) = marshalN__TypePtr ty ec"
  "marshalO__TypePtr ty (ec\<lparr>ec_depth := k\<rparr>) = marshalO__TypePtr ty ec"
  "marshalN__TypeSlice ty (ec\<lparr>ec_depth := k\<rparr>) = marshalN__TypeSlice ty ec"
  "marshalO__TypeSlice ty (ec\<lparr>ec_depth := k\<rparr>) = marshalO__TypeSlice ty ec"
  unfolding marshalN__DirectiveLocationSlice_def marshalN__Type_def marshalN__TypePtr_def
    marshalO__TypePtr_def marshalN__TypeSlice_def marshalO__TypeSlice_def scalar_marshal_depth
    marshal_slice_depth report_null_depth fun_eq_iff
  by simp_all

lemmas depth_simps = selectors_depth scalar_marshal_depth context_with_args_depth
  marshal_slice_depth type_marshal_depth

lemma EnumValue_depth:
  "EnumValue_object (ec\<lparr>ec_depth := k\<rparr>) = EnumValue_object ec"
  "marshalN__EnumValue (ec\<lparr>ec_depth := k\<rparr>) = marshalN__EnumValue ec"
  "marshalO__EnumValueSlice (ec\<lparr>ec_depth := k\<rparr>) = marshalO__EnumValueSlice ec"
proof -
  show obj: "EnumValue_object (ec\<lparr>ec_depth := k\<rparr>) = EnumValue_object ec"
    unfolding fun_eq_iff
      EnumValue_object_def EnumValue_value_def EnumValue_name_def EnumValue_description_def
      EnumValue_isDeprecated_def EnumValue_deprecationReason_def
      fieldContext___EnumValue_name_def fieldContext___EnumValue_description_def
      fieldContext___EnumValue_isDeprecated_def fieldContext___EnumValue_deprecationReason_def
      depth_simps
    by simp
  show "marshalN__EnumValue (ec\<lparr>ec_depth := k\<rparr>) = marshalN__EnumValue ec"
    "marshalO__EnumValueSlice (ec\<lparr>ec_depth := k\<rparr>) = marshalO__EnumValueSlice ec"
    unfolding marshalN__EnumValue_def marshalO__EnumValueSlice_def marshal_slice_depth obj fun_eq_iff
    by simp_all
qed

lemma InputValue_depth:
  "InputValue_object ty (ec\<lparr>ec_depth := k\<rparr>) = InputValue_object ty ec"
  "marshalN__InputValue ty (ec\<lparr>ec_depth := k\<rparr>) = marshalN__InputValue ty ec"
  "marshalN__InputValueSlice ty (ec\<lparr>ec_depth := k\<rparr>) = marshalN__InputValueSlice ty ec"
  "marshalO__InputValueSlice ty (ec\<lparr>ec_depth := k\<rparr>) = marshalO__InputValueSlice ty ec"
proof -
  show obj: "InputValue_object ty (ec\<lparr>ec_depth := k\<rparr>) = InputValue_object ty ec"
    unfolding fun_eq_iff
      InputValue_object_def InputValue_value_def InputValue_name_def
      InputValue_description_def InputValue_type_def InputValue_defaultValue_def
      InputValue_isDeprecated_def InputValue_deprecationReason_def
      fieldContext___InputValue_name_def fieldContext___InputValue_description_def
      fieldContext___InputValue_type_def fieldContext___InputValue_defaultValue_def
      fieldContext___InputValue_isDeprecated_def
      fieldContext___InputValue_deprecationReason_def depth_simps EnumValue_depth
    by simp
  show "marshalN__InputValue ty (ec\<lparr>ec_depth := k\<rparr>) = marshalN__InputValue ty ec"
    "marshalN__InputValueSlice ty (ec\<lparr>ec_depth := k\<rparr>) = marshalN__InputValueSlice ty ec"
    "marshalO__InputValueSlice ty (ec\<lparr>ec_depth := k\<rparr>) = marshalO__InputValueSlice ty ec"
    unfolding marshalN__InputValue_def marshalN__InputValueSlice_def marshalO__InputValueSlice_def
      marshal_slice_depth obj fun_eq_iff
    by simp_all
qed

lemma Field_depth:
  "Field_object ty (ec\<lparr>ec_depth := k\<rparr>) = Field_object ty ec"
  "marshalN__Field ty (ec\<lparr>ec_depth := k\<rparr>) = marshalN__Field ty ec"
  "marshalO__FieldSlice ty (ec\<lparr>ec_depth := k\<rparr>) = marshalO__FieldSlice ty ec"
proof -
  show obj: "Field_object ty (ec\<lparr>ec_depth := k\<rparr>) = Field_object ty ec"
    unfolding fun_eq_iff
      Field_object_def Field_value_def Field_name_def Field_description_def Field_args_def
      Field_type_def Field_isDeprecated_def Field_deprecationReason_def
      fieldContext___Field_name_def fieldContext___Field_description_def
      fieldContext___Field_args_def fieldContext___Field_type_def
      fieldContext___Field_isDeprecated_def fieldContext___Field_deprecationReason_def
      depth_simps EnumValue_depth InputValue_depth
    by simp
  show "marshalN__Field ty (ec\<lparr>ec_depth := k\<rparr>) = marshalN__Field ty ec"
    "marshalO__FieldSlice ty (ec\<lparr>ec_depth := k\<rparr>) = marshalO__FieldSlice ty ec"
    unfolding marshalN__Field_def marshalO__FieldSlice_def marshal_slice_depth obj fun_eq_iff
    by simp_all
qed

lemma Directive_depth:
  "Directive_object ty (ec\<lparr>ec_depth := k\<rparr>) = Directive_object ty ec"
  "marshalN__Directive ty (ec\<lparr>ec_depth := k\<rparr>) = marshalN__Directive ty ec"
  "marshalN__DirectiveSlice ty (ec\<lparr>ec_depth := k\<rparr>) = marshalN__DirectiveSlice ty ec"
proof -
  show obj: "Directive_object ty (ec\<lparr>ec_depth := k\<rparr>) = Directive_object ty ec"
    unfolding fun_eq_iff
      Directive_object_def Directive_value_def Directive_name_def Directive_description_def
      Directive_isRepeatable_def Directive_locations_def Directive_args_def
      fieldContext___Directive_name_def fieldContext___Directive_description_def
      fieldContext___Directive_isRepeatable_def fieldContext___Directive_locations_def
      fieldContext___Directive_args_def depth_simps EnumValue_depth InputValue_depth
      Field_depth
    by simp
  show "marshalN__Directive ty (ec\<lparr>ec_depth := k\<rparr>) = marshalN__Directive ty ec"
    "marshalN__DirectiveSlice ty (ec\<lparr>ec_depth := k\<rparr>) = marshalN__DirectiveSlice ty ec"
    unfolding marshalN__Directive_def marshalN__DirectiveSlice_def marshal_slice_depth obj fun_eq_iff
    by simp_all
qed

lemma Type_depth:
  "Type_object ty (ec\<lparr>ec_depth := k\<rparr>) = Type_object ty ec"
proof -
  show obj: "Type_object ty (ec\<lparr>ec_depth := k\<rparr>) = Type_object ty ec"
    unfolding fun_eq_iff
      Type_object_def Type_value_def Type_kind_def Type_name_def Type_description_def
      Type_specifiedByURL_def Type_fields_def Type_interfaces_def Type_possibleTypes_def
      Type_enumValues_def Type_inputFields_def Type_ofType_def Type_isOneOf_def
      fieldContext___Type_kind_def fieldContext___Type_name_def
      fieldContext___Type_description_def fieldContext___Type_specifiedByURL_def
      fieldContext___Type_fields_def fieldContext___Type_interfaces_def
      fieldContext___Type_possibleTypes_def fieldContext___Type_enumValues_def
      fieldContext___Type_inputFields_def fieldContext___Type_ofType_def
      fieldContext___Type_isOneOf_def depth_simps EnumValue_depth InputValue_depth Field_depth
      Directive_depth
    by simp
qed

lemma Schema_depth:
  "Schema_object ty (ec\<lparr>ec_depth := k\<rparr>) = Schema_object ty ec"
  "marshalO__SchemaPtr ty (ec\<lparr>ec_depth := k\<rparr>) = marshalO__SchemaPtr ty ec"
proof -
  show obj: "Schema_object ty (ec\<lparr>ec_depth := k\<rparr>) = Schema_object ty ec"
    unfolding fun_eq_iff
      Schema_object_def Schema_value_def Schema_description_def Schema_types_def
      Schema_queryType_def Schema_mutationType_def Schema_subscriptionType_def
      Schema_directives_def fieldContext___Schema_description_def
      fieldContext___Schema_types_def fieldContext___Schema_queryType_def
      fieldContext___Schema_mutationType_def fieldContext___Schema_subscriptionType_def
      fieldContext___Schema_directives_def depth_simps EnumValue_depth InputValue_depth
      Field_depth Directive_depth Type_depth
    by simp
  show "marshalO__SchemaPtr ty (ec\<lparr>ec_depth := k\<rparr>) = marshalO__SchemaPtr ty ec"
    unfolding marshalO__SchemaPtr_def marshal_slice_depth obj fun_eq_iff
    by simp_all
qed

lemma introspect_type_depth: "introspect_type n (ec\<lparr>ec_depth := k\<rparr>) = introspect_type n ec"
proof (induction n)
  case (Suc n)
  show ?case by (intro ext) (simp only: introspect_type.simps Suc.IH Type_depth)
qed (simp add: fun_eq_iff)

lemma Voyage_depth:
  "Voyage_object (ec\<lparr>ec_depth := k\<rparr>) = Voyage_object ec"
  "marshalOVoyage (ec\<lparr>ec_depth := k\<rparr>) = marshalOVoyage ec"
proof -
  show obj: "Voyage_object (ec\<lparr>ec_depth := k\<rparr>) = Voyage_object ec"
    unfolding fun_eq_iff Voyage_object_def Voyage_value_def Voyage_clientRequestId_def Voyage_origin_def
      Voyage_dest_def Voyage_distanceNm_def Voyage_feesMinor_def Voyage_version_def
      Voyage_estimateMinor_def context_defs depth_simps
    by simp
  show "marshalOVoyage (ec\<lparr>ec_depth := k\<rparr>) = marshalOVoyage ec"
    unfolding marshalOVoyage_def obj ..
qed

lemma Query_voyage_inner_depth: "Query_voyage_inner (ec\<lparr>ec_depth := k\<rparr>) = Query_voyage_inner ec"
  unfolding fun_eq_iff Query_voyage_inner_def Query_voyage_def fieldContext_Query_voyage_def
    Voyage_depth depth_simps
  by simp

text \<open>Any two bounds that cover the selections agree on the objects of \<open>__Type\<close>.\<close>

lemma introspect_type_eq:
  assumes ok: "gqlgen_ok (ec_graphql ec)" and "n \<le> k"
  shows "type_eq ec n (introspect_type n ec) (introspect_type k ec)"
  using assms(2)
proof (induction n arbitrary: k)
  case (Suc n)
  then obtain k' where k: "k = Suc k'" "n \<le> k'" by (cases k) auto
  show ?case
    unfolding type_eq_def k introspect_type.simps
    using Type_object_eq [OF ok introspect_type_ok [OF ok] Suc.IH [OF k(2)]] by blast
qed (simp add: type_eq_def)

lemma Query_fields_bound:
  assumes ok: "gqlgen_ok (ec_graphql ec)" and k: "n \<le> k"
  shows "selects (ec_graphql ec) n ''__Type'' (cf_Selections fld) \<Longrightarrow>
      Query_type (ec\<lparr>ec_depth := n\<rparr>) c fld s = Query_type (ec\<lparr>ec_depth := k\<rparr>) c fld s"
    and "selects (ec_graphql ec) n ''__Schema'' (cf_Selections fld) \<Longrightarrow>
      Query_schema (ec\<lparr>ec_depth := n\<rparr>) c fld s = Query_schema (ec\<lparr>ec_depth := k\<rparr>) c fld s"
proof -
  note ty = introspect_type_ok [OF ok, of n]
  note eq = introspect_type_eq [OF ok k]
  show "selects (ec_graphql ec) n ''__Type'' (cf_Selections fld) \<Longrightarrow>
      Query_type (ec\<lparr>ec_depth := n\<rparr>) c fld s = Query_type (ec\<lparr>ec_depth := k\<rparr>) c fld s"
    unfolding Query_type_def fieldContext_Query_type_def depth_simps introspect_type_depth
      execution_context.select_convs execution_context.update_convs
    by (rule resolve_eq [OF ok context_with_args_total])
      (auto split: option.splits gvalue.splits sum.splits
        intro: type_marshal_fits [OF ok ty] type_marshal_eq [OF eq])
  show "selects (ec_graphql ec) n ''__Schema'' (cf_Selections fld) \<Longrightarrow>
      Query_schema (ec\<lparr>ec_depth := n\<rparr>) c fld s = Query_schema (ec\<lparr>ec_depth := k\<rparr>) c fld s"
    unfolding Query_schema_def fieldContext_Query_schema_def depth_simps introspect_type_depth Schema_depth
    by (rule resolve_eq [OF ok])
      (auto simp: marshalO__SchemaPtr_def split: option.split sum.splits
        intro: Schema_object_fits [OF ok ty] Schema_object_eq [OF ok ty eq])
qed

lemma query_slots_eq:
  assumes "\<And>fld s. fld \<in> set flds \<Longrightarrow> slot fld s = slot' fld s"
  shows "query_slots slot flds s = query_slots slot' flds s"
  using assms by (induction flds arbitrary: s) (simp_all split: ret.split prod.split)

lemma Query_object_bound:
  assumes ok: "gqlgen_ok (ec_graphql ec)" and sel: "selects (ec_graphql ec) n ''Query'' sel" and k: "n \<le> k"
  shows "Query_object (ec\<lparr>ec_depth := n\<rparr>) c sel s = Query_object (ec\<lparr>ec_depth := k\<rparr>) c sel s"
proof -
  have "Query_slot (ec\<lparr>ec_depth := n\<rparr>) c fld s = Query_slot (ec\<lparr>ec_depth := k\<rparr>) c fld s"
    if fld: "fld \<in> set (gq_CollectFields (ec_graphql ec) sel [''Query''])" for c fld s
  proof -
    from selects_field [OF sel fld] obtain t where t: "field_type ''Query'' (cf_Name fld) = Some t"
      "\<And>ty'. object_type t = Some ty' \<Longrightarrow> selects (ec_graphql ec) n ty' (cf_Selections fld)"
      by (metis selects_mono diff_le_self)
    from t show ?thesis
      by (auto simp: Query_slot_def Let_def schema_defs Query_voyage_inner_depth
          gqlgen_ok_simps [OF ok] Query_fields_bound [OF ok k] split: if_splits)
  qed
  then have "query_slots (Query_slot (ec\<lparr>ec_depth := n\<rparr>) c) (gq_CollectFields (ec_graphql ec) sel [''Query'']) s =
      query_slots (Query_slot (ec\<lparr>ec_depth := k\<rparr>) c) (gq_CollectFields (ec_graphql ec) sel [''Query'']) s" for c s
    by (rule query_slots_eq)
  then show ?thesis
    by (simp add: Query_object_def Let_def)
qed

end
