(* ===== verification/Graphql_Type_Claims.thy ===== *)
theory Graphql_Type_Claims
  imports Graphql_Depth Graphql_Claims
begin

text \<open>
  The typing of the executor: its field contexts follow the schema, its answers conform to it, and
  the recursion of the introspection objects ends; with witnesses over the sample library.
\<close>

section \<open>Field contexts\<close>












section \<open>Claims\<close>




text \<open>A query of the introspection fields, and a mutation.\<close>

definition sample_intro_sel :: selections where
  "sample_intro_sel = Sel
     [(''voyage'', ''voyage'', sample_voyage_sel),
      (''__schema'', ''schema'', Sel
         [(''types'', ''types'', Sel [(''kind'', ''kind'', Sel []), (''ofType'', ''of'', Sel [(''name'', ''name'', Sel [])])])])]"

lemma sample_intro_selects:
  "selects (ec_graphql sample_ec) 4 ''Query'' sample_intro_sel"
  "selects (ec_graphql sample_ec) 4 ''Mutation'' sample_doc"
  by (simp_all add: sample_collect sample_intro_sel_def sample_doc_def sample_voyage_sel_def
      schema_defs types_of_def eval_nat_numeral)


text \<open>C28. Introspection ends: to a query whose selections the schema allows and nest at most \<open>n\<close> deep
  the executor has one answer, without a panic, and no bound on the recursion from \<open>n\<close> on changes
  it. The types of a schema refer to each other in cycles; it is the query that ends.\<close>

theorem introspection_terminates:
  assumes "gqlgen_ok (ec_graphql ec)" and "selects (ec_graphql ec) n ''Query'' sel"
  shows "\<exists>m s'. \<forall>k \<ge> n. Query_object (ec\<lparr>ec_depth := k\<rparr>) c sel s = (Ret m, s')"
proof -
  have "yields (fits (ec_graphql ec) (TObject ''Query'') sel) (Query_object (ec\<lparr>ec_depth := n\<rparr>) c sel s)"
    using Query_object_fits [of "ec\<lparr>ec_depth := n\<rparr>" n sel c s] assms by simp
  then obtain m s' where "Query_object (ec\<lparr>ec_depth := n\<rparr>) c sel s = (Ret m, s')"
    by (rule yieldsE)
  with Query_object_bound [OF assms] show ?thesis by metis
qed

theorem introspection_terminates_witness:
  "\<exists>m s'. Query_object (sample_ec\<lparr>ec_depth := 4\<rparr>) [] sample_intro_sel (empty_pg, []) = (Ret m, s') \<and>
     Query_object (sample_ec\<lparr>ec_depth := 1000\<rparr>) [] sample_intro_sel (empty_pg, []) = (Ret m, s')"
proof -
  from introspection_terminates [OF sample_ec_ok sample_intro_selects(1), of "[]" "(empty_pg, [])"]
  obtain m s' where run: "\<forall>k \<ge> 4. Query_object (sample_ec\<lparr>ec_depth := k\<rparr>) [] sample_intro_sel (empty_pg, []) = (Ret m, s')"
    by blast
  then have "Query_object (sample_ec\<lparr>ec_depth := 4\<rparr>) [] sample_intro_sel (empty_pg, []) = (Ret m, s')"
    "Query_object (sample_ec\<lparr>ec_depth := 1000\<rparr>) [] sample_intro_sel (empty_pg, []) = (Ret m, s')" by simp_all
  then show ?thesis by blast
qed

end
