(* ===== verification/Pricing_Claims.thy ===== *)
theory Pricing_Claims
  imports Avro_Binary Config
begin

text \<open>
  The properties of the leaf components: money and the price formula, the event framing and its
  registration, and the configuration the services start with.
\<close>

section \<open>Money\<close>

text \<open>C19. The checked arithmetic is exact integer arithmetic: addition returns the sum when it fits
  64 bits and the currencies agree and the overflow or mismatch error otherwise, for all operands;
  scaling returns the product when it fits and the overflow error otherwise, for all operands but
  one pair, the least amount times \<open>-1\<close>.\<close>

theorem money_arithmetic_exact:
  "money_add m other = money_add_exact m other \<and>
   (money_mul m factor = money_mul_exact m factor \<longleftrightarrow> \<not> (Minor m = min_int64 \<and> factor = - 1))"
proof
  show "money_add m other = money_add_exact m other"
    by (rule money_add_eq_exact)
  have "money_mul m factor \<noteq> money_mul_exact m factor" if m: "Minor m = min_int64" and f: "factor = - 1"
  proof -
    have "m = \<lparr>Minor = min_int64, Currency = Currency m\<rparr>"
      using m by simp
    then have "money_mul m factor = Inr \<lparr>Minor = min_int64, Currency = Currency m\<rparr>"
      using f by (metis money_mul_min)
    moreover have "money_mul_exact m factor \<noteq> Inr x" for x
      unfolding money_mul_exact_def m f sint_min_int64 by (simp add: in_int64_def)
    ultimately show ?thesis by metis
  qed
  then show "money_mul m factor = money_mul_exact m factor \<longleftrightarrow> \<not> (Minor m = min_int64 \<and> factor = - 1)"
    using money_mul_eq_exact by blast
qed

text \<open>What the code does with that pair: \<open>2^63\<close> does not fit, and the least amount itself is
  returned instead of the overflow error.\<close>

lemma money_mul_misses_overflow:
  "money_mul \<lparr>Minor = min_int64, Currency = c\<rparr> (- 1) = Inr \<lparr>Minor = min_int64, Currency = c\<rparr> \<and>
   \<not> in_int64 (sint min_int64 * sint (- 1 :: int64))"
proof -
  have "sint (- 1 :: int64) = - 1" by simp
  then have "\<not> in_int64 (sint min_int64 * sint (- 1 :: int64))"
    unfolding sint_min_int64 by (simp only:) (simp add: in_int64_def)
  then show ?thesis by (simp only: money_mul_min) simp
qed

lemma FromUSD_sel [simp]: "Minor (FromUSD x) = x" "Currency (FromUSD x) = USD"
  by (simp_all add: FromUSD_def)

section \<open>The price\<close>

text \<open>C18. The estimate is distance times rate plus fees, exactly: it is answered if and only if the
  distance is not negative, the rate is positive, the currencies agree and neither the product
  nor the sum overflows, and then it is that integer.\<close>

theorem estimate_cost_exact:
  "EstimateCost d fees rate = Inr c \<longleftrightarrow>
     0 \<le> sint d \<and> 0 < sint (Minor rate) \<and> Currency fees = Currency rate \<and>
     Currency c = Currency rate \<and> in_int64 (sint d * sint (Minor rate)) \<and>
     sint (Minor c) = sint d * sint (Minor rate) + sint (Minor fees)"
  by (rule EstimateCost_Inr_iff)

lemma local_brokers: "env_List (\<lambda>_. '''') ''KAFKA_BROKERS'' ''localhost:19092'' \<noteq> []"
proof -
  let ?s = "''localhost:19092''"
  have "TrimSpace ?s = ?s"
    by (intro TrimSpace_id printable_trimmed) (auto simp: code_def)
  moreover have "split_comma [] ?s = [?s]"
    by (simp add: code_def)
  ultimately show ?thesis
    by (simp add: env_List_def env_Or_def)
qed

text \<open>C36. With the configuration the estimator starts with, pricing a voyage the voyage service has
  accepted can fail in one way only: by overflow.\<close>

theorem configured_price_fails_by_overflow:
  assumes "estimator_LoadConfig env = Inr c" and "estimator_config_Validate c = None"
    and "Validate v = None"
    and "EstimateCost (DistanceNm v) (FromUSD (FeesMinor v)) (FromUSD (ecf_RatePerNmMinor c)) = Inl err"
  shows "errors_is err ErrOverflow"
proof -
  let ?rate = "FromUSD (ecf_RatePerNmMinor c)" and ?d = "int64_of_int32 (DistanceNm v)"
  have rate: "0 < sint (ecf_RatePerNmMinor c)"
    using estimator_Validate_loaded [OF assms(1)] assms(2) by simp
  have d: "\<not> DistanceNm v <s 0"
    using assms(3) by (auto simp: Validate_def split: if_splits)
  have mul: "money_mul ?rate ?d = money_mul_exact ?rate ?d"
    using rate by (intro money_mul_EstimateCost) (simp add: FromUSD_def word_sless_alt)
  have wrapped: "errors_is (Errorf p (Errorf q ErrOverflow)) ErrOverflow" for p q
    by (simp add: ErrOverflow_def)
  show ?thesis
  proof (cases "money_mul_exact ?rate ?d")
    case (Inl e)
    with assms(4) rate d show ?thesis
      by (auto simp: EstimateCost_def mul word_sle_eq money_mul_exact_def wrapped
          split: if_splits)
  next
    case (Inr base)
    then have "Currency base = USD"
      by (auto simp: money_mul_exact_def split: if_splits)
    with assms(4) rate d Inr show ?thesis
      by (auto simp: EstimateCost_def mul word_sle_eq money_add_eq_exact money_add_exact_def wrapped
          split: if_splits sum.splits)
  qed
qed

theorem configured_price_fails_by_overflow_witness:
  "\<exists>err. EstimateCost 7 (FromUSD 9223372036854775807) (FromUSD 100) = Inl err \<and> errors_is err ErrOverflow"
proof -
  let ?v = "\<lparr>ClientRequestID = ''a'', Origin = ''b'', Dest = ''c'', DistanceNm = 7,
    FeesMinor = 9223372036854775807, Version = 0, EstimateMinor = 0\<rparr>"
  obtain c where c: "estimator_LoadConfig (\<lambda>_. '''') = Inr c" "ecf_RatePerNmMinor c = 100"
    and valid: "estimator_config_Validate c = None"
  proof -
    have p: "ParseInt64 ''100'' = Some 100"
      by code_simp
    have b: "env_List (\<lambda>_. '''') ''KAFKA_BROKERS'' ''localhost:19092'' \<noteq> []"
      by (rule local_brokers)
    show thesis
      by (rule that, simp add: estimator_LoadConfig_def env_Or_def p)
        (simp_all add: estimator_config_Validate_def b word_sle_eq)
  qed
  have v: "Validate ?v = None"
    by (simp add: Validate_def word_sless_alt)
  have "\<not> (\<exists>x. EstimateCost 7 (FromUSD 9223372036854775807) (FromUSD 100) = Inr x)"
  proof
    assume "\<exists>x. EstimateCost 7 (FromUSD 9223372036854775807) (FromUSD 100) = Inr x"
    then obtain x :: money where "sint (Minor x) = 9223372036854776507"
      unfolding EstimateCost_Inr_iff by auto
    with sint64_bounds [of "Minor x"] show False by simp
  qed
  then obtain err where "EstimateCost 7 (FromUSD 9223372036854775807) (FromUSD 100) = Inl err"
    by (cases "EstimateCost 7 (FromUSD 9223372036854775807) (FromUSD 100)") auto
  with configured_price_fails_by_overflow [OF c(1) valid v, of err] c(2) show ?thesis
    by simp
qed

section \<open>Events between two processes\<close>

text \<open>Starting a service registers both event types, each with its own parsed schema.\<close>

lemma serde_New_registers:
  assumes "serde_New create parse client w (eventreg_All vca era) = (Inr byType, w')"
  shows "\<exists>e. byType t = Some e \<and>
    parse (case t of T_VoyageCreated \<Rightarrow> vca | T_EstimateReady \<Rightarrow> era) = Inr (entry_codec e)"
  using assms
  by (cases t) (auto simp: serde_New_def eventreg_All_def split: sum.splits prod.splits)

text \<open>C20. An event written by one service decodes in another to the value written, up to the
  precision of the format, when both were started with the same registrations and the Avro library
  keeps its law: also when the two registries answered with different schema ids. The frame carries
  the writer's id, big endian, after the magic byte.\<close>

theorem event_round_trip:
  assumes "avro_library marshal unmarshal norm"
    and "serde_New create parse client w (eventreg_All vca era) = (Inr writer, w')"
    and "serde_New create2 parse client2 u (eventreg_All vca era) = (Inr reader, u')"
    and "serde_Encode marshal writer t v = Inr frame"
  shows "serde_Decode unmarshal reader t frame = Inr (norm v) \<and> frame ! 0 = magicByte \<and>
    map_option entry_id (writer t) = Some (be_uint32 (take 4 (drop 1 frame)))"
proof -
  obtain e e' where e: "writer t = Some e" "reader t = Some e'" "entry_codec e' = entry_codec e"
    using serde_New_registers [OF assms(2), of t] serde_New_registers [OF assms(3), of t] by auto
  have "serde_Decode unmarshal reader t frame = Inr (norm v)"
    by (rule avro_library.serde_round_trip [OF assms(1) assms(4)]) (rule e)+
  moreover obtain body where "frame = magicByte # put_uint32 (entry_id e) @ body"
    using assms(4) e(1) by (auto simp: serde_Encode_Inr)
  ultimately show ?thesis
    using e(1) by (simp add: be_put_uint32)
qed

theorem event_round_trip_witness:
  "\<exists>writer reader frame v.
     serde_Encode marshal_vc writer T_VoyageCreated v = Inr frame \<and> vc_DistanceNm v = 120 \<and>
     map_option entry_id (writer T_VoyageCreated) = Some 7 \<and>
     map_option entry_id (reader T_VoyageCreated) = Some 9 \<and>
     serde_Decode unmarshal_vc reader T_VoyageCreated frame = Inr v"
proof -
  let ?v = "\<lparr>vc_ClientRequestID = ''a'', vc_Origin = ''b'', vc_Dest = ''c'', vc_DistanceNm = 120,
    vc_FeesMinor = 5, vc_Version = 1\<rparr>"
  let ?new = "\<lambda>i. serde_New (\<lambda>w subject schema. (Inr i, w)) (\<lambda>_. Inr ()) (Inr ()) () (eventreg_All ''v'' ''e'')"
  let ?table = "\<lambda>i. [T_VoyageCreated \<mapsto> \<lparr>entry_id = i, entry_codec = ()\<rparr>,
    T_EstimateReady \<mapsto> \<lparr>entry_id = i, entry_codec = ()\<rparr>]"
  have lib: "avro_library marshal_vc unmarshal_vc (\<lambda>v. v)"
    by unfold_locales
  have "?new 7 = (Inr (?table 7), ())" "?new 9 = (Inr (?table 9), ())"
    by (simp_all add: serde_New_def eventreg_All_def)
  note started = this
  obtain frame where "serde_Encode marshal_vc (?table 7) T_VoyageCreated ?v = Inr frame"
    by (simp add: serde_Encode_def marshal_vc_def)
  with event_round_trip [OF lib started this] show ?thesis
    by (intro exI [of _ "?table 7"] exI [of _ "?table 9"] exI [of _ frame] exI [of _ ?v]) simp
qed

section \<open>Configuration lists\<close>

text \<open>A broker list read from the environment is the list the operator wrote: joining clean,
  nonempty entries with commas and reading the variable back gives the entries, and whatever the
  variable holds, every entry read is nonempty, without a comma and without white space around it.\<close>

theorem environment_list_read_back:
  assumes "xs \<noteq> []" and "list_all entry_ok xs" and "env key = join_comma xs"
  shows "env_List env key def = xs \<and> list_all entry_ok (env_List env' key' def')"
  using env_List_join [of xs env key def] assms env_List_entries by blast

theorem environment_list_read_back_witness:
  "env_List (\<lambda>_. ''a:1,b:2'') ''KAFKA_BROKERS'' ''localhost:19092'' = [''a:1'', ''b:2'']"
proof -
  have comma: "chr 44 = CHR 0x2C"
    by code_simp
  have "list_all entry_ok [''a:1'', ''b:2'']"
    by (auto simp: entry_ok_def code_def intro!: printable_trimmed)
  then show ?thesis
    using environment_list_read_back [of "[''a:1'', ''b:2'']" "\<lambda>_. ''a:1,b:2''" "''KAFKA_BROKERS''"]
    by (simp add: comma)
qed

text \<open>The start-up checks on the loaded configuration: only the broker list and the rate can fail
  them, every other value has a nonempty default.\<close>

lemmas loaded_verdicts = voyage_Validate_loaded gateway_Validate_loaded estimator_Validate_loaded

end
