(* ===== verification/Syncer.thy ===== *)
theory Syncer
  imports Onboard_Domain Wire_Types
begin

text \<open>
  The onboard client's use-case (\<open>clients/onboard-sync/domain/syncer.go\<close>): operations go from a
  durable queue to the server, over the ports \<open>Store\<close>, \<open>Transport\<close> and \<open>Clock\<close> of \<open>ports.go\<close>.
  The world \<open>'w\<close> holds whatever the providers of the ports hold. The locale \<open>op_store\<close> is
  the contract of \<open>Store\<close>; the JSONL queue provides it.
\<close>

section \<open>Ports\<close>

record 'w store_port =
  sp_Append :: "'w \<Rightarrow> operation \<Rightarrow> goerr option \<times> 'w"
  sp_Pending :: "'w \<Rightarrow> (goerr + operation list) \<times> 'w"
  sp_Ack :: "'w \<Rightarrow> string \<Rightarrow> goerr option \<times> 'w"

type_synonym 'w transport_port = "'w \<Rightarrow> operation \<Rightarrow> goerr option \<times> 'w"

text \<open>The ports and the policy of a \<open>Syncer\<close>, and its counters. \<open>retryCount\<close> is a Go \<open>int\<close>.\<close>

record ('w, 'g) syncer =
  sy_store :: "'w store_port"
  sy_transport :: "'w transport_port"
  sy_now :: "'w \<Rightarrow> instant"
  sy_retry :: "'g retry_policy"
  sy_retryCount :: int64
  sy_lastAttempt :: instant
  sy_lastError :: string

record sync_status =
  ss_QueueDepth :: nat
  ss_RetryCount :: int64
  ss_LastAttempt :: instant
  ss_LastError :: string

section \<open>Operations\<close>

definition NewSyncer ::
  "instant \<Rightarrow> 'w store_port \<Rightarrow> 'w transport_port \<Rightarrow> ('w \<Rightarrow> instant) \<Rightarrow> 'g retry_policy \<Rightarrow>
   ('w, 'g) syncer" where
  "NewSyncer zero store transport clock retry =
     \<lparr>sy_store = store, sy_transport = transport, sy_now = clock, sy_retry = retry,
      sy_retryCount = 0, sy_lastAttempt = zero, sy_lastError = ''''\<rparr>"

text \<open>The loop of \<open>Enqueue\<close>: merge with the first pending operation of the same id.\<close>

fun coalesce :: "operation list \<Rightarrow> operation \<Rightarrow> operation" where
  "coalesce [] op = op"
| "coalesce (existing # pending) op =
     (if op_ClientRequestID existing = op_ClientRequestID op
      then HigherVersionWins existing op else coalesce pending op)"

definition Enqueue :: "('w, 'g) syncer \<Rightarrow> 'w \<Rightarrow> operation \<Rightarrow> goerr option \<times> 'w" where
  "Enqueue s w op =
     (case sp_Pending (sy_store s) w of
        (Inl err, w) \<Rightarrow> (Some (Errorf (sprintf [''enqueue '', op_ClientRequestID op]) err), w)
      | (Inr pending, w) \<Rightarrow>
          (let op = coalesce pending op in
           case sp_Append (sy_store s) w op of
             (Some err, w) \<Rightarrow> (Some (Errorf (sprintf [''enqueue '', op_ClientRequestID op]) err), w)
           | (None, w) \<Rightarrow> (None, w)))"

text \<open>The loop of \<open>SyncOnce\<close> over the operations that were pending; the result is the count and
  the error of a failed \<open>Ack\<close>, with the syncer's counters and the world.\<close>

fun sync_ops ::
  "('w, 'g) syncer \<Rightarrow> 'w \<Rightarrow> nat \<Rightarrow> operation list \<Rightarrow> nat \<times> goerr option \<times> ('w, 'g) syncer \<times> 'w" where
  "sync_ops s w synced [] = (synced, None, s, w)"
| "sync_ops s w synced (op # ops) =
     (let s = s\<lparr>sy_lastAttempt := sy_now s w\<rparr> in
      case sy_transport s w op of
        (Some err, w) \<Rightarrow>
          sync_ops (s\<lparr>sy_retryCount := sy_retryCount s + 1, sy_lastError := error_text err\<rparr>) w
            synced ops
      | (None, w) \<Rightarrow>
          (case sp_Ack (sy_store s) w (op_ClientRequestID op) of
             (Some err, w) \<Rightarrow>
               (synced, Some (Errorf (sprintf [''sync ack '', op_ClientRequestID op]) err), s, w)
           | (None, w) \<Rightarrow> sync_ops s w (Suc synced) ops))"

definition SyncOnce ::
  "('w, 'g) syncer \<Rightarrow> 'w \<Rightarrow> nat \<times> goerr option \<times> ('w, 'g) syncer \<times> 'w" where
  "SyncOnce s w =
     (case sp_Pending (sy_store s) w of
        (Inl err, w) \<Rightarrow> (0, Some (Errorf ''sync'' err), s, w)
      | (Inr pending, w) \<Rightarrow> sync_ops s w 0 pending)"

definition RetryBackoff ::
  "(float64 \<Rightarrow> int64) \<Rightarrow> ('g \<Rightarrow> int64 \<Rightarrow> int64 \<times> 'g) \<Rightarrow> ('w, 'g) syncer \<Rightarrow>
   (int64 \<times> ('w, 'g) syncer) option" where
  "RetryBackoff other int63n s =
     map_option (\<lambda>(n, retry). (n, s\<lparr>sy_retry := retry\<rparr>))
       (Backoff other int63n (sy_retry s) (sy_retryCount s))"

definition SyncStatus :: "('w, 'g) syncer \<Rightarrow> 'w \<Rightarrow> (goerr + sync_status) \<times> 'w" where
  "SyncStatus s w =
     (case sp_Pending (sy_store s) w of
        (Inl err, w) \<Rightarrow> (Inl (Errorf ''sync status'' err), w)
      | (Inr pending, w) \<Rightarrow>
          (Inr \<lparr>ss_QueueDepth = length pending, ss_RetryCount = sy_retryCount s,
                ss_LastAttempt = sy_lastAttempt s, ss_LastError = sy_lastError s\<rparr>, w))"

section \<open>What a store promises\<close>

text \<open>\<open>queue\<close> is the operations not yet acked, by id.\<close>

definition queue_of :: "operation list \<Rightarrow> string \<rightharpoonup> operation" where
  "queue_of ops = map_of (map (\<lambda>op. (op_ClientRequestID op, op)) ops)"

locale op_store =
  fixes store :: "'w store_port" and queue :: "'w \<Rightarrow> string \<rightharpoonup> operation" and invar :: "'w \<Rightarrow> bool"
  assumes append_inv: "invar w \<Longrightarrow> sp_Append store w op = (res, w') \<Longrightarrow> invar w'"
    and append_queue: "invar w \<Longrightarrow> sp_Append store w op = (res, w') \<Longrightarrow>
      queue w' = (queue w)(op_ClientRequestID op \<mapsto> op)"
    and pending_inv: "invar w \<Longrightarrow> sp_Pending store w = (listed, w') \<Longrightarrow> invar w' \<and> queue w' = queue w"
    and pending_queue: "invar w \<Longrightarrow> sp_Pending store w = (Inr ops, w') \<Longrightarrow>
      queue_of ops = queue w \<and> distinct (map op_ClientRequestID ops)"
    and ack_inv: "invar w \<Longrightarrow> sp_Ack store w cid = (res, w') \<Longrightarrow> invar w'"
    and ack_queue: "invar w \<Longrightarrow> sp_Ack store w cid = (res, w') \<Longrightarrow>
      queue w' = (queue w)(cid := None)"

lemma coalesce_queue_of:
  "coalesce ops op =
     (case queue_of ops (op_ClientRequestID op) of
        None \<Rightarrow> op | Some existing \<Rightarrow> HigherVersionWins existing op)"
  by (induction ops) (simp_all add: queue_of_def)

lemma coalesce_id [simp]: "op_ClientRequestID (coalesce ops op) = op_ClientRequestID op"
  by (induction ops) (auto simp: HigherVersionWins_def)

text \<open>The transport is outside the store: a send changes neither the queue nor the invariant.\<close>

definition send_frame ::
  "('w \<Rightarrow> string \<rightharpoonup> operation) \<Rightarrow> ('w \<Rightarrow> bool) \<Rightarrow> 'w transport_port \<Rightarrow> bool" where
  "send_frame queue invar send \<longleftrightarrow>
     (\<forall>w op res w'. send w op = (res, w') \<longrightarrow> queue w' = queue w \<and> (invar w \<longrightarrow> invar w'))"

lemma send_frameD: "send_frame queue invar send \<Longrightarrow> send w op = (res, w') \<Longrightarrow>
   queue w' = queue w \<and> (invar w \<longrightarrow> invar w')"
  by (simp add: send_frame_def)

text \<open>The operations a run of the loop delivered: those whose send was acknowledged.\<close>

fun delivered :: "('w, 'g) syncer \<Rightarrow> 'w \<Rightarrow> operation list \<Rightarrow> operation list" where
  "delivered s w [] = []"
| "delivered s w (op # ops) =
     (case sy_transport s w op of
        (Some err, w) \<Rightarrow> delivered s w ops
      | (None, w) \<Rightarrow>
          (case sp_Ack (sy_store s) w (op_ClientRequestID op) of
             (Some err, w) \<Rightarrow> [op]
           | (None, w) \<Rightarrow> op # delivered s w ops))"

lemma delivered_cong:
  "sy_transport s' = sy_transport s \<Longrightarrow> sy_store s' = sy_store s \<Longrightarrow>
     delivered s' w ops = delivered s w ops"
  by (induction ops arbitrary: w) (auto split: prod.splits option.splits)

lemma delivered_sub: "set (delivered s w ops) \<subseteq> set ops"
proof (induction ops arbitrary: w)
  case (Cons op ops)
  obtain res w1 where send: "sy_transport s w op = (res, w1)" by (cases "sy_transport s w op")
  obtain res2 w2 where ack: "sp_Ack (sy_store s) w1 (op_ClientRequestID op) = (res2, w2)"
    by (cases "sp_Ack (sy_store s) w1 (op_ClientRequestID op)")
  show ?case
    using Cons.IH [of w1] Cons.IH [of w2] send ack by (cases res; cases res2) auto
qed simp

context op_store
begin

text \<open>\<open>Enqueue\<close> merges the operation into the queue, and nothing else.\<close>

lemma enqueue_queue:
  assumes "sy_store s = store" and "invar w" and "Enqueue s w op = (None, w')"
  shows "invar w' \<and> queue w' = (queue w)(op_ClientRequestID op \<mapsto>
    (case queue w (op_ClientRequestID op) of
       None \<Rightarrow> op | Some existing \<Rightarrow> HigherVersionWins existing op))"
proof -
  obtain ops w1 where p: "sp_Pending store w = (Inr ops, w1)"
    and a: "sp_Append store w1 (coalesce ops op) = (None, w')"
    using assms by (auto simp: Enqueue_def Let_def split: prod.splits sum.splits option.splits)
  note p1 = pending_inv [OF assms(2) p] pending_queue [OF assms(2) p]
  have "queue w' = (queue w1)(op_ClientRequestID op \<mapsto> coalesce ops op)"
    using append_queue [OF _ a] p1 by simp
  with p1 append_inv [OF _ a] show ?thesis
    by (simp only: coalesce_queue_of)
qed

text \<open>The loop: exactly the delivered operations leave the queue.\<close>

lemma sync_ops_queue:
  assumes "sy_store s = store" and "send_frame queue invar (sy_transport s)"
    and "invar w" and "sync_ops s w n ops = (m, err, s', w')"
  shows "invar w' \<and>
    queue w' = (\<lambda>cid. if cid \<in> op_ClientRequestID ` set (delivered s w ops) then None else queue w cid)"
  using assms
proof (induction ops arbitrary: s w n)
  case Nil
  then show ?case by (auto simp: fun_eq_iff)
next
  case (Cons op ops)
  let ?s = "s\<lparr>sy_lastAttempt := sy_now s w\<rparr>"
  obtain res w1 where send: "sy_transport s w op = (res, w1)" by (cases "sy_transport s w op")
  have w1: "queue w1 = queue w" "invar w1"
    using send_frameD [OF Cons.prems(2) send] Cons.prems(3) by simp_all
  show ?case
  proof (cases res)
    case (Some e)
    let ?t = "?s\<lparr>sy_retryCount := sy_retryCount s + 1, sy_lastError := error_text e\<rparr>"
    have "sync_ops ?t w1 n ops = (m, err, s', w')"
      using Cons.prems(4) send Some by (simp add: Let_def)
    with Cons.IH [of ?t w1 n] Cons.prems(1,2) w1 send Some show ?thesis
      by (simp add: delivered_cong [of ?t s] cong: if_cong)
  next
    case None
    obtain res2 w2 where ack: "sp_Ack store w1 (op_ClientRequestID op) = (res2, w2)"
      by (cases "sp_Ack store w1 (op_ClientRequestID op)")
    have w2: "queue w2 = (queue w)(op_ClientRequestID op := None)" "invar w2"
      using ack_queue [OF w1(2) ack] ack_inv [OF w1(2) ack] w1(1) by simp_all
    show ?thesis
    proof (cases res2)
      case (Some e)
      with Cons.prems(1,4) send None ack w2 show ?thesis
        by (auto simp: Let_def fun_eq_iff)
    next
      case ok: None
      have "sync_ops ?s w2 (Suc n) ops = (m, err, s', w')"
        using Cons.prems(1,4) send None ack ok by (simp add: Let_def)
      with Cons.IH [of ?s w2 "Suc n"] Cons.prems(1,2) w2 send None ack ok show ?thesis
        by (auto simp: delivered_cong [of ?s s] fun_eq_iff)
    qed
  qed
qed

end

end
