(* ===== verification/Jsonl_Store.thy ===== *)
theory Jsonl_Store
  imports Operation_Json Syncer "HOL-Library.AList" "HOL-Library.Char_ord" "HOL-Library.List_Lexorder"
begin

text \<open>
  The onboard client's disk queue (\<open>clients/onboard-sync/adapters/jsonlstore/store.go\<close>): an
  in-memory map and an append-only JSONL file that is replayed on open and rewritten by \<open>Ack\<close>.
  The file system is the environment: files by path, and a script of faults, one for each
  system call; a failed write leaves a prefix behind, which is also what a crash in the
  middle leaves. What a power loss does to data that was not synced is not modelled.
\<close>

section \<open>Files\<close>

datatype fault = NoFault | Fault nat goerr

record fs =
  fs_files :: "string \<rightharpoonup> string"
  fs_script :: "fault list"

definition fs_call :: "fs \<Rightarrow> fault \<times> fs" where
  "fs_call w =
     (case fs_script w of [] \<Rightarrow> (NoFault, w) | r # rs \<Rightarrow> (r, w\<lparr>fs_script := rs\<rparr>))"

definition fs_put :: "string \<Rightarrow> string \<Rightarrow> fs \<Rightarrow> fs" where
  "fs_put path content w = w\<lparr>fs_files := (fs_files w)(path \<mapsto> content)\<rparr>"

definition fs_content :: "fs \<Rightarrow> string \<Rightarrow> string" where
  "fs_content w path = (case fs_files w path of None \<Rightarrow> '''' | Some s \<Rightarrow> s)"

text \<open>A call whose only effect is its result: a sync or a close.\<close>

definition fs_simple :: "fs \<Rightarrow> goerr option \<times> fs" where
  "fs_simple w =
     (case fs_call w of (NoFault, w) \<Rightarrow> (None, w) | (Fault _ e, w) \<Rightarrow> (Some e, w))"

text \<open>A write at the end of the file; a fault writes only the first bytes.\<close>

definition fs_write :: "string \<Rightarrow> string \<Rightarrow> fs \<Rightarrow> goerr option \<times> fs" where
  "fs_write path bytes w =
     (case fs_call w of
        (NoFault, w) \<Rightarrow> (None, fs_put path (fs_content w path @ bytes) w)
      | (Fault n e, w) \<Rightarrow> (Some e, fs_put path (fs_content w path @ take n bytes) w))"

text \<open>\<open>OpenFile\<close> with \<open>O_CREATE\<close> and, for the temporary file, \<open>O_TRUNC\<close>.\<close>

definition fs_create :: "bool \<Rightarrow> string \<Rightarrow> fs \<Rightarrow> goerr option \<times> fs" where
  "fs_create trunc path w =
     (case fs_call w of
        (NoFault, w) \<Rightarrow> (None, fs_put path (if trunc then '''' else fs_content w path) w)
      | (Fault _ e, w) \<Rightarrow> (Some e, w))"

text \<open>\<open>Rename\<close>: a fault may still have renamed.\<close>

definition fs_rename :: "string \<Rightarrow> string \<Rightarrow> fs \<Rightarrow> goerr option \<times> fs" where
  "fs_rename old new w =
     (let moved = (\<lambda>w. w\<lparr>fs_files := (fs_files w)(new \<mapsto> fs_content w old, old := None)\<rparr>) in
      case fs_call w of
        (NoFault, w) \<Rightarrow> (None, moved w)
      | (Fault n e, w) \<Rightarrow> (Some e, if n = 0 then w else moved w))"

section \<open>Scanning lines\<close>

definition newline :: char where "newline = CHR ''\<newline>''"

text \<open>\<open>bufio.ScanLines\<close> drops a carriage return; a token of 64 KB does not fit the
  scanner's buffer.\<close>

definition drop_cr :: "string \<Rightarrow> string" where
  "drop_cr s = (if s \<noteq> [] \<and> code (last s) = 13 then butlast s else s)"

definition MaxScanTokenSize :: nat where "MaxScanTokenSize = 65536"

text \<open>The tokens, and whether the scan stopped at a token that is too long.\<close>

function scan_lines :: "string \<Rightarrow> string list \<times> bool" where
  "scan_lines s =
     (if s = [] then ([], False)
      else
        let line = takeWhile (\<lambda>c. c \<noteq> newline) s; rest = tl (dropWhile (\<lambda>c. c \<noteq> newline) s) in
        if MaxScanTokenSize \<le> length line then ([], True)
        else (case scan_lines rest of (ls, e) \<Rightarrow> (drop_cr line # ls, e)))"
  by pat_completeness auto
termination
proof (relation "measure length")
  fix s line rest :: string
  assume "s \<noteq> []" and "rest = tl (dropWhile (\<lambda>c. c \<noteq> newline) s)"
  then show "(rest, s) \<in> measure length"
    using length_dropWhile_le [of "\<lambda>c. c \<noteq> newline" s]
    by (cases "dropWhile (\<lambda>c. c \<noteq> newline) s") auto
qed simp

declare scan_lines.simps [simp del]

section \<open>The store\<close>

record jsonl_store =
  js_path :: string
  js_ops :: "(string \<times> operation) list"

text \<open>The loop of \<open>load\<close>.\<close>

fun load_lines :: "string \<Rightarrow> (string \<times> operation) list \<Rightarrow> string list \<Rightarrow>
    goerr + (string \<times> operation) list" where
  "load_lines path ops [] = Inr ops"
| "load_lines path ops (line # ls) =
     (if line = [] then load_lines path ops ls
      else
        (case json_Unmarshal line of
           Inl err \<Rightarrow> Inl (Errorf (sprintf [''jsonlstore parse '', path]) err)
         | Inr op \<Rightarrow> load_lines path (AList.update (op_ClientRequestID op) op ops) ls))"

definition ErrTooLong :: goerr where
  "ErrTooLong = ErrorsNew ''bufio.Scanner: token too long''"

text \<open>The scan of a text whose reading ended with \<open>read_err\<close>.\<close>

definition load_text ::
  "string \<Rightarrow> string \<Rightarrow> goerr option \<Rightarrow> goerr + (string \<times> operation) list" where
  "load_text path text read_err =
     (let (ls, too_long) = scan_lines text in
      case load_lines path [] ls of
        Inl err \<Rightarrow> Inl err
      | Inr ops \<Rightarrow>
          (case (if too_long then Some ErrTooLong else read_err) of
             Some err \<Rightarrow> Inl (Errorf (sprintf [''jsonlstore scan '', path]) err)
           | None \<Rightarrow> Inr ops))"

definition Store_load :: "string \<Rightarrow> fs \<Rightarrow> (goerr + (string \<times> operation) list) \<times> fs" where
  "Store_load path w =
     (case fs_call w of
        (Fault _ err, w) \<Rightarrow> (Inl (Errorf (sprintf [''jsonlstore open '', path]) err), w)
      | (NoFault, w) \<Rightarrow>
          (case fs_files w path of
             None \<Rightarrow> (Inr [], w)
           | Some text \<Rightarrow>
               (case fs_call w of
                  (NoFault, w) \<Rightarrow> (load_text path text None, w)
                | (Fault n err, w) \<Rightarrow> (load_text path (take n text) (Some err), w))))"

definition Store_Open :: "string \<Rightarrow> fs \<Rightarrow> (goerr + jsonl_store) \<times> fs" where
  "Store_Open path w =
     (case Store_load path w of
        (Inl err, w) \<Rightarrow> (Inl err, w)
      | (Inr ops, w) \<Rightarrow> (Inr \<lparr>js_path = path, js_ops = ops\<rparr>, w))"

text \<open>The store in memory with the file system it writes to.\<close>

type_synonym disk_queue = "jsonl_store \<times> fs"

text \<open>The deferred \<open>Close\<close> of \<open>Append\<close>: its error counts only if there is none yet.\<close>

definition append_close :: "goerr option \<Rightarrow> fs \<Rightarrow> goerr option \<times> fs" where
  "append_close err w =
     (case fs_simple w of
        (Some cerr, w) \<Rightarrow>
          ((if err = None then Some (Errorf ''jsonlstore append close'' cerr) else err), w)
      | (None, w) \<Rightarrow> (err, w))"

definition append_file :: "string \<Rightarrow> operation \<Rightarrow> fs \<Rightarrow> goerr option \<times> fs" where
  "append_file path op w =
     (case fs_create False path w of
        (Some err, w) \<Rightarrow> (Some (Errorf (sprintf [''jsonlstore append open '', path]) err), w)
      | (None, w) \<Rightarrow>
          (case json_Marshal op of
             Inl err \<Rightarrow> append_close (Some (Errorf ''jsonlstore marshal'' err)) w
           | Inr line \<Rightarrow>
               (case fs_write path (line @ [newline]) w of
                  (Some err, w) \<Rightarrow> append_close (Some (Errorf ''jsonlstore write'' err)) w
                | (None, w) \<Rightarrow> (case fs_simple w of (err, w) \<Rightarrow> append_close err w))))"

definition Store_Append :: "disk_queue \<Rightarrow> operation \<Rightarrow> goerr option \<times> disk_queue" where
  "Store_Append q op =
     (case q of (s, w) \<Rightarrow>
        let s = s\<lparr>js_ops := AList.update (op_ClientRequestID op) op (js_ops s)\<rparr> in
        case append_file (js_path s) op w of (err, w) \<Rightarrow> (err, (s, w)))"

definition Store_Pending :: "disk_queue \<Rightarrow> (goerr + operation list) \<times> disk_queue" where
  "Store_Pending q =
     (Inr (sort_key op_ClientRequestID (map snd (js_ops (fst q)))), q)"

text \<open>The lines of the compacted file, up to a marshalling error.\<close>

fun compact_lines :: "(string \<times> operation) list \<Rightarrow> goerr + string list" where
  "compact_lines [] = Inr []"
| "compact_lines (p # ps) =
     (case json_Marshal (snd p) of
        Inl err \<Rightarrow> Inl (Errorf ''jsonlstore compact marshal'' err)
      | Inr line \<Rightarrow>
          (case compact_lines ps of Inl err \<Rightarrow> Inl err | Inr ls \<Rightarrow> Inr (line # ls)))"

text \<open>The buffered writer passes its bytes on in one write per flush; the lines' own writes can
  report an error as well.\<close>

fun buffer_lines :: "fs \<Rightarrow> string \<Rightarrow> string list \<Rightarrow> (goerr + string) \<times> fs" where
  "buffer_lines w buf [] = (Inr buf, w)"
| "buffer_lines w buf (l # ls) =
     (case fs_simple w of
        (Some err, w) \<Rightarrow> (Inl (Errorf ''jsonlstore compact write'' err), w)
      | (None, w) \<Rightarrow> buffer_lines w (buf @ l @ [newline]) ls)"

text \<open>The explicit closes on an error path drop the close's own error.\<close>

definition close_with :: "goerr \<Rightarrow> fs \<Rightarrow> goerr option \<times> fs" where
  "close_with err w = (Some err, snd (fs_simple w))"

text \<open>Flush, sync, close and rename, as \<open>compact\<close> ends.\<close>

definition compact_tail :: "string \<Rightarrow> string \<Rightarrow> string \<Rightarrow> fs \<Rightarrow> goerr option \<times> fs" where
  "compact_tail tmp buf path w =
     (case fs_write tmp buf w of
        (Some err, w) \<Rightarrow> close_with (Errorf ''jsonlstore compact flush'' err) w
      | (None, w) \<Rightarrow>
     (case fs_simple w of
        (Some err, w) \<Rightarrow> close_with (Errorf ''jsonlstore compact sync'' err) w
      | (None, w) \<Rightarrow>
     (case fs_simple w of
        (Some err, w) \<Rightarrow> (Some (Errorf ''jsonlstore compact close'' err), w)
      | (None, w) \<Rightarrow> fs_rename tmp path w)))"

definition Store_compact :: "jsonl_store \<Rightarrow> fs \<Rightarrow> goerr option \<times> fs" where
  "Store_compact s w =
     (let tmp = js_path s @ ''.tmp'' in
      case fs_create True tmp w of
        (Some err, w) \<Rightarrow> (Some (Errorf ''jsonlstore compact open'' err), w)
      | (None, w) \<Rightarrow>
          (case compact_lines (sort_key fst (js_ops s)) of
             Inl err \<Rightarrow> close_with err w
           | Inr ls \<Rightarrow>
               (case buffer_lines w '''' ls of
                  (Inl err, w) \<Rightarrow> close_with err w
                | (Inr buf, w) \<Rightarrow> compact_tail tmp buf (js_path s) w)))"

definition Store_Ack :: "disk_queue \<Rightarrow> string \<Rightarrow> goerr option \<times> disk_queue" where
  "Store_Ack q clientRequestID =
     (case q of (s, w) \<Rightarrow>
        let s = s\<lparr>js_ops := AList.delete clientRequestID (js_ops s)\<rparr> in
        case Store_compact s w of (err, w) \<Rightarrow> (err, (s, w)))"

definition jsonl_port :: "disk_queue store_port" where
  "jsonl_port =
     \<lparr>sp_Append = Store_Append, sp_Pending = Store_Pending, sp_Ack = Store_Ack\<rparr>"

section \<open>The store keeps its contract\<close>

definition js_queue :: "disk_queue \<Rightarrow> string \<rightharpoonup> operation" where
  "js_queue q = map_of (js_ops (fst q))"

definition ops_ok :: "(string \<times> operation) list \<Rightarrow> bool" where
  "ops_ok ops \<longleftrightarrow> distinct (map fst ops) \<and> (\<forall>p \<in> set ops. op_ClientRequestID (snd p) = fst p)"

definition js_inv :: "disk_queue \<Rightarrow> bool" where
  "js_inv q \<longleftrightarrow> ops_ok (js_ops (fst q))"

lemma ops_ok_update: "ops_ok ops \<Longrightarrow> ops_ok (AList.update (op_ClientRequestID op) op ops)"
proof -
  assume *: "ops_ok ops"
  then have "\<forall>p \<in> set (AList.update (op_ClientRequestID op) op ops). op_ClientRequestID (snd p) = fst p"
    unfolding ops_ok_def by (induction ops) auto
  with * show ?thesis
    by (simp add: ops_ok_def distinct_update)
qed

lemma ops_ok_delete: "ops_ok ops \<Longrightarrow> ops_ok (AList.delete cid ops)"
  unfolding ops_ok_def using distinct_delete [of ops cid] by (auto simp: AList.delete_eq)

lemma map_fst_ops: "ops_ok ops \<Longrightarrow> map (op_ClientRequestID \<circ> snd) ops = map fst ops"
  by (auto simp: ops_ok_def)

lemma map_of_sort:
  "distinct (map fst xs) \<Longrightarrow> map_of (sort_key f xs) = map_of xs"
  by (rule map_of_inject_set [THEN iffD2]) (simp_all add: distinct_map)

lemma queue_of_pending:
  assumes "ops_ok ops"
  shows "queue_of (sort_key op_ClientRequestID (map snd ops)) = map_of ops \<and>
    distinct (map op_ClientRequestID (sort_key op_ClientRequestID (map snd ops)))"
proof -
  let ?s = "sort_key op_ClientRequestID (map snd ops)"
  have "distinct (map op_ClientRequestID (map snd ops))"
    using assms map_fst_ops [OF assms] by (simp add: ops_ok_def del: map_eq_conv)
  then have d: "distinct (map op_ClientRequestID ?s)"
    by (metis distinct_map distinct_sort set_sort)
  have "map_of (map (\<lambda>op. (op_ClientRequestID op, op)) ?s) = map_of ops"
  proof (rule map_of_inject_set [THEN iffD2])
    have "(\<lambda>op. (op_ClientRequestID op, op)) ` snd ` set ops = set ops"
      using assms by (force simp: ops_ok_def image_image)
    then show "set (map (\<lambda>op. (op_ClientRequestID op, op)) ?s) = set ops"
      by simp
  qed (use d assms in \<open>simp_all add: ops_ok_def comp_def\<close>)
  with d show ?thesis
    by (simp add: queue_of_def)
qed

interpretation jsonl: op_store jsonl_port js_queue js_inv
proof (unfold_locales, goal_cases)
  case (1 w op res w')
  then show ?case
    by (auto simp: jsonl_port_def Store_Append_def js_inv_def Let_def ops_ok_update split: prod.splits)
next
  case (2 w op res w')
  then show ?case
    by (auto simp: jsonl_port_def Store_Append_def js_queue_def Let_def update_conv' split: prod.splits)
next
  case (3 w listed w')
  then show ?case by (auto simp: jsonl_port_def Store_Pending_def)
next
  case (4 w ops w')
  then show ?case
    using queue_of_pending [of "js_ops (fst w)"]
    by (auto simp: jsonl_port_def Store_Pending_def js_queue_def js_inv_def)
next
  case (5 w cid res w')
  then show ?case
    by (auto simp: jsonl_port_def Store_Ack_def js_inv_def Let_def ops_ok_delete split: prod.splits)
next
  case (6 w cid res w')
  then show ?case
    by (auto simp: jsonl_port_def Store_Ack_def js_queue_def Let_def delete_conv' split: prod.splits)
qed

section \<open>Lines on disk\<close>

definition lines_text :: "string list \<Rightarrow> string" where
  "lines_text ls = concat (map (\<lambda>l. l @ [newline]) ls)"

definition line_ok :: "string \<Rightarrow> bool" where
  "line_ok l \<longleftrightarrow> printable l \<and> l \<noteq> [] \<and> length l < MaxScanTokenSize"

lemma code_newline [simp]: "code newline = 10"
  by (simp add: newline_def code_def)

lemma scan_line:
  assumes "printable l" and "length l < MaxScanTokenSize"
  shows "scan_lines (l @ newline # r) = (case scan_lines r of (ls, e) \<Rightarrow> (l # ls, e))"
proof -
  have nl: "\<forall>c \<in> set l. c \<noteq> newline"
    using assms(1) by (auto simp: printable_def)
  have cr: "drop_cr l = l"
    using assms(1) last_in_set [of l] unfolding drop_cr_def printable_def by fastforce
  have "takeWhile (\<lambda>c. c \<noteq> newline) (l @ newline # r) = l"
    "dropWhile (\<lambda>c. c \<noteq> newline) (l @ newline # r) = newline # r"
    using nl by (simp_all add: takeWhile_append2 dropWhile_append2)
  with assms(2) cr show ?thesis
    by (subst scan_lines.simps) (simp add: Let_def)
qed

lemma scan_lines_text: "\<forall>l \<in> set ls. line_ok l \<Longrightarrow> scan_lines (lines_text ls) = (ls, False)"
proof (induction ls)
  case Nil
  then show ?case by (simp add: lines_text_def scan_lines.simps [of "[]"])
next
  case (Cons l ls)
  then show ?case
    using scan_line [of l "lines_text ls"] by (simp add: lines_text_def line_ok_def)
qed

text \<open>An operation the queue can hold: its strings are UTF-8 and its line fits the scanner.\<close>

definition op_fits :: "operation \<Rightarrow> bool" where
  "op_fits op \<longleftrightarrow> op_utf8 op \<and>
     (\<forall>line. json_Marshal op = Inr line \<longrightarrow> length line < MaxScanTokenSize)"

lemma op_fits_line:
  assumes "op_fits op"
  obtains line where "json_Marshal op = Inr line" and "line_ok line" and "json_Unmarshal line = Inr op"
proof -
  obtain line where l: "json_Marshal op = Inr line" by (simp add: json_Marshal_def)
  with assms show thesis
    by (intro that [of line]) (simp_all add: op_fits_def line_ok_def printable_marshal
        marshal_nonempty json_round_trip)
qed

lemma load_lines_append:
  "load_lines path ops (ls @ ls') =
     (case load_lines path ops ls of Inl e \<Rightarrow> Inl e | Inr ops' \<Rightarrow> load_lines path ops' ls')"
  by (induction ls arbitrary: ops) (auto split: sum.splits)

text \<open>The file is a sequence of whole lines that replays to the queue in memory.\<close>

definition disk_ok :: "disk_queue \<Rightarrow> bool" where
  "disk_ok q \<longleftrightarrow>
     (\<exists>ls ops. fs_content (snd q) (js_path (fst q)) = lines_text ls \<and> (\<forall>l \<in> set ls. line_ok l) \<and>
        load_lines (js_path (fst q)) [] ls = Inr ops \<and> map_of ops = js_queue q)"

lemma disk_ok_load:
  assumes "disk_ok q"
  obtains ops where "load_text (js_path (fst q)) (fs_content (snd q) (js_path (fst q))) None = Inr ops"
    and "map_of ops = js_queue q"
  using assms scan_lines_text by (auto simp: disk_ok_def load_text_def)

section \<open>What the calls do to the files\<close>

lemma fs_call_files: "fs_call w = (r, w') \<Longrightarrow> fs_files w' = fs_files w"
  by (auto simp: fs_call_def split: list.splits)

lemma fs_simple_files: "fs_simple w = (e, w') \<Longrightarrow> fs_files w' = fs_files w"
  by (auto simp: fs_simple_def split: prod.splits fault.splits dest: fs_call_files)

lemma fs_write_files:
  "fs_write path bytes w = (e, w') \<Longrightarrow>
     (\<exists>n. fs_files w' = (fs_files w)(path \<mapsto> fs_content w path @ take n bytes)) \<and>
     (e = None \<longrightarrow> fs_files w' = (fs_files w)(path \<mapsto> fs_content w path @ bytes))"
  by (auto simp: fs_write_def fs_put_def fs_content_def split: prod.splits fault.splits
      dest!: fs_call_files intro: exI [of _ "length bytes"])

lemma fs_create_files:
  "fs_create trunc path w = (e, w') \<Longrightarrow>
     (e \<noteq> None \<longrightarrow> fs_files w' = fs_files w) \<and>
     (e = None \<longrightarrow> fs_files w' = (fs_files w)(path \<mapsto> (if trunc then '''' else fs_content w path)))"
  by (auto simp: fs_create_def fs_put_def fs_content_def split: prod.splits fault.splits
      dest!: fs_call_files)

lemma fs_rename_files:
  "fs_rename old new w = (e, w') \<Longrightarrow>
     (fs_files w' = fs_files w \<and> e \<noteq> None) \<or>
     fs_files w' = (fs_files w)(new \<mapsto> fs_content w old, old := None)"
  by (auto simp: fs_rename_def fs_content_def Let_def split: prod.splits fault.splits if_splits
      dest!: fs_call_files)

lemma append_close_files:
  "append_close err w = (e, w') \<Longrightarrow> fs_files w' = fs_files w \<and> (e = None \<longrightarrow> err = None)"
  by (auto simp: append_close_def split: prod.splits option.splits if_splits dest: fs_simple_files)

text \<open>\<open>Append\<close>: some prefix of the line is added, all of it when there is no error.\<close>

lemma append_file_content:
  assumes "append_file path op w = (e, w')" and "json_Marshal op = Inr line"
  shows "(\<exists>n. fs_content w' path = fs_content w path @ take n (line @ [newline])) \<and>
    (e = None \<longrightarrow> fs_content w' path = fs_content w path @ line @ [newline])"
proof -
  obtain e1 w1 where c: "fs_create False path w = (e1, w1)" by (cases "fs_create False path w")
  show ?thesis
  proof (cases e1)
    case (Some err)
    with assms c fs_create_files [OF c] show ?thesis
      by (auto simp: append_file_def fs_content_def intro: exI [of _ 0])
  next
    case None
    then have w1: "fs_content w1 path = fs_content w path"
      using fs_create_files [OF c] by (simp add: fs_content_def)
    obtain e2 w2 where wr: "fs_write path (line @ [newline]) w1 = (e2, w2)"
      by (cases "fs_write path (line @ [newline]) w1")
    note f2 = fs_write_files [OF wr]
    obtain e3 w3 where sy: "fs_simple w2 = (e3, w3)" by (cases "fs_simple w2")
    have w': "fs_files w' = fs_files w2 \<and> (e = None \<longrightarrow> e2 = None)"
      using assms c None wr sy fs_simple_files [OF sy]
      by (cases e2) (auto simp: append_file_def dest!: append_close_files)
    obtain n where "fs_files w2 = (fs_files w1)(path \<mapsto> fs_content w1 path @ take n (line @ [newline]))"
      using f2 by blast
    then have "fs_content w' path = fs_content w path @ take n (line @ [newline])"
      using w' w1 by (simp add: fs_content_def)
    moreover have "e = None \<longrightarrow> fs_content w' path = fs_content w path @ line @ [newline]"
      using f2 w' w1 by (simp add: fs_content_def)
    ultimately show ?thesis by blast
  qed
qed

lemma disk_ok_append:
  assumes "disk_ok (s, w)" and "op_fits op" and "Store_Append (s, w) op = (None, q')"
  shows "disk_ok q'"
proof -
  obtain ls ops where ls: "fs_content w (js_path s) = lines_text ls" "\<forall>l \<in> set ls. line_ok l"
    and ops: "load_lines (js_path s) [] ls = Inr ops" "map_of ops = map_of (js_ops s)"
    using assms(1) by (auto simp: disk_ok_def js_queue_def)
  obtain line where line: "json_Marshal op = Inr line" "line_ok line" "json_Unmarshal line = Inr op"
    using op_fits_line [OF assms(2)] .
  let ?s = "s\<lparr>js_ops := AList.update (op_ClientRequestID op) op (js_ops s)\<rparr>"
  obtain w' where q': "q' = (?s, w')" and a: "append_file (js_path s) op w = (None, w')"
    using assms(3) by (auto simp: Store_Append_def Let_def split: prod.splits)
  have "fs_content w' (js_path s) = lines_text (ls @ [line])"
    using append_file_content [OF a line(1)] ls(1) by (simp add: lines_text_def)
  moreover have "load_lines (js_path s) [] (ls @ [line]) =
      Inr (AList.update (op_ClientRequestID op) op ops)"
    using ops line by (simp add: load_lines_append line_ok_def)
  ultimately show ?thesis
    using ls(2) line(2) ops(2)
    by (auto simp: disk_ok_def q' js_queue_def update_conv' intro!: exI [of _ "ls @ [line]"])
qed

section \<open>Compaction\<close>

definition ops_fit :: "(string \<times> operation) list \<Rightarrow> bool" where
  "ops_fit ops \<longleftrightarrow> (\<forall>p \<in> set ops. op_fits (snd p))"

definition reload :: "(string \<times> operation) list \<Rightarrow> (string \<times> operation) list \<Rightarrow>
    (string \<times> operation) list" where
  "reload = fold (\<lambda>p. AList.update (op_ClientRequestID (snd p)) (snd p))"

lemma compact_lines_fit:
  "ops_fit ps \<Longrightarrow>
     \<exists>ls. compact_lines ps = Inr ls \<and> (\<forall>l \<in> set ls. line_ok l) \<and>
       (\<forall>path ops. load_lines path ops ls = Inr (reload ps ops))"
proof (induction ps)
  case Nil
  then show ?case by (simp add: reload_def)
next
  case (Cons p ps)
  then obtain ls where ls: "compact_lines ps = Inr ls" "\<forall>l \<in> set ls. line_ok l"
    "\<forall>path ops. load_lines path ops ls = Inr (reload ps ops)"
    by (auto simp: ops_fit_def)
  have "op_fits (snd p)"
    using Cons.prems by (simp add: ops_fit_def)
  then obtain line where "json_Marshal (snd p) = Inr line" "line_ok line"
    "json_Unmarshal line = Inr (snd p)"
    by (rule op_fits_line)
  with ls show ?case
    by (intro exI [of _ "line # ls"]) (auto simp: line_ok_def reload_def)
qed

lemma map_of_reload: "ops_ok ps \<Longrightarrow> map_of (reload ps ops) = map_of ops ++ map_of ps"
proof (induction ps arbitrary: ops)
  case Nil
  then show ?case by (simp add: reload_def)
next
  case (Cons p ps)
  then have ok: "ops_ok ps" and p: "op_ClientRequestID (snd p) = fst p" "fst p \<notin> fst ` set ps"
    by (auto simp: ops_ok_def)
  have "map_of ps (fst p) = None"
    using p(2) by (simp add: map_of_eq_None_iff)
  with Cons.IH [OF ok] p(1) show ?case
    by (cases p) (auto simp: reload_def update_conv' map_add_def fun_eq_iff split: option.splits)
qed

text \<open>Everything before the rename happens to the temporary file.\<close>

lemma buffer_lines_files:
  "buffer_lines w buf ls = (res, w') \<Longrightarrow>
     fs_files w' = fs_files w \<and> (\<forall>b. res = Inr b \<longrightarrow> b = buf @ lines_text ls)"
proof (induction ls arbitrary: w buf)
  case Nil
  then show ?case by (auto simp: lines_text_def)
next
  case (Cons l ls)
  obtain e w1 where c: "fs_simple w = (e, w1)" by (cases "fs_simple w")
  show ?case
  proof (cases e)
    case None
    with Cons.prems c have "buffer_lines w1 (buf @ l @ [newline]) ls = (res, w')" by simp
    from Cons.IH [OF this] fs_simple_files [OF c] show ?thesis
      by (simp add: lines_text_def)
  next
    case (Some err)
    with Cons.prems c fs_simple_files [OF c] show ?thesis by auto
  qed
qed

lemma close_with_files: "close_with err w = (e, w') \<Longrightarrow> fs_files w' = fs_files w \<and> e \<noteq> None"
  by (auto simp: close_with_def fs_simple_files [OF surjective_pairing])

lemma compact_tail_atomic:
  assumes "tmp \<noteq> path" and "compact_tail tmp buf path w = (e, w')" and "fs_content w tmp = ''''"
  shows "(fs_files w' path = fs_files w path \<and> e \<noteq> None) \<or> fs_files w' path = Some buf"
proof -
  obtain e1 w1 where a: "fs_write tmp buf w = (e1, w1)" by (cases "fs_write tmp buf w")
  obtain e2 w2 where b: "fs_simple w1 = (e2, w2)" by (cases "fs_simple w1")
  obtain e3 w3 where c: "fs_simple w2 = (e3, w3)" by (cases "fs_simple w2")
  note f = fs_write_files [OF a] fs_simple_files [OF b] fs_simple_files [OF c]
  have old: "fs_files w1 path = fs_files w path"
    using f(1) assms(1) by auto
  show ?thesis
  proof (cases "e1 = None \<and> e2 = None \<and> e3 = None")
    case True
    then have r: "fs_rename tmp path w3 = (e, w')"
      using assms(2) a b c by (simp add: compact_tail_def)
    have "fs_content w3 tmp = buf"
      using f True assms(3) by (simp add: fs_content_def)
    with fs_rename_files [OF r] f old assms(1) show ?thesis by auto
  next
    case False
    then have "fs_files w' path = fs_files w1 path \<and> e \<noteq> None"
      using assms(2) a b c f
      by (auto simp: compact_tail_def split: option.splits dest!: close_with_files)
    with old show ?thesis by simp
  qed
qed

text \<open>Whatever fails, the queue's file is the old one or the whole new one.\<close>

lemma Store_compact_atomic:
  assumes "Store_compact s w = (e, w')"
  shows "(fs_files w' (js_path s) = fs_files w (js_path s) \<and> e \<noteq> None) \<or>
    (\<exists>ls. compact_lines (sort_key fst (js_ops s)) = Inr ls \<and>
       fs_files w' (js_path s) = Some (lines_text ls))"
proof -
  let ?path = "js_path s" and ?tmp = "js_path s @ ''.tmp''"
  have tmp: "?tmp \<noteq> ?path" by simp
  obtain e1 w1 where c: "fs_create True ?tmp w = (e1, w1)" by (cases "fs_create True ?tmp w")
  note f1 = fs_create_files [OF c]
  show ?thesis
  proof (cases e1)
    case (Some err)
    with assms c f1 show ?thesis by (auto simp: Store_compact_def)
  next
    case None
    have w1: "fs_files w1 ?path = fs_files w ?path" "fs_content w1 ?tmp = ''''"
      using f1 None tmp by (simp_all add: fs_content_def)
    show ?thesis
    proof (cases "compact_lines (sort_key fst (js_ops s))")
      case (Inl err)
      then have "close_with err w1 = (e, w')"
        using assms c None by (simp add: Store_compact_def)
      from close_with_files [OF this] w1 show ?thesis by simp
    next
      case (Inr ls)
      obtain res w2 where b: "buffer_lines w1 '''' ls = (res, w2)" by (cases "buffer_lines w1 '''' ls")
      note f2 = buffer_lines_files [OF b]
      show ?thesis
      proof (cases res)
        case (Inl err)
        then have "close_with err w2 = (e, w')"
          using assms c None Inr b by (simp add: Store_compact_def)
        from close_with_files [OF this] f2 w1 show ?thesis by simp
      next
        case buf: (Inr buf)
        then have "compact_tail ?tmp buf ?path w2 = (e, w')"
          using assms c None Inr b by (simp add: Store_compact_def)
        moreover have "fs_content w2 ?tmp = ''''"
          using f2 w1 by (simp add: fs_content_def)
        ultimately show ?thesis
          using compact_tail_atomic [OF tmp] f2 w1 Inr buf by force
      qed
    qed
  qed
qed

text \<open>An acknowledged operation is gone from the file, the rest is there.\<close>

lemma disk_ok_ack:
  assumes "js_inv (s, w)" and "ops_fit (js_ops s)" and "Store_Ack (s, w) cid = (None, q')"
  shows "disk_ok q'"
proof -
  let ?s = "s\<lparr>js_ops := AList.delete cid (js_ops s)\<rparr>" and ?ops = "AList.delete cid (js_ops s)"
  obtain w' where q': "q' = (?s, w')" and c: "Store_compact ?s w = (None, w')"
    using assms(3) by (auto simp: Store_Ack_def Let_def split: prod.splits)
  have ok: "ops_ok ?ops" and "ops_fit ?ops"
    using assms(1,2) ops_ok_delete [of "js_ops s" cid]
    by (auto simp: js_inv_def ops_fit_def AList.delete_eq)
  then have "ops_fit (sort_key fst ?ops)" and sorted: "ops_ok (sort_key fst ?ops)"
    by (simp_all add: ops_fit_def ops_ok_def distinct_map)
  then obtain ls where ls: "compact_lines (sort_key fst ?ops) = Inr ls" "\<forall>l \<in> set ls. line_ok l"
    "\<forall>path ops. load_lines path ops ls = Inr (reload (sort_key fst ?ops) ops)"
    using compact_lines_fit by blast
  have "fs_content w' (js_path s) = lines_text ls"
    using Store_compact_atomic [OF c] ls(1) by (auto simp: fs_content_def)
  moreover have "map_of (reload (sort_key fst ?ops) []) = map_of ?ops"
    using map_of_reload [OF sorted, of "[]"] ok by (simp add: map_of_sort ops_ok_def)
  ultimately show ?thesis
    using ls(2,3) by (auto simp: disk_ok_def q' js_queue_def)
qed

section \<open>Reopening\<close>

lemma lines_text_Nil_iff [simp]: "lines_text ls = [] \<longleftrightarrow> ls = []"
  by (cases ls) (simp_all add: lines_text_def)

lemma disk_ok_reopen:
  assumes "disk_ok (s, w)" and "fs_script w = []"
  obtains s' where "Store_Open (js_path s) w = (Inr s', w)" and "js_queue (s', w) = js_queue (s, w)"
    and "js_path s' = js_path s"
proof -
  obtain ls ops where ls: "fs_content w (js_path s) = lines_text ls" "\<forall>l \<in> set ls. line_ok l"
    and ops: "load_lines (js_path s) [] ls = Inr ops" "map_of ops = js_queue (s, w)"
    using assms(1) by (auto simp: disk_ok_def)
  have "Store_load (js_path s) w = (Inr ops, w)"
  proof (cases "fs_files w (js_path s)")
    case None
    then have "ls = []"
      using ls(1) by (metis fs_content_def lines_text_Nil_iff option.simps(4))
    with None assms(2) ops(1) show ?thesis by (simp add: Store_load_def fs_call_def)
  next
    case (Some content)
    with assms(2) ls ops(1) show ?thesis
      by (simp add: Store_load_def fs_call_def load_text_def scan_lines_text fs_content_def)
  qed
  with ops(2) show thesis
    by (intro that [of "\<lparr>js_path = js_path s, js_ops = ops\<rparr>"])
      (simp_all add: Store_Open_def js_queue_def)
qed

end
