(* ===== verification/Onboard_Client.thy ===== *)
theory Onboard_Client
  imports Jsonl_Store Graphql_Transport
begin

text \<open>
  The onboard sync client as \<open>clients/onboard-sync/client.go\<close> wires it: the syncer over the JSONL
  queue and the GraphQL transport. The world is the queue (its memory and the file system) and the
  network. The contract of the queue carries over to the wired client, which interprets it.
\<close>

type_synonym 'n client_world = "disk_queue \<times> 'n"

section \<open>Ports over the common world\<close>

definition queue_call :: "(disk_queue \<Rightarrow> 'r \<times> disk_queue) \<Rightarrow> 'n client_world \<Rightarrow> 'r \<times> 'n client_world" where
  "queue_call f w = (case f (fst w) of (res, q) \<Rightarrow> (res, (q, snd w)))"

definition client_store :: "disk_queue store_port \<Rightarrow> 'n client_world store_port" where
  "client_store p =
     \<lparr>sp_Append = (\<lambda>w op. queue_call (\<lambda>q. sp_Append p q op) w),
      sp_Pending = queue_call (sp_Pending p),
      sp_Ack = (\<lambda>w cid. queue_call (\<lambda>q. sp_Ack p q cid) w)\<rparr>"

definition client_transport :: "'n transport \<Rightarrow> 'n client_world transport_port" where
  "client_transport t w op = (case Transport_Send t (snd w) op of (res, n) \<Rightarrow> (res, (fst w, n)))"

section \<open>Construction\<close>

definition transport_New ::
  "string \<Rightarrow> (string \<Rightarrow> goerr option) \<Rightarrow>
   ('n \<Rightarrow> http_request \<Rightarrow> (goerr + http_response) \<times> 'n) \<Rightarrow> 'n transport" where
  "transport_New gatewayURL url_error client_do =
     \<lparr>tr_url = gatewayURL, tr_url_error = url_error gatewayURL, tr_do = client_do\<rparr>"

text \<open>100 milliseconds and 30 seconds, in nanoseconds.\<close>

definition onboard_New ::
  "(string \<Rightarrow> goerr option) \<Rightarrow> ('n \<Rightarrow> http_request \<Rightarrow> (goerr + http_response) \<times> 'n) \<Rightarrow>
   ('n client_world \<Rightarrow> instant) \<Rightarrow> (int64 \<Rightarrow> 'g) \<Rightarrow> instant \<Rightarrow> string \<Rightarrow> string \<Rightarrow> fs \<times> 'n \<Rightarrow>
   (goerr + ('n client_world, 'g) syncer \<times> 'n client_world) \<times> fs" where
  "onboard_New url_error client_do clock new_source zero gatewayURL queuePath w =
     (case Store_Open queuePath (fst w) of
        (Inl err, d) \<Rightarrow> (Inl err, d)
      | (Inr store, d) \<Rightarrow>
          (let transport = transport_New gatewayURL url_error client_do;
               retry = NewRetryPolicy new_source 100000000 30000000000 1
           in (Inr (NewSyncer zero (client_store jsonl_port) (client_transport transport) clock retry,
                    ((store, d), snd w)), d)))"

section \<open>The contract of the queue in the wired client\<close>

lemma queue_call_iff:
  "queue_call f w = (res, w') \<longleftrightarrow> f (fst w) = (res, fst w') \<and> snd w' = snd w"
  by (cases "f (fst w)"; cases w') (auto simp: queue_call_def)

lemma client_store_simps [simp]:
  "sp_Append (client_store p) w op = queue_call (\<lambda>q. sp_Append p q op) w"
  "sp_Pending (client_store p) = queue_call (sp_Pending p)"
  "sp_Ack (client_store p) w cid = queue_call (\<lambda>q. sp_Ack p q cid) w"
  by (simp_all add: client_store_def)

lemma client_op_store:
  assumes "op_store p queue invar"
  shows "op_store (client_store p :: 'n client_world store_port) (queue \<circ> fst) (invar \<circ> fst)"
proof (unfold_locales, goal_cases)
  case (1 w op res w')
  then show ?case using op_store.append_inv [OF assms] by (fastforce simp: queue_call_iff)
next
  case (2 w op res w')
  then show ?case using op_store.append_queue [OF assms] by (fastforce simp: queue_call_iff)
next
  case (3 w listed w')
  then show ?case using op_store.pending_inv [OF assms] by (fastforce simp: queue_call_iff)
next
  case (4 w ops w')
  then show ?case using op_store.pending_queue [OF assms] by (fastforce simp: queue_call_iff)
next
  case (5 w cid res w')
  then show ?case using op_store.ack_inv [OF assms] by (fastforce simp: queue_call_iff)
next
  case (6 w cid res w')
  then show ?case using op_store.ack_queue [OF assms] by (fastforce simp: queue_call_iff)
qed

definition cl_queue :: "'n client_world \<Rightarrow> string \<rightharpoonup> operation" where
  "cl_queue w = js_queue (fst w)"

definition cl_inv :: "'n client_world \<Rightarrow> bool" where
  "cl_inv w = js_inv (fst w)"

lemma cl_comp: "cl_queue = js_queue \<circ> fst" "cl_inv = js_inv \<circ> fst"
  by (simp_all add: fun_eq_iff cl_queue_def cl_inv_def)

interpretation client: op_store "client_store jsonl_port" cl_queue cl_inv
  unfolding cl_comp by (rule client_op_store) (rule jsonl.op_store_axioms)

lemma client_send_frame: "send_frame cl_queue cl_inv (client_transport t)"
  by (auto simp: send_frame_def client_transport_def cl_queue_def cl_inv_def split: prod.splits)

section \<open>What is on disk\<close>

text \<open>The file at \<open>path\<close> is a sequence of whole lines that replays to the queue \<open>Q\<close>.\<close>

definition disk_holds :: "string \<Rightarrow> fs \<Rightarrow> (string \<rightharpoonup> operation) \<Rightarrow> bool" where
  "disk_holds path d Q \<longleftrightarrow>
     (\<exists>ls ops. fs_content d path = lines_text ls \<and> (\<forall>l \<in> set ls. line_ok l) \<and>
        load_lines path [] ls = Inr ops \<and> map_of ops = Q)"

lemma disk_ok_holds: "disk_ok (s, d) \<longleftrightarrow> disk_holds (js_path s) d (js_queue (s, d))"
  by (simp add: disk_ok_def disk_holds_def)

text \<open>A restart of the process: the queue is opened again on the files as they are.\<close>

definition reopen :: "string \<Rightarrow> fs \<Rightarrow> (goerr + jsonl_store) \<times> fs" where
  "reopen path d = Store_Open path (d\<lparr>fs_script := []\<rparr>)"

lemma reopen_holds:
  assumes "disk_holds path d Q"
  shows "\<exists>s' d'. reopen path d = (Inr s', d') \<and> js_queue (s', d') = Q"
proof -
  obtain ls ops where h: "fs_content d path = lines_text ls" "\<forall>l \<in> set ls. line_ok l"
    "load_lines path [] ls = Inr ops" "map_of ops = Q"
    using assms by (auto simp: disk_holds_def)
  let ?d = "d\<lparr>fs_script := []\<rparr>"
  have "disk_ok (\<lparr>js_path = path, js_ops = ops\<rparr>, ?d)"
    using h by (auto simp: disk_ok_def js_queue_def fs_content_def)
  from disk_ok_reopen [OF this] obtain s' where "Store_Open path ?d = (Inr s', ?d)" "js_queue (s', ?d) = Q"
    using h(4) by (auto simp: js_queue_def)
  then show ?thesis
    by (auto simp: reopen_def)
qed

text \<open>Whatever fails during an \<open>Ack\<close>, the file replays to the queue before or after it.\<close>

lemma disk_holds_ack:
  assumes "js_inv (s, d)" and "ops_fit (js_ops s)" and "disk_ok (s, d)"
    and "Store_Ack (s, d) cid = (e, (s', d'))"
  shows "js_path s' = js_path s \<and>
    (disk_holds (js_path s) d' (js_queue (s, d)) \<and> e \<noteq> None \<or> disk_holds (js_path s) d' (js_queue (s', d')))"
proof -
  let ?ops = "AList.delete cid (js_ops s)"
  have s': "s' = s\<lparr>js_ops := ?ops\<rparr>" and c: "Store_compact s' d = (e, d')"
    using assms(4) by (auto simp: Store_Ack_def Let_def split: prod.splits)
  show ?thesis
  proof (cases "fs_files d' (js_path s') = fs_files d (js_path s') \<and> e \<noteq> None")
    case True
    with assms(3) s' show ?thesis
      by (auto simp: disk_ok_holds disk_holds_def fs_content_def js_queue_def)
  next
    case False
    then obtain ls where ls: "compact_lines (sort_key fst ?ops) = Inr ls"
        "fs_files d' (js_path s) = Some (lines_text ls)"
      using Store_compact_atomic [OF c] s' by auto
    have ok: "ops_ok ?ops" and "ops_fit ?ops"
      using assms(1,2) ops_ok_delete [of "js_ops s" cid]
      by (auto simp: js_inv_def ops_fit_def AList.delete_eq)
    then have "ops_fit (sort_key fst ?ops)" and sorted: "ops_ok (sort_key fst ?ops)"
      by (simp_all add: ops_fit_def ops_ok_def distinct_map)
    from compact_lines_fit [OF this(1)] ls(1)
    have "\<forall>l \<in> set ls. line_ok l" "load_lines (js_path s) [] ls = Inr (reload (sort_key fst ?ops) [])"
      by auto
    moreover have "map_of (reload (sort_key fst ?ops) []) = map_of ?ops"
      using map_of_reload [OF sorted, of "[]"] ok by (simp add: map_of_sort ops_ok_def)
    ultimately have "disk_holds (js_path s) d' (map_of ?ops)"
      using ls(2) by (auto simp: disk_holds_def fs_content_def)
    with s' show ?thesis by (simp add: js_queue_def)
  qed
qed

section \<open>The invariant of the wired client\<close>

definition client_ok :: "'n client_world \<Rightarrow> bool" where
  "client_ok w \<longleftrightarrow> js_inv (fst w) \<and> ops_fit (js_ops (fst (fst w))) \<and> disk_ok (fst w)"

definition queue_path :: "'n client_world \<Rightarrow> string" where
  "queue_path w = js_path (fst (fst w))"

definition client_disk :: "'n client_world \<Rightarrow> fs" where
  "client_disk w = snd (fst w)"

definition wired :: "('n client_world, 'g) syncer \<Rightarrow> bool" where
  "wired s \<longleftrightarrow> sy_store s = client_store jsonl_port \<and> (\<exists>t. sy_transport s = client_transport t)"

lemma ops_fit_update: "ops_fit ops \<Longrightarrow> op_fits op \<Longrightarrow> ops_fit (AList.update k op ops)"
  unfolding ops_fit_def by (induction ops) auto

lemma ops_fit_delete: "ops_fit ops \<Longrightarrow> ops_fit (AList.delete k ops)"
  by (auto simp: ops_fit_def AList.delete_eq)

lemma client_ok_append:
  assumes "client_ok w" and "op_fits op" and "queue_call (\<lambda>q. Store_Append q op) w = (None, w')"
  shows "client_ok w' \<and> queue_path w' = queue_path w"
proof -
  obtain st d n where w: "w = ((st, d), n)" by (metis surj_pair)
  have a: "Store_Append (st, d) op = (None, fst w')"
    using assms(3) by (simp add: queue_call_iff w)
  have "disk_ok (fst w')"
    using disk_ok_append [OF _ assms(2) a] assms(1) by (simp add: client_ok_def w)
  moreover have "fst (fst w') = st\<lparr>js_ops := AList.update (op_ClientRequestID op) op (js_ops st)\<rparr>"
    using a by (cases "fst w'") (auto simp: Store_Append_def Let_def split: prod.splits)
  ultimately show ?thesis
    using assms(1,2) by (simp add: client_ok_def w js_inv_def queue_path_def ops_ok_update ops_fit_update)
qed

lemma client_ok_fits: "client_ok w \<Longrightarrow> cl_queue w cid = Some op \<Longrightarrow> op_fits op"
  by (fastforce simp: client_ok_def cl_queue_def js_queue_def ops_fit_def dest: map_of_SomeD)

lemma client_pending:
  "queue_call Store_Pending w = (res, w') \<Longrightarrow>
     w' = w \<and> res = Inr (sort_key op_ClientRequestID (map snd (js_ops (fst (fst w)))))"
  by (cases w; cases w') (auto simp: queue_call_iff Store_Pending_def)

lemma coalesce_fits: "\<forall>existing \<in> set ops. op_fits existing \<Longrightarrow> op_fits op \<Longrightarrow> op_fits (coalesce ops op)"
  by (induction ops) (auto simp: HigherVersionWins_def)

lemma client_ok_enqueue:
  assumes "wired s" and "client_ok w" and "op_fits op" and "Enqueue s w op = (None, w')"
  shows "client_ok w' \<and> queue_path w' = queue_path w"
proof -
  obtain ops w1 where p: "queue_call Store_Pending w = (Inr ops, w1)"
    and a: "queue_call (\<lambda>q. Store_Append q (coalesce ops op)) w1 = (None, w')"
    using assms(1,4)
    by (auto simp: wired_def Enqueue_def Let_def jsonl_port_def split: prod.splits sum.splits option.splits)
  have "op_fits (coalesce ops op)"
    using client_pending [OF p] assms(2,3)
    by (intro coalesce_fits) (auto simp: client_ok_def ops_fit_def)
  with client_ok_append [of w "coalesce ops op"] client_pending [OF p] a assms(2) show ?thesis by simp
qed

lemma client_disk_holds: "client_ok w \<Longrightarrow> disk_holds (queue_path w) (client_disk w) (cl_queue w)"
  by (cases w) (auto simp: client_ok_def disk_ok_holds queue_path_def client_disk_def cl_queue_def)

lemma client_ok_ack:
  assumes "client_ok w" and "queue_call (\<lambda>q. Store_Ack q cid) w = (e, w')"
  shows "queue_path w' = queue_path w \<and> (e = None \<longrightarrow> client_ok w') \<and>
    (\<exists>Q. disk_holds (queue_path w) (client_disk w') Q \<and> (\<forall>c. c \<noteq> cid \<longrightarrow> Q c = cl_queue w c))"
proof -
  obtain s d n where w: "w = ((s, d), n)" by (metis surj_pair)
  obtain s' d' n' where w': "w' = ((s', d'), n')" by (metis surj_pair)
  have a: "Store_Ack (s, d) cid = (e, (s', d'))"
    using assms(2) by (simp add: queue_call_iff w w')
  have ok: "js_inv (s, d)" "ops_fit (js_ops s)" "disk_ok (s, d)"
    using assms(1) by (simp_all add: client_ok_def w)
  have s': "js_ops s' = AList.delete cid (js_ops s)"
    using a by (auto simp: Store_Ack_def Let_def split: prod.splits)
  have "e = None \<Longrightarrow> client_ok w'"
    using disk_ok_ack [OF ok(1,2)] a ok s'
    by (simp add: client_ok_def w' js_inv_def ops_ok_delete ops_fit_delete)
  moreover have "js_queue (s', d') = (js_queue (s, d))(cid := None)"
    by (simp add: js_queue_def s' delete_conv')
  ultimately show ?thesis
    using disk_holds_ack [OF ok a] by (auto simp: w w' queue_path_def client_disk_def cl_queue_def)
qed

lemma client_send:
  "client_transport t w op = (res, w') \<Longrightarrow> fst w' = fst w"
  by (auto simp: client_transport_def split: prod.splits)

lemma client_ok_fst: "fst w' = fst w \<Longrightarrow> client_ok w' = client_ok w \<and> queue_path w' = queue_path w \<and>
    client_disk w' = client_disk w \<and> cl_queue w' = cl_queue w"
  by (simp add: client_ok_def queue_path_def client_disk_def cl_queue_def)

text \<open>The loop of \<open>SyncOnce\<close>: the file keeps every operation that was not delivered, and holds
  exactly the queue in memory if no \<open>Ack\<close> failed.\<close>

lemma client_sync_ops:
  assumes "wired s" and "client_ok w" and "sync_ops s w n ops = (m, err, s', w')"
  shows "queue_path w' = queue_path w \<and> (err = None \<longrightarrow> client_ok w') \<and>
    (\<exists>Q. disk_holds (queue_path w) (client_disk w') Q \<and>
       (\<forall>cid. cid \<notin> op_ClientRequestID ` set (delivered s w ops) \<longrightarrow> Q cid = cl_queue w cid))"
  using assms
proof (induction ops arbitrary: s w n)
  case Nil
  then show ?case using client_disk_holds [of w] by auto
next
  case (Cons op ops)
  obtain t where s: "sy_store s = client_store jsonl_port" "sy_transport s = client_transport t"
    using Cons.prems(1) by (auto simp: wired_def)
  let ?s = "s\<lparr>sy_lastAttempt := sy_now s w\<rparr>"
  obtain res w1 where send: "client_transport t w op = (res, w1)" by (cases "client_transport t w op")
  note w1 = client_ok_fst [OF client_send [OF send]]
  show ?case
  proof (cases res)
    case (Some e)
    let ?t = "?s\<lparr>sy_retryCount := sy_retryCount s + 1, sy_lastError := error_text e\<rparr>"
    have "sync_ops ?t w1 n ops = (m, err, s', w')"
      using Cons.prems(3) send Some s by (simp add: Let_def)
    moreover have "wired ?t" using Cons.prems(1) by (simp add: wired_def)
    ultimately show ?thesis
      using Cons.IH [of ?t w1 n] Cons.prems(2) w1 send Some s by (simp add: delivered_cong [of ?t s])
  next
    case None
    obtain res2 w2 where ack: "queue_call (\<lambda>q. Store_Ack q (op_ClientRequestID op)) w1 = (res2, w2)"
      by (cases "queue_call (\<lambda>q. Store_Ack q (op_ClientRequestID op)) w1")
    have ack': "sp_Ack (client_store jsonl_port) w1 (op_ClientRequestID op) = (res2, w2)"
      using ack by (simp add: jsonl_port_def)
    have "client_ok w1" using w1 Cons.prems(2) by simp
    note w2 = client_ok_ack [OF this ack]
    have q2: "cl_queue w2 = (cl_queue w1)(op_ClientRequestID op := None)"
      using client.ack_queue [OF _ ack'] \<open>client_ok w1\<close> by (simp add: client_ok_def cl_inv_def)
    show ?thesis
    proof (cases res2)
      case (Some e)
      with Cons.prems(3) send None ack' s have "w' = w2" "err \<noteq> None" by (auto simp: Let_def)
      with w2 w1 send None ack' Some s show ?thesis by auto
    next
      case ok: None
      have "sync_ops ?s w2 (Suc n) ops = (m, err, s', w')"
        using Cons.prems(3) send None ack' ok s by (simp add: Let_def)
      moreover have "wired ?s" using Cons.prems(1) by (simp add: wired_def)
      ultimately show ?thesis
        using Cons.IH [of ?s w2 "Suc n"] w1 w2 q2 send None ack' ok s
        by (auto simp: delivered_cong [of ?s s])
    qed
  qed
qed

text \<open>A series of edits, each accepted.\<close>

fun enqueue_all :: "('n client_world, 'g) syncer \<Rightarrow> 'n client_world \<Rightarrow> operation list \<Rightarrow> 'n client_world option" where
  "enqueue_all s w [] = Some w"
| "enqueue_all s w (op # ops) =
     (case Enqueue s w op of (None, w') \<Rightarrow> enqueue_all s w' ops | (Some err, w') \<Rightarrow> None)"

lemma enqueue_client:
  assumes "wired s" and "client_ok w" and "Enqueue s w op = (None, w')"
  shows "cl_queue w' = (cl_queue w)(op_ClientRequestID op \<mapsto>
    (case cl_queue w (op_ClientRequestID op) of
       None \<Rightarrow> op | Some existing \<Rightarrow> HigherVersionWins existing op))"
  using client.enqueue_queue [OF _ _ assms(3)] assms(1,2) by (simp add: wired_def client_ok_def cl_inv_def)

lemma enqueue_all_queue:
  assumes "wired s" and "client_ok w" and "enqueue_all s w ops = Some w'"
    and "\<forall>op \<in> set ops. op_fits op \<and> op_ClientRequestID op = cid"
    and "cl_queue w cid = Some u"
  shows "client_ok w' \<and> queue_path w' = queue_path w \<and> cl_queue w' cid = Some (merge_all u ops)"
  using assms
proof (induction ops arbitrary: w u)
  case (Cons op ops)
  obtain w1 where w1: "Enqueue s w op = (None, w1)" "enqueue_all s w1 ops = Some w'"
    using Cons.prems(3) by (auto split: prod.splits option.splits)
  have "cl_queue w1 cid = Some (HigherVersionWins u op)"
    using enqueue_client [OF Cons.prems(1,2) w1(1)] Cons.prems(4,5) by simp
  moreover have "client_ok w1 \<and> queue_path w1 = queue_path w"
    using client_ok_enqueue [OF Cons.prems(1,2) _ w1(1)] Cons.prems(4) by simp
  ultimately show ?case
    using Cons.IH [of w1 "HigherVersionWins u op"] Cons.prems w1(2) by simp
qed simp

text \<open>A fresh client.\<close>

lemma onboard_New_wired:
  "onboard_New url_error client_do clock new_source zero url path w = (Inr (s, w'), d) \<Longrightarrow>
     wired s \<and> rp_base (sy_retry s) = 100000000 \<and> rp_cap (sy_retry s) = 30000000000"
  by (auto simp: onboard_New_def NewSyncer_def NewRetryPolicy_def wired_def Let_def
      split: sum.splits prod.splits)

lemma client_ok_fresh:
  "fs_files d path = None \<Longrightarrow> client_ok ((\<lparr>js_path = path, js_ops = []\<rparr>, d), n)"
  by (auto simp: client_ok_def js_inv_def ops_ok_def ops_fit_def disk_ok_def fs_content_def js_queue_def
      lines_text_def intro!: exI [of _ "[]"])

section \<open>Healthy runs\<close>

text \<open>With no faults scripted, every call of the queue succeeds.\<close>

definition healthy :: "'n client_world \<Rightarrow> bool" where
  "healthy w \<longleftrightarrow> fs_script (client_disk w) = []"

lemmas fs_healthy = fs_call_def fs_simple_def fs_write_def fs_create_def fs_rename_def fs_put_def Let_def

lemma append_healthy:
  "fs_script d = [] \<Longrightarrow> \<exists>s' d'. Store_Append (s, d) op = (None, (s', d')) \<and> fs_script d' = []"
  by (simp add: Store_Append_def append_file_def append_close_def fs_healthy json_Marshal_def)

lemma compact_lines_Inr: "\<exists>ls. compact_lines ps = Inr ls"
  by (induction ps) (auto simp: json_Marshal_def)

lemma buffer_lines_healthy: "fs_script d = [] \<Longrightarrow> \<exists>b. buffer_lines d buf ls = (Inr b, d)"
  by (induction ls arbitrary: buf) (auto simp: fs_healthy)

lemma ack_healthy:
  assumes "fs_script d = []"
  shows "\<exists>s' d'. Store_Ack (s, d) cid = (None, (s', d')) \<and> fs_script d' = []"
proof -
  let ?s = "s\<lparr>js_ops := AList.delete cid (js_ops s)\<rparr>" and ?tmp = "js_path s @ ''.tmp''"
  let ?d = "fs_put ?tmp '''' d"
  obtain ls where ls: "compact_lines (sort_key fst (js_ops ?s)) = Inr ls"
    using compact_lines_Inr by blast
  have "fs_script ?d = []" using assms by (simp add: fs_put_def)
  then obtain b where "buffer_lines ?d '''' ls = (Inr b, ?d)"
    using buffer_lines_healthy by blast
  with assms ls show ?thesis
    by (simp add: Store_Ack_def Store_compact_def compact_tail_def fs_healthy)
qed

lemma enqueue_healthy:
  assumes "wired s" and "healthy w"
  shows "\<exists>w'. Enqueue s w op = (None, w') \<and> healthy w'"
proof -
  obtain st d n where w: "w = ((st, d), n)" by (metis surj_pair)
  have "fs_script d = []" using assms(2) by (simp add: healthy_def client_disk_def w)
  let ?op = "coalesce (sort_key op_ClientRequestID (map snd (js_ops st))) op"
  obtain st' d' where "Store_Append (st, d) ?op = (None, (st', d'))" "fs_script d' = []"
    using append_healthy [OF \<open>fs_script d = []\<close>] by blast
  then show ?thesis
    using assms(1)
    by (simp add: Enqueue_def wired_def jsonl_port_def Store_Pending_def queue_call_def w
        healthy_def client_disk_def Let_def)
qed

text \<open>A run of edits with no fault is accepted.\<close>

lemma enqueue_all_healthy:
  "wired s \<Longrightarrow> healthy w \<Longrightarrow> \<exists>w'. enqueue_all s w ops = Some w' \<and> healthy w'"
proof (induction ops arbitrary: w)
  case (Cons op ops)
  obtain w1 where "Enqueue s w op = (None, w1)" "healthy w1"
    using enqueue_healthy [OF Cons.prems] by blast
  with Cons.IH [OF Cons.prems(1)] show ?case by simp
qed simp

lemma sync_healthy:
  assumes "wired s" and "healthy w" and "\<forall>w op. fst (sy_transport s w op) = None"
  shows "\<exists>s' w'. sync_ops s w n ops = (n + length ops, None, s', w') \<and>
    set (delivered s w ops) = set ops"
  using assms
proof (induction ops arbitrary: s w n)
  case (Cons op ops)
  obtain t where s: "sy_store s = client_store jsonl_port" "sy_transport s = client_transport t"
    using Cons.prems(1) by (auto simp: wired_def)
  let ?s = "s\<lparr>sy_lastAttempt := sy_now s w\<rparr>"
  obtain w1 where send: "client_transport t w op = (None, w1)"
    using Cons.prems(3) s by (metis prod.collapse)
  obtain st d m where w1: "w1 = ((st, d), m)" by (metis surj_pair)
  have "fs_script d = []"
    using client_ok_fst [OF client_send [OF send]] Cons.prems(2)
    by (simp add: healthy_def client_disk_def w1)
  then obtain st' d' where "Store_Ack (st, d) (op_ClientRequestID op) = (None, (st', d'))"
      and d': "fs_script d' = []"
    using ack_healthy by blast
  then obtain w2
    where ack: "queue_call (\<lambda>q. Store_Ack q (op_ClientRequestID op)) w1 = (None, w2)" "healthy w2"
    by (intro that [of "((st', d'), m)"]) (simp_all add: queue_call_def w1 healthy_def client_disk_def)
  have "wired ?s" "\<forall>w op. fst (sy_transport ?s w op) = None"
    using Cons.prems(1,3) by (simp_all add: wired_def)
  from Cons.IH [OF this(1) ack(2) this(2), of "Suc n"] show ?case
    using send ack s by (auto simp: jsonl_port_def Let_def delivered_cong [of ?s s])
qed simp

end
