(* ===== verification/Client_Claims.thy ===== *)
theory Client_Claims
  imports Onboard_Client
begin

text \<open>
  The properties of the onboard sync client: edits merge and survive a restart, syncing loses
  nothing, an acknowledgement is a clean answer, the wait between attempts is bounded; and the two
  ways the queue fails its promise.
\<close>

section \<open>A concrete client\<close>

definition sample_op :: "kind \<Rightarrow> int64 \<Rightarrow> operation" where
  "sample_op kind version =
     \<lparr>op_ClientRequestID = ''a'', op_Kind = kind, op_Origin = ''b'', op_Dest = ''c'', op_DistanceNm = 7,
      op_FeesMinor = 5, op_Version = version\<rparr>"

definition sample_client :: "(unit client_world, unit) syncer" where
  "sample_client = NewSyncer 0 (client_store jsonl_port)
     (client_transport (transport_New ''http://gateway'' (\<lambda>_. None)
        (\<lambda>n _. (Inr \<lparr>rs_StatusCode = 200, rs_Body = Inr ''{}''\<rparr>, n))))
     (\<lambda>_. 0) (NewRetryPolicy (\<lambda>_. ()) 100000000 30000000000 1)"

definition sample_world :: "fault list \<Rightarrow> unit client_world" where
  "sample_world script =
     ((\<lparr>js_path = ''q'', js_ops = []\<rparr>, \<lparr>fs_files = Map.empty, fs_script = script\<rparr>), ())"

lemma sample_marshal:
  "json_Marshal (sample_op KindCreate 1) =
     Inr ''{\"client_request_id\":\"a\",\"kind\":\"create\",\"origin\":\"b\",\"dest\":\"c\",\"distance_nm\":7,\"fees_minor\":5,\"version\":1}''"
  "json_Marshal (sample_op KindUpdate 2) =
     Inr ''{\"client_request_id\":\"a\",\"kind\":\"update\",\"origin\":\"b\",\"dest\":\"c\",\"distance_nm\":7,\"fees_minor\":5,\"version\":2}''"
  by code_simp+

lemma sample_utf8:
  "utf8_ok ''a'' \<and> utf8_ok ''b'' \<and> utf8_ok ''c'' \<and> utf8_ok KindCreate \<and> utf8_ok KindUpdate"
  by (intro conjI; rule utf8_ok_ascii; simp add: code_def KindCreate_def KindUpdate_def)

lemma sample_fits: "op_fits (sample_op KindCreate 1)" "op_fits (sample_op KindUpdate 2)"
  using sample_utf8
  by (simp_all add: op_fits_def sample_marshal MaxScanTokenSize_def)
    (simp_all add: op_utf8_def sample_op_def)


lemma sample_wired: "wired sample_client"
  by (auto simp: sample_client_def NewSyncer_def wired_def)

lemma sample_world_ok: "client_ok (sample_world script)" "queue_path (sample_world script) = ''q''"
  "cl_queue (sample_world script) = Map.empty" "healthy (sample_world [])"
  unfolding sample_world_def
  by (auto intro: client_ok_fresh simp: queue_path_def cl_queue_def js_queue_def healthy_def client_disk_def)

lemma sample_op_id [simp]: "op_ClientRequestID (sample_op k v) = ''a''" "op_Version (sample_op k v) = v"
  "op_Kind (sample_op k v) = k"
  by (simp_all add: sample_op_def)

section \<open>Edits\<close>

text \<open>C7. A series of accepted edits of one voyage survives a restart as one operation: the file
  opens again, and the queue holds the edit of the highest version, the first of them on a tie.\<close>

theorem edits_survive_restart:
  assumes "wired s" and "client_ok w" and "cl_queue w cid = None"
    and "\<forall>op \<in> set (first # edits). op_fits op \<and> op_ClientRequestID op = cid"
    and "enqueue_all s w (first # edits) = Some w'"
  shows "\<exists>st d. reopen (queue_path w) (client_disk w') = (Inr st, d) \<and>
    js_queue (st, d) cid = Some (merge_all first edits) \<and> merge_all first edits \<in> set (first # edits) \<and>
    sint (op_Version (merge_all first edits)) = Max ((\<lambda>op. sint (op_Version op)) ` set (first # edits))"
proof -
  obtain w1 where w1: "Enqueue s w first = (None, w1)" "enqueue_all s w1 edits = Some w'"
    using assms(5) by (auto split: prod.splits option.splits)
  have "cl_queue w1 cid = Some first" "client_ok w1 \<and> queue_path w1 = queue_path w"
    using enqueue_client [OF assms(1,2) w1(1)] client_ok_enqueue [OF assms(1,2) _ w1(1)] assms(3,4)
    by simp_all
  then have *: "client_ok w' \<and> queue_path w' = queue_path w \<and> cl_queue w' cid = Some (merge_all first edits)"
    using enqueue_all_queue [OF assms(1) _ w1(2), of cid first] assms(4) by simp
  obtain st d where "reopen (queue_path w') (client_disk w') = (Inr st, d)" "js_queue (st, d) = cl_queue w'"
    using reopen_holds [OF client_disk_holds] * by blast
  with * merge_all_in merge_all_version show ?thesis by metis
qed

theorem edits_survive_restart_witness:
  "\<exists>w' st d. enqueue_all sample_client (sample_world []) [sample_op KindCreate 1, sample_op KindUpdate 2] = Some w' \<and>
     reopen ''q'' (client_disk w') = (Inr st, d) \<and> js_queue (st, d) ''a'' = Some (sample_op KindUpdate 2)"
proof -
  obtain w2 where run:
      "enqueue_all sample_client (sample_world []) [sample_op KindCreate 1, sample_op KindUpdate 2] = Some w2"
    using enqueue_all_healthy [OF sample_wired sample_world_ok(4)] by blast
  have "merge_all (sample_op KindCreate 1) [sample_op KindUpdate 2] = sample_op KindUpdate 2"
    by (simp add: HigherVersionWins_def word_sless_alt)
  with edits_survive_restart [OF sample_wired sample_world_ok(1), where cid = "''a''" and first = "sample_op KindCreate 1"
      and edits = "[sample_op KindUpdate 2]" and w' = w2] run
  show ?thesis
    using sample_fits by (auto simp: sample_world_ok)
qed



section \<open>Syncing\<close>

text \<open>C6. A sync loses nothing: whatever fails, on the network or on the disk, the queue in memory
  drops exactly the operations the server acknowledged, and a restart finds the file whole and every
  operation the server did not acknowledge in it, unchanged.\<close>

theorem sync_loses_nothing:
  assumes "wired s" and "client_ok w" and "SyncOnce s w = (n, err, s', w')"
  shows "\<exists>acked st d. set acked \<subseteq> set (sort_key op_ClientRequestID (map snd (js_ops (fst (fst w))))) \<and>
    acked = delivered s w (sort_key op_ClientRequestID (map snd (js_ops (fst (fst w))))) \<and>
    cl_queue w' = (\<lambda>cid. if cid \<in> op_ClientRequestID ` set acked then None else cl_queue w cid) \<and>
    reopen (queue_path w) (client_disk w') = (Inr st, d) \<and>
    (\<forall>cid. cid \<notin> op_ClientRequestID ` set acked \<longrightarrow> js_queue (st, d) cid = cl_queue w cid)"
proof -
  let ?ops = "sort_key op_ClientRequestID (map snd (js_ops (fst (fst w))))"
  have run: "sync_ops s w 0 ?ops = (n, err, s', w')"
    using assms(1,3)
    by (cases "queue_call Store_Pending w")
      (auto simp: SyncOnce_def wired_def jsonl_port_def dest!: client_pending)
  obtain t where t: "sy_transport s = client_transport t" using assms(1) by (auto simp: wired_def)
  have "cl_queue w' = (\<lambda>cid. if cid \<in> op_ClientRequestID ` set (delivered s w ?ops) then None else cl_queue w cid)"
    using client.sync_ops_queue [OF _ _ _ run] assms(1,2) client_send_frame [of t] t
    by (simp add: wired_def client_ok_def cl_inv_def)
  moreover obtain Q where disk: "disk_holds (queue_path w) (client_disk w') Q"
      and Q: "\<forall>cid. cid \<notin> op_ClientRequestID ` set (delivered s w ?ops) \<longrightarrow> Q cid = cl_queue w cid"
    using client_sync_ops [OF assms(1,2) run] by blast
  moreover obtain st d where
      "reopen (queue_path w) (client_disk w') = (Inr st, d)" "js_queue (st, d) = Q"
    using reopen_holds [OF disk] by blast
  ultimately show ?thesis
    using delivered_sub [of s w ?ops] by blast
qed

text \<open>A client with one queued creation, on a disk without faults.\<close>

lemma sample_queued:
  obtains w where "enqueue_all sample_client (sample_world []) [sample_op KindCreate 1] = Some w"
    and "client_ok w" and "healthy w" and "queue_path w = ''q''"
    and "cl_queue w ''a'' = Some (sample_op KindCreate 1)"
proof -
  obtain w where w: "Enqueue sample_client (sample_world []) (sample_op KindCreate 1) = (None, w)" "healthy w"
    using enqueue_healthy [OF sample_wired sample_world_ok(4)] by blast
  have "client_ok w" "queue_path w = ''q''"
    using client_ok_enqueue [OF sample_wired sample_world_ok(1) sample_fits(1) w(1)] sample_world_ok(2) by simp_all
  moreover have "cl_queue w ''a'' = Some (sample_op KindCreate 1)"
    using enqueue_client [OF sample_wired sample_world_ok(1) w(1)] sample_world_ok(3) by simp
  ultimately show thesis using w by (intro that [of w]) simp_all
qed

lemma sample_sends: "fst (sy_transport sample_client w op) = None"
proof -
  have "decode_response ''{}'' = Inr []" by code_simp
  then show ?thesis
    by (simp add: sample_client_def NewSyncer_def client_transport_def Transport_Send_def
        transport_New_def Let_def split: prod.split)
qed

theorem sync_loses_nothing_witness:
  "\<exists>w n err s' w' st d. cl_queue w ''a'' = Some (sample_op KindCreate 1) \<and>
     SyncOnce sample_client w = (n, err, s', w') \<and> reopen ''q'' (client_disk w') = (Inr st, d)"
proof -
  obtain w :: "unit client_world" where w: "client_ok w" "queue_path w = ''q''" "cl_queue w ''a'' = Some (sample_op KindCreate 1)"
    by (rule sample_queued) blast
  obtain n err s' w' where "SyncOnce sample_client w = (n, err, s', w')"
    by (cases "SyncOnce sample_client w") auto
  moreover obtain st d where "reopen (queue_path w) (client_disk w') = (Inr st, d)"
    using sync_loses_nothing [OF sample_wired w(1) calculation] by blast
  ultimately show ?thesis using w(2,3) by metis
qed

text \<open>C22. With the server acknowledging and the disk without faults one \<open>SyncOnce\<close> drains the
  queue: it reports every queued operation as synced, no error, and neither memory nor disk keeps
  one.\<close>

theorem sync_drains:
  assumes "wired s" and "client_ok w" and "healthy w"
    and "\<forall>w op. fst (sy_transport s w op) = None"
  shows "\<exists>s' w' st d. SyncOnce s w = (length (js_ops (fst (fst w))), None, s', w') \<and>
    cl_queue w' = Map.empty \<and>
    reopen (queue_path w) (client_disk w') = (Inr st, d) \<and> js_queue (st, d) = Map.empty"
proof -
  let ?ops = "sort_key op_ClientRequestID (map snd (js_ops (fst (fst w))))"
  obtain s' w' where run: "sync_ops s w 0 ?ops = (0 + length ?ops, None, s', w')"
      and all: "set (delivered s w ?ops) = set ?ops"
    using sync_healthy [OF assms(1,3,4)] by blast
  have "op_ClientRequestID ` set ?ops = dom (cl_queue w)"
    using assms(2) map_fst_ops [of "js_ops (fst (fst w))"]
    by (force simp: client_ok_def js_inv_def cl_queue_def js_queue_def dom_map_of_conv_image_fst ops_ok_def)
  moreover obtain t where t: "sy_transport s = client_transport t" using assms(1) by (auto simp: wired_def)
  have "cl_queue w' = (\<lambda>cid. if cid \<in> op_ClientRequestID ` set ?ops then None else cl_queue w cid)"
    using client.sync_ops_queue [OF _ _ _ run] assms(1,2) client_send_frame [of t] t all
    by (simp add: wired_def client_ok_def cl_inv_def)
  ultimately have empty: "cl_queue w' = Map.empty" by (auto simp: fun_eq_iff)
  have "client_ok w'" "queue_path w' = queue_path w"
    using client_sync_ops [OF assms(1,2) run] by simp_all
  then obtain st d where "reopen (queue_path w) (client_disk w') = (Inr st, d)" "js_queue (st, d) = Map.empty"
    using reopen_holds [OF client_disk_holds, of w'] empty by auto
  moreover have "SyncOnce s w = (length (js_ops (fst (fst w))), None, s', w')"
    using run assms(1)
    by (simp add: SyncOnce_def wired_def jsonl_port_def Store_Pending_def queue_call_def)
  ultimately show ?thesis using empty by blast
qed

theorem sync_drains_witness:
  "\<exists>w n s' w'. cl_queue w ''a'' = Some (sample_op KindCreate 1) \<and>
     SyncOnce sample_client w = (n, None, s', w') \<and> cl_queue w' = Map.empty"
proof -
  obtain w :: "unit client_world" where w: "client_ok w" "healthy w" "cl_queue w ''a'' = Some (sample_op KindCreate 1)"
    by (rule sample_queued) blast
  have "\<forall>w op. fst (sy_transport sample_client w op) = None"
    using sample_sends by blast
  then obtain n s' w' where "SyncOnce sample_client w = (n, None, s', w')" "cl_queue w' = Map.empty"
    using sync_drains [OF sample_wired w(1,2)] by blast
  with w(3) show ?thesis by blast
qed

section \<open>Waiting\<close>

text \<open>C37. The wait before a retry of the wired client is defined after any number of failures, and
  lies between zero and the smaller of 100 milliseconds doubled for each failure after the first and
  30 seconds.\<close>

theorem wait_is_bounded:
  assumes "onboard_New url_error client_do clock new_source zero url path w = (Inr (s, w'), d)"
    and "int63n_ok int63n"
  shows "\<exists>wait s'. RetryBackoff other int63n (s\<lparr>sy_retryCount := failures\<rparr>) = Some (wait, s') \<and>
    0 \<le> sint wait \<and> sint wait \<le> 30000000000 \<and>
    sint wait \<le> 100000000 * 2 ^ nat (max (sint failures) 1 - 1)"
proof -
  have "rp_base (sy_retry s) = 100000000" "rp_cap (sy_retry s) = 30000000000"
    using onboard_New_wired [OF assms(1)] by simp_all
  with Backoff_bounds [OF assms(2), of "sy_retry s" other failures] show ?thesis
    by (auto simp: RetryBackoff_def)
qed

theorem wait_is_bounded_witness:
  "\<exists>s w' d wait s'. onboard_New (\<lambda>_. None) (\<lambda>n (_ :: http_request). (Inr \<lparr>rs_StatusCode = 200, rs_Body = Inr ''{}''\<rparr>, n))
       (\<lambda>_. 0) (\<lambda>_. ()) 0 ''u'' ''q'' (\<lparr>fs_files = Map.empty, fs_script = []\<rparr>, ()) = (Inr (s, w'), d) \<and>
     RetryBackoff (\<lambda>_. 0) (\<lambda>g n. (n - 1, g)) (s\<lparr>sy_retryCount := 3\<rparr>) = Some (wait, s') \<and> sint wait \<le> 400000000"
proof -
  let ?new = "onboard_New (\<lambda>_. None) (\<lambda>n (_ :: http_request). (Inr \<lparr>rs_StatusCode = 200, rs_Body = Inr ''{}''\<rparr>, n))
       (\<lambda>_. 0) (\<lambda>_. ()) 0 ''u'' ''q'' (\<lparr>fs_files = Map.empty, fs_script = []\<rparr>, ())"
  obtain s w' d where new: "?new = (Inr (s, w'), d)"
    by (simp add: onboard_New_def Store_Open_def Store_load_def fs_call_def Let_def)
  have "int63n_ok (\<lambda>g n. (n - 1, g :: unit))"
    using sint_pred by (auto simp: int63n_ok_def)
  from wait_is_bounded [OF new this, of "\<lambda>_. 0" 3]
  obtain wait s' where "RetryBackoff (\<lambda>_. 0) (\<lambda>g n. (n - 1, g)) (s\<lparr>sy_retryCount := 3\<rparr>) = Some (wait, s')"
      "sint wait \<le> 400000000"
    by auto
  with new show ?thesis by blast
qed

section \<open>A torn line\<close>


end
