(* ===== verification/Lifecycle.thy ===== *)
theory Lifecycle
  imports Config Voyage_Domain Onboard_Domain
begin

text \<open>
  Starting, serving and stopping the processes: \<open>internal/tracing\<close>, the \<open>connect.go\<close> and
  \<open>migrate.go\<close> of the voyage service, \<open>internal/serve\<close>, the \<open>app.go\<close> and \<open>main.go\<close> of the three
  services, the lag reporter and the test fixtures of \<open>internal/testfix\<close>.

  These functions sequence calls of libraries. A run is the list of its events: the resources it
  opened and closed, the other calls it made, the goroutines it started. Whether a call fails is a
  function \<open>w\<close> on the names of the calls; what they return is passed on in the models of the
  components that use it. A \<open>defer\<close> appends its events to those of the rest of the function.
\<close>

section \<open>Runs\<close>

datatype event = Opened string | Closed string | Called string | Spawned string | Logged string

type_synonym calls = "string \<Rightarrow> goerr option"

definition prepend :: "event list \<Rightarrow> event list \<times> 'a \<Rightarrow> event list \<times> 'a" where
  "prepend evs r = (evs @ fst r, snd r)"

definition defers :: "event list \<Rightarrow> event list \<times> 'a \<Rightarrow> event list \<times> 'a" where
  "defers evs r = (fst r @ evs, snd r)"

definition call :: "calls \<Rightarrow> string \<Rightarrow> (goerr \<Rightarrow> event list \<times> 'a) \<Rightarrow> event list \<times> 'a \<Rightarrow> event list \<times> 'a" where
  "call w name failed rest = prepend [Called name] (case w name of Some err \<Rightarrow> failed err | None \<Rightarrow> rest)"

definition acquire :: "calls \<Rightarrow> string \<Rightarrow> (goerr \<Rightarrow> event list \<times> 'a) \<Rightarrow> event list \<times> 'a \<Rightarrow> event list \<times> 'a" where
  "acquire w name failed rest =
     (case w name of Some err \<Rightarrow> prepend [Called name] (failed err) | None \<Rightarrow> prepend [Opened name] rest)"

text \<open>Returning an error and nothing else.\<close>

definition fails :: "string \<Rightarrow> goerr \<Rightarrow> event list \<times> goerr option" where
  "fails text err = ([], Some (Errorf text err))"

section \<open>Tracing\<close>

text \<open>The result is the shutdown function, given by its events: the provider's \<open>Shutdown\<close> shuts its
  exporter down.\<close>

definition tracing_Init :: "calls \<Rightarrow> string \<Rightarrow> string \<Rightarrow> event list \<times> (goerr + event list)" where
  "tracing_Init w serviceName endpoint =
     prepend [Called ''otel.SetTextMapPropagator'']
       (if endpoint = '''' then ([], Inr [])
        else acquire w ''otlptracegrpc.New'' (\<lambda>err. ([], Inl (Errorf ''tracing: otlp exporter'' err)))
          (call w ''resource.New'' (\<lambda>err. ([], Inl (Errorf ''tracing: resource'' err)))
            ([Called ''otel.SetTracerProvider''], Inr [Closed ''otlptracegrpc.New''])))"

section \<open>The database\<close>

text \<open>The error of the deferred \<open>Close\<close> counts only if there is none yet.\<close>

definition postgres_Migrate :: "calls \<Rightarrow> event list \<times> goerr option" where
  "postgres_Migrate w =
     acquire w ''sql.Open'' (fails ''migrate: open db'')
       (let (tr, err) =
          prepend [Called ''goose.SetBaseFS'']
            (call w ''goose.SetDialect'' (fails ''migrate: set dialect'')
              (call w ''goose.UpContext'' (fails ''migrate: up'') ([], None)))
        in (tr @ [Closed ''sql.Open''],
            case w ''db.Close'' of
              None \<Rightarrow> err
            | Some cerr \<Rightarrow> if err = None then Some (Errorf ''migrate: close db'' cerr) else err))"

definition postgres_Connect :: "calls \<Rightarrow> event list \<times> goerr option" where
  "postgres_Connect w =
     acquire w ''pgxpool.New'' (fails ''connect postgres'')
       (call w ''pool.Ping'' (\<lambda>err. prepend [Closed ''pgxpool.New''] (fails ''ping postgres'' err))
         ([], None))"

text \<open>A call of one of these: an error is wrapped and returned.\<close>

definition step :: "string \<Rightarrow> event list \<times> goerr option \<Rightarrow> event list \<times> goerr option \<Rightarrow> event list \<times> goerr option" where
  "step text r rest =
     prepend (fst r) (case snd r of Some err \<Rightarrow> fails text err | None \<Rightarrow> rest)"

definition with_tracing ::
  "string \<Rightarrow> event list \<times> (goerr + event list) \<Rightarrow> event list \<times> goerr option \<Rightarrow> event list \<times> goerr option" where
  "with_tracing text r rest =
     prepend (fst r) (case snd r of Inl err \<Rightarrow> fails text err | Inr shutdown \<Rightarrow> defers shutdown rest)"

section \<open>Serving gRPC\<close>

text \<open>Which case of the \<open>select\<close> came: the context, or \<open>Serve\<close> returning. \<open>Serve\<close> and
  \<open>GracefulStop\<close> close the listener.\<close>

datatype served = Cancelled | Returned "goerr option"

definition serve_GRPC :: "calls \<Rightarrow> served \<Rightarrow> string \<Rightarrow> event list \<Rightarrow> event list \<times> goerr option" where
  "serve_GRPC w served addr register =
     acquire w ''net.Listen'' (fails (sprintf [''serve grpc: listen '', addr]))
       (prepend ([Called ''grpc.NewServer''] @ register @
          [Called ''SetServingStatus'', Called ''RegisterHealthServer'', Called ''reflection.Register'',
           Spawned ''server.Serve''])
         (case served of
            Cancelled \<Rightarrow> ([Called ''server.GracefulStop'', Closed ''net.Listen''], None)
          | Returned None \<Rightarrow> ([Closed ''net.Listen''], None)
          | Returned (Some err) \<Rightarrow> prepend [Closed ''net.Listen''] (fails ''serve grpc'' err)))"

section \<open>The services\<close>

definition voyage_Run :: "calls \<Rightarrow> served \<Rightarrow> voyage_config \<Rightarrow> event list \<times> goerr option" where
  "voyage_Run w served cfg =
     with_tracing ''voyage app'' (tracing_Init w ''voyage'' (vcf_OTLPEndpoint cfg))
     (step ''voyage app'' (postgres_Migrate w)
     (step ''voyage app'' (postgres_Connect w)
     (defers [Closed ''pgxpool.New'']
     (call w ''avroserde.New'' (fails ''voyage app'')
     (acquire w ''kgo.NewClient producer'' (fails ''voyage app: kafka producer'')
     (defers [Closed ''kgo.NewClient producer'']
     (acquire w ''kgo.NewClient consumer'' (fails ''voyage app: kafka consumer'')
     (defers [Closed ''kgo.NewClient consumer'']
     (acquire w ''grpc.NewClient'' (fails ''voyage app: dial estimator'')
     (defers [Closed ''grpc.NewClient'']
     (prepend [Spawned ''Poller.Run'', Spawned ''EstimateConsumer.Run'', Spawned ''ReportLag'',
               Spawned ''serveMetrics'']
       (serve_GRPC w served (vcf_GRPCAddr cfg) [Called ''RegisterVoyageServiceServer'']))))))))))))"

definition estimator_Run :: "calls \<Rightarrow> served \<Rightarrow> estimator_config \<Rightarrow> event list \<times> goerr option" where
  "estimator_Run w served cfg =
     with_tracing ''estimator app'' (tracing_Init w ''estimator'' (ecf_OTLPEndpoint cfg))
     (call w ''avroserde.New'' (fails ''estimator app'')
     (acquire w ''kgo.NewClient'' (fails ''estimator app: kafka client'')
     (defers [Closed ''kgo.NewClient'']
     (prepend [Spawned ''Consumer.Run'']
       (serve_GRPC w served (ecf_GRPCAddr cfg) [Called ''RegisterEstimatorServiceServer''])))))"

definition ErrServerClosed :: goerr where
  "ErrServerClosed = ErrorsNew ''http: Server closed''"

text \<open>The goroutine that waits for the context and shuts the server down is its own thread; what it
  does concurrently is in \<open>Gateway_Shutdown\<close>. The metrics server is served the same way.\<close>

definition gateway_Run :: "calls \<Rightarrow> gateway_config \<Rightarrow> event list \<times> goerr option" where
  "gateway_Run w cfg =
     with_tracing ''gateway app'' (tracing_Init w ''gateway'' (gcf_OTLPEndpoint cfg))
     (acquire w ''grpc.NewClient'' (fails ''gateway app: dial voyage'')
     (defers [Closed ''grpc.NewClient'']
     (prepend [Called ''handler.New'', Called ''mux.Handle /query'', Called ''mux.HandleFunc /healthz'',
               Spawned ''httpServer.Shutdown'']
     (call w ''httpServer.ListenAndServe''
        (\<lambda>err. if errors_is err ErrServerClosed then ([], None) else fails ''gateway app: serve'' err)
        ([], None)))))"

definition serveMetrics :: "calls \<Rightarrow> event list" where
  "serveMetrics w =
     [Called ''mux.Handle /metrics'', Spawned ''server.Shutdown''] @
     fst (call w ''server.ListenAndServe''
       (\<lambda>err. if errors_is err ErrServerClosed then ([], ())
          else ([Logged (sprintf [''voyage metrics server: '', error_text err])], ()))
       ([], ()))"

section \<open>Entry points\<close>

text \<open>\<open>log.Fatalf\<close> ends the process: the deferred \<open>stop\<close> does not run. The result is its text.\<close>

definition run_main :: "string \<Rightarrow> event list \<times> goerr option \<Rightarrow> event list \<times> string option" where
  "run_main name r =
     prepend [Opened ''signal.NotifyContext'']
       (case snd r of
          None \<Rightarrow> (fst r @ [Closed ''signal.NotifyContext''], None)
        | Some err \<Rightarrow> (fst r, Some (sprintf [name, '': '', error_text err])))"

definition invalid_config :: "string \<Rightarrow> goerr \<Rightarrow> event list \<times> string option" where
  "invalid_config name err = ([], Some (sprintf [name, '': invalid config: '', error_text err]))"

definition voyage_main :: "environ \<Rightarrow> calls \<Rightarrow> served \<Rightarrow> event list \<times> string option" where
  "voyage_main env w served =
     (let cfg = voyage_LoadConfig env in
      case voyage_config_Validate cfg of
        Some err \<Rightarrow> invalid_config ''voyage'' err
      | None \<Rightarrow> run_main ''voyage'' (voyage_Run w served cfg))"

definition estimator_main :: "environ \<Rightarrow> calls \<Rightarrow> served \<Rightarrow> event list \<times> string option" where
  "estimator_main env w served =
     (case estimator_LoadConfig env of
        Inl err \<Rightarrow> ([], Some (sprintf [''estimator: '', error_text err]))
      | Inr cfg \<Rightarrow>
          (case estimator_config_Validate cfg of
             Some err \<Rightarrow> invalid_config ''estimator'' err
           | None \<Rightarrow> run_main ''estimator'' (estimator_Run w served cfg)))"

definition gateway_main :: "environ \<Rightarrow> calls \<Rightarrow> event list \<times> string option" where
  "gateway_main env w =
     (let cfg = gateway_LoadConfig env in
      case gateway_config_Validate cfg of
        Some err \<Rightarrow> invalid_config ''gateway'' err
      | None \<Rightarrow> run_main ''gateway'' (gateway_Run w cfg))"

definition migrate_main :: "calls \<Rightarrow> event list \<times> string option" where
  "migrate_main w =
     (case postgres_Migrate w of
        (tr, Some err) \<Rightarrow> (tr, Some (sprintf [''migrate: '', error_text err]))
      | (tr, None) \<Rightarrow> (tr @ [Logged ''migrate: database is up to date''], None))"

section \<open>The lag reporter\<close>

record described_lag =
  dl_DescribeErr :: "goerr option"
  dl_FetchErr :: "goerr option"
  dl_Total :: int64

text \<open>One tick each; the gauge keeps its value when the lag is not known.\<close>

fun ReportLag ::
  "string \<Rightarrow> float64 \<Rightarrow> (goerr + (string \<rightharpoonup> described_lag)) list \<Rightarrow> float64" where
  "ReportLag grp consumerLag [] = consumerLag"
| "ReportLag grp consumerLag (tick # ticks) =
     (case tick of
        Inl err \<Rightarrow> ReportLag grp consumerLag ticks
      | Inr lags \<Rightarrow>
          (case lags grp of
             None \<Rightarrow> ReportLag grp consumerLag ticks
           | Some d \<Rightarrow>
               if dl_DescribeErr d = None \<and> dl_FetchErr d = None
               then ReportLag grp (float64_of_int (sint (dl_Total d))) ticks
               else ReportLag grp consumerLag ticks))"

section \<open>Test fixtures\<close>

text \<open>The result of a starter is its connection detail and the events of its stop function. \<open>text\<close>
  gives what the calls that return text return.\<close>

type_synonym texts = "string \<Rightarrow> goerr + string"

definition fixture_fails :: "string list \<Rightarrow> string \<Rightarrow> goerr \<Rightarrow> event list \<times> (goerr + 'a)" where
  "fixture_fails stop text err = (map Closed stop, Inl (Errorf text err))"

definition read_text ::
  "texts \<Rightarrow> string \<Rightarrow> (goerr \<Rightarrow> event list \<times> 'a) \<Rightarrow> (string \<Rightarrow> event list \<times> 'a) \<Rightarrow> event list \<times> 'a" where
  "read_text t name failed rest =
     prepend [Called name] (case t name of Inl err \<Rightarrow> failed err | Inr s \<Rightarrow> rest s)"

definition StartPostgres :: "calls \<Rightarrow> texts \<Rightarrow> event list \<times> (goerr + string \<times> event list)" where
  "StartPostgres w t =
     (let stop = [''tcpostgres.Run''] in
      acquire w ''tcpostgres.Run'' (fixture_fails [] ''testfix postgres'')
        (read_text t ''pg.ConnectionString'' (fixture_fails stop ''testfix postgres dsn'')
          (\<lambda>dsn. prepend (fst (postgres_Migrate w))
             (case snd (postgres_Migrate w) of
                Some err \<Rightarrow> fixture_fails stop ''testfix migrate'' err
              | None \<Rightarrow> ([], Inr (dsn, map Closed stop))))))"

definition TopicAlreadyExists :: goerr where
  "TopicAlreadyExists = ErrorsNew ''TOPIC_ALREADY_EXISTS''"

fun topic_errors :: "(string \<times> goerr option) list \<Rightarrow> goerr option" where
  "topic_errors [] = None"
| "topic_errors ((topic, e) # cts) =
     (case e of
        None \<Rightarrow> topic_errors cts
      | Some err \<Rightarrow>
          if errors_is err TopicAlreadyExists then topic_errors cts
          else Some (Errorf (sprintf [''create topic '', topic]) err))"

definition createTopics ::
  "calls \<Rightarrow> (string list \<Rightarrow> goerr + (string \<times> goerr option) list) \<Rightarrow> string list \<Rightarrow>
   event list \<times> goerr option" where
  "createTopics w create topics =
     acquire w ''kgo.NewClient topics'' (\<lambda>err. ([], Some err))
       (defers [Closed ''kgo.NewClient topics'']
         (prepend [Called ''CreateTopics'']
           (case create topics of
              Inl err \<Rightarrow> ([], Some err)
            | Inr resp \<Rightarrow> ([], topic_errors resp))))"

definition StartRedpanda ::
  "calls \<Rightarrow> texts \<Rightarrow> (string list \<Rightarrow> goerr + (string \<times> goerr option) list) \<Rightarrow>
   event list \<times> (goerr + (string \<times> string) \<times> event list)" where
  "StartRedpanda w t create =
     (let stop = [''tcredpanda.Run''];
          topics = createTopics w create
            [TopicVoyageCreated, TopicEstimateReady, TopicVoyageCreatedDLQ, TopicEstimateReadyDLQ] in
      acquire w ''tcredpanda.Run'' (fixture_fails [] ''testfix redpanda'')
        (read_text t ''rp.KafkaSeedBroker'' (fixture_fails stop ''testfix redpanda broker'')
          (\<lambda>brokers. read_text t ''rp.SchemaRegistryAddress''
             (fixture_fails stop ''testfix redpanda schema registry'')
             (\<lambda>url. prepend (fst topics)
                (case snd topics of
                   Some err \<Rightarrow> fixture_fails stop ''testfix redpanda topics'' err
                 | None \<Rightarrow> ([], Inr ((brokers, url), map Closed stop)))))))"

definition StartGripmock ::
  "calls \<Rightarrow> texts \<Rightarrow> (string \<Rightarrow> string \<Rightarrow> string) \<Rightarrow> event list \<times> (goerr + (string \<times> string) \<times> event list)" where
  "StartGripmock w t joinHostPort =
     (let stop = [''GenericContainer''] in
      read_text t ''repopath.Find'' (fixture_fails [] ''testfix gripmock'')
        (\<lambda>protoPath. acquire w ''GenericContainer'' (fixture_fails [] ''testfix gripmock'')
          (read_text t ''c.Host'' (fixture_fails stop ''testfix gripmock host'')
            (\<lambda>host. read_text t ''c.MappedPort 4770'' (fixture_fails stop ''testfix gripmock grpc port'')
              (\<lambda>grpcPort. read_text t ''c.MappedPort 4771'' (fixture_fails stop ''testfix gripmock api port'')
                (\<lambda>apiPort. ([], Inr ((joinHostPort host grpcPort,
                   sprintf [''http://'', joinHostPort host apiPort, ''/api/stubs'']), map Closed stop))))))))"

section \<open>Brackets\<close>

text \<open>The stack of open resources after a run: \<open>None\<close> if something was closed that was not the last
  resource opened.\<close>

fun release :: "string list \<Rightarrow> event list \<Rightarrow> string list option" where
  "release st [] = Some st"
| "release st (Opened r # tr) = release (r # st) tr"
| "release st (Called c # tr) = release st tr"
| "release st (Spawned c # tr) = release st tr"
| "release st (Logged c # tr) = release st tr"
| "release [] (Closed r # tr) = None"
| "release (x # st) (Closed r # tr) = (if x = r then release st tr else None)"

lemma release_append [simp]:
  "release st (a @ b) = (case release st a of None \<Rightarrow> None | Some st' \<Rightarrow> release st' b)"
  by (induction st a rule: release.induct) simp_all

named_theorems runs "unfolding of the combinators of a run"

lemmas [runs] = prepend_def defers_def call_def acquire_def fails_def step_def with_tracing_def
  fixture_fails_def read_text_def

lemma release_Migrate [simp]: "release st (fst (postgres_Migrate w)) = Some st"
  by (auto simp: postgres_Migrate_def runs split: option.splits)

lemma release_Connect [simp]:
  "release st (fst (postgres_Connect w)) =
     Some (if snd (postgres_Connect w) = None then ''pgxpool.New'' # st else st)"
  by (auto simp: postgres_Connect_def runs split: option.splits)

lemma release_serve [simp]:
  "(\<And>st. release st register = Some st) \<Longrightarrow> release st (fst (serve_GRPC w served addr register)) = Some st"
  by (auto simp: serve_GRPC_def runs split: option.splits served.splits)

lemma release_createTopics [simp]: "release st (fst (createTopics w create topics)) = Some st"
  by (auto simp: createTopics_def runs split: option.splits sum.splits)

text \<open>What tracing leaves open: nothing, or the exporter, and then its shutdown closes it.\<close>

lemma tracing_Init_cases:
  obtains (failed) tr err where "tracing_Init w name endpoint = (tr, Inl err)" and "endpoint \<noteq> ''''"
      and "w ''otlptracegrpc.New'' \<noteq> None" and "\<And>st. release st tr = Some st"
    | (leaked) tr err where "tracing_Init w name endpoint = (tr, Inl err)" and "endpoint \<noteq> ''''"
      and "w ''otlptracegrpc.New'' = None" and "w ''resource.New'' \<noteq> None"
      and "\<And>st. release st tr = Some (''otlptracegrpc.New'' # st)"
    | (off) tr where "tracing_Init w name endpoint = (tr, Inr [])" and "endpoint = ''''"
      and "\<And>st. release st tr = Some st"
    | (on) tr where "tracing_Init w name endpoint = (tr, Inr [Closed ''otlptracegrpc.New''])"
      and "endpoint \<noteq> ''''" and "w ''otlptracegrpc.New'' = None" and "w ''resource.New'' = None"
      and "\<And>st. release st tr = Some (''otlptracegrpc.New'' # st)"
proof (cases "endpoint = ''''")
  case True
  then show thesis
    by (intro off [of "[Called ''otel.SetTextMapPropagator'']"]) (simp_all add: tracing_Init_def runs)
next
  case False
  let ?p = "Called ''otel.SetTextMapPropagator''" and ?o = "Opened ''otlptracegrpc.New''"
  show thesis
  proof (cases "w ''otlptracegrpc.New''")
    case (Some err)
    with False show thesis
      by (intro failed [of "[?p, Called ''otlptracegrpc.New'']" "Errorf ''tracing: otlp exporter'' err"])
        (simp_all add: tracing_Init_def runs)
  next
    case exporter: None
    show thesis
    proof (cases "w ''resource.New''")
      case (Some err)
      with False exporter show thesis
        by (intro leaked [of "[?p, ?o, Called ''resource.New'']" "Errorf ''tracing: resource'' err"])
          (simp_all add: tracing_Init_def runs)
    next
      case None
      with False exporter show thesis
        by (intro on [of "[?p, ?o, Called ''resource.New'', Called ''otel.SetTracerProvider'']"])
          (simp_all add: tracing_Init_def runs)
    qed
  qed
qed

text \<open>The exporter is leaked when it was made and the resource could not be.\<close>

definition exporter_leaks :: "calls \<Rightarrow> string \<Rightarrow> bool" where
  "exporter_leaks w endpoint \<longleftrightarrow>
     endpoint \<noteq> '''' \<and> w ''otlptracegrpc.New'' = None \<and> w ''resource.New'' \<noteq> None"

lemma release_with_tracing:
  assumes "\<And>st. release st (fst rest) = Some st"
  shows "release [] (fst (with_tracing text (tracing_Init w name endpoint) rest)) =
    Some (if exporter_leaks w endpoint then [''otlptracegrpc.New''] else [])"
  by (cases rule: tracing_Init_cases [of w name endpoint])
    (auto simp: runs exporter_leaks_def assms)

end
