(* ===== verification/Gateway_Shutdown.thy ===== *)
theory Gateway_Shutdown
  imports Go_Prelude
begin

text \<open>
  How the gateway stops (\<open>gateway/app/app.go\<close>): the goroutine that waits for the context and calls
  \<open>httpServer.Shutdown\<close> runs beside the function that waits in \<open>ListenAndServe\<close> and then runs its
  deferred calls. \<open>Shutdown\<close> closes the listener at once, which makes \<open>ListenAndServe\<close> return, and
  then waits for the requests in flight.
\<close>

datatype shutdown_phase = Waiting | Draining | Stopped

record gateway_process =
  gp_serving :: bool
  gp_conn_open :: bool
  gp_inflight :: nat
  gp_shutdown :: shutdown_phase
  gp_returned :: bool

definition gateway_started :: gateway_process where
  "gateway_started = \<lparr>gp_serving = True, gp_conn_open = True, gp_inflight = 0,
     gp_shutdown = Waiting, gp_returned = False\<rparr>"

text \<open>\<open>return\<close> is the deferred calls of \<open>Run\<close>: the connection to the voyage service is closed. A
  request can finish as long as the function has not returned; the context is cancelled at any time;
  \<open>Shutdown\<close> gives up after five seconds.\<close>

inductive gateway_step :: "gateway_process \<Rightarrow> gateway_process \<Rightarrow> bool" where
  accept: "gp_serving p \<Longrightarrow> gateway_step p (p\<lparr>gp_inflight := gp_inflight p + 1\<rparr>)"
| finish: "0 < gp_inflight p \<Longrightarrow> \<not> gp_returned p \<Longrightarrow> gateway_step p (p\<lparr>gp_inflight := gp_inflight p - 1\<rparr>)"
| cancel: "gp_shutdown p = Waiting \<Longrightarrow> gateway_step p (p\<lparr>gp_shutdown := Draining, gp_serving := False\<rparr>)"
| serve_failed: "gp_serving p \<Longrightarrow> gateway_step p (p\<lparr>gp_serving := False\<rparr>)"
| drained: "gp_shutdown p = Draining \<Longrightarrow> gp_inflight p = 0 \<Longrightarrow> gateway_step p (p\<lparr>gp_shutdown := Stopped\<rparr>)"
| timeout: "gp_shutdown p = Draining \<Longrightarrow> gateway_step p (p\<lparr>gp_shutdown := Stopped\<rparr>)"
| return: "\<not> gp_serving p \<Longrightarrow> \<not> gp_returned p \<Longrightarrow>
    gateway_step p (p\<lparr>gp_conn_open := False, gp_returned := True\<rparr>)"

inductive gateway_reachable :: "gateway_process \<Rightarrow> bool" where
  start: "gateway_reachable gateway_started"
| step: "gateway_reachable p \<Longrightarrow> gateway_step p q \<Longrightarrow> gateway_reachable q"

inductive_cases gateway_stepE: "gateway_step p q"

text \<open>The connection is closed by the return only, and that only after serving has ended.\<close>

lemma gateway_invariant:
  "gateway_reachable p \<Longrightarrow> gp_conn_open p = (\<not> gp_returned p) \<and> (gp_returned p \<longrightarrow> \<not> gp_serving p) \<and>
     (gp_shutdown p \<noteq> Waiting \<longrightarrow> \<not> gp_serving p)"
  by (induction rule: gateway_reachable.induct)
    (auto simp: gateway_started_def elim!: gateway_stepE)

lemma gateway_accepts:
  "gateway_reachable (gateway_started\<lparr>gp_inflight := n\<rparr>)"
proof (induction n)
  case 0
  have "gateway_started\<lparr>gp_inflight := 0\<rparr> = gateway_started"
    by (simp add: gateway_started_def)
  then show ?case by (metis gateway_reachable.start)
next
  case (Suc n)
  have "gateway_step (gateway_started\<lparr>gp_inflight := n\<rparr>) (gateway_started\<lparr>gp_inflight := Suc n\<rparr>)"
    using gateway_step.accept [of "gateway_started\<lparr>gp_inflight := n\<rparr>"]
    by (simp add: gateway_started_def)
  with Suc show ?case by (rule gateway_reachable.step)
qed

end
