(* ===== verification/Repopath.thy ===== *)
theory Repopath
  imports Go_Prelude "HOL-Library.Sublist"
begin

text \<open>
  Paths relative to the repository (\<open>internal/repopath/repopath.go\<close>). A clean absolute path is the
  list of its elements with the last one first, so that \<open>filepath.Dir\<close> is the tail (and the root its
  own parent) and \<open>filepath.Join\<close> with one element is a cons. \<open>stat\<close> says which paths \<open>os.Stat\<close>
  finds.
\<close>

type_synonym path = "string list"

definition path_Join :: "path \<Rightarrow> path \<Rightarrow> path" where
  "path_Join dir rel = rel @ dir"

fun path_text :: "path \<Rightarrow> string" where
  "path_text [] = ''/''"
| "path_text [x] = ''/'' @ x"
| "path_text (x # xs) = path_text xs @ ''/'' @ x"

text \<open>The loop of \<open>Root\<close>. The error names the directory the loop ended at.\<close>

fun find_root :: "(path \<Rightarrow> bool) \<Rightarrow> path \<Rightarrow> goerr + path" where
  "find_root stat dir =
     (if stat (path_Join dir [''go.mod'']) then Inr dir
      else
        (case dir of
           [] \<Rightarrow> Inl (ErrorsNew (''repopath: go.mod not found above '' @ path_text dir))
         | x # parent \<Rightarrow> find_root stat parent))"

declare find_root.simps [simp del]

definition Root :: "(path \<Rightarrow> bool) \<Rightarrow> goerr + path \<Rightarrow> goerr + path" where
  "Root stat getwd = (case getwd of Inl err \<Rightarrow> Inl err | Inr dir \<Rightarrow> find_root stat dir)"

definition Find :: "(path \<Rightarrow> bool) \<Rightarrow> goerr + path \<Rightarrow> path \<Rightarrow> goerr + path" where
  "Find stat getwd rel =
     (case Root stat getwd of Inl err \<Rightarrow> Inl err | Inr root \<Rightarrow> Inr (path_Join root rel))"

definition Read ::
  "(path \<Rightarrow> bool) \<Rightarrow> (path \<Rightarrow> goerr + byte list) \<Rightarrow> goerr + path \<Rightarrow> path \<Rightarrow> goerr + byte list" where
  "Read stat read_file getwd rel =
     (case Find stat getwd rel of Inl err \<Rightarrow> Inl err | Inr p \<Rightarrow> read_file p)"

text \<open>\<open>Root\<close> is the nearest ancestor with a \<open>go.mod\<close>, the working directory included.\<close>

lemma find_root_iff:
  "find_root stat dir = Inr root \<longleftrightarrow>
     suffix root dir \<and> stat (''go.mod'' # root) \<and>
     (\<forall>d. suffix d dir \<and> length root < length d \<longrightarrow> \<not> stat (''go.mod'' # d))"
proof (induction dir)
  case Nil
  then show ?case by (auto simp: find_root.simps [of stat "[]"] path_Join_def)
next
  case (Cons x dir)
  show ?case
  proof (cases "stat (''go.mod'' # x # dir)")
    case True
    then show ?thesis
      by (auto simp: find_root.simps [of stat "x # dir"] path_Join_def suffix_Cons dest: suffix_length_le)
  next
    case False
    with Cons.IH show ?thesis
      by (auto simp: find_root.simps [of stat "x # dir"] path_Join_def suffix_Cons dest: suffix_length_le)
  qed
qed

end
