(* ===== verification/Lifecycle_Claims.thy ===== *)
theory Lifecycle_Claims
  imports Lifecycle Gateway_Shutdown Repopath
begin

text \<open>
  The properties of starting and stopping: what a process opens it closes in reverse order whatever
  fails, its workers start only after everything they use is there, and the ways the shutdown falls
  short of graceful.
\<close>

lemma release_voyage:
  "release [] (fst (voyage_Run w served cfg)) =
     Some (if exporter_leaks w (vcf_OTLPEndpoint cfg) then [''otlptracegrpc.New''] else [])"
  unfolding voyage_Run_def
  by (rule release_with_tracing) (auto simp: step_def prepend_def defers_def call_def acquire_def fails_def
      split: option.splits)

lemma release_estimator:
  "release [] (fst (estimator_Run w served cfg)) =
     Some (if exporter_leaks w (ecf_OTLPEndpoint cfg) then [''otlptracegrpc.New''] else [])"
  unfolding estimator_Run_def
  by (rule release_with_tracing) (auto simp: step_def prepend_def defers_def call_def acquire_def fails_def
      split: option.splits)

lemma release_gateway:
  "release [] (fst (gateway_Run w cfg)) =
     Some (if exporter_leaks w (gcf_OTLPEndpoint cfg) then [''otlptracegrpc.New''] else [])"
  unfolding gateway_Run_def
  by (rule release_with_tracing) (auto simp: step_def prepend_def defers_def call_def acquire_def fails_def
      split: option.splits)

text \<open>C38. Whatever call fails, each of the three services closes what it opened, last opened first,
  with one exception: when the tracing resource cannot be made after the exporter was, the exporter
  is never shut down.\<close>

theorem services_release_in_reverse:
  "release [] (fst (voyage_Run w served vcfg)) =
     Some (if exporter_leaks w (vcf_OTLPEndpoint vcfg) then [''otlptracegrpc.New''] else []) \<and>
   release [] (fst (estimator_Run w served ecfg)) =
     Some (if exporter_leaks w (ecf_OTLPEndpoint ecfg) then [''otlptracegrpc.New''] else []) \<and>
   release [] (fst (gateway_Run w gcfg)) =
     Some (if exporter_leaks w (gcf_OTLPEndpoint gcfg) then [''otlptracegrpc.New''] else [])"
  using release_voyage release_estimator release_gateway by blast

section \<open>Start-up\<close>

definition tracing_ok :: "calls \<Rightarrow> string \<Rightarrow> bool" where
  "tracing_ok w endpoint \<longleftrightarrow> endpoint = '''' \<or> (w ''otlptracegrpc.New'' = None \<and> w ''resource.New'' = None)"

definition voyage_ready :: "calls \<Rightarrow> voyage_config \<Rightarrow> bool" where
  "voyage_ready w cfg \<longleftrightarrow> tracing_ok w (vcf_OTLPEndpoint cfg) \<and>
     list_all (\<lambda>c. w c = None)
       [''sql.Open'', ''goose.SetDialect'', ''goose.UpContext'', ''db.Close'', ''pgxpool.New'', ''pool.Ping'',
        ''avroserde.New'', ''kgo.NewClient producer'', ''kgo.NewClient consumer'', ''grpc.NewClient'']"

text \<open>What the parts contribute: none of them starts a goroutine before serving.\<close>

lemma Migrate_ok:
  "snd (postgres_Migrate w) = None \<longleftrightarrow>
     list_all (\<lambda>c. w c = None) [''sql.Open'', ''goose.SetDialect'', ''goose.UpContext'', ''db.Close'']"
  by (auto simp: postgres_Migrate_def runs split: option.splits)

lemma Migrate_spawns [simp]: "Spawned x \<notin> set (fst (postgres_Migrate w))"
  by (auto simp: postgres_Migrate_def runs split: option.splits)

lemma Connect_ok: "snd (postgres_Connect w) = None \<longleftrightarrow> w ''pgxpool.New'' = None \<and> w ''pool.Ping'' = None"
  by (auto simp: postgres_Connect_def runs split: option.splits)

lemma Connect_spawns [simp]: "Spawned x \<notin> set (fst (postgres_Connect w))"
  by (auto simp: postgres_Connect_def runs split: option.splits)

lemma serve_result: "snd (serve_GRPC w served addr register) = snd (serve_GRPC w served addr [])"
  by (auto simp: serve_GRPC_def runs split: option.splits served.splits)

lemma tracing_outcome:
  "Spawned x \<notin> set (fst (tracing_Init w name endpoint))"
  "(\<exists>sh. snd (tracing_Init w name endpoint) = Inr sh) = tracing_ok w endpoint"
  "snd (tracing_Init w name endpoint) = Inr sh \<Longrightarrow> Spawned x \<notin> set sh"
  by (auto simp: tracing_Init_def tracing_ok_def runs split: option.splits if_splits)

text \<open>The steps of a run, one at a time: whether it goes on, and the goroutines it starts.\<close>

definition spawned :: "event list \<times> 'a \<Rightarrow> string set" where
  "spawned r = {x. Spawned x \<in> set (fst r)}"

lemma spawned_simps:
  "spawned (fails text err) = {}" "snd (fails text err) \<noteq> None"
  "spawned (defers [Closed c] r) = spawned r" "snd (defers evs r) = snd r"
  "spawned (call w name failed rest) = (case w name of Some err \<Rightarrow> spawned (failed err) | None \<Rightarrow> spawned rest)"
  "spawned (acquire w name failed rest) = (case w name of Some err \<Rightarrow> spawned (failed err) | None \<Rightarrow> spawned rest)"
  "snd (call w name failed rest) = (case w name of Some err \<Rightarrow> snd (failed err) | None \<Rightarrow> snd rest)"
  "snd (acquire w name failed rest) = (case w name of Some err \<Rightarrow> snd (failed err) | None \<Rightarrow> snd rest)"
  by (auto simp: spawned_def runs split: option.splits)

lemma spawned_step:
  "spawned r = {} \<Longrightarrow> spawned (step text r rest) = (if snd r = None then spawned rest else {})"
  "snd (step text r rest) = (case snd r of Some err \<Rightarrow> Some (Errorf text err) | None \<Rightarrow> snd rest)"
  by (auto simp: spawned_def runs split: option.splits)

lemma spawned_tracing:
  "spawned (with_tracing text (tracing_Init w name endpoint) rest) = (if tracing_ok w endpoint then spawned rest else {})"
  "tracing_ok w endpoint \<Longrightarrow> snd (with_tracing text (tracing_Init w name endpoint) rest) = snd rest"
  "\<not> tracing_ok w endpoint \<Longrightarrow> snd (with_tracing text (tracing_Init w name endpoint) rest) \<noteq> None"
proof -
  let ?r = "with_tracing text (tracing_Init w name endpoint) rest"
  have "if tracing_ok w endpoint then spawned ?r = spawned rest \<and> snd ?r = snd rest
    else spawned ?r = {} \<and> snd ?r \<noteq> None"
  proof (cases "snd (tracing_Init w name endpoint)")
    case (Inl err)
    then have "\<not> tracing_ok w endpoint"
      using tracing_outcome(2) [of w name endpoint] by simp
    with Inl show ?thesis
      by (simp add: spawned_def with_tracing_def prepend_def fails_def tracing_outcome(1))
  next
    case (Inr sh)
    then have "tracing_ok w endpoint"
      using tracing_outcome(2) [of w name endpoint] by blast
    with Inr tracing_outcome(3) [OF Inr] show ?thesis
      by (simp add: spawned_def with_tracing_def prepend_def defers_def tracing_outcome(1))
  qed
  then show "spawned ?r = (if tracing_ok w endpoint then spawned rest else {})"
    and "tracing_ok w endpoint \<Longrightarrow> snd ?r = snd rest" and "\<not> tracing_ok w endpoint \<Longrightarrow> snd ?r \<noteq> None"
    by (simp_all split: if_splits)
qed

text \<open>C39. The voyage service starts its workers if and only if every call that sets it up succeeded;
  otherwise it returns an error and has started none. Once started it fails only in serving gRPC.\<close>

theorem voyage_workers_start_last:
  "(if voyage_ready w cfg
    then {''Poller.Run'', ''EstimateConsumer.Run'', ''ReportLag'', ''serveMetrics''}
           \<subseteq> spawned (voyage_Run w served cfg) \<and>
         snd (voyage_Run w served cfg) = snd (serve_GRPC w served (vcf_GRPCAddr cfg) [])
    else spawned (voyage_Run w served cfg) = {} \<and> snd (voyage_Run w served cfg) \<noteq> None)"
proof -
  let ?serve = "prepend [Spawned ''Poller.Run'', Spawned ''EstimateConsumer.Run'', Spawned ''ReportLag'',
      Spawned ''serveMetrics''] (serve_GRPC w served (vcf_GRPCAddr cfg) [Called ''RegisterVoyageServiceServer''])"
  have parts: "spawned (postgres_Migrate w) = {}" "spawned (postgres_Connect w) = {}"
    by (simp_all add: spawned_def)
  have ready: "{''Poller.Run'', ''EstimateConsumer.Run'', ''ReportLag'', ''serveMetrics''} \<subseteq> spawned ?serve"
    "snd ?serve = snd (serve_GRPC w served (vcf_GRPCAddr cfg) [])"
    using serve_result [of w served "vcf_GRPCAddr cfg"] by (auto simp: spawned_def prepend_def)
  show ?thesis
  proof (cases "tracing_ok w (vcf_OTLPEndpoint cfg)")
    case False
    then show ?thesis
      using spawned_tracing by (simp add: voyage_ready_def voyage_Run_def)
  next
    case True
    have ready_iff: "voyage_ready w cfg \<longleftrightarrow> snd (postgres_Migrate w) = None \<and> snd (postgres_Connect w) = None \<and>
        w ''avroserde.New'' = None \<and> w ''kgo.NewClient producer'' = None \<and>
        w ''kgo.NewClient consumer'' = None \<and> w ''grpc.NewClient'' = None"
      using True Migrate_ok [of w] Connect_ok [of w] by (auto simp: voyage_ready_def)
    define R where "R = ?serve"
    have "if voyage_ready w cfg then spawned (voyage_Run w served cfg) = spawned R \<and> snd (voyage_Run w served cfg) = snd R
      else spawned (voyage_Run w served cfg) = {} \<and> snd (voyage_Run w served cfg) \<noteq> None"
      unfolding ready_iff voyage_Run_def R_def [symmetric] spawned_tracing(1) spawned_tracing(2) [OF True]
        spawned_step(1) [OF parts(1)] spawned_step(1) [OF parts(2)] spawned_step(2) spawned_simps
      using True
      by (cases "snd (postgres_Migrate w)"; cases "snd (postgres_Connect w)"; cases "w ''avroserde.New''";
          cases "w ''kgo.NewClient producer''"; cases "w ''kgo.NewClient consumer''";
          cases "w ''grpc.NewClient''"; simp add: spawned_simps)
    with ready show ?thesis
      unfolding R_def by (simp split: if_splits)
  qed
qed

section \<open>Stopping the gateway\<close>


section \<open>Fixtures\<close>

text \<open>A fixture leaves nothing running but what its stop function stops.\<close>

lemma fixtures_stop:
  "release [] (fst (StartPostgres w t) @ (case snd (StartPostgres w t) of Inl _ \<Rightarrow> [] | Inr (_, stop) \<Rightarrow> stop)) = Some []"
  "release [] (fst (StartRedpanda w t create) @
     (case snd (StartRedpanda w t create) of Inl _ \<Rightarrow> [] | Inr (_, stop) \<Rightarrow> stop)) = Some []"
  "release [] (fst (StartGripmock w t join) @
     (case snd (StartGripmock w t join) of Inl _ \<Rightarrow> [] | Inr (_, stop) \<Rightarrow> stop)) = Some []"
  by (auto simp: StartPostgres_def StartRedpanda_def StartGripmock_def runs Let_def
      split: option.splits sum.splits)

end
