(* ===== verification/Spec2Isabelle.thy ===== *)
theory Spec2Isabelle
  imports Event_Claims Server_Claims Trace_Claims Graphql_Claims Graphql_Type_Claims Pricing_Claims
    Client_Claims Lifecycle_Claims
begin

text \<open>
  A verification library for the maritime voyage system: a voyage service with a Postgres store and a
  transactional outbox, an estimator service, a GraphQL gateway, and an onboard client that queues
  operations on disk while its ship is offline. The theorems are about models of the Go code, one
  definition per function, named after it; the theories are read in the order below.

  \<^bold>\<open>The parts and how they interact.\<close> A client's operation goes from the onboard queue
  (\<open>clients/onboard-sync\<close>) as a GraphQL mutation to the gateway (\<open>gateway\<close>, executor
  \<open>gen/graphql\<close>), from there as a gRPC request to the voyage service (\<open>services/voyage\<close>), which
  stores the voyage and an outbox row in one transaction and asks the estimator
  (\<open>services/estimator\<close>) for a provisional price. The outbox poller publishes the row as
  \<open>voyage.created\<close>; the estimator's consumer prices it and publishes \<open>estimate.ready\<close>; the
  voyage service's consumer writes the estimate to the voyage. All of it can fail in between.

  \<^bold>\<open>Foundations.\<close>
  \<^item> \<^theory_text>\<open>Go_Prelude\<close>: sized integers as words, Go's division and conversions, decimal text, error
    values with \<open>errors.Is\<close> and gRPC codes, and the outcome of an external call (done, failed without
    effect, took effect although reported as failed).
  \<^item> \<^theory_text>\<open>Json\<close>, \<^theory_text>\<open>Json_Value\<close>, \<^theory_text>\<open>Operation_Json\<close>: \<open>encoding/json\<close> for what the onboard client writes
    and reads, with the proof that parsing inverts rendering.
  \<^item> \<^theory_text>\<open>Wire_Types\<close>: the protobuf, Avro and GraphQL messages as records, with the nil-safe getters.

  \<^bold>\<open>Pricing, events, configuration.\<close>
  \<^item> \<^theory_text>\<open>Money\<close> (\<open>internal/money\<close>), \<^theory_text>\<open>Estimator\<close> (\<open>services/estimator/domain\<close> and its gRPC server):
    64-bit arithmetic with its overflow checks, against exact integer versions.
  \<^item> \<^theory_text>\<open>Avroserde\<close> (\<open>internal/avroserde\<close>, \<open>internal/eventreg\<close>): framing and registration; the Avro
    library and the schema registry are parameters, the codec law is the locale \<open>avro_library\<close> and
    \<^theory_text>\<open>Avro_Binary\<close> shows it of the format.
  \<^item> \<^theory_text>\<open>Config\<close> (\<open>internal/env\<close>, the three \<open>config.go\<close>): loading and validating over an environment
    function.
  \<^item> \<^theory_text>\<open>Pricing_Claims\<close>: the properties of these.

  \<^bold>\<open>The voyage service.\<close>
  \<^item> \<^theory_text>\<open>Voyage_Domain\<close>: the voyage, its validation, the ports as records of functions.
  \<^item> \<^theory_text>\<open>Repository\<close> (\<open>adapters/postgres/repository.go\<close>): two tables, each SQL statement a function on
    them, each call driven by an outcome; the locale of the repository contract is interpreted on it.
  \<^item> \<^theory_text>\<open>Grpc_Server\<close> (\<open>adapters/grpcserver\<close>, \<open>adapters/estimatorclient\<close>): the three handlers over an
    arbitrary repository and estimator.
  \<^item> \<^theory_text>\<open>Broker\<close>, \<^theory_text>\<open>Poller\<close> (\<open>adapters/kafka/poller.go\<close>), \<^theory_text>\<open>Estimator_Consumer\<close> and
    \<^theory_text>\<open>Estimate_Consumer\<close> (the two \<open>consumer.go\<close>): topics as logs, consumer groups with committed
    offsets, the poll loops with their commits and dead letters.
  \<^item> \<^theory_text>\<open>Trace_Carrier\<close>: the trace context a request leaves in the outbox row and the poller restores,
    through \<open>encoding/json\<close> and a \<open>JSONB\<close> column that may reorder it.
  \<^item> \<^theory_text>\<open>Pipeline\<close>: the deployed system as a step relation over these handlers, with requests, ticks,
    polls, crashes and outages interleaved at will; \<^theory_text>\<open>Pipeline_Invariant\<close> its invariant by rule
    induction, \<^theory_text>\<open>Pipeline_Progress\<close> the run that delivers an estimate once the system is up.
  \<^item> \<^theory_text>\<open>Pipeline_Claims\<close>, \<^theory_text>\<open>Event_Claims\<close>, \<^theory_text>\<open>Server_Claims\<close>, \<^theory_text>\<open>Trace_Claims\<close>: the properties.

  \<^bold>\<open>The gateway.\<close>
  \<^item> \<^theory_text>\<open>Gateway\<close> (\<open>gateway/graph\<close>): the resolvers over an arbitrary voyage client.
  \<^item> \<^theory_text>\<open>Graphql_Lib\<close>: the gqlgen library the executor runs on, as a record of functions with laws.
  \<^item> \<^theory_text>\<open>Graphql_Input\<close>, \<^theory_text>\<open>Graphql_Context\<close> (\<open>gen/graphql/generated.go\<close>): input objects, arguments,
    complexity; what the objects share: the execution context, the scalars, the loop over the fields.
  \<^item> \<^theory_text>\<open>Graphql_Introspection\<close>, \<^theory_text>\<open>Graphql_Types\<close>: the introspection objects, mutually recursive through
    \<open>___Type\<close>, over the library's introspection package as a record of accessors.
  \<^item> \<^theory_text>\<open>Graphql_Object\<close>: the objects of the schema, concurrent dispatch of query fields, response
    handlers. A function \<open>_Voyage_origin\<close> or \<open>___Type_name\<close> of the source is \<open>Voyage_origin\<close> or
    \<open>Type_name\<close> here, an object function \<open>_Voyage\<close> or \<open>___Type\<close> is \<open>Voyage_object\<close> or \<open>Type_object\<close>.
  \<^item> \<^theory_text>\<open>Graphql_Run\<close>, \<^theory_text>\<open>Graphql_Gateway\<close>, \<^theory_text>\<open>Graphql_Claims\<close>: the executor on the laws, with the
    gateway's resolvers below it and the onboard client's requests above it. A reference library
    shows that the laws can hold.
  \<^item> \<^theory_text>\<open>Graphql_Schema\<close>, \<^theory_text>\<open>Graphql_Conform\<close>, \<^theory_text>\<open>Graphql_Depth\<close>, \<^theory_text>\<open>Graphql_Type_Claims\<close>: the schema as a
    table, answers that conform to it, the proof that every object's does, and the proof that the
    recursion ends.

  \<^bold>\<open>The onboard client.\<close>
  \<^item> \<^theory_text>\<open>Onboard_Domain\<close>, \<^theory_text>\<open>Syncer\<close> (\<open>clients/onboard-sync/domain\<close>): operations, the merge rule, the
    retry policy with its floats, the syncer over arbitrary ports; the locale \<open>op_store\<close> is the
    contract of the queue.
  \<^item> \<^theory_text>\<open>Jsonl_Store\<close> (\<open>adapters/jsonlstore\<close>): the queue on a file system in which each call can fail
    and a failed write leaves a prefix; the interpretation \<open>jsonl\<close> discharges the contract.
  \<^item> \<^theory_text>\<open>Graphql_Transport\<close> (\<open>adapters/graphqltransport\<close>), \<^theory_text>\<open>Onboard_Client\<close> (\<open>client.go\<close>): the
    transport, and the client as wired; the interpretation \<open>client\<close> carries the contract over.
  \<^item> \<^theory_text>\<open>Client_Claims\<close>: the properties.

  \<^bold>\<open>Processes.\<close>
  \<^item> \<^theory_text>\<open>Lifecycle\<close> (the \<open>app.go\<close> and \<open>main.go\<close> of the services, \<open>internal/serve\<close>, \<open>internal/tracing\<close>, the
    database connection and migration, the lag reporter, the containers of \<open>internal/testfix\<close>): each
    function as a run of opening and closing events over calls that may fail, deferred calls included.
  \<^item> \<^theory_text>\<open>Gateway_Shutdown\<close> (\<open>gateway/app\<close>): serving and shutdown as a step relation with the requests in
    flight. \<^theory_text>\<open>Repopath\<close> (\<open>internal/repopath\<close>): the search for the repository's root.
  \<^item> \<^theory_text>\<open>Lifecycle_Claims\<close>: the properties.

  \<^bold>\<open>Bounds and fuel.\<close> Loops over a batch or a queue recurse on the list, the service loops are finite
  runs over a list of polls or ticks, and the step relation is unbounded. Two definitions have fuel.
  The JSON parser's is twice the length of the text and two, more than any value of the text nests
  (\<open>parse_render\<close> reads back every rendered value). The recursion of the introspection objects has the
  bound \<open>ec_depth\<close>: from the nesting of the query on it changes no answer
  (\<^theory_text>\<open>Graphql_Depth\<close>). Integers have their Go widths; a Go \<open>int\<close> is 64 bits wide. A token of
  64 KB does not fit the scanner of the queue file, and operations whose line would not fit are
  excluded by \<open>op_fits\<close>.

  \<^bold>\<open>Not modelled.\<close> The registration of metrics is names and help texts. The protobuf code is generated;
  its messages appear as records. The constructors of \<open>gen/graphql/generated.go\<close> fill structs of the
  library. The trace context a row is published under is restored, but the producer of the model
  does not carry it. What a power loss does to data that was written but not synced is outside the
  file system model. Tests are not modelled.
\<close>

end
